(* ===== verification/Prelude.thy ===== *)
theory Prelude
  imports Main "HOL-Library.Word"
begin

text \<open>
  The vocabulary the component theories share: results with errors as values, Go's \<open>int64\<close>
  arithmetic written over \<open>int\<close> with its wrap-around, instants and durations of package \<open>time\<close>,
  and the functions of packages \<open>strings\<close> and \<open>strconv\<close> that the modelled code calls.

  Conventions. A Go \<open>string\<close> is the list of its bytes (\<^typ>\<open>string\<close>, a \<^typ>\<open>char list\<close>). A
  \<open>time.Time\<close> is the number of nanoseconds since Go's zero time (1 January of year 1, UTC), so that
  \<open>IsZero\<close> is equality with 0 and \<open>UTC()\<close> is the identity; the calendar range of \<open>time.Time\<close> is
  far beyond what the program adds to an instant, so instants are unbounded. A \<open>time.Duration\<close> is
  an \<open>int64\<close> count of nanoseconds.
\<close>

section \<open>Collections of facts\<close>

named_theorems result_simps \<open>equations that take apart a result\<close>
named_theorems i64_simps \<open>facts on 64 bit wrap-around\<close>
named_theorems table_simps \<open>facts on table rows\<close>

section \<open>Results\<close>

text \<open>A fallible Go function returns \<open>(value, error)\<close>: \<open>Inl\<close> is the error, \<open>Inr\<close> the value.\<close>

type_synonym ('e, 'a) result = "'e + 'a"

definition bind_result :: "('e, 'a) result \<Rightarrow> ('a \<Rightarrow> ('e, 'b) result) \<Rightarrow> ('e, 'b) result" where
  "bind_result m k = (case m of Inl e \<Rightarrow> Inl e | Inr a \<Rightarrow> k a)"

definition require :: "bool \<Rightarrow> 'e \<Rightarrow> ('e, unit) result" where
  "require c e = (if c then Inr () else Inl e)"

lemma bind_result_Inl [simp, result_simps]: "bind_result (Inl e) k = Inl e"
  by (simp add: bind_result_def)

lemma bind_result_Inr [simp, result_simps]: "bind_result (Inr a) k = k a"
  by (simp add: bind_result_def)

lemma bind_result_eq_Inr [result_simps]:
  "bind_result m k = Inr b \<longleftrightarrow> (\<exists>a. m = Inr a \<and> k a = Inr b)"
  by (cases m) auto

lemma bind_result_eq_Inl [result_simps]:
  "bind_result m k = Inl e \<longleftrightarrow> m = Inl e \<or> (\<exists>a. m = Inr a \<and> k a = Inl e)"
  by (cases m) auto

lemma require_eq_Inr [simp, result_simps]: "require c e = Inr u \<longleftrightarrow> c"
  by (simp add: require_def)

lemma require_eq_Inl [simp, result_simps]: "require c e = Inl e' \<longleftrightarrow> \<not> c \<and> e' = e"
  by (auto simp: require_def)

lemma require_True [simp]: "require True e = Inr ()"
  by (simp add: require_def)

lemma require_False [simp]: "require False e = Inl e"
  by (simp add: require_def)

lemma guard_eq_Inr [result_simps]: "(if c then Inl e else r) = Inr a \<longleftrightarrow> \<not> c \<and> r = Inr a"
  by simp

lemma option_case_eq_Inr [result_simps]:
  "(case x of None \<Rightarrow> Inl e | Some a \<Rightarrow> f a) = Inr b \<longleftrightarrow> (\<exists>a. x = Some a \<and> f a = Inr b)"
  by (cases x) auto

lemma sum_case_eq_Inr [result_simps]:
  "(case x of Inl e \<Rightarrow> Inl (g e) | Inr a \<Rightarrow> f a) = Inr b \<longleftrightarrow> (\<exists>a. x = Inr a \<and> f a = Inr b)"
  by (cases x) auto

definition is_ok :: "('e, 'a) result \<Rightarrow> bool" where
  "is_ok r = (case r of Inl _ \<Rightarrow> False | Inr _ \<Rightarrow> True)"

lemma is_ok_simps [simp]: "is_ok (Inr a)" "\<not> is_ok (Inl e)"
  by (simp_all add: is_ok_def)

lemma is_ok_iff: "is_ok r \<longleftrightarrow> (\<exists>a. r = Inr a)"
  by (cases r) simp_all

section \<open>Go's int64\<close>

definition MaxInt64 :: int where
  "MaxInt64 = 9223372036854775807"

definition MinInt64 :: int where
  "MinInt64 = - 9223372036854775808"

definition in_i64 :: "int \<Rightarrow> bool" where
  "in_i64 x \<longleftrightarrow> MinInt64 \<le> x \<and> x \<le> MaxInt64"

text \<open>The value an \<open>int64\<close> variable holds after an operation whose exact result is \<open>x\<close>.\<close>

definition wrap64 :: "int \<Rightarrow> int" where
  "wrap64 x = (x + 9223372036854775808) mod 18446744073709551616 - 9223372036854775808"

lemma wrap64_id [simp, i64_simps]: "in_i64 x \<Longrightarrow> wrap64 x = x"
  by (simp add: wrap64_def in_i64_def MaxInt64_def MinInt64_def)

lemma in_i64I: "- 9223372036854775808 \<le> x \<Longrightarrow> x \<le> 9223372036854775807 \<Longrightarrow> in_i64 x"
  by (simp add: in_i64_def MaxInt64_def MinInt64_def)

lemma in_i64_nonneg: "0 \<le> x \<Longrightarrow> x \<le> MaxInt64 \<Longrightarrow> in_i64 x"
  by (simp add: in_i64_def MinInt64_def)

lemma wrap64_range [simp]: "in_i64 (wrap64 x)"
  by (simp add: wrap64_def in_i64_def MaxInt64_def MinInt64_def)

text \<open>The wrap-around is that of a 64 bit word read as two's complement.\<close>

lemma wrap64_word: "wrap64 x = sint (word_of_int x :: 64 word)"
  by (simp add: wrap64_def sint_sbintrunc' signed_take_bit_eq_take_bit_shift take_bit_eq_mod)

section \<open>Instants and durations\<close>

type_synonym time = int
type_synonym duration = int

abbreviation (input) Nanosecond :: duration where "Nanosecond \<equiv> 1"
abbreviation (input) Millisecond :: duration where "Millisecond \<equiv> 1000000"
abbreviation (input) Second :: duration where "Second \<equiv> 1000000000"
abbreviation (input) Minute :: duration where "Minute \<equiv> 60000000000"
abbreviation (input) Hour :: duration where "Hour \<equiv> 3600000000000"

abbreviation (input) zero_time :: time where "zero_time \<equiv> 0"
abbreviation (input) IsZero :: "time \<Rightarrow> bool" where "IsZero t \<equiv> t = 0"

section \<open>Package strings\<close>

definition HasPrefix :: "string \<Rightarrow> string \<Rightarrow> bool" where
  "HasPrefix s p \<longleftrightarrow> take (length p) s = p"

definition TrimPrefix :: "string \<Rightarrow> string \<Rightarrow> string" where
  "TrimPrefix s p = (if HasPrefix s p then drop (length p) s else s)"

definition HasSuffix :: "string \<Rightarrow> string \<Rightarrow> bool" where
  "HasSuffix s p \<longleftrightarrow> HasPrefix (rev s) (rev p)"

fun Contains :: "string \<Rightarrow> string \<Rightarrow> bool" where
  "Contains [] p = (p = [])"
| "Contains (c # s) p = (HasPrefix (c # s) p \<or> Contains s p)"

definition ContainsAny :: "string \<Rightarrow> char list \<Rightarrow> bool" where
  "ContainsAny s cs = list_ex (\<lambda>c. c \<in> set cs) s"

lemma HasPrefix_append [simp]: "HasPrefix (p @ s) p"
  by (simp add: HasPrefix_def)

lemma TrimPrefix_append [simp]: "TrimPrefix (p @ s) p = s"
  by (simp add: TrimPrefix_def)

text \<open>
  \<open>strings.TrimSpace\<close> cuts Unicode white space at both ends: the six ASCII space bytes and the UTF-8
  encodings of the other code points for which \<open>unicode.IsSpace\<close> holds.
\<close>

definition space_seqs :: "string list" where
  "space_seqs =
     [[CHR 0x09], [CHR 0x0A], [CHR 0x0B], [CHR 0x0C], [CHR 0x0D], [CHR 0x20],
      [CHR 0xC2, CHR 0x85], [CHR 0xC2, CHR 0xA0], [CHR 0xE1, CHR 0x9A, CHR 0x80],
      [CHR 0xE2, CHR 0x80, CHR 0xA8], [CHR 0xE2, CHR 0x80, CHR 0xA9],
      [CHR 0xE2, CHR 0x80, CHR 0xAF], [CHR 0xE2, CHR 0x81, CHR 0x9F],
      [CHR 0xE3, CHR 0x80, CHR 0x80], [CHR 0xE2, CHR 0x80, CHR 0x80],
      [CHR 0xE2, CHR 0x80, CHR 0x81], [CHR 0xE2, CHR 0x80, CHR 0x82],
      [CHR 0xE2, CHR 0x80, CHR 0x83], [CHR 0xE2, CHR 0x80, CHR 0x84],
      [CHR 0xE2, CHR 0x80, CHR 0x85], [CHR 0xE2, CHR 0x80, CHR 0x86],
      [CHR 0xE2, CHR 0x80, CHR 0x87], [CHR 0xE2, CHR 0x80, CHR 0x88],
      [CHR 0xE2, CHR 0x80, CHR 0x89], [CHR 0xE2, CHR 0x80, CHR 0x8A]]"

definition cut_any :: "string list \<Rightarrow> string \<Rightarrow> string option" where
  "cut_any ps s = (case filter (\<lambda>p. p \<noteq> [] \<and> HasPrefix s p) ps of
     [] \<Rightarrow> None | p # _ \<Rightarrow> Some (drop (length p) s))"

lemma cut_any_length: "cut_any ps s = Some t \<Longrightarrow> length t < length s"
proof -
  assume "cut_any ps s = Some t"
  then obtain p qs where f: "filter (\<lambda>p. p \<noteq> [] \<and> HasPrefix s p) ps = p # qs"
    and t: "t = drop (length p) s"
    by (auto simp: cut_any_def split: list.splits)
  have "p \<in> set (filter (\<lambda>p. p \<noteq> [] \<and> HasPrefix s p) ps)" using f by simp
  then have "p \<noteq> []" and "take (length p) s = p" by (auto simp: HasPrefix_def)
  then have "s \<noteq> []" by auto
  with t \<open>p \<noteq> []\<close> show "length t < length s" by (cases s) (auto simp: length_greater_0_conv)
qed

function trim_left :: "string list \<Rightarrow> string \<Rightarrow> string" where
  "trim_left ps s = (case cut_any ps s of None \<Rightarrow> s | Some t \<Rightarrow> trim_left ps t)"
  by pat_completeness auto
termination
  by (relation "measure (\<lambda>(ps, s). length s)") (auto dest: cut_any_length)

declare trim_left.simps [simp del]

lemma trim_left_stop: "cut_any ps s = None \<Longrightarrow> trim_left ps s = s"
  by (simp add: trim_left.simps)

lemma trim_left_cut: "cut_any ps s = Some t \<Longrightarrow> trim_left ps s = trim_left ps t"
  by (subst trim_left.simps) simp

lemma trim_left_code [code]:
  "trim_left ps s = (if cut_any ps s = None then s else trim_left ps (the (cut_any ps s)))"
  by (subst trim_left.simps) (auto split: option.splits)

definition TrimSpace :: "string \<Rightarrow> string" where
  "TrimSpace s = rev (trim_left (map rev space_seqs) (rev (trim_left space_seqs s)))"

lemma cut_any_None: "s \<noteq> [] \<Longrightarrow> hd s \<notin> hd ` set ps \<Longrightarrow> cut_any ps s = None"
proof -
  assume s: "s \<noteq> []" and h: "hd s \<notin> hd ` set ps"
  have "\<not> HasPrefix s p" if "p \<in> set ps" "p \<noteq> []" for p
  proof
    assume "HasPrefix s p"
    then have "hd s = hd p" using that(2) s by (cases p; cases s) (auto simp: HasPrefix_def)
    then show False using h that(1) by auto
  qed
  then have "filter (\<lambda>p. p \<noteq> [] \<and> HasPrefix s p) ps = []" by (auto simp: filter_empty_conv)
  then show ?thesis by (simp add: cut_any_def)
qed

lemma trim_left_parts: "\<exists>us. s = concat us @ trim_left ps s \<and> (\<forall>u \<in> set us. u \<noteq> [] \<and> u \<in> set ps)"
proof (induction ps s rule: trim_left.induct)
  case (1 ps s)
  show ?case
  proof (cases "cut_any ps s")
    case None
    then show ?thesis by (intro exI [of _ "[]"]) (simp add: trim_left_stop)
  next
    case (Some t)
    then obtain us where us: "t = concat us @ trim_left ps t" "\<forall>u \<in> set us. u \<noteq> [] \<and> u \<in> set ps"
      using 1 by blast
    obtain p where p: "p \<in> set ps" "p \<noteq> []" "HasPrefix s p" "t = drop (length p) s"
    proof -
      obtain p qs where f: "filter (\<lambda>p. p \<noteq> [] \<and> HasPrefix s p) ps = p # qs" and t: "t = drop (length p) s"
        using Some by (auto simp: cut_any_def split: list.splits)
      have "p \<in> set (filter (\<lambda>p. p \<noteq> [] \<and> HasPrefix s p) ps)" using f by simp
      with t show thesis using that by auto
    qed
    have "s = p @ t" using p(3,4) by (metis HasPrefix_def append_take_drop_id)
    then have "s = concat (p # us) @ trim_left ps s"
      using us(1) by (metis append.assoc concat.simps(2) trim_left_cut [OF Some])
    then show ?thesis using us(2) p(1,2) by (intro exI [of _ "p # us"]) auto
  qed
qed

lemma TrimSpace_nonblank:
  assumes "s \<noteq> []" and "hd s \<notin> hd ` set space_seqs"
  shows "TrimSpace s \<noteq> []"
proof
  assume blank: "TrimSpace s = []"
  have "trim_left space_seqs s = s" using assms by (simp add: trim_left_stop cut_any_None)
  then have "trim_left (map rev space_seqs) (rev s) = []" using blank by (simp add: TrimSpace_def)
  then obtain us where us: "rev s = concat us" "\<forall>u \<in> set us. u \<noteq> [] \<and> u \<in> set (map rev space_seqs)"
    using trim_left_parts [of "rev s" "map rev space_seqs"] by auto
  then have s: "s = concat (rev (map rev us))" by (metis rev_concat rev_rev_ident rev_map)
  obtain u vs where u: "rev (map rev us) = u # vs" using s assms(1) by (cases "rev (map rev us)") auto
  then have "u \<in> set (rev (map rev us))" by simp
  then have "u \<noteq> []" "u \<in> set space_seqs" using us(2) by auto
  moreover have "hd s = hd u" using s u \<open>u \<noteq> []\<close> by simp
  ultimately show False using assms(2) by auto
qed

lemma TrimSpace_Nil [simp]: "TrimSpace [] = []"
proof -
  have "filter (\<lambda>p. p \<noteq> [] \<and> HasPrefix [] p) ps = []" for ps by (auto simp: filter_empty_conv HasPrefix_def)
  then have "cut_any ps [] = None" for ps by (simp add: cut_any_def)
  then show ?thesis by (simp add: TrimSpace_def trim_left_stop)
qed

text \<open>
  \<open>strings.ToLower\<close> on an ASCII string, byte by byte. On a string with a byte above 127 it maps
  \<open>unicode.ToLower\<close> over the code points; that table is the argument \<open>unicode_lower\<close>.
\<close>

definition ascii_lower :: "char \<Rightarrow> char" where
  "ascii_lower c = (if 65 \<le> (of_char c :: nat) \<and> (of_char c :: nat) \<le> 90
     then char_of ((of_char c :: nat) + 32) else c)"

definition is_ascii :: "string \<Rightarrow> bool" where
  "is_ascii s = list_all (\<lambda>c. (of_char c :: nat) < 128) s"

definition ToLower :: "(string \<Rightarrow> string) \<Rightarrow> string \<Rightarrow> string" where
  "ToLower unicode_lower s = (if is_ascii s then map ascii_lower s else unicode_lower s)"

section \<open>Package strconv\<close>

definition is_digit :: "char \<Rightarrow> bool" where
  "is_digit c \<longleftrightarrow> 48 \<le> (of_char c :: nat) \<and> (of_char c :: nat) \<le> 57"

definition digit_value :: "char \<Rightarrow> int" where
  "digit_value c = int (of_char c) - 48"

text \<open>The value of a string of decimal digits, most significant first.\<close>

fun digits_value :: "int \<Rightarrow> string \<Rightarrow> int" where
  "digits_value acc [] = acc"
| "digits_value acc (c # s) = digits_value (10 * acc + digit_value c) s"

text \<open>\<open>strconv.FormatInt(n, 10)\<close> for \<open>n\<close> not negative, and for any \<open>n\<close>.\<close>

function format_nat :: "nat \<Rightarrow> string" where
  "format_nat n = (if n < 10 then [char_of (48 + n)]
     else format_nat (n div 10) @ [char_of (48 + n mod 10)])"
  by pat_completeness auto
termination
  by (relation "measure id") auto

declare format_nat.simps [simp del]

definition FormatInt :: "int \<Rightarrow> string" where
  "FormatInt n = (if n < 0 then ''-'' @ format_nat (nat (- n)) else format_nat (nat n))"

text \<open>\<open>strconv.ParseInt(s, 10, 64)\<close>: an optional sign, digits, and a value in range.\<close>

definition ParseInt10 :: "string \<Rightarrow> int option" where
  "ParseInt10 s =
     (let neg = HasPrefix s ''-'';
          digits = (if neg \<or> HasPrefix s ''+'' then tl s else s);
          v = (if neg then - digits_value 0 digits else digits_value 0 digits)
      in if digits = [] \<or> \<not> list_all is_digit digits \<or> \<not> in_i64 v then None else Some v)"

lemma digits_value_append:
  "digits_value acc (s @ [c]) = 10 * digits_value acc s + digit_value c"
  by (induction s arbitrary: acc) simp_all

lemma digit_char [simp]:
  "n < 10 \<Longrightarrow> is_digit (char_of (48 + n))"
  "n < 10 \<Longrightarrow> digit_value (char_of (48 + n)) = int n"
  by (simp_all add: is_digit_def digit_value_def of_char_of)

lemma format_nat_digits: "list_all is_digit (format_nat n)"
proof (induction n rule: format_nat.induct)
  case (1 n)
  then show ?case by (simp add: format_nat.simps [of n])
qed

lemma format_nat_nonempty [simp]: "format_nat n \<noteq> []"
  by (simp add: format_nat.simps [of n])

lemma digits_value_format_nat: "digits_value 0 (format_nat n) = int n"
proof (induction n rule: format_nat.induct)
  case (1 n)
  show ?case
  proof (cases "n < 10")
    case True
    then show ?thesis by (simp add: format_nat.simps [of n])
  next
    case False
    with 1 have "digits_value 0 (format_nat (n div 10)) = int (n div 10)" by simp
    then have "digits_value 0 (format_nat n) = 10 * int (n div 10) + int (n mod 10)"
      using False by (simp add: format_nat.simps [of n] digits_value_append)
    also have "\<dots> = int n"
      by (metis mult_div_mod_eq of_nat_add of_nat_mult of_nat_numeral)
    finally show ?thesis .
  qed
qed

lemma digits_value_nonneg: "0 \<le> acc \<Longrightarrow> list_all is_digit s \<Longrightarrow> 0 \<le> digits_value acc s"
  by (induction s arbitrary: acc) (auto simp: is_digit_def digit_value_def)

lemma FormatInt_inj: "1 \<le> v \<Longrightarrow> 1 \<le> w \<Longrightarrow> FormatInt v = FormatInt w \<Longrightarrow> v = w"
proof -
  assume v: "1 \<le> v" and w: "1 \<le> w" and eq: "FormatInt v = FormatInt w"
  then have "format_nat (nat v) = format_nat (nat w)" by (simp add: FormatInt_def)
  then have "int (nat v) = int (nat w)" using digits_value_format_nat by metis
  then show "v = w" using v w by simp
qed

section \<open>Lists\<close>

text \<open>\<open>strings.Split\<close> at a separator of one character.\<close>

fun split_on :: "char \<Rightarrow> string \<Rightarrow> string list" where
  "split_on c [] = [[]]"
| "split_on c (x # xs) = (if x = c then [] # split_on c xs
     else case split_on c xs of [] \<Rightarrow> [[x]] | y # ys \<Rightarrow> (x # y) # ys)"

lemma split_on_sep: "c \<notin> set a \<Longrightarrow> split_on c (a @ c # s) = a # split_on c s"
  by (induction a) auto

lemma split_on_none: "c \<notin> set a \<Longrightarrow> split_on c a = [a]"
  by (induction a) auto

lemma append_sep_eq: "x \<notin> set a \<Longrightarrow> x \<notin> set b \<Longrightarrow> a @ x # c = b @ x # d \<longleftrightarrow> a = b \<and> c = d"
proof (induction a arbitrary: b)
  case Nil
  then show ?case by (cases b) auto
next
  case (Cons y a)
  then show ?case by (cases b) auto
qed

text \<open>A list without repetitions, each element at its first position.\<close>

definition nub :: "'a list \<Rightarrow> 'a list" where
  "nub xs = rev (remdups (rev xs))"

lemma nub_snoc: "nub (xs @ [x]) = (if x \<in> set xs then nub xs else nub xs @ [x])"
  by (simp add: nub_def)

lemma nub_Nil [simp]: "nub [] = []" by (simp add: nub_def)

lemma set_nub [simp]: "set (nub xs) = set xs" by (simp add: nub_def)

lemma distinct_nub [simp]: "distinct (nub xs)" by (simp add: nub_def)

lemma length_nub: "length (nub xs) = card (set xs)"
  by (metis distinct_card distinct_nub set_nub)

lemma sort_key_empty: "sort_key f xs = [] \<longleftrightarrow> xs = []"
  by (metis length_0_conv length_sort)

end
