(* ===== verification/Transition_Systems.thy ===== *)
theory Transition_Systems
  imports Prelude
begin

text \<open>
  Contracts of the transition tables. The program guards every status column by a function that says
  which change of status is allowed. The locales state what such a function promises (terminal
  statuses are final, a rank falls on every proper change, a status is entered through a gate only)
  and prove once what a client may conclude about whole histories, that is about paths of allowed
  changes. Each state machine of the program is an interpretation of the locales it satisfies, in
  its own theory.
\<close>

section \<open>Histories\<close>

text \<open>A concrete history, given as the list of the states it visits.\<close>

lemma history_reaches: "successively R (a # h) \<Longrightarrow> R\<^sup>*\<^sup>* a (last (a # h))"
proof (induction h arbitrary: a)
  case Nil
  then show ?case by simp
next
  case (Cons b h)
  then have "R a b" and "R\<^sup>*\<^sup>* b (last (b # h))" by auto
  then show ?case by (auto intro: converse_rtranclp_into_rtranclp)
qed

section \<open>Terminal states\<close>

locale terminal_machine =
  fixes allowed :: "'s \<Rightarrow> 's \<Rightarrow> bool"
    and terminal :: "'s \<Rightarrow> bool"
  assumes terminal_stuck: "terminal a \<Longrightarrow> allowed a b \<Longrightarrow> b = a"
begin

lemma terminal_final:
  assumes "allowed\<^sup>*\<^sup>* a b" and "terminal a"
  shows "b = a"
  using assms by (induction rule: rtranclp_induct) (auto dest: terminal_stuck)

lemma terminal_absorbs:
  assumes "allowed\<^sup>*\<^sup>* a b" and "allowed\<^sup>*\<^sup>* a c" and "terminal b" and "allowed\<^sup>*\<^sup>* b c"
  shows "c = b"
  using assms(4,3) by (rule terminal_final)

end

section \<open>Machines without cycles\<close>

locale ranked_machine = terminal_machine +
  fixes rank :: "'s \<Rightarrow> nat"
  assumes rank_falls: "allowed a b \<Longrightarrow> a \<noteq> b \<Longrightarrow> rank b < rank a"
begin

lemma rank_mono: "allowed\<^sup>*\<^sup>* a b \<Longrightarrow> rank b \<le> rank a"
proof (induction rule: rtranclp_induct)
  case base
  show ?case by simp
next
  case (step b c)
  then show ?case using rank_falls [of b c] by (cases "b = c") auto
qed

lemma rank_strict: "allowed\<^sup>*\<^sup>* a b \<Longrightarrow> a \<noteq> b \<Longrightarrow> rank b < rank a"
proof (induction rule: rtranclp_induct)
  case base
  then show ?case by simp
next
  case (step b c)
  have "rank c \<le> rank b" using step.hyps(2) by (rule rank_mono [OF r_into_rtranclp])
  show ?case
  proof (cases "a = b")
    case True
    with step show ?thesis by (auto intro: rank_falls)
  next
    case False
    with step.IH \<open>rank c \<le> rank b\<close> show ?thesis by simp
  qed
qed

text \<open>A state that was left is never entered again.\<close>

lemma no_return: "allowed\<^sup>*\<^sup>* a b \<Longrightarrow> allowed\<^sup>*\<^sup>* b a \<Longrightarrow> a = b"
  using rank_strict [of a b] rank_mono [of b a] by fastforce

text \<open>A history of proper changes has at most \<open>rank\<close> steps.\<close>

lemma history_bounded:
  assumes "successively (\<lambda>a b. allowed a b \<and> a \<noteq> b) (s # h)"
  shows "length h \<le> rank s"
  using assms
proof (induction h arbitrary: s)
  case Nil
  then show ?case by simp
next
  case (Cons t h)
  then have "rank t < rank s" and "length h \<le> rank t"
    by (auto intro: rank_falls)
  then show ?case by simp
qed

end

section \<open>States with a gate\<close>

locale gated_machine =
  fixes allowed :: "'s \<Rightarrow> 's \<Rightarrow> bool"
    and goal :: "'s \<Rightarrow> bool"
    and gate :: "'s \<Rightarrow> bool"
  assumes gate_before: "allowed a b \<Longrightarrow> goal b \<Longrightarrow> \<not> goal a \<Longrightarrow> gate a"
begin

text \<open>Every history that enters the goal states passed a gate state just before.\<close>

lemma passes_gate:
  assumes "allowed\<^sup>*\<^sup>* s t" and "goal t" and "\<not> goal s"
  shows "\<exists>g u. allowed\<^sup>*\<^sup>* s g \<and> gate g \<and> allowed g u \<and> goal u \<and> allowed\<^sup>*\<^sup>* u t"
  using assms
proof (induction rule: rtranclp_induct)
  case base
  then show ?case by simp
next
  case (step y z)
  show ?case
  proof (cases "goal y")
    case True
    with step obtain g u where "allowed\<^sup>*\<^sup>* s g" "gate g" "allowed g u" "goal u" "allowed\<^sup>*\<^sup>* u y"
      by blast
    with step.hyps(2) show ?thesis by (blast intro: rtranclp.rtrancl_into_rtrancl)
  next
    case False
    with step gate_before [of y z] show ?thesis by blast
  qed
qed

end

section \<open>Closed sets of states\<close>

locale closed_machine =
  fixes allowed :: "'s \<Rightarrow> 's \<Rightarrow> bool"
    and inside :: "'s \<Rightarrow> bool"
  assumes stays_inside: "allowed a b \<Longrightarrow> inside a \<Longrightarrow> inside b"
begin

lemma history_inside: "allowed\<^sup>*\<^sup>* a b \<Longrightarrow> inside a \<Longrightarrow> inside b"
  by (induction rule: rtranclp_induct) (auto intro: stays_inside)

end

section \<open>Sequences of calls\<close>

text \<open>
  A service is used through a sequence of calls, each in an environment of its own (clock, random
  values, faults). What every call keeps of an invariant, and a relation between the states before and
  after that chains, hold along whole sequences.
\<close>

fun run_all :: "('e \<Rightarrow> 'c \<Rightarrow> 's \<Rightarrow> 's) \<Rightarrow> ('e \<times> 'c) list \<Rightarrow> 's \<Rightarrow> 's" where
  "run_all run [] s = s"
| "run_all run ((env, call) # calls) s = run_all run calls (run env call s)"

locale call_sequence =
  fixes run :: "'e \<Rightarrow> 'c \<Rightarrow> 's \<Rightarrow> 's"
    and fair :: "'c \<Rightarrow> bool"
    and inv_state :: "'s \<Rightarrow> bool"
    and follows :: "'s \<Rightarrow> 's \<Rightarrow> bool"
  assumes follows_refl: "follows s s"
    and follows_trans: "follows s t \<Longrightarrow> follows t u \<Longrightarrow> follows s u"
    and call_ok: "inv_state s \<Longrightarrow> fair call \<Longrightarrow> inv_state (run env call s) \<and> follows s (run env call s)"
begin

lemma calls_ok:
  assumes "inv_state s" and "list_all (\<lambda>(env, call). fair call) calls"
  shows "inv_state (run_all run calls s) \<and> follows s (run_all run calls s)"
  using assms
proof (induction calls arbitrary: s)
  case Nil
  then show ?case by (simp add: follows_refl)
next
  case (Cons c calls)
  obtain env call where c: "c = (env, call)" by (cases c)
  have "inv_state (run env call s) \<and> follows s (run env call s)" using call_ok Cons.prems by (simp add: c)
  with Cons show ?case by (auto simp: c intro: follows_trans)
qed

text \<open>A fact about the state that each call of the sequence keeps holds at the end.\<close>

lemma calls_keep:
  assumes "inv_state s" and "list_all (\<lambda>(env, call). fair call) calls" and "P s"
    and "\<And>env call t. (env, call) \<in> set calls \<Longrightarrow> inv_state t \<Longrightarrow> P t \<Longrightarrow> P (run env call t)"
  shows "P (run_all run calls s)"
  using assms
proof (induction calls arbitrary: s)
  case (Cons c calls)
  obtain env call where c: "c = (env, call)" by (cases c)
  have "inv_state (run env call s)" using call_ok Cons.prems(1,2) by (simp add: c)
  moreover have "P (run env call s)" using Cons.prems by (auto simp: c)
  ultimately show ?case using Cons.IH Cons.prems(2,4) by (simp add: c)
qed simp

end

end
