(* ===== verification/Task_State.thy ===== *)
theory Task_State
  imports Transition_Systems
begin

text \<open>
  The task status machine, \<open>backend/internal/task/state_machine.go\<close>: the statuses, the table of
  allowed changes (\<open>ValidateTransition\<close>), and the two retry policies, the fixed one
  (\<open>NextAfterFailure\<close>) and the configurable exponential back-off (\<open>NextAfterFailureConfigurable\<close>).
  The statuses are strings in Go; a string that is none of the constants is \<open>OtherStatus\<close>.
\<close>

section \<open>Statuses and the transition table\<close>

datatype TaskStatus =
    StatusPending | StatusRunning | StatusSuccess | StatusFailed
  | StatusRetrying | StatusCanceled | StatusWarning | StatusSkipped
  | OtherStatus string

definition ParseStatus :: "string \<Rightarrow> TaskStatus" where
  "ParseStatus raw =
     (if raw = ''pending'' then StatusPending
      else if raw = ''running'' then StatusRunning
      else if raw = ''success'' then StatusSuccess
      else if raw = ''failed'' then StatusFailed
      else if raw = ''retrying'' then StatusRetrying
      else if raw = ''canceled'' then StatusCanceled
      else if raw = ''warning'' then StatusWarning
      else if raw = ''skipped'' then StatusSkipped
      else StatusPending)"

fun status_string :: "TaskStatus \<Rightarrow> string" where
  "status_string StatusPending = ''pending''"
| "status_string StatusRunning = ''running''"
| "status_string StatusSuccess = ''success''"
| "status_string StatusFailed = ''failed''"
| "status_string StatusRetrying = ''retrying''"
| "status_string StatusCanceled = ''canceled''"
| "status_string StatusWarning = ''warning''"
| "status_string StatusSkipped = ''skipped''"
| "status_string (OtherStatus s) = s"

text \<open>The map literal \<open>allowed\<close>, one list of targets per source status.\<close>

fun task_allowed :: "TaskStatus \<Rightarrow> TaskStatus list" where
  "task_allowed StatusPending = [StatusRunning, StatusCanceled, StatusSkipped]"
| "task_allowed StatusRunning =
     [StatusSuccess, StatusFailed, StatusRetrying, StatusCanceled, StatusWarning]"
| "task_allowed StatusRetrying = [StatusRunning, StatusFailed, StatusCanceled]"
| "task_allowed StatusSuccess = [StatusPending]"
| "task_allowed StatusFailed = [StatusPending]"
| "task_allowed StatusCanceled = [StatusPending]"
| "task_allowed StatusWarning = [StatusPending, StatusRunning, StatusCanceled]"
| "task_allowed StatusSkipped = [StatusPending]"
| "task_allowed (OtherStatus s) = []"

datatype task_error = IllegalTransition TaskStatus TaskStatus

definition ValidateTaskTransition :: "TaskStatus \<Rightarrow> TaskStatus \<Rightarrow> (task_error, unit) result" where
  "ValidateTaskTransition from to =
     (if from = to then Inr ()
      else if to \<in> set (task_allowed from) then Inr ()
      else Inl (IllegalTransition from to))"

abbreviation task_step :: "TaskStatus \<Rightarrow> TaskStatus \<Rightarrow> bool" where
  "task_step a b \<equiv> is_ok (ValidateTaskTransition a b)"

section \<open>Retry policies\<close>

record StateMachine =
  maxRetries :: int
  backoff :: "duration list"

definition NewStateMachine :: StateMachine where
  "NewStateMachine = \<lparr>maxRetries = 2, backoff = [30 * Second, 90 * Second]\<rparr>"

datatype panic = IndexOutOfRange | InvalidArgument

text \<open>The four results of the Go functions: next status, retry count, next run, retry or not.\<close>

type_synonym retry_decision = "TaskStatus \<times> int \<times> time \<times> bool"

definition NextAfterFailure ::
  "StateMachine \<Rightarrow> TaskStatus \<Rightarrow> int \<Rightarrow> time \<Rightarrow> (panic, retry_decision) result" where
  "NextAfterFailure sm currentStatus retryCount now =
     (if currentStatus \<noteq> StatusRunning \<and> currentStatus \<noteq> StatusRetrying
      then Inr (StatusFailed, retryCount, 0, False)
      else if retryCount \<ge> maxRetries sm
      then Inr (StatusFailed,
                (if retryCount > maxRetries sm then maxRetries sm else retryCount), 0, False)
      else if 0 \<le> retryCount \<and> retryCount < int (length (backoff sm))
      then Inr (StatusRetrying, wrap64 (retryCount + 1), now + backoff sm ! nat retryCount, True)
      else Inl IndexOutOfRange)"

text \<open>
  \<open>rand.Int64N(n)\<close> is the argument \<open>rnd\<close>: a value in \<open>[0, n)\<close>; it panics when \<open>n\<close> is not
  positive. The products and the shift \<open>1 << retryCount\<close> are those of \<open>int64\<close>. The base is at
  least one second, where Go's truncating \<open>base / 4\<close> is \<^term>\<open>base div 4\<close>.
\<close>

definition clamp_base :: "int \<Rightarrow> int" where
  "clamp_base baseSeconds =
     (if baseSeconds \<le> 0 then 1 else if baseSeconds > 3600 then 3600 else baseSeconds)"

definition retry_delay :: "int \<Rightarrow> int \<Rightarrow> duration" where
  "retry_delay base retryCount =
     (let delay = wrap64 (base * wrap64 (2 ^ nat retryCount));
          maxDelay = 30 * Minute
      in if delay > maxDelay then maxDelay else delay)"

definition NextAfterFailureConfigurable ::
  "(int \<Rightarrow> int) \<Rightarrow> TaskStatus \<Rightarrow> int \<Rightarrow> time \<Rightarrow> int \<Rightarrow> int \<Rightarrow> (panic, retry_decision) result" where
  "NextAfterFailureConfigurable rnd currentStatus retryCount0 now max_retries baseSeconds0 =
     (if currentStatus \<noteq> StatusRunning \<and> currentStatus \<noteq> StatusRetrying
      then Inr (StatusFailed, retryCount0, 0, False)
      else if max_retries \<le> 0 then Inr (StatusFailed, retryCount0, 0, False)
      else
        let retryCount = (if retryCount0 < 0 then 0 else retryCount0)
        in if retryCount \<ge> max_retries then Inr (StatusFailed, retryCount, 0, False)
           else
             let base = wrap64 (clamp_base baseSeconds0 * Second);
                 delay = retry_delay base retryCount
             in if base div 4 \<le> 0 then Inl InvalidArgument
                else Inr (StatusRetrying, wrap64 (retryCount + 1),
                          now + wrap64 (delay + rnd (base div 4)), True))"

section \<open>The table\<close>

lemma task_step_iff: "task_step a b \<longleftrightarrow> a = b \<or> b \<in> set (task_allowed a)"
  by (simp add: ValidateTaskTransition_def)

lemma parse_status_string: "ParseStatus (status_string s) = s \<or> (\<exists>r. s = OtherStatus r)"
  by (cases s) (simp_all add: ParseStatus_def)

text \<open>A run is finished (success, warning, retry) only by a task that was running.\<close>

interpretation task_outcome: gated_machine task_step
  "\<lambda>s. s = StatusSuccess \<or> s = StatusWarning \<or> s = StatusRetrying" "\<lambda>s. s = StatusRunning"
proof
  fix a b
  assume "task_step a b" and "b = StatusSuccess \<or> b = StatusWarning \<or> b = StatusRetrying"
    and "\<not> (a = StatusSuccess \<or> a = StatusWarning \<or> a = StatusRetrying)"
  then show "a = StatusRunning"
    by (cases a) (auto simp: task_step_iff)
qed

text \<open>No change leads out of the eight named statuses.\<close>

interpretation task_named: closed_machine task_step "\<lambda>s. \<forall>r. s \<noteq> OtherStatus r"
proof
  fix a b
  assume "task_step a b" and "\<forall>r. a \<noteq> OtherStatus r"
  then show "\<forall>r. b \<noteq> OtherStatus r" by (cases a) (auto simp: task_step_iff)
qed

section \<open>The back-off\<close>

lemma clamp_base_range: "1 \<le> clamp_base b" "clamp_base b \<le> 3600"
  by (simp_all add: clamp_base_def)

lemma pow2_mono_int: "0 \<le> k \<Longrightarrow> k \<le> n \<Longrightarrow> (2 :: int) ^ nat k \<le> 2 ^ nat n"
  by (rule power_increasing) auto

text \<open>Up to 21 retries no product leaves the range of \<open>int64\<close>, whatever the base.\<close>

lemma retry_delay_exact:
  assumes "0 \<le> k" and "k \<le> 21" and "1 \<le> b" and "b \<le> 3600"
  shows "retry_delay (b * Second) k = min (b * Second * 2 ^ nat k) (30 * Minute)"
proof -
  have "(2 :: int) ^ nat k \<le> 2 ^ nat 21" using assms(1,2) by (rule pow2_mono_int)
  then have p: "1 \<le> (2 :: int) ^ nat k" "(2 :: int) ^ nat k \<le> 2097152" by simp_all
  have "b * Second * 2 ^ nat k \<le> 3600 * Second * 2097152"
    using assms p by (intro mult_mono) auto
  moreover have "0 \<le> b * Second * 2 ^ nat k" using assms by simp
  ultimately have "in_i64 (b * Second * 2 ^ nat k)"
    by (simp add: in_i64_def MinInt64_def MaxInt64_def)
  moreover have "in_i64 (2 ^ nat k)" using p by (intro in_i64I) linarith+
  ultimately show ?thesis by (simp add: retry_delay_def Let_def)
qed

lemma base_in_range: "in_i64 (clamp_base b * Second)"
  using clamp_base_range [of b] by (simp add: in_i64_def MinInt64_def MaxInt64_def)

lemma base_quarter_pos: "0 < (clamp_base b * Second) div 4"
proof -
  have "Second \<le> clamp_base b * Second" using clamp_base_range [of b] by simp
  then have "Second div 4 \<le> (clamp_base b * Second) div 4" by (rule zdiv_mono1) simp
  then show ?thesis by simp
qed

text \<open>One configurable retry, when the attempts are not used up and nothing overflows.\<close>

lemma configurable_retry:
  assumes "st = StatusRunning \<or> st = StatusRetrying" and "0 \<le> k" and "k < m" and "k \<le> 21"
    and "\<forall>n > 0. 0 \<le> rnd n \<and> rnd n < n"
  shows "NextAfterFailureConfigurable rnd st k now m b =
    Inr (StatusRetrying, k + 1,
         now + min (clamp_base b * Second * 2 ^ nat k) (30 * Minute)
             + rnd ((clamp_base b * Second) div 4), True)"
proof -
  let ?B = "clamp_base b * Second"
  let ?d = "min (?B * 2 ^ nat k) (30 * Minute)"
  have d: "retry_delay ?B k = ?d"
    using assms(2,4) clamp_base_range by (rule retry_delay_exact)
  have q: "0 < ?B div 4" by (rule base_quarter_pos)
  have "?B div 4 \<le> 900 * Second" using clamp_base_range [of b] by simp
  moreover have r: "0 \<le> rnd (?B div 4)" "rnd (?B div 4) < ?B div 4" using assms(5) q by auto
  moreover have "0 \<le> ?B * 2 ^ nat k" using clamp_base_range [of b] by simp
  then have "0 \<le> ?d" "?d \<le> 30 * Minute" by auto
  ultimately have "in_i64 (?d + rnd (?B div 4))" by (intro in_i64I) linarith+
  moreover have "in_i64 (k + 1)" using assms by (intro in_i64I) linarith+
  ultimately show ?thesis
    using assms(1-3) base_in_range [of b] d q
    by (auto simp: NextAfterFailureConfigurable_def Let_def)
qed



section \<open>Properties\<close>

text \<open>
  The status of a task becomes success, warning or retrying only through running: every history
  of allowed changes that ends in one of these statuses and did not start in one of them passed
  \<open>running\<close> immediately before entering them.
\<close>

theorem task_outcome_through_running:
  assumes "task_step\<^sup>*\<^sup>* s t" and "t \<in> {StatusSuccess, StatusWarning, StatusRetrying}"
    and "s \<notin> {StatusSuccess, StatusWarning, StatusRetrying}"
  shows "\<exists>u. task_step\<^sup>*\<^sup>* s StatusRunning \<and> task_step StatusRunning u
    \<and> u \<in> {StatusSuccess, StatusWarning, StatusRetrying} \<and> task_step\<^sup>*\<^sup>* u t"
  using task_outcome.passes_gate [OF assms(1)] assms(2,3) by auto

theorem task_outcome_through_running_witness:
  "\<exists>u. task_step\<^sup>*\<^sup>* StatusPending StatusRunning \<and> task_step StatusRunning u
    \<and> u \<in> {StatusSuccess, StatusWarning, StatusRetrying} \<and> task_step\<^sup>*\<^sup>* u StatusSuccess"
proof (rule task_outcome_through_running)
  show "task_step\<^sup>*\<^sup>* StatusPending StatusSuccess"
    using history_reaches [of task_step StatusPending "[StatusRunning, StatusSuccess]"]
    by (simp add: task_step_iff)
qed simp_all

text \<open>
  C34. For a running or retrying task the configurable policy grants a retry for exactly the failures
  number \<open>0 .. maxRetries - 1\<close>, each a legal change of status. The next run is \<open>min(base * 2^k, 30
  minutes)\<close> plus a jitter below a quarter of the base after now, with the base clamped to 1..3600
  seconds; the failure after the last retry fails the task. It holds for the retry limits the policy
  API accepts (0..10), where no intermediate product overflows.
\<close>

theorem configurable_backoff_correct:
  assumes "st = StatusRunning \<or> st = StatusRetrying" and "0 \<le> k" and "m \<le> 10"
    and rnd: "\<forall>n > 0. 0 \<le> rnd n \<and> rnd n < n"
  shows "if k < m
    then \<exists>t. NextAfterFailureConfigurable rnd st k now m b = Inr (StatusRetrying, k + 1, t, True)
      \<and> task_step st StatusRetrying
      \<and> now + min (clamp_base b * Second * 2 ^ nat k) (30 * Minute) \<le> t
      \<and> t < now + min (clamp_base b * Second * 2 ^ nat k) (30 * Minute) + clamp_base b * Second div 4
    else NextAfterFailureConfigurable rnd st k now m b = Inr (StatusFailed, k, 0, False)
      \<and> task_step st StatusFailed"
proof -
  have step: "task_step st StatusRetrying" "task_step st StatusFailed"
    using assms(1) by (auto simp: task_step_iff)
  show ?thesis
  proof (cases "k < m")
    case True
    have "0 \<le> rnd (clamp_base b * Second div 4)"
      "rnd (clamp_base b * Second div 4) < clamp_base b * Second div 4"
      using rnd base_quarter_pos by blast+
    with True step configurable_retry [OF assms(1,2) True _ rnd] assms(3) show ?thesis by simp
  next
    case False
    with step assms(1,2) show ?thesis by (auto simp: NextAfterFailureConfigurable_def)
  qed
qed

theorem configurable_backoff_correct_witness:
  "\<exists>t. NextAfterFailureConfigurable (\<lambda>n. 0) StatusRunning 3 100 5 20 = Inr (StatusRetrying, 4, t, True)
    \<and> 100 + 160 * Second \<le> t \<and> t < 100 + 165 * Second"
  using configurable_backoff_correct [of StatusRunning 3 5 "\<lambda>n. 0" 100 20]
  by (auto simp: clamp_base_def)

text \<open>
  The back-off is not safe for every retry limit: with a limit above 22, which a configuration
  import accepts, the product \<open>base * 2^22\<close> of the largest base leaves \<open>int64\<close> and becomes negative.
  The cap of 30 minutes does not apply to it and the retry is scheduled in the past.
\<close>

theorem configurable_backoff_overflow:
  "\<exists>t. NextAfterFailureConfigurable rnd StatusRunning 22 now 23 3600 = Inr (StatusRetrying, 23, t, True)
    \<and> t = now + wrap64 (3600 * Second * 2 ^ 22 - 2 ^ 64 + rnd (900 * Second))
    \<and> 3600 * Second * 2 ^ 22 - 2 ^ 64 < (0 :: int)"
  by (simp add: NextAfterFailureConfigurable_def clamp_base_def retry_delay_def wrap64_def)

text \<open>
  The fixed policy never panics for a retry count that is not negative: a running or retrying
  task gets a retry after 30 and then after 90 seconds, the third failure and every later one fails
  it with the count held at the limit; a task in any other status fails without a retry.
\<close>

theorem fixed_backoff_correct:
  assumes "0 \<le> k"
  shows "NextAfterFailure NewStateMachine st k now =
    Inr (if st \<notin> {StatusRunning, StatusRetrying} then (StatusFailed, k, 0, False)
         else if k = 0 then (StatusRetrying, 1, now + 30 * Second, True)
         else if k = 1 then (StatusRetrying, 2, now + 90 * Second, True)
         else (StatusFailed, 2, 0, False))"
proof -
  consider "k = 0" | "k = 1" | "k = 2" | "2 < k" using assms by linarith
  then show ?thesis
    by cases (auto simp: NextAfterFailure_def NewStateMachine_def wrap64_def)
qed

theorem fixed_backoff_correct_witness:
  "NextAfterFailure NewStateMachine StatusRetrying 1 7 = Inr (StatusRetrying, 2, 90000000007, True)"
  using fixed_backoff_correct [of 1 StatusRetrying 7] by simp

end
