(* ===== verification/Export_State.thy ===== *)
theory Export_State
  imports Transition_Systems
begin

text \<open>
  The state machines of an export job, \<open>backend/internal/backupasset/export/state.go\<close>: execution,
  cleanup and item states with their transition tables, and the two deadlines a job gets from its
  sources. The states are strings in Go; a string outside the constants is an \<open>Other\<close> value.
\<close>

section \<open>States\<close>

datatype ExecutionState =
    ExecutionQueued | ExecutionRunning | ExecutionRetryWait | ExecutionSealing | ExecutionReady
  | ExecutionCancelRequested | ExecutionFailed | ExecutionSourceExpired | ExecutionCanceled
  | ExecutionExpiring | ExecutionExpired | ExecutionOther string

datatype CleanupState =
    CleanupNone | CleanupRevoking | CleanupPurging | CleanupPurged | CleanupPurgeFailed
  | CleanupOther string

datatype ItemState =
    ItemPending | ItemRead | ItemPacked | ItemSkipped | ItemFailed | ItemOther string

record SourceDeadline =
  AbsoluteDeadline :: time
  RetentionUntil :: "time option"

datatype export_state_error = ErrInvalidTransition | ErrDeadlineUnsafe

section \<open>Transition tables\<close>

definition validExecutionStates :: "ExecutionState list" where
  "validExecutionStates =
     [ExecutionQueued, ExecutionRunning, ExecutionRetryWait, ExecutionSealing, ExecutionReady,
      ExecutionCancelRequested, ExecutionFailed, ExecutionSourceExpired, ExecutionCanceled,
      ExecutionExpiring, ExecutionExpired]"

definition executionTransitions :: "(ExecutionState \<times> ExecutionState) list" where
  "executionTransitions =
     [(ExecutionQueued, ExecutionRunning), (ExecutionQueued, ExecutionCancelRequested),
      (ExecutionQueued, ExecutionFailed), (ExecutionQueued, ExecutionSourceExpired),
      (ExecutionRunning, ExecutionRetryWait), (ExecutionRunning, ExecutionSealing),
      (ExecutionRunning, ExecutionCancelRequested), (ExecutionRunning, ExecutionFailed),
      (ExecutionRunning, ExecutionSourceExpired), (ExecutionRetryWait, ExecutionRunning),
      (ExecutionRetryWait, ExecutionCancelRequested), (ExecutionRetryWait, ExecutionFailed),
      (ExecutionRetryWait, ExecutionSourceExpired), (ExecutionSealing, ExecutionReady),
      (ExecutionSealing, ExecutionRetryWait),
      (ExecutionSealing, ExecutionCancelRequested), (ExecutionSealing, ExecutionFailed),
      (ExecutionSealing, ExecutionSourceExpired), (ExecutionReady, ExecutionCancelRequested),
      (ExecutionReady, ExecutionExpiring), (ExecutionCancelRequested, ExecutionCanceled),
      (ExecutionExpiring, ExecutionExpired)]"

definition validCleanupStates :: "CleanupState list" where
  "validCleanupStates =
     [CleanupNone, CleanupRevoking, CleanupPurging, CleanupPurged, CleanupPurgeFailed]"

definition cleanupTransitions :: "(CleanupState \<times> CleanupState) list" where
  "cleanupTransitions =
     [(CleanupNone, CleanupRevoking), (CleanupRevoking, CleanupPurging),
      (CleanupRevoking, CleanupPurgeFailed), (CleanupPurging, CleanupPurged),
      (CleanupPurging, CleanupPurgeFailed), (CleanupPurgeFailed, CleanupPurging)]"

definition validItemStates :: "ItemState list" where
  "validItemStates = [ItemPending, ItemRead, ItemPacked, ItemSkipped, ItemFailed]"

definition itemTransitions :: "(ItemState \<times> ItemState) list" where
  "itemTransitions =
     [(ItemPending, ItemRead), (ItemPending, ItemSkipped), (ItemPending, ItemFailed),
      (ItemRead, ItemPacked), (ItemRead, ItemSkipped), (ItemRead, ItemFailed)]"

definition ValidateExecutionTransition ::
  "ExecutionState \<Rightarrow> ExecutionState \<Rightarrow> (export_state_error, unit) result" where
  "ValidateExecutionTransition from to =
     (if from \<notin> set validExecutionStates \<or> to \<notin> set validExecutionStates then Inl ErrInvalidTransition
      else if from = to \<or> (from, to) \<in> set executionTransitions then Inr ()
      else Inl ErrInvalidTransition)"

definition ValidateCleanupTransition ::
  "CleanupState \<Rightarrow> CleanupState \<Rightarrow> (export_state_error, unit) result" where
  "ValidateCleanupTransition from to =
     (if from \<notin> set validCleanupStates \<or> to \<notin> set validCleanupStates then Inl ErrInvalidTransition
      else if from = to \<or> (from, to) \<in> set cleanupTransitions then Inr ()
      else Inl ErrInvalidTransition)"

definition ValidateItemTransition ::
  "ItemState \<Rightarrow> ItemState \<Rightarrow> (export_state_error, unit) result" where
  "ValidateItemTransition from to =
     (if from \<notin> set validItemStates \<or> to \<notin> set validItemStates then Inl ErrInvalidTransition
      else if from = to \<or> (from, to) \<in> set itemTransitions then Inr ()
      else Inl ErrInvalidTransition)"

definition ValidateItemReset :: "ItemState \<Rightarrow> bool \<Rightarrow> (export_state_error, unit) result" where
  "ValidateItemReset from fenceValidated =
     (if from \<notin> set validItemStates \<or> \<not> fenceValidated then Inl ErrInvalidTransition else Inr ())"

abbreviation execution_step :: "ExecutionState \<Rightarrow> ExecutionState \<Rightarrow> bool" where
  "execution_step a b \<equiv> is_ok (ValidateExecutionTransition a b)"

abbreviation cleanup_step :: "CleanupState \<Rightarrow> CleanupState \<Rightarrow> bool" where
  "cleanup_step a b \<equiv> is_ok (ValidateCleanupTransition a b)"

abbreviation item_step :: "ItemState \<Rightarrow> ItemState \<Rightarrow> bool" where
  "item_step a b \<equiv> is_ok (ValidateItemTransition a b)"

section \<open>Deadlines\<close>

text \<open>The loop over the sources of \<open>ComputeExecutionDeadline\<close>; \<open>cap\<close> is the variable \<open>capAt\<close>.\<close>

fun execution_cap :: "time \<Rightarrow> SourceDeadline list \<Rightarrow> (export_state_error, time) result" where
  "execution_cap cap [] = Inr cap"
| "execution_cap cap (source # sources) =
     (let deadline = AbsoluteDeadline source in
      if IsZero deadline then Inl ErrDeadlineUnsafe
      else
        let cap1 = (if deadline < cap then deadline else cap) in
        (case RetentionUntil source of
           None \<Rightarrow> execution_cap cap1 sources
         | Some retention \<Rightarrow>
             if IsZero retention then Inl ErrDeadlineUnsafe
             else execution_cap (if retention < cap1 then retention else cap1) sources))"

definition ComputeExecutionDeadline ::
  "time \<Rightarrow> duration \<Rightarrow> duration \<Rightarrow> SourceDeadline list \<Rightarrow> (export_state_error, time) result" where
  "ComputeExecutionDeadline createdAt maxDuration safeStartWindow sources =
     (if IsZero createdAt \<or> maxDuration \<le> 0 \<or> safeStartWindow \<le> 0 \<or> length sources = 0
      then Inl ErrDeadlineUnsafe
      else case execution_cap (createdAt + maxDuration) sources of
             Inl e \<Rightarrow> Inl e
           | Inr capAt \<Rightarrow>
               if \<not> capAt > createdAt + safeStartWindow then Inl ErrDeadlineUnsafe
               else Inr capAt)"

fun ready_cap :: "time \<Rightarrow> SourceDeadline list \<Rightarrow> (export_state_error, time) result" where
  "ready_cap expires [] = Inr expires"
| "ready_cap expires (source # sources) =
     (let deadline = AbsoluteDeadline source in
      if IsZero deadline then Inl ErrDeadlineUnsafe
      else
        let expires1 = (if deadline < expires then deadline else expires) in
        (case RetentionUntil source of
           None \<Rightarrow> ready_cap expires1 sources
         | Some retention \<Rightarrow>
             ready_cap (if retention < expires1 then retention else expires1) sources))"

definition ComputeReadyExpiry ::
  "time \<Rightarrow> duration \<Rightarrow> SourceDeadline list \<Rightarrow> (export_state_error, time) result" where
  "ComputeReadyExpiry readyAt readyTTL sources =
     (if IsZero readyAt \<or> readyTTL \<le> 0 \<or> length sources = 0 then Inl ErrDeadlineUnsafe
      else case ready_cap (readyAt + readyTTL) sources of
             Inl e \<Rightarrow> Inl e
           | Inr expiresAt \<Rightarrow>
               if \<not> expiresAt > readyAt then Inl ErrDeadlineUnsafe else Inr expiresAt)"

section \<open>The machines\<close>

lemmas execution_table = ValidateExecutionTransition_def validExecutionStates_def executionTransitions_def
lemmas cleanup_table = ValidateCleanupTransition_def validCleanupStates_def cleanupTransitions_def
lemmas item_table = ValidateItemTransition_def validItemStates_def itemTransitions_def

definition execution_terminal :: "ExecutionState \<Rightarrow> bool" where
  "execution_terminal s \<longleftrightarrow>
     s \<in> {ExecutionFailed, ExecutionSourceExpired, ExecutionCanceled, ExecutionExpired}"

fun item_rank :: "ItemState \<Rightarrow> nat" where
  "item_rank ItemPending = 2"
| "item_rank ItemRead = 1"
| "item_rank _ = 0"

interpretation execution: terminal_machine execution_step execution_terminal
proof
  fix a b assume "execution_terminal a" and "execution_step a b"
  then show "b = a" by (cases a) (auto simp: execution_terminal_def execution_table split: if_splits)
qed

interpretation execution_ready: gated_machine execution_step
  "\<lambda>s. s = ExecutionReady \<or> s = ExecutionExpiring \<or> s = ExecutionExpired" "\<lambda>s. s = ExecutionSealing"
proof
  fix a b
  assume "execution_step a b" and "b = ExecutionReady \<or> b = ExecutionExpiring \<or> b = ExecutionExpired"
    and "\<not> (a = ExecutionReady \<or> a = ExecutionExpiring \<or> a = ExecutionExpired)"
  then show "a = ExecutionSealing" by (cases a) (auto simp: execution_table split: if_splits)
qed

text \<open>Once a cancellation is requested, the job can only become canceled.\<close>

interpretation execution_cancel: closed_machine execution_step
  "\<lambda>s. s = ExecutionCancelRequested \<or> s = ExecutionCanceled"
proof
  fix a b
  assume "execution_step a b" and "a = ExecutionCancelRequested \<or> a = ExecutionCanceled"
  then show "b = ExecutionCancelRequested \<or> b = ExecutionCanceled"
    by (cases b) (auto simp: execution_table split: if_splits)
qed

interpretation cleanup: terminal_machine cleanup_step "\<lambda>s. s = CleanupPurged"
proof
  fix a b assume "a = CleanupPurged" and "cleanup_step a b"
  then show "b = a" by (cases b) (auto simp: cleanup_table split: if_splits)
qed

interpretation cleanup_purged: gated_machine cleanup_step "\<lambda>s. s = CleanupPurged" "\<lambda>s. s = CleanupPurging"
proof
  fix a b assume "cleanup_step a b" and "b = CleanupPurged" and "a \<noteq> CleanupPurged"
  then show "a = CleanupPurging" by (cases a) (auto simp: cleanup_table split: if_splits)
qed

interpretation item: ranked_machine item_step
  "\<lambda>s. s = ItemPacked \<or> s = ItemSkipped \<or> s = ItemFailed" item_rank
proof
  fix a b assume "a = ItemPacked \<or> a = ItemSkipped \<or> a = ItemFailed" and "item_step a b"
  then show "b = a" by (cases b) (auto simp: item_table split: if_splits)
next
  fix a b assume "item_step a b" and "a \<noteq> b"
  then show "item_rank b < item_rank a"
    by (cases a; cases b) (auto simp: item_table split: if_splits)
qed

section \<open>Deadlines are the least bound\<close>

text \<open>The instants a source contributes to a deadline.\<close>

definition source_bounds :: "SourceDeadline \<Rightarrow> time set" where
  "source_bounds s = insert (AbsoluteDeadline s) (set_option (RetentionUntil s))"

definition all_bounds :: "SourceDeadline list \<Rightarrow> time set" where
  "all_bounds ss = (\<Union>s \<in> set ss. source_bounds s)"

lemma all_bounds_Cons: "all_bounds (s # ss) = source_bounds s \<union> all_bounds ss"
  by (simp add: all_bounds_def)

lemma finite_all_bounds [simp]: "finite (all_bounds ss)"
  by (simp add: all_bounds_def source_bounds_def)

text \<open>The assignment \<open>if x.Before(y) { y = x }\<close> of the loops is a minimum.\<close>

lemma keep_earlier: "(if x < y then x else y) = min y (x :: int)"
  by (simp add: min_def)

lemma Min_insert2:
  assumes "finite A"
  shows "Min (insert (min a b) A) = Min (insert a (insert b (A :: int set)))"
  using assms by (cases "A = {}") (simp_all add: min.assoc)

lemmas bounds_simps = all_bounds_Cons source_bounds_def keep_earlier Min_insert2 Let_def

lemma execution_cap_Min:
  "execution_cap cap ss = (if 0 \<in> all_bounds ss then Inl ErrDeadlineUnsafe
     else Inr (Min (insert cap (all_bounds ss))))"
proof (induction ss arbitrary: cap)
  case Nil
  show ?case by (simp add: all_bounds_def)
next
  case (Cons source sources)
  then show ?case
    by (cases "RetentionUntil source")
       (auto simp: bounds_simps simp del: Min_insert intro!: arg_cong [where f = Min])
qed

lemma ready_cap_Min:
  "ready_cap cap ss = (if 0 \<in> AbsoluteDeadline ` set ss then Inl ErrDeadlineUnsafe
     else Inr (Min (insert cap (all_bounds ss))))"
proof (induction ss arbitrary: cap)
  case Nil
  show ?case by (simp add: all_bounds_def)
next
  case (Cons source sources)
  then show ?case
    by (cases "RetentionUntil source")
       (auto simp: bounds_simps simp del: Min_insert intro!: arg_cong [where f = Min])
qed

lemma Min_bounds:
  assumes "finite A"
  shows "Min (insert x A) \<le> (x :: int)" and "a \<in> A \<Longrightarrow> Min (insert x A) \<le> a"
  using assms by (auto intro: Min_le)

section \<open>Properties\<close>

text \<open>
  An export job that is failed, expired at its source, canceled or expired stays in that state
  along every history of allowed changes.
\<close>

theorem execution_terminal_final:
  assumes "execution_step\<^sup>*\<^sup>* a b" and "execution_terminal a"
  shows "b = a"
  using assms by (rule execution.terminal_final)

theorem execution_terminal_final_witness:
  "execution_terminal ExecutionCanceled \<and> {b. execution_step\<^sup>*\<^sup>* ExecutionCanceled b} = {ExecutionCanceled}"
proof -
  have t: "execution_terminal ExecutionCanceled" by (simp add: execution_terminal_def)
  then show ?thesis using execution_terminal_final [of ExecutionCanceled] by auto
qed

text \<open>
  An export becomes downloadable (ready, and from there expiring or expired) only by way of the
  sealing state: every history from a queued job to a ready one contains a step out of sealing.
\<close>

theorem export_ready_through_sealing:
  assumes "execution_step\<^sup>*\<^sup>* ExecutionQueued t"
    and "t \<in> {ExecutionReady, ExecutionExpiring, ExecutionExpired}"
  shows "\<exists>u. execution_step\<^sup>*\<^sup>* ExecutionQueued ExecutionSealing \<and> execution_step ExecutionSealing u
    \<and> u \<in> {ExecutionReady, ExecutionExpiring, ExecutionExpired} \<and> execution_step\<^sup>*\<^sup>* u t"
  using execution_ready.passes_gate [OF assms(1)] assms(2) by auto

lemma export_run_to_ready: "execution_step\<^sup>*\<^sup>* ExecutionQueued ExecutionReady"
  using history_reaches
    [of execution_step ExecutionQueued "[ExecutionRunning, ExecutionSealing, ExecutionReady]"]
  by (simp add: execution_table)

theorem export_ready_through_sealing_witness:
  "\<exists>u. execution_step\<^sup>*\<^sup>* ExecutionQueued ExecutionSealing \<and> execution_step ExecutionSealing u
    \<and> u \<in> {ExecutionReady, ExecutionExpiring, ExecutionExpired} \<and> execution_step\<^sup>*\<^sup>* u ExecutionReady"
  using export_ready_through_sealing [OF export_run_to_ready] by simp

text \<open>
  The execution deadline, when there is one, is the least of the maximal duration and of every
  source's absolute and retention deadline, and it lies beyond the safe start window. There is one
  exactly when the arguments are sane, no source deadline is unset, and that least instant lies
  beyond the safe start window.
\<close>

theorem execution_deadline_least:
  "ComputeExecutionDeadline createdAt maxDuration safeStart sources =
    (let d = Min (insert (createdAt + maxDuration) (all_bounds sources)) in
     if createdAt \<noteq> 0 \<and> 0 < maxDuration \<and> 0 < safeStart \<and> sources \<noteq> []
        \<and> 0 \<notin> all_bounds sources \<and> createdAt + safeStart < d
     then Inr d else Inl ErrDeadlineUnsafe)"
  by (auto simp: ComputeExecutionDeadline_def execution_cap_Min Let_def)

text \<open>
  A ready export expires no later than its time to live, than any source's absolute deadline and
  than any source's retention, and later than the instant it became ready; an unset retention
  instant, which this function does not test for, still makes it refuse.
\<close>

theorem ready_expiry_safe:
  assumes "ComputeReadyExpiry readyAt ttl sources = Inr e" and "0 < readyAt"
  shows "readyAt < e \<and> e \<le> readyAt + ttl
    \<and> (\<forall>s \<in> set sources. e \<le> AbsoluteDeadline s \<and> AbsoluteDeadline s \<noteq> 0
         \<and> (\<forall>r. RetentionUntil s = Some r \<longrightarrow> e \<le> r \<and> r \<noteq> 0))"
proof -
  from assms(1) have e: "e = Min (insert (readyAt + ttl) (all_bounds sources))" and "readyAt < e"
    and z: "0 \<notin> AbsoluteDeadline ` set sources"
    by (auto simp: ComputeReadyExpiry_def ready_cap_Min split: if_splits)
  have "e \<le> b" if "b \<in> all_bounds sources" for b
    using that by (simp only: e Min_bounds finite_all_bounds)
  moreover have "AbsoluteDeadline s \<in> all_bounds sources"
    and "RetentionUntil s = Some r \<Longrightarrow> r \<in> all_bounds sources" if "s \<in> set sources" for s r
    using that by (auto simp: all_bounds_def source_bounds_def)
  ultimately show ?thesis
    using \<open>readyAt < e\<close> z assms(2) Min_bounds(1) [of "all_bounds sources" "readyAt + ttl"]
    by (fastforce simp: e)
qed

theorem ready_expiry_safe_witness:
  "ComputeReadyExpiry 10 20 [\<lparr>AbsoluteDeadline = 25, RetentionUntil = Some 40\<rparr>] = Inr 25
    \<and> (10 :: int) < 25 \<and> (25 :: int) \<le> 10 + 20"
  using ready_expiry_safe [of 10 20 "[\<lparr>AbsoluteDeadline = 25, RetentionUntil = Some 40\<rparr>]" 25]
  by (simp add: ComputeReadyExpiry_def)



end
