(* ===== verification/Stable_Sort.thy ===== *)
theory Stable_Sort
  imports Prelude "HOL-Library.Multiset"
begin

text \<open>
  \<open>sort.SliceStable\<close> of Go's library: elements the comparison does not order keep their relative
  order. A stable sort has one result only, so the insertion sort below computes the one the library
  does. The contract a comparison function must meet, a strict weak order, is the locale
  \<open>slice_order\<close>; that the result is sorted and that the sort is stable is proved in it.
\<close>

fun insert_by :: "('a \<Rightarrow> 'a \<Rightarrow> bool) \<Rightarrow> 'a \<Rightarrow> 'a list \<Rightarrow> 'a list" where
  "insert_by lt x [] = [x]"
| "insert_by lt x (y # ys) = (if lt y x then y # insert_by lt x ys else x # y # ys)"

definition SliceStable :: "('a \<Rightarrow> 'a \<Rightarrow> bool) \<Rightarrow> 'a list \<Rightarrow> 'a list" where
  "SliceStable lt xs = foldr (insert_by lt) xs []"

lemma SliceStable_Nil [simp]: "SliceStable lt [] = []"
  by (simp add: SliceStable_def)

lemma SliceStable_Cons [simp]: "SliceStable lt (x # xs) = insert_by lt x (SliceStable lt xs)"
  by (simp add: SliceStable_def)

lemma mset_insert_by [simp]: "mset (insert_by lt x ys) = add_mset x (mset ys)"
  by (induction ys) auto

lemma mset_SliceStable: "mset (SliceStable lt xs) = mset xs"
  by (induction xs) auto

lemma set_insert_by [simp]: "set (insert_by lt x ys) = insert x (set ys)"
  by (induction ys) auto

locale slice_order =
  fixes lt :: "'a \<Rightarrow> 'a \<Rightarrow> bool"
  assumes lt_asym: "lt x y \<Longrightarrow> \<not> lt y x"
    and not_lt_trans: "\<not> lt y x \<Longrightarrow> \<not> lt z y \<Longrightarrow> \<not> lt z x"
begin

lemma insert_by_sorted:
  "sorted_wrt (\<lambda>x y. \<not> lt y x) ys \<Longrightarrow> sorted_wrt (\<lambda>x y. \<not> lt y x) (insert_by lt x ys)"
  by (induction ys) (auto dest: lt_asym, meson not_lt_trans)

lemma SliceStable_sorted: "sorted_wrt (\<lambda>x y. \<not> lt y x) (SliceStable lt xs)"
  by (induction xs) (auto intro: insert_by_sorted)

lemma insert_by_filter:
  assumes "sorted_wrt (\<lambda>x y. \<not> lt y x) ys"
  shows "filter (\<lambda>y. \<not> lt a y \<and> \<not> lt y a) (insert_by lt x ys) =
    filter (\<lambda>y. \<not> lt a y \<and> \<not> lt y a) (x # ys)"
  using assms
proof (induction ys)
  case Nil
  then show ?case by simp
next
  case (Cons y ys)
  show ?case
  proof (cases "lt y x")
    case True
    have "\<not> (\<not> lt a y \<and> \<not> lt y a \<and> \<not> lt a x \<and> \<not> lt x a)"
      using True not_lt_trans [of a x y] lt_asym by blast
    with True Cons show ?thesis by auto
  next
    case False
    then show ?thesis by simp
  qed
qed

lemma SliceStable_stable:
  "filter (\<lambda>y. \<not> lt a y \<and> \<not> lt y a) (SliceStable lt xs) = filter (\<lambda>y. \<not> lt a y \<and> \<not> lt y a) xs"
  by (induction xs) (simp_all add: insert_by_filter SliceStable_sorted)

end

end
