(* ===== verification/Processing_State.thy ===== *)
theory Processing_State
  imports Transition_Systems Stable_Sort 
    "HOL-Library.List_Lexorder" "HOL-Library.Char_ord" "HOL-Library.Product_Lexorder"
begin

text \<open>
  The state machine of a processing job, \<open>backend/internal/backupasset/processing/state.go\<close>, with
  its error categories and the products a transition request must carry, and the slot choice and
  queue order of the scheduler, \<open>backend/internal/backupasset/processing/scheduler.go\<close>. Strings
  outside the declared constants are the \<open>Other\<close> values; the empty string of an optional code or
  reason is \<open>None\<close>.
\<close>

section \<open>States\<close>

datatype ProcessingState =
    ProcessingQueued | ProcessingLeased | ProcessingFetching | ProcessingMaterializing
  | ProcessingProcessing | ProcessingUploading | ProcessingValidating | ProcessingRetryWait
  | ProcessingCancelRequested | ProcessingCanceled | ProcessingSucceeded | ProcessingFailed
  | ProcessingSuperseded | ProcessingExpired | ProcessingOther string

definition allProcessingStates :: "ProcessingState list" where
  "allProcessingStates =
     [ProcessingQueued, ProcessingLeased, ProcessingFetching, ProcessingMaterializing,
      ProcessingProcessing, ProcessingUploading, ProcessingValidating, ProcessingRetryWait,
      ProcessingCancelRequested, ProcessingCanceled, ProcessingSucceeded, ProcessingFailed,
      ProcessingSuperseded, ProcessingExpired]"

definition processing_valid :: "ProcessingState \<Rightarrow> bool" where
  "processing_valid state \<longleftrightarrow> state \<in> set allProcessingStates"

definition processingTransitions :: "(ProcessingState \<times> ProcessingState) list" where
  "processingTransitions =
     [(ProcessingQueued, ProcessingLeased),
      (ProcessingQueued, ProcessingCancelRequested),
      (ProcessingQueued, ProcessingSuperseded),
      (ProcessingQueued, ProcessingExpired),
      (ProcessingLeased, ProcessingFetching),
      (ProcessingFetching, ProcessingMaterializing),
      (ProcessingFetching, ProcessingProcessing),
      (ProcessingMaterializing, ProcessingProcessing),
      (ProcessingProcessing, ProcessingUploading),
      (ProcessingUploading, ProcessingValidating),
      (ProcessingValidating, ProcessingSucceeded),
      (ProcessingRetryWait, ProcessingQueued),
      (ProcessingCancelRequested, ProcessingCanceled)]"

datatype processing_error =
    ErrProcessingTransition | ErrRevisionConflict | ErrInvalidContract

definition isAttemptOwnedState :: "ProcessingState \<Rightarrow> bool" where
  "isAttemptOwnedState state \<longleftrightarrow>
     state \<in> {ProcessingLeased, ProcessingFetching, ProcessingMaterializing, ProcessingProcessing,
              ProcessingUploading, ProcessingValidating}"

definition isTerminalState :: "ProcessingState \<Rightarrow> bool" where
  "isTerminalState state \<longleftrightarrow>
     state \<in> {ProcessingCanceled, ProcessingSucceeded, ProcessingFailed, ProcessingSuperseded,
              ProcessingExpired}"

definition ValidateStateTransition ::
  "ProcessingState \<Rightarrow> ProcessingState \<Rightarrow> (processing_error, unit) result" where
  "ValidateStateTransition from to =
     (if \<not> processing_valid from \<or> \<not> processing_valid to \<or> from = to then Inl ErrProcessingTransition
      else if (from, to) \<in> set processingTransitions then Inr ()
      else if \<not> isTerminalState from \<and>
        (case to of
           ProcessingCancelRequested \<Rightarrow> from \<noteq> ProcessingCancelRequested
         | ProcessingSuperseded \<Rightarrow> True
         | ProcessingExpired \<Rightarrow> True
         | ProcessingRetryWait \<Rightarrow> isAttemptOwnedState from
         | ProcessingFailed \<Rightarrow> isAttemptOwnedState from \<or> from = ProcessingRetryWait
         | _ \<Rightarrow> False)
      then Inr ()
      else Inl ErrProcessingTransition)"

abbreviation processing_step :: "ProcessingState \<Rightarrow> ProcessingState \<Rightarrow> bool" where
  "processing_step a b \<equiv> is_ok (ValidateStateTransition a b)"

section \<open>Errors, reasons and the transition request\<close>

datatype ProcessingErrorCategory = PermanentError | TransientError | ContractSecurityError

datatype ProcessingErrorCode =
    ProcessingErrorUnsupportedFormat | ProcessingErrorEncryptedArchive | ProcessingErrorInputTooLarge
  | ProcessingErrorMaterializationDisabled | ProcessingErrorSourceChanged | ProcessingErrorSourceExpired
  | ProcessingErrorWorkerUnavailable | ProcessingErrorProviderUnavailable | ProcessingErrorQuotaBusy
  | ProcessingErrorTimeout | ProcessingErrorWorkerCrash | ProcessingErrorLeaseLost
  | ProcessingErrorProtocolIncompatible | ProcessingErrorInvalidOutput | ProcessingErrorDigestMismatch
  | ProcessingErrorSandboxViolation | ProcessingErrorNetworkViolation
  | ProcessingErrorOther string

definition error_category ::
  "ProcessingErrorCode option \<Rightarrow> (processing_error, ProcessingErrorCategory) result" where
  "error_category code =
     (case code of
        None \<Rightarrow> Inl ErrInvalidContract
      | Some c \<Rightarrow>
          if c \<in> {ProcessingErrorUnsupportedFormat, ProcessingErrorEncryptedArchive,
                  ProcessingErrorInputTooLarge, ProcessingErrorMaterializationDisabled,
                  ProcessingErrorSourceChanged, ProcessingErrorSourceExpired}
          then Inr PermanentError
          else if c \<in> {ProcessingErrorWorkerUnavailable, ProcessingErrorProviderUnavailable,
                       ProcessingErrorQuotaBusy, ProcessingErrorTimeout, ProcessingErrorWorkerCrash,
                       ProcessingErrorLeaseLost}
          then Inr TransientError
          else if c \<in> {ProcessingErrorProtocolIncompatible, ProcessingErrorInvalidOutput,
                       ProcessingErrorDigestMismatch, ProcessingErrorSandboxViolation,
                       ProcessingErrorNetworkViolation}
          then Inr ContractSecurityError
          else Inl ErrInvalidContract)"

record TransitionRequest =
  From :: ProcessingState
  To :: ProcessingState
  CurrentRevision :: int
  ExpectedRevision :: int
  ErrorCode :: "ProcessingErrorCode option"
  RetryAt :: "time option"
  RetryExhausted :: bool
  CancelReason :: "string option"
  SupersedeReason :: "string option"
  ExpiryReason :: "string option"

definition validateTransitionProduct :: "TransitionRequest \<Rightarrow> (processing_error, unit) result" where
  "validateTransitionProduct request =
     bind_result
       (if To request = ProcessingRetryWait
        then require (error_category (ErrorCode request) = Inr TransientError
                      \<and> RetryAt request \<noteq> None \<and> \<not> RetryExhausted request) ErrInvalidContract
        else require (RetryAt request = None) ErrInvalidContract)
     (\<lambda>_. bind_result
       (if To request = ProcessingFailed
        then (case error_category (ErrorCode request) of
                Inl e \<Rightarrow> Inl ErrInvalidContract
              | Inr category \<Rightarrow>
                  require (\<not> (category = TransientError \<and> \<not> RetryExhausted request
                             \<or> category \<noteq> TransientError \<and> RetryExhausted request)) ErrInvalidContract)
        else require (\<not> (To request \<noteq> ProcessingRetryWait \<and> ErrorCode request \<noteq> None
                          \<or> To request \<noteq> ProcessingFailed \<and> RetryExhausted request)) ErrInvalidContract)
     (\<lambda>_. bind_result
       (require ((To request = ProcessingCancelRequested \<or> To request = ProcessingCanceled)
                 = (CancelReason request \<noteq> None)) ErrInvalidContract)
     (\<lambda>_. bind_result
       (require ((To request = ProcessingSuperseded) = (SupersedeReason request \<noteq> None)) ErrInvalidContract)
     (\<lambda>_. require ((To request = ProcessingExpired) = (ExpiryReason request \<noteq> None)) ErrInvalidContract))))"

definition ValidateTransition :: "TransitionRequest \<Rightarrow> (processing_error, int) result" where
  "ValidateTransition request =
     (if CurrentRevision request \<le> 0 \<or> ExpectedRevision request \<noteq> CurrentRevision request
      then Inl ErrRevisionConflict
      else bind_result (ValidateStateTransition (From request) (To request))
        (\<lambda>_. bind_result (validateTransitionProduct request)
          (\<lambda>_. Inr (wrap64 (CurrentRevision request + 1)))))"

section \<open>Scheduler\<close>

datatype SlotClass = SlotInteractive | SlotBackground | SlotBackgroundBorrowed

datatype PriorityClass = PriorityInteractive | PriorityBackground | PriorityOther string

record SlotUsage =
  InteractiveTotal :: int
  InteractiveUsed :: int
  BackgroundTotal :: int
  BackgroundUsed :: int

definition ChooseSlot :: "SlotUsage \<Rightarrow> PriorityClass \<Rightarrow> SlotClass option" where
  "ChooseSlot usage priority =
     (if InteractiveTotal usage < 0 \<or> InteractiveUsed usage < 0 \<or> BackgroundTotal usage < 0
         \<or> BackgroundUsed usage < 0 \<or> InteractiveUsed usage > InteractiveTotal usage
         \<or> BackgroundUsed usage > BackgroundTotal usage
      then None
      else case priority of
        PriorityInteractive \<Rightarrow>
          if InteractiveUsed usage < InteractiveTotal usage then Some SlotInteractive
          else if BackgroundUsed usage < BackgroundTotal usage then Some SlotBackgroundBorrowed
          else None
      | PriorityBackground \<Rightarrow>
          if BackgroundUsed usage < BackgroundTotal usage then Some SlotBackground else None
      | PriorityOther _ \<Rightarrow> None)"

record QueueCandidate =
  CandidateID :: string
  CandidateClass :: PriorityClass
  CandidatePriority :: int
  QueuedUnixNano :: int

text \<open>The comparison of \<open>SortQueueCandidates\<close>; strings compare byte by byte.\<close>

definition candidate_less :: "QueueCandidate \<Rightarrow> QueueCandidate \<Rightarrow> bool" where
  "candidate_less left right =
     (if CandidatePriority left \<noteq> CandidatePriority right
      then CandidatePriority left > CandidatePriority right
      else
        let leftInteractive = (CandidateClass left = PriorityInteractive);
            rightInteractive = (CandidateClass right = PriorityInteractive)
        in if leftInteractive \<noteq> rightInteractive then leftInteractive
           else if QueuedUnixNano left \<noteq> QueuedUnixNano right
           then QueuedUnixNano left < QueuedUnixNano right
           else CandidateID left < CandidateID right)"

definition SortQueueCandidates :: "QueueCandidate list \<Rightarrow> QueueCandidate list" where
  "SortQueueCandidates candidates = SliceStable candidate_less candidates"

section \<open>The machine\<close>

lemmas processing_table = ValidateStateTransition_def processing_valid_def allProcessingStates_def
  processingTransitions_def isTerminalState_def isAttemptOwnedState_def

interpretation processing: terminal_machine processing_step isTerminalState
proof
  fix a b assume "isTerminalState a" and "processing_step a b"
  then show "b = a" by (cases a) (auto simp: processing_table split: if_splits)
qed

interpretation processing_success: gated_machine processing_step
  "\<lambda>s. s = ProcessingSucceeded" "\<lambda>s. s = ProcessingValidating"
proof
  fix a b assume "processing_step a b" and "b = ProcessingSucceeded" and "a \<noteq> ProcessingSucceeded"
  then show "a = ProcessingValidating" by (cases a) (auto simp: processing_table split: if_splits)
qed

interpretation processing_cancel: closed_machine processing_step
  "\<lambda>s. s \<in> {ProcessingCancelRequested, ProcessingCanceled, ProcessingSuperseded, ProcessingExpired}"
proof
  fix a b
  assume "processing_step a b"
    and "a \<in> {ProcessingCancelRequested, ProcessingCanceled, ProcessingSuperseded, ProcessingExpired}"
  then show "b \<in> {ProcessingCancelRequested, ProcessingCanceled, ProcessingSuperseded, ProcessingExpired}"
    by (cases b) (auto simp: processing_table split: if_splits)
qed

section \<open>The queue order\<close>

text \<open>The comparison is the lexicographic order of a key, hence a linear order on the keys.\<close>

definition candidate_key :: "QueueCandidate \<Rightarrow> int \<times> bool \<times> int \<times> string" where
  "candidate_key c =
     (- CandidatePriority c, CandidateClass c \<noteq> PriorityInteractive, QueuedUnixNano c, CandidateID c)"

lemma candidate_less_key: "candidate_less x y \<longleftrightarrow> candidate_key x < candidate_key y"
  by (cases "CandidateClass x = PriorityInteractive"; cases "CandidateClass y = PriorityInteractive")
     (auto simp: candidate_less_def candidate_key_def)

interpretation queue: slice_order candidate_less
  by unfold_locales (auto simp: candidate_less_key)

section \<open>Properties\<close>

text \<open>
  A processing job that is canceled, succeeded, failed, superseded or expired never changes
  state again, and after a cancellation request the job can end only canceled, superseded or
  expired: it never succeeds, fails or is retried.
\<close>

theorem processing_cancel_final:
  assumes "processing_step\<^sup>*\<^sup>* a b"
  shows "(isTerminalState a \<longrightarrow> b = a) \<and> (a = ProcessingCancelRequested \<longrightarrow>
    b \<in> {ProcessingCancelRequested, ProcessingCanceled, ProcessingSuperseded, ProcessingExpired})"
  using processing.terminal_final [OF assms] processing_cancel.history_inside [OF assms] by blast

theorem processing_cancel_final_witness:
  "isTerminalState ProcessingFailed \<and> {b. processing_step\<^sup>*\<^sup>* ProcessingFailed b} = {ProcessingFailed}
   \<and> processing_step ProcessingCancelRequested ProcessingCanceled
   \<and> {b. processing_step\<^sup>*\<^sup>* ProcessingCancelRequested b}
       \<subseteq> {ProcessingCancelRequested, ProcessingCanceled, ProcessingSuperseded, ProcessingExpired}"
proof -
  have t: "isTerminalState ProcessingFailed" by (simp add: isTerminalState_def)
  have c: "processing_step ProcessingCancelRequested ProcessingCanceled"
    by (simp add: processing_table)
  show ?thesis
    using t c processing_cancel_final [of ProcessingFailed]
      processing_cancel_final [of ProcessingCancelRequested] by auto
qed

text \<open>
  A job succeeds only out of the validating state: every history from a queued job to a
  succeeded one contains the step from validating to succeeded.
\<close>

theorem processing_success_through_validating:
  assumes "processing_step\<^sup>*\<^sup>* ProcessingQueued ProcessingSucceeded"
  shows "processing_step\<^sup>*\<^sup>* ProcessingQueued ProcessingValidating
    \<and> processing_step ProcessingValidating ProcessingSucceeded"
  using processing_success.passes_gate [OF assms] by auto

theorem processing_success_through_validating_witness:
  "processing_step\<^sup>*\<^sup>* ProcessingQueued ProcessingValidating
    \<and> processing_step ProcessingValidating ProcessingSucceeded"
proof (rule processing_success_through_validating)
  show "processing_step\<^sup>*\<^sup>* ProcessingQueued ProcessingSucceeded"
    using history_reaches [of processing_step ProcessingQueued
      "[ProcessingLeased, ProcessingFetching, ProcessingProcessing, ProcessingUploading,
        ProcessingValidating, ProcessingSucceeded]"]
    by (simp add: processing_table)
qed

text \<open>
  An accepted transition request names the current revision and moves to the next one; it retries
  only a transient error that has a schedule and is not exhausted, fails only for a permanent or
  contract error or an exhausted transient one, and carries a cancel, supersede or expiry reason
  exactly when its target state calls for one.
\<close>

theorem transition_request_accepted:
  assumes "ValidateTransition r = Inr revision" and "CurrentRevision r < MaxInt64"
  shows "0 < CurrentRevision r \<and> ExpectedRevision r = CurrentRevision r
    \<and> revision = CurrentRevision r + 1 \<and> processing_step (From r) (To r)
    \<and> (RetryAt r \<noteq> None \<longleftrightarrow> To r = ProcessingRetryWait)
    \<and> (To r = ProcessingRetryWait \<longrightarrow> error_category (ErrorCode r) = Inr TransientError)
    \<and> (To r = ProcessingFailed \<longrightarrow> (\<exists>c. error_category (ErrorCode r) = Inr c
         \<and> RetryExhausted r = (c = TransientError)))
    \<and> (RetryExhausted r \<longrightarrow> To r = ProcessingFailed)
    \<and> (CancelReason r \<noteq> None \<longleftrightarrow> To r \<in> {ProcessingCancelRequested, ProcessingCanceled})
    \<and> (SupersedeReason r \<noteq> None \<longleftrightarrow> To r = ProcessingSuperseded)
    \<and> (ExpiryReason r \<noteq> None \<longleftrightarrow> To r = ProcessingExpired)"
proof -
  have rev: "0 < CurrentRevision r" "ExpectedRevision r = CurrentRevision r"
    "revision = wrap64 (CurrentRevision r + 1)"
    and st: "ValidateStateTransition (From r) (To r) = Inr ()"
    and p: "validateTransitionProduct r = Inr ()"
    using assms(1) by (auto simp: ValidateTransition_def result_simps split: if_splits)
  have "in_i64 (CurrentRevision r + 1)"
    using rev(1) assms(2) by (intro in_i64_nonneg) (auto simp: MaxInt64_def)
  then have r1: "revision = CurrentRevision r + 1" using rev(3) by simp
  show ?thesis
    using p unfolding rev(2) r1 st
    by (auto simp: validateTransitionProduct_def result_simps rev(1) split: if_splits sum.splits)
qed

theorem transition_request_accepted_witness:
  "ValidateTransition \<lparr>From = ProcessingFetching, To = ProcessingRetryWait, CurrentRevision = 4,
     ExpectedRevision = 4, ErrorCode = Some ProcessingErrorTimeout, RetryAt = Some 9,
     RetryExhausted = False, CancelReason = None, SupersedeReason = None, ExpiryReason = None\<rparr> = Inr 5
   \<and> error_category (Some ProcessingErrorTimeout) = Inr TransientError"
  using transition_request_accepted [of "\<lparr>From = ProcessingFetching, To = ProcessingRetryWait,
     CurrentRevision = 4, ExpectedRevision = 4, ErrorCode = Some ProcessingErrorTimeout,
     RetryAt = Some 9, RetryExhausted = False, CancelReason = None, SupersedeReason = None,
     ExpiryReason = None\<rparr>" 5]
  by (simp add: ValidateTransition_def validateTransitionProduct_def processing_table
      error_category_def wrap64_def MaxInt64_def)

text \<open>
  The slot given to a job has a free place and keeps the pools within their totals: interactive
  work uses the interactive pool first and borrows from the background pool only when its own is
  full, background work never takes an interactive place, and interactive work is refused only when
  both pools are full (for a consistent usage).
\<close>

theorem choose_slot_sound:
  assumes "0 \<le> InteractiveUsed u" and "InteractiveUsed u \<le> InteractiveTotal u"
    and "0 \<le> BackgroundUsed u" and "BackgroundUsed u \<le> BackgroundTotal u"
  shows "(ChooseSlot u c = Some SlotInteractive \<longleftrightarrow>
            c = PriorityInteractive \<and> InteractiveUsed u < InteractiveTotal u)
    \<and> (ChooseSlot u c = Some SlotBackgroundBorrowed \<longleftrightarrow> c = PriorityInteractive
         \<and> InteractiveUsed u = InteractiveTotal u \<and> BackgroundUsed u < BackgroundTotal u)
    \<and> (ChooseSlot u c = Some SlotBackground \<longleftrightarrow>
         c = PriorityBackground \<and> BackgroundUsed u < BackgroundTotal u)
    \<and> (ChooseSlot u PriorityInteractive = None \<longleftrightarrow>
         InteractiveUsed u = InteractiveTotal u \<and> BackgroundUsed u = BackgroundTotal u)"
  using assms by (cases c) (auto simp: ChooseSlot_def)

theorem choose_slot_sound_witness:
  "ChooseSlot \<lparr>InteractiveTotal = 2, InteractiveUsed = 2, BackgroundTotal = 3, BackgroundUsed = 1\<rparr>
     PriorityInteractive = Some SlotBackgroundBorrowed"
  using choose_slot_sound
    [of "\<lparr>InteractiveTotal = 2, InteractiveUsed = 2, BackgroundTotal = 3, BackgroundUsed = 1\<rparr>"
        PriorityInteractive]
  by simp

text \<open>
  C33. Sorting the queue permutes the candidates, puts a higher priority first, at equal priority
  interactive before other work, then the longer queued first, and keeps the order of candidates
  that agree in all of these and in their identifier.
\<close>

theorem queue_sorted:
  "mset (SortQueueCandidates cs) = mset cs
   \<and> sorted_wrt (\<lambda>x y. CandidatePriority y \<le> CandidatePriority x
       \<and> (CandidatePriority x = CandidatePriority y \<longrightarrow>
            (CandidateClass y = PriorityInteractive \<longrightarrow> CandidateClass x = PriorityInteractive)
          \<and> ((CandidateClass x = PriorityInteractive) = (CandidateClass y = PriorityInteractive) \<longrightarrow>
               QueuedUnixNano x \<le> QueuedUnixNano y))) (SortQueueCandidates cs)
   \<and> (\<forall>x. filter (\<lambda>y. \<not> candidate_less x y \<and> \<not> candidate_less y x) (SortQueueCandidates cs)
        = filter (\<lambda>y. \<not> candidate_less x y \<and> \<not> candidate_less y x) cs)"
proof (intro conjI allI)
  show "mset (SortQueueCandidates cs) = mset cs"
    by (simp add: SortQueueCandidates_def mset_SliceStable)
  have "sorted_wrt (\<lambda>x y. \<not> candidate_less y x) (SortQueueCandidates cs)"
    by (simp add: SortQueueCandidates_def queue.SliceStable_sorted)
  then show "sorted_wrt (\<lambda>x y. CandidatePriority y \<le> CandidatePriority x
       \<and> (CandidatePriority x = CandidatePriority y \<longrightarrow>
            (CandidateClass y = PriorityInteractive \<longrightarrow> CandidateClass x = PriorityInteractive)
          \<and> ((CandidateClass x = PriorityInteractive) = (CandidateClass y = PriorityInteractive) \<longrightarrow>
               QueuedUnixNano x \<le> QueuedUnixNano y))) (SortQueueCandidates cs)"
    by (rule sorted_wrt_mono_rel [rotated])
       (auto simp: candidate_less_def Let_def split: if_splits)
  show "filter (\<lambda>y. \<not> candidate_less x y \<and> \<not> candidate_less y x) (SortQueueCandidates cs)
        = filter (\<lambda>y. \<not> candidate_less x y \<and> \<not> candidate_less y x) cs" for x
    by (simp add: SortQueueCandidates_def queue.SliceStable_stable)
qed

theorem queue_sorted_witness:
  "let a = \<lparr>CandidateID = ''a'', CandidateClass = PriorityBackground, CandidatePriority = 1, QueuedUnixNano = 5\<rparr>;
       b = \<lparr>CandidateID = ''b'', CandidateClass = PriorityInteractive, CandidatePriority = 1, QueuedUnixNano = 9\<rparr>
   in SortQueueCandidates [a, b] = [b, a] \<and> mset (SortQueueCandidates [a, b]) = mset [a, b]"
  using queue_sorted [of "[\<lparr>CandidateID = ''a'', CandidateClass = PriorityBackground,
      CandidatePriority = 1, QueuedUnixNano = 5\<rparr>, \<lparr>CandidateID = ''b'',
      CandidateClass = PriorityInteractive, CandidatePriority = 1, QueuedUnixNano = 9\<rparr>]"]
  by (simp add: SortQueueCandidates_def candidate_less_def)

end
