(* ===== verification/Recovery_State.thy ===== *)
theory Recovery_State
  imports Transition_Systems "HOL-Library.Sublist"
begin

text \<open>
  The state machines of a controlled recovery, \<open>backend/internal/backupasset/recovery/state.go\<close>:
  plan, job, attempt, checkpoint log, result set, workspace and cleanup. Each \<open>CanTransitionTo\<close> of
  the source is one function here, with its guard struct as a record. Strings outside the declared
  constants are the \<open>Other\<close> values, for which \<open>Valid\<close> is false.
\<close>

section \<open>Plans\<close>

datatype PlanState =
    PlanStateDraft | PlanStatePreflightReady | PlanStateAuthorized | PlanStateExecuted
  | PlanStateCanceled | PlanStateSuperseded | PlanStateExpired | PlanStateOther string

record PlanTransitionGuard =
  HasDurableJob :: bool
  HasCurrentFence :: bool
  PlanMutationArmed :: bool
  HasCheckpoint :: bool
  TargetAtBaseRevision :: bool

fun PlanState_Valid :: "PlanState \<Rightarrow> bool" where
  "PlanState_Valid (PlanStateOther _) = False"
| "PlanState_Valid _ = True"

definition terminalPlanState :: "PlanState \<Rightarrow> bool" where
  "terminalPlanState state \<longleftrightarrow>
     state = PlanStateCanceled \<or> state = PlanStateSuperseded \<or> state = PlanStateExpired"

definition PlanState_CanTransitionTo :: "PlanState \<Rightarrow> PlanState \<Rightarrow> PlanTransitionGuard \<Rightarrow> bool" where
  "PlanState_CanTransitionTo state nxt guard =
     (if \<not> PlanState_Valid state \<or> \<not> PlanState_Valid nxt then False
      else case state of
        PlanStateDraft \<Rightarrow> nxt = PlanStatePreflightReady \<or> terminalPlanState nxt
      | PlanStatePreflightReady \<Rightarrow> nxt = PlanStateAuthorized \<or> terminalPlanState nxt
      | PlanStateAuthorized \<Rightarrow> nxt = PlanStateExecuted \<or> terminalPlanState nxt
      | PlanStateExecuted \<Rightarrow>
          nxt = PlanStateSuperseded \<and> HasDurableJob guard \<and> HasCurrentFence guard
          \<and> \<not> PlanMutationArmed guard \<and> \<not> HasCheckpoint guard \<and> TargetAtBaseRevision guard
      | _ \<Rightarrow> False)"

section \<open>Jobs and attempts\<close>

datatype JobState =
    JobStateQueued | JobStateRunning | JobStateVerifying | JobStateSucceeded | JobStateDegraded
  | JobStateNeedsAttention | JobStateFailed | JobStateCancelRequested | JobStateCanceled
  | JobStateOther string

fun JobState_Valid :: "JobState \<Rightarrow> bool" where
  "JobState_Valid (JobStateOther _) = False"
| "JobState_Valid _ = True"

definition JobState_CanTransitionTo :: "JobState \<Rightarrow> JobState \<Rightarrow> bool" where
  "JobState_CanTransitionTo state nxt =
     (if \<not> JobState_Valid state \<or> \<not> JobState_Valid nxt then False
      else case state of
        JobStateQueued \<Rightarrow> nxt = JobStateRunning \<or> nxt = JobStateCancelRequested
      | JobStateRunning \<Rightarrow>
          nxt = JobStateVerifying \<or> nxt = JobStateCancelRequested
          \<or> nxt = JobStateFailed \<or> nxt = JobStateNeedsAttention
      | JobStateVerifying \<Rightarrow>
          nxt = JobStateSucceeded \<or> nxt = JobStateDegraded \<or> nxt = JobStateFailed
          \<or> nxt = JobStateNeedsAttention \<or> nxt = JobStateCancelRequested
      | JobStateCancelRequested \<Rightarrow> nxt = JobStateCanceled \<or> nxt = JobStateNeedsAttention
      | _ \<Rightarrow> False)"

definition terminalJobState :: "JobState \<Rightarrow> bool" where
  "terminalJobState state \<longleftrightarrow>
     state \<in> {JobStateSucceeded, JobStateDegraded, JobStateFailed, JobStateNeedsAttention,
              JobStateCanceled}"

datatype AttemptState =
    AttemptStateClaimed | AttemptStateRunning | AttemptStateCompleted | AttemptStateFailed
  | AttemptStateCanceled | AttemptStateSuperseded | AttemptStateLost | AttemptStateOther string

fun AttemptState_Valid :: "AttemptState \<Rightarrow> bool" where
  "AttemptState_Valid (AttemptStateOther _) = False"
| "AttemptState_Valid _ = True"

definition activeAttemptState :: "AttemptState \<Rightarrow> bool" where
  "activeAttemptState state \<longleftrightarrow> state = AttemptStateClaimed \<or> state = AttemptStateRunning"

definition AllowsAttemptState :: "JobState \<Rightarrow> AttemptState \<Rightarrow> bool" where
  "AllowsAttemptState state attempt =
     (if \<not> JobState_Valid state \<or> \<not> AttemptState_Valid attempt then False
      else \<not> terminalJobState state \<or> \<not> activeAttemptState attempt)"

record AttemptTransitionGuard =
  SameOwner :: bool
  SameFence :: bool
  AttemptMutationArmed :: bool

definition AttemptState_CanTransitionTo ::
  "AttemptState \<Rightarrow> AttemptState \<Rightarrow> AttemptTransitionGuard \<Rightarrow> bool" where
  "AttemptState_CanTransitionTo state nxt guard =
     (if \<not> AttemptState_Valid state \<or> \<not> AttemptState_Valid nxt
         \<or> \<not> SameOwner guard \<or> \<not> SameFence guard then False
      else case state of
        AttemptStateClaimed \<Rightarrow>
          \<not> AttemptMutationArmed guard
          \<and> (nxt = AttemptStateRunning \<or> nxt = AttemptStateSuperseded \<or> nxt = AttemptStateLost)
      | AttemptStateRunning \<Rightarrow>
          if nxt = AttemptStateSuperseded then \<not> AttemptMutationArmed guard
          else nxt = AttemptStateCompleted \<or> nxt = AttemptStateFailed
               \<or> nxt = AttemptStateCanceled \<or> nxt = AttemptStateLost
      | _ \<Rightarrow> False)"

section \<open>Checkpoints\<close>

datatype CheckpointPhase =
    CheckpointPhaseOperation | CheckpointPhaseOperationUnresolved
  | CheckpointPhaseDeleteAuthorityRequired | CheckpointPhaseDeleteAuthorityConsumed
  | CheckpointPhaseVerification | CheckpointPhaseWorkspaceReserved | CheckpointPhaseOther string

fun CheckpointPhase_Valid :: "CheckpointPhase \<Rightarrow> bool" where
  "CheckpointPhase_Valid (CheckpointPhaseOther _) = False"
| "CheckpointPhase_Valid _ = True"

datatype TargetMode = TargetModeIsolated | TargetModeInPlace | TargetModeOther string

record CheckpointAppendGuard =
  SameAttempt :: bool
  SameAttemptFence :: bool
  SameNodeFence :: bool
  MutationArmed :: bool
  ExactMirror :: bool
  NextSequence :: int

definition guard_current :: "CheckpointAppendGuard \<Rightarrow> bool" where
  "guard_current guard \<longleftrightarrow>
     SameAttempt guard \<and> SameAttemptFence guard \<and> SameNodeFence guard \<and> MutationArmed guard"

definition CanStartCheckpoint :: "CheckpointPhase \<Rightarrow> TargetMode \<Rightarrow> CheckpointAppendGuard \<Rightarrow> bool" where
  "CanStartCheckpoint nxt targetMode guard =
     (if \<not> CheckpointPhase_Valid nxt \<or> \<not> guard_current guard \<or> NextSequence guard \<noteq> 0 then False
      else case targetMode of
        TargetModeIsolated \<Rightarrow> nxt = CheckpointPhaseWorkspaceReserved
      | TargetModeInPlace \<Rightarrow> nxt = CheckpointPhaseOperation \<or> nxt = CheckpointPhaseOperationUnresolved
      | TargetModeOther _ \<Rightarrow> False)"

record CheckpointCursor =
  Sequence :: int
  Phase :: CheckpointPhase

definition CanAppend :: "CheckpointCursor \<Rightarrow> CheckpointPhase \<Rightarrow> CheckpointAppendGuard \<Rightarrow> bool" where
  "CanAppend cursor nxt guard =
     (if Sequence cursor < 0 \<or> \<not> CheckpointPhase_Valid (Phase cursor) \<or> \<not> CheckpointPhase_Valid nxt
         \<or> \<not> guard_current guard \<or> NextSequence guard \<noteq> wrap64 (Sequence cursor + 1) then False
      else case Phase cursor of
        CheckpointPhaseWorkspaceReserved \<Rightarrow>
          nxt = CheckpointPhaseOperation \<or> nxt = CheckpointPhaseOperationUnresolved
      | CheckpointPhaseOperation \<Rightarrow>
          nxt = CheckpointPhaseOperation \<or> nxt = CheckpointPhaseOperationUnresolved
          \<or> nxt = CheckpointPhaseVerification
          \<or> (nxt = CheckpointPhaseDeleteAuthorityRequired \<and> ExactMirror guard)
      | CheckpointPhaseDeleteAuthorityRequired \<Rightarrow>
          nxt = CheckpointPhaseDeleteAuthorityConsumed \<and> ExactMirror guard
      | CheckpointPhaseDeleteAuthorityConsumed \<Rightarrow>
          ExactMirror guard \<and> (nxt = CheckpointPhaseOperation
          \<or> nxt = CheckpointPhaseOperationUnresolved \<or> nxt = CheckpointPhaseVerification)
      | _ \<Rightarrow> False)"

section \<open>Result sets, workspaces, cleanup\<close>

datatype UnresolvedOperationCategory =
    UnresolvedOperationRevisionDisagreement | UnresolvedOperationVerificationMismatch
  | UnresolvedOperationWriteResultInvalid | UnresolvedOperationObservationInvalid
  | UnresolvedOperationOther string

fun UnresolvedOperationCategory_Valid :: "UnresolvedOperationCategory \<Rightarrow> bool" where
  "UnresolvedOperationCategory_Valid (UnresolvedOperationOther _) = False"
| "UnresolvedOperationCategory_Valid _ = True"

datatype SourceRevalidationOutcome =
    SourceRevalidationMatched | SourceRevalidationDrifted | SourceRevalidationFailed
  | SourceRevalidationOther string

fun SourceRevalidationOutcome_Valid :: "SourceRevalidationOutcome \<Rightarrow> bool" where
  "SourceRevalidationOutcome_Valid (SourceRevalidationOther _) = False"
| "SourceRevalidationOutcome_Valid _ = True"

datatype ResultSetState =
    ResultSetStateReady | ResultSetStateRevoking | ResultSetStateCleaned | ResultSetStateCleanupFailed
  | ResultSetStateOther string

fun ResultSetState_Valid :: "ResultSetState \<Rightarrow> bool" where
  "ResultSetState_Valid (ResultSetStateOther _) = False"
| "ResultSetState_Valid _ = True"

record ResultSetTransitionGuard =
  CurrentOwner :: bool
  CleanupLeaseExpired :: bool
  FreshCleanupFence :: bool

definition ResultSetState_CanTransitionTo ::
  "ResultSetState \<Rightarrow> ResultSetState \<Rightarrow> ResultSetTransitionGuard \<Rightarrow> bool" where
  "ResultSetState_CanTransitionTo state nxt guard =
     (if \<not> ResultSetState_Valid state \<or> \<not> ResultSetState_Valid nxt then False
      else case state of
        ResultSetStateReady \<Rightarrow> nxt = ResultSetStateRevoking \<and> FreshCleanupFence guard
      | ResultSetStateRevoking \<Rightarrow>
          if nxt = ResultSetStateRevoking then CleanupLeaseExpired guard \<and> FreshCleanupFence guard
          else CurrentOwner guard \<and> (nxt = ResultSetStateCleaned \<or> nxt = ResultSetStateCleanupFailed)
      | ResultSetStateCleanupFailed \<Rightarrow> nxt = ResultSetStateRevoking \<and> FreshCleanupFence guard
      | _ \<Rightarrow> False)"

datatype WorkspacePhase =
    WorkspacePhaseNone | WorkspacePhaseReserved | WorkspacePhaseMarkerCreated | WorkspacePhaseWriting
  | WorkspacePhaseSealed | WorkspacePhasePublished | WorkspacePhaseCleanupDue | WorkspacePhaseCleaned
  | WorkspacePhaseOther string

fun WorkspacePhase_Valid :: "WorkspacePhase \<Rightarrow> bool" where
  "WorkspacePhase_Valid (WorkspacePhaseOther _) = False"
| "WorkspacePhase_Valid _ = True"

definition WorkspacePhase_CanTransitionTo :: "WorkspacePhase \<Rightarrow> WorkspacePhase \<Rightarrow> bool" where
  "WorkspacePhase_CanTransitionTo phase nxt =
     (if \<not> WorkspacePhase_Valid phase \<or> \<not> WorkspacePhase_Valid nxt then False
      else case phase of
        WorkspacePhaseNone \<Rightarrow> nxt = WorkspacePhaseReserved
      | WorkspacePhaseReserved \<Rightarrow> nxt = WorkspacePhaseMarkerCreated \<or> nxt = WorkspacePhaseCleanupDue
      | WorkspacePhaseMarkerCreated \<Rightarrow> nxt = WorkspacePhaseWriting \<or> nxt = WorkspacePhaseCleanupDue
      | WorkspacePhaseWriting \<Rightarrow> nxt = WorkspacePhaseSealed \<or> nxt = WorkspacePhaseCleanupDue
      | WorkspacePhaseSealed \<Rightarrow> nxt = WorkspacePhasePublished \<or> nxt = WorkspacePhaseCleanupDue
      | WorkspacePhaseCleanupDue \<Rightarrow> nxt = WorkspacePhaseCleaned
      | _ \<Rightarrow> False)"

datatype CleanupPhase =
    CleanupPhaseClaimed | CleanupPhaseRevoked | CleanupPhaseDrained | CleanupPhaseValidated
  | CleanupPhaseDeleteStarted | CleanupPhaseDeleted | CleanupPhaseTombstoned | CleanupPhaseOther string

fun CleanupPhase_Valid :: "CleanupPhase \<Rightarrow> bool" where
  "CleanupPhase_Valid (CleanupPhaseOther _) = False"
| "CleanupPhase_Valid _ = True"

definition CleanupPhase_CanTransitionTo :: "CleanupPhase \<Rightarrow> CleanupPhase \<Rightarrow> bool" where
  "CleanupPhase_CanTransitionTo phase nxt =
     (if \<not> CleanupPhase_Valid phase \<or> \<not> CleanupPhase_Valid nxt then False
      else case phase of
        CleanupPhaseClaimed \<Rightarrow> nxt = CleanupPhaseRevoked
      | CleanupPhaseRevoked \<Rightarrow> nxt = CleanupPhaseDrained
      | CleanupPhaseDrained \<Rightarrow> nxt = CleanupPhaseValidated
      | CleanupPhaseValidated \<Rightarrow> nxt = CleanupPhaseDeleteStarted
      | CleanupPhaseDeleteStarted \<Rightarrow> nxt = CleanupPhaseDeleted
      | CleanupPhaseDeleted \<Rightarrow> nxt = CleanupPhaseTombstoned
      | _ \<Rightarrow> False)"

section \<open>The machines\<close>

text \<open>A change is possible when some guard admits it.\<close>

definition plan_step :: "PlanState \<Rightarrow> PlanState \<Rightarrow> bool" where
  "plan_step a b \<longleftrightarrow> (\<exists>g. PlanState_CanTransitionTo a b g)"

definition attempt_step :: "AttemptState \<Rightarrow> AttemptState \<Rightarrow> bool" where
  "attempt_step a b \<longleftrightarrow> (\<exists>g. AttemptState_CanTransitionTo a b g)"

definition result_step :: "ResultSetState \<Rightarrow> ResultSetState \<Rightarrow> bool" where
  "result_step a b \<longleftrightarrow> (\<exists>g. ResultSetState_CanTransitionTo a b g)"

lemmas plan_table = plan_step_def PlanState_CanTransitionTo_def terminalPlanState_def
lemmas attempt_table = attempt_step_def AttemptState_CanTransitionTo_def activeAttemptState_def
lemmas result_table = result_step_def ResultSetState_CanTransitionTo_def

fun plan_rank :: "PlanState \<Rightarrow> nat" where
  "plan_rank PlanStateDraft = 4"
| "plan_rank PlanStatePreflightReady = 3"
| "plan_rank PlanStateAuthorized = 2"
| "plan_rank PlanStateExecuted = 1"
| "plan_rank _ = 0"

fun job_rank :: "JobState \<Rightarrow> nat" where
  "job_rank JobStateQueued = 4"
| "job_rank JobStateRunning = 3"
| "job_rank JobStateVerifying = 2"
| "job_rank JobStateCancelRequested = 1"
| "job_rank _ = 0"

fun attempt_rank :: "AttemptState \<Rightarrow> nat" where
  "attempt_rank AttemptStateClaimed = 2"
| "attempt_rank AttemptStateRunning = 1"
| "attempt_rank _ = 0"

fun workspace_rank :: "WorkspacePhase \<Rightarrow> nat" where
  "workspace_rank WorkspacePhaseNone = 6"
| "workspace_rank WorkspacePhaseReserved = 5"
| "workspace_rank WorkspacePhaseMarkerCreated = 4"
| "workspace_rank WorkspacePhaseWriting = 3"
| "workspace_rank WorkspacePhaseSealed = 2"
| "workspace_rank WorkspacePhaseCleanupDue = 1"
| "workspace_rank _ = 0"

interpretation plan: ranked_machine plan_step terminalPlanState plan_rank
proof
  fix a b assume "terminalPlanState a" and "plan_step a b"
  then show "b = a" by (cases a) (auto simp: plan_table split: if_splits)
next
  fix a b assume "plan_step a b" and "a \<noteq> b"
  then show "plan_rank b < plan_rank a" by (cases a) (auto simp: plan_table split: if_splits)
qed

interpretation plan_executed: gated_machine plan_step "\<lambda>s. s = PlanStateExecuted" "\<lambda>s. s = PlanStateAuthorized"
proof
  fix a b assume "plan_step a b" and "b = PlanStateExecuted" and "a \<noteq> PlanStateExecuted"
  then show "a = PlanStateAuthorized" by (cases a) (auto simp: plan_table split: if_splits)
qed

interpretation plan_authorized: gated_machine plan_step
  "\<lambda>s. s = PlanStateAuthorized" "\<lambda>s. s = PlanStatePreflightReady"
proof
  fix a b assume "plan_step a b" and "b = PlanStateAuthorized" and "a \<noteq> PlanStateAuthorized"
  then show "a = PlanStatePreflightReady" by (cases a) (auto simp: plan_table split: if_splits)
qed

interpretation job: ranked_machine JobState_CanTransitionTo terminalJobState job_rank
proof
  fix a b assume "terminalJobState a" and "JobState_CanTransitionTo a b"
  then show "b = a"
    by (cases a) (auto simp: JobState_CanTransitionTo_def terminalJobState_def split: if_splits)
next
  fix a b assume "JobState_CanTransitionTo a b" and "a \<noteq> b"
  then show "job_rank b < job_rank a"
    by (cases a) (auto simp: JobState_CanTransitionTo_def split: if_splits)
qed

interpretation job_verified: gated_machine JobState_CanTransitionTo
  "\<lambda>s. s = JobStateSucceeded \<or> s = JobStateDegraded" "\<lambda>s. s = JobStateVerifying"
proof
  fix a b
  assume "JobState_CanTransitionTo a b" and "b = JobStateSucceeded \<or> b = JobStateDegraded"
    and "\<not> (a = JobStateSucceeded \<or> a = JobStateDegraded)"
  then show "a = JobStateVerifying"
    by (cases a) (auto simp: JobState_CanTransitionTo_def split: if_splits)
qed

interpretation attempt: ranked_machine attempt_step "\<lambda>s. \<not> activeAttemptState s" attempt_rank
proof
  fix a b assume "\<not> activeAttemptState a" and "attempt_step a b"
  then show "b = a" by (cases a) (auto simp: attempt_table split: if_splits)
next
  fix a b assume "attempt_step a b" and "a \<noteq> b"
  then show "attempt_rank b < attempt_rank a" by (cases a) (auto simp: attempt_table split: if_splits)
qed

interpretation result_set: terminal_machine result_step "\<lambda>s. s = ResultSetStateCleaned"
proof
  fix a b assume "a = ResultSetStateCleaned" and "result_step a b"
  then show "b = a" by (auto simp: result_table split: if_splits)
qed

interpretation result_revoked: gated_machine result_step
  "\<lambda>s. s = ResultSetStateCleaned \<or> s = ResultSetStateCleanupFailed" "\<lambda>s. s = ResultSetStateRevoking"
proof
  fix a b
  assume "result_step a b" and "b = ResultSetStateCleaned \<or> b = ResultSetStateCleanupFailed"
    and "\<not> (a = ResultSetStateCleaned \<or> a = ResultSetStateCleanupFailed)"
  then show "a = ResultSetStateRevoking" by (cases a) (auto simp: result_table split: if_splits)
qed

interpretation workspace: ranked_machine WorkspacePhase_CanTransitionTo
  "\<lambda>p. p = WorkspacePhasePublished \<or> p = WorkspacePhaseCleaned" workspace_rank
proof
  fix a b
  assume "a = WorkspacePhasePublished \<or> a = WorkspacePhaseCleaned"
    and "WorkspacePhase_CanTransitionTo a b"
  then show "b = a" by (auto simp: WorkspacePhase_CanTransitionTo_def split: if_splits)
next
  fix a b assume "WorkspacePhase_CanTransitionTo a b" and "a \<noteq> b"
  then show "workspace_rank b < workspace_rank a"
    by (cases a) (auto simp: WorkspacePhase_CanTransitionTo_def split: if_splits)
qed

interpretation workspace_published: gated_machine WorkspacePhase_CanTransitionTo
  "\<lambda>p. p = WorkspacePhasePublished" "\<lambda>p. p = WorkspacePhaseSealed"
proof
  fix a b
  assume "WorkspacePhase_CanTransitionTo a b" and "b = WorkspacePhasePublished"
    and "a \<noteq> WorkspacePhasePublished"
  then show "a = WorkspacePhaseSealed"
    by (cases a) (auto simp: WorkspacePhase_CanTransitionTo_def split: if_splits)
qed

section \<open>Checkpoint logs\<close>

text \<open>
  A checkpoint log in the order it was written: the first entry passed \<open>CanStartCheckpoint\<close>, each
  later one passed \<open>CanAppend\<close> at the cursor of the entry before, and the cursor takes the sequence
  number of the guard.
\<close>

inductive checkpoint_log :: "TargetMode \<Rightarrow> CheckpointPhase list \<Rightarrow> CheckpointCursor \<Rightarrow> bool" for mode where
  first_entry: "CanStartCheckpoint p mode g \<Longrightarrow>
    checkpoint_log mode [p] \<lparr>Sequence = NextSequence g, Phase = p\<rparr>"
| next_entry: "checkpoint_log mode ps c \<Longrightarrow> CanAppend c p g \<Longrightarrow>
    checkpoint_log mode (ps @ [p]) \<lparr>Sequence = NextSequence g, Phase = p\<rparr>"

inductive_cases checkpoint_log_single: "checkpoint_log mode [p] c"

definition phase_follows :: "CheckpointPhase \<Rightarrow> CheckpointPhase \<Rightarrow> bool" where
  "phase_follows p q \<longleftrightarrow> (\<exists>c g. Phase c = p \<and> CanAppend c q g)"

lemma checkpoint_log_nonempty: "checkpoint_log mode ps c \<Longrightarrow> ps \<noteq> []"
  by (induction rule: checkpoint_log.induct) auto

lemma checkpoint_log_last: "checkpoint_log mode ps c \<Longrightarrow> Phase c = last ps"
  by (induction rule: checkpoint_log.induct) auto

lemma checkpoint_log_follows: "checkpoint_log mode ps c \<Longrightarrow> successively phase_follows ps"
proof (induction rule: checkpoint_log.induct)
  case (next_entry ps c p g)
  have "phase_follows (last ps) p"
    using next_entry.hyps(2) checkpoint_log_last [OF next_entry.hyps(1)]
    unfolding phase_follows_def by blast
  with next_entry show ?case by (auto simp: successively_append_iff)
qed auto

lemma checkpoint_log_hd: "checkpoint_log mode ps c \<Longrightarrow> \<exists>g. CanStartCheckpoint (hd ps) mode g"
proof (induction rule: checkpoint_log.induct)
  case (next_entry ps c p g)
  then show ?case using checkpoint_log_nonempty by auto
qed auto

lemma checkpoint_log_sequence:
  "checkpoint_log mode ps c \<Longrightarrow> int (length ps) \<le> MaxInt64 \<Longrightarrow> Sequence c = int (length ps) - 1"
proof (induction rule: checkpoint_log.induct)
  case (first_entry p g)
  then show ?case by (auto simp: CanStartCheckpoint_def split: if_splits)
next
  case (next_entry ps c p g)
  then have "Sequence c = int (length ps) - 1" by simp
  moreover have "NextSequence g = wrap64 (Sequence c + 1)"
    using next_entry.hyps(2) by (auto simp: CanAppend_def split: if_splits)
  ultimately show ?case using next_entry.prems by (simp add: in_i64_nonneg)
qed

lemma phase_follows_facts:
  assumes "phase_follows p q"
  shows "q = CheckpointPhaseDeleteAuthorityConsumed \<longleftrightarrow> p = CheckpointPhaseDeleteAuthorityRequired"
    and "p \<notin> {CheckpointPhaseOperationUnresolved, CheckpointPhaseVerification}"
    and "q \<noteq> CheckpointPhaseWorkspaceReserved"
  using assms by (auto simp: phase_follows_def CanAppend_def split: if_splits CheckpointPhase.splits)

section \<open>Cleanup histories\<close>

fun cleanup_rest :: "CleanupPhase \<Rightarrow> CleanupPhase list" where
  "cleanup_rest CleanupPhaseClaimed =
     [CleanupPhaseRevoked, CleanupPhaseDrained, CleanupPhaseValidated, CleanupPhaseDeleteStarted,
      CleanupPhaseDeleted, CleanupPhaseTombstoned]"
| "cleanup_rest CleanupPhaseRevoked =
     [CleanupPhaseDrained, CleanupPhaseValidated, CleanupPhaseDeleteStarted, CleanupPhaseDeleted,
      CleanupPhaseTombstoned]"
| "cleanup_rest CleanupPhaseDrained =
     [CleanupPhaseValidated, CleanupPhaseDeleteStarted, CleanupPhaseDeleted, CleanupPhaseTombstoned]"
| "cleanup_rest CleanupPhaseValidated =
     [CleanupPhaseDeleteStarted, CleanupPhaseDeleted, CleanupPhaseTombstoned]"
| "cleanup_rest CleanupPhaseDeleteStarted = [CleanupPhaseDeleted, CleanupPhaseTombstoned]"
| "cleanup_rest CleanupPhaseDeleted = [CleanupPhaseTombstoned]"
| "cleanup_rest _ = []"

lemma cleanup_step_rest: "CleanupPhase_CanTransitionTo p q \<Longrightarrow> cleanup_rest p = q # cleanup_rest q"
  by (cases p) (auto simp: CleanupPhase_CanTransitionTo_def split: if_splits)

lemma cleanup_history:
  "successively CleanupPhase_CanTransitionTo (p # h) \<Longrightarrow> prefix h (cleanup_rest p)"
  by (induction h arbitrary: p) (auto dest: cleanup_step_rest)

section \<open>Properties\<close>

text \<open>
  C25. In every checkpoint log the entries are numbered 0, 1, 2, ... without gaps; a delete authority
  is consumed exactly in the entry after the one that required it, so no delete runs unauthorised;
  nothing follows an unresolved operation or the verification; and a workspace is reserved only
  as the first entry, and there exactly for an isolated target.
\<close>

theorem checkpoint_log_disciplined:
  assumes "checkpoint_log mode ps c" and "int (length ps) \<le> MaxInt64"
  shows "Sequence c = int (length ps) - 1
    \<and> (\<forall>i < length ps. ps ! i = CheckpointPhaseDeleteAuthorityConsumed \<longrightarrow>
          0 < i \<and> ps ! (i - 1) = CheckpointPhaseDeleteAuthorityRequired)
    \<and> (\<forall>i. Suc i < length ps \<longrightarrow>
          ps ! i \<notin> {CheckpointPhaseOperationUnresolved, CheckpointPhaseVerification})
    \<and> (\<forall>i < length ps. ps ! i = CheckpointPhaseWorkspaceReserved \<longleftrightarrow> i = 0 \<and> mode = TargetModeIsolated)"
proof -
  have next_to: "phase_follows (ps ! i) (ps ! Suc i)" if "Suc i < length ps" for i
    using checkpoint_log_follows [OF assms(1)] that by (auto simp: successively_conv_nth)
  obtain g where "CanStartCheckpoint (hd ps) mode g"
    using checkpoint_log_hd [OF assms(1)] by blast
  moreover have "hd ps = ps ! 0" using checkpoint_log_nonempty [OF assms(1)] by (simp add: hd_conv_nth)
  ultimately have start: "ps ! 0 \<noteq> CheckpointPhaseDeleteAuthorityConsumed"
    "ps ! 0 = CheckpointPhaseWorkspaceReserved \<longleftrightarrow> mode = TargetModeIsolated"
    by (auto simp: CanStartCheckpoint_def split: if_splits TargetMode.splits)
  have consumed: "0 < i \<and> ps ! (i - 1) = CheckpointPhaseDeleteAuthorityRequired"
    if "i < length ps" "ps ! i = CheckpointPhaseDeleteAuthorityConsumed" for i
    using that start(1) next_to [of "i - 1"] phase_follows_facts(1) by (cases i) auto
  have reserved: "ps ! i = CheckpointPhaseWorkspaceReserved \<longleftrightarrow> i = 0 \<and> mode = TargetModeIsolated"
    if "i < length ps" for i
    using that start(2) next_to [of "i - 1"] phase_follows_facts(3) by (cases i) auto
  show ?thesis
    using checkpoint_log_sequence [OF assms] consumed reserved next_to phase_follows_facts(2) by blast
qed

theorem checkpoint_log_disciplined_witness:
  "\<exists>c. checkpoint_log TargetModeIsolated [CheckpointPhaseWorkspaceReserved, CheckpointPhaseOperation] c
     \<and> Sequence c = 1"
proof -
  let ?g = "\<lambda>n. \<lparr>SameAttempt = True, SameAttemptFence = True, SameNodeFence = True,
    MutationArmed = True, ExactMirror = False, NextSequence = n\<rparr>"
  have a: "checkpoint_log TargetModeIsolated [CheckpointPhaseWorkspaceReserved]
      \<lparr>Sequence = 0, Phase = CheckpointPhaseWorkspaceReserved\<rparr>"
    using first_entry [of CheckpointPhaseWorkspaceReserved TargetModeIsolated "?g 0"]
    by (simp add: CanStartCheckpoint_def guard_current_def)
  have "checkpoint_log TargetModeIsolated ([CheckpointPhaseWorkspaceReserved] @ [CheckpointPhaseOperation])
      \<lparr>Sequence = 1, Phase = CheckpointPhaseOperation\<rparr>"
    using next_entry [OF a, of CheckpointPhaseOperation "?g 1"]
    by (simp add: CanAppend_def guard_current_def wrap64_def)
  with checkpoint_log_disciplined [OF this] show ?thesis by (auto simp: MaxInt64_def)
qed



text \<open>
  A recovery job ends after at most four changes of state, its terminal states are final, and it
  is reported succeeded or degraded only out of the verifying state. A terminal job admits no active
  attempt.
\<close>

theorem job_ends_verified:
  assumes "JobState_CanTransitionTo\<^sup>*\<^sup>* JobStateQueued t"
  shows "(t \<in> {JobStateSucceeded, JobStateDegraded} \<longrightarrow>
            JobState_CanTransitionTo\<^sup>*\<^sup>* JobStateQueued JobStateVerifying)
    \<and> (terminalJobState t \<longrightarrow> (\<forall>u. JobState_CanTransitionTo\<^sup>*\<^sup>* t u \<longrightarrow> u = t)
         \<and> (\<forall>a. activeAttemptState a \<longrightarrow> \<not> AllowsAttemptState t a))
    \<and> (\<forall>h. successively (\<lambda>a b. JobState_CanTransitionTo a b \<and> a \<noteq> b) (JobStateQueued # h) \<longrightarrow> length h \<le> 4)"
  using job_verified.passes_gate [OF assms] job.terminal_final [of t] job.history_bounded [of JobStateQueued]
  by (auto simp: AllowsAttemptState_def)

theorem job_ends_verified_witness:
  "JobState_CanTransitionTo\<^sup>*\<^sup>* JobStateQueued JobStateSucceeded
   \<and> JobState_CanTransitionTo\<^sup>*\<^sup>* JobStateQueued JobStateVerifying"
proof -
  have "JobState_CanTransitionTo\<^sup>*\<^sup>* JobStateQueued JobStateSucceeded"
    using history_reaches [of JobState_CanTransitionTo JobStateQueued
      "[JobStateRunning, JobStateVerifying, JobStateSucceeded]"]
    by (simp add: JobState_CanTransitionTo_def)
  then show ?thesis using job_ends_verified by blast
qed

text \<open>
  The cleanup of a recovery result runs its phases in one order only: a history from the claim
  is a prefix of revoked, drained, validated, delete started, deleted, tombstoned. In particular
  nothing is deleted before it was revoked, drained and validated.
\<close>

theorem cleanup_phases_in_order:
  assumes "successively CleanupPhase_CanTransitionTo (CleanupPhaseClaimed # h)"
  shows "prefix h [CleanupPhaseRevoked, CleanupPhaseDrained, CleanupPhaseValidated,
    CleanupPhaseDeleteStarted, CleanupPhaseDeleted, CleanupPhaseTombstoned]"
  using cleanup_history [OF assms] by simp

theorem cleanup_phases_in_order_witness:
  "prefix [CleanupPhaseRevoked, CleanupPhaseDrained] [CleanupPhaseRevoked, CleanupPhaseDrained,
    CleanupPhaseValidated, CleanupPhaseDeleteStarted, CleanupPhaseDeleted, CleanupPhaseTombstoned]"
  using cleanup_phases_in_order [of "[CleanupPhaseRevoked, CleanupPhaseDrained]"]
  by (simp add: CleanupPhase_CanTransitionTo_def)

text \<open>
  A workspace is published only after it was sealed, a published or cleaned workspace never
  changes again, and it reaches one of the two after at most six steps.
\<close>

theorem workspace_published_sealed:
  assumes "WorkspacePhase_CanTransitionTo\<^sup>*\<^sup>* WorkspacePhaseNone WorkspacePhasePublished"
  shows "WorkspacePhase_CanTransitionTo\<^sup>*\<^sup>* WorkspacePhaseNone WorkspacePhaseSealed
    \<and> (\<forall>q. WorkspacePhase_CanTransitionTo\<^sup>*\<^sup>* WorkspacePhasePublished q \<longrightarrow> q = WorkspacePhasePublished)
    \<and> (\<forall>h. successively (\<lambda>a b. WorkspacePhase_CanTransitionTo a b \<and> a \<noteq> b) (WorkspacePhaseNone # h) \<longrightarrow>
         length h \<le> 6)"
  using workspace_published.passes_gate [OF assms] workspace.terminal_final
    workspace.history_bounded [of WorkspacePhaseNone] by auto

theorem workspace_published_sealed_witness:
  "WorkspacePhase_CanTransitionTo\<^sup>*\<^sup>* WorkspacePhaseNone WorkspacePhasePublished
   \<and> WorkspacePhase_CanTransitionTo\<^sup>*\<^sup>* WorkspacePhaseNone WorkspacePhaseSealed"
proof -
  have "WorkspacePhase_CanTransitionTo\<^sup>*\<^sup>* WorkspacePhaseNone WorkspacePhasePublished"
    using history_reaches [of WorkspacePhase_CanTransitionTo WorkspacePhaseNone
      "[WorkspacePhaseReserved, WorkspacePhaseMarkerCreated, WorkspacePhaseWriting,
        WorkspacePhaseSealed, WorkspacePhasePublished]"]
    by (simp add: WorkspacePhase_CanTransitionTo_def)
  then show ?thesis using workspace_published_sealed by blast
qed

end
