(* ===== verification/Content_Range.thy ===== *)
theory Content_Range
  imports Prelude
begin

text \<open>
  Planning of an HTTP representation, \<open>backend/internal/backupasset/content/range.go\<close>: parsing of a
  single byte range, the \<open>If-Range\<close> test and the plan (status, range, headers) a content request
  gets. The HTTP dates of \<open>net/http\<close> are the argument \<open>HttpDates\<close>: the parser \<open>http.ParseTime\<close>,
  which fails or gives an instant, and the formatter for \<open>http.TimeFormat\<close>. Go's loops over the runes
  of a header compare with ASCII bounds only, so they are written over the bytes: a byte above 127
  belongs to a rune above 127 or to an invalid sequence (\<open>U+FFFD\<close>), and both fall in the same
  branch as the byte. Sizes and offsets are \<open>int64\<close> values that are not negative, and every sum and
  difference below lies between 0 and the size, so none wraps.
\<close>

section \<open>Types\<close>

datatype HTTPRangeKind =
    HTTPRangeUnset | HTTPRangeFull | HTTPRangeNormal | HTTPRangeOpenEnded | HTTPRangeSuffix

datatype RequestFailureCode =
    RequestFailureInvalidRange | RequestFailureRangeNotAllowed | RequestFailureIfRangeFullForbidden
  | RequestFailureRequestTooLarge | RequestFailureBudgetExhausted | RequestFailureClientCanceled
  | RequestFailureWriteFailed | RequestFailureSourceFailed | RequestFailureReconciledCrash
  | RequestFailureInternal | RequestFailureOther string

record HTTPRange =
  Kind :: HTTPRangeKind
  Start :: "int option"
  EndExclusive :: "int option"
  SuffixLength :: "int option"
  Offset :: int
  Length :: int

definition empty_range :: HTTPRange where
  "empty_range = \<lparr>Kind = HTTPRangeUnset, Start = None, EndExclusive = None, SuffixLength = None,
     Offset = 0, Length = 0\<rparr>"

datatype RangePolicy = RangeNone | RangeSingle | RangePolicyOther string

datatype http_method = MethodGet | MethodHead | MethodOther string

record RepresentationRequest =
  Method :: http_method
  RangeHeaders :: "string list"
  IfRangeHeaders :: "string list"
  Size :: int
  ETag :: string
  LastModified :: "time option"
  RangePolicyOf :: RangePolicy
  Seekable :: bool
  FullAllowed :: bool
  MaxResponseBytes :: int

record RepresentationPlan =
  Status :: int
  Range :: HTTPRange
  ContentLength :: int
  ContentRange :: string
  AcceptRanges :: string
  PlanETag :: string
  PlanLastModified :: string
  WriteBody :: bool
  FailureCode :: "RequestFailureCode option"

record HttpDates =
  ParseTime :: "string \<Rightarrow> time option"
  FormatTime :: "time \<Rightarrow> string"

datatype representation_error = ErrInvalidRepresentationRequest

section \<open>Parsing a range\<close>

definition parseRangeInteger :: "string \<Rightarrow> int option" where
  "parseRangeInteger value =
     (if value = [] then None
      else if \<not> list_all is_digit value then None
      else if digits_value 0 value \<le> MaxInt64 then Some (digits_value 0 value) else None)"

definition parseSingleRange :: "string list \<Rightarrow> int \<Rightarrow> HTTPRange option" where
  "parseSingleRange headers sz =
     (case headers of
        [value] \<Rightarrow>
          if sz = 0 then None
          else if \<not> HasPrefix value ''bytes='' \<or> ContainsAny value [CHR '' '', CHR 0x09, CHR 0x0D, CHR 0x0A]
          then None
          else
            let spec = TrimPrefix value ''bytes='' in
            if spec = [] \<or> Contains spec '','' \<or> count_list spec (CHR ''-'') \<noteq> 1 then None
            else if HasPrefix spec ''-'' then
              (case parseRangeInteger (TrimPrefix spec ''-'') of
                 None \<Rightarrow> None
               | Some suffix \<Rightarrow>
                   if suffix \<le> 0 then None
                   else
                     let len = min suffix sz in
                     Some \<lparr>Kind = HTTPRangeSuffix, Start = None, EndExclusive = None,
                           SuffixLength = Some suffix, Offset = sz - len, Length = len\<rparr>)
            else
              let part0 = takeWhile (\<lambda>c. c \<noteq> CHR ''-'') spec;
                  part1 = drop (Suc (length part0)) spec in
              (case parseRangeInteger part0 of
                 None \<Rightarrow> None
               | Some start \<Rightarrow>
                   if start \<ge> sz then None
                   else if part1 = [] then
                     Some \<lparr>Kind = HTTPRangeOpenEnded, Start = Some start, EndExclusive = None,
                           SuffixLength = None, Offset = start, Length = sz - start\<rparr>
                   else
                     (case parseRangeInteger part1 of
                        None \<Rightarrow> None
                      | Some stop \<Rightarrow>
                          if stop < start then None
                          else
                            let endExclusive = (if stop < sz - 1 then stop + 1 else sz) in
                            Some \<lparr>Kind = HTTPRangeNormal, Start = Some start,
                                  EndExclusive = Some endExclusive, SuffixLength = None,
                                  Offset = start, Length = endExclusive - start\<rparr>))
      | _ \<Rightarrow> None)"

section \<open>Validators\<close>

definition validEntityTag :: "string \<Rightarrow> bool" where
  "validEntityTag value =
     (let opaque = TrimPrefix value ''W/'' in
      if length opaque < 2 \<or> hd opaque \<noteq> CHR 0x22 \<or> last opaque \<noteq> CHR 0x22 then False
      else list_all (\<lambda>c. \<not> (c = CHR 0x22 \<or> (of_char c :: nat) < 0x21 \<or> (of_char c :: nat) = 0x7f))
             (butlast (tl opaque)))"

definition isStrongEntityTag :: "string \<Rightarrow> bool" where
  "isStrongEntityTag value \<longleftrightarrow> validEntityTag value \<and> \<not> HasPrefix value ''W/''"

definition truncate_second :: "time \<Rightarrow> time" where
  "truncate_second t = t - t mod Second"

definition ifRangeMatches :: "HttpDates \<Rightarrow> RepresentationRequest \<Rightarrow> bool" where
  "ifRangeMatches dates request =
     (case IfRangeHeaders request of
        [header] \<Rightarrow>
          let validator = TrimSpace header in
          if validEntityTag validator
          then isStrongEntityTag validator \<and> isStrongEntityTag (ETag request) \<and> validator = ETag request
          else (case (ParseTime dates validator, LastModified request) of
                  (Some date, Some modified) \<Rightarrow> \<not> truncate_second modified > date
                | _ \<Rightarrow> False)
      | _ \<Rightarrow> False)"

definition acceptRanges :: "RepresentationRequest \<Rightarrow> string" where
  "acceptRanges request =
     (if RangePolicyOf request = RangeSingle \<and> Seekable request then ''bytes'' else ''none'')"

definition formatLastModified :: "HttpDates \<Rightarrow> time option \<Rightarrow> string" where
  "formatLastModified dates value =
     (case value of None \<Rightarrow> [] | Some t \<Rightarrow> FormatTime dates (truncate_second t))"

section \<open>Plans\<close>

definition validRepresentationRequest :: "RepresentationRequest \<Rightarrow> bool" where
  "validRepresentationRequest request \<longleftrightarrow>
     (Method request = MethodGet \<or> Method request = MethodHead)
     \<and> Size request \<ge> 0 \<and> validEntityTag (ETag request) \<and> MaxResponseBytes request > 0
     \<and> (RangePolicyOf request = RangeNone \<or> RangePolicyOf request = RangeSingle)"

definition planFullRepresentation ::
  "RepresentationRequest \<Rightarrow> RepresentationPlan \<Rightarrow> bool \<Rightarrow> RepresentationPlan" where
  "planFullRepresentation request plan ifRangeFallback =
     (if \<not> FullAllowed request \<or> Size request > MaxResponseBytes request
      then (if ifRangeFallback
            then plan\<lparr>Status := 412, FailureCode := Some RequestFailureIfRangeFullForbidden\<rparr>
            else plan\<lparr>Status := 413, FailureCode := Some RequestFailureRequestTooLarge\<rparr>)
      else plan\<lparr>Status := 200,
                Range := empty_range\<lparr>Kind := HTTPRangeFull, Length := Size request\<rparr>,
                ContentLength := Size request,
                WriteBody := (Method request = MethodGet)\<rparr>)"

definition planRangeFailure ::
  "RepresentationRequest \<Rightarrow> RepresentationPlan \<Rightarrow> RequestFailureCode \<Rightarrow> RepresentationPlan" where
  "planRangeFailure request plan failure =
     plan\<lparr>Status := 416, ContentRange := ''bytes */'' @ FormatInt (Size request),
          FailureCode := Some failure\<rparr>"

definition base_plan :: "HttpDates \<Rightarrow> RepresentationRequest \<Rightarrow> RepresentationPlan" where
  "base_plan dates request =
     \<lparr>Status = 0, Range = empty_range, ContentLength = 0, ContentRange = [],
      AcceptRanges = acceptRanges request, PlanETag = ETag request,
      PlanLastModified = formatLastModified dates (LastModified request),
      WriteBody = False, FailureCode = None\<rparr>"

definition PlanRepresentation ::
  "HttpDates \<Rightarrow> RepresentationRequest \<Rightarrow> (representation_error, RepresentationPlan) result" where
  "PlanRepresentation dates request =
     (if \<not> validRepresentationRequest request then Inl ErrInvalidRepresentationRequest
      else
        let base = base_plan dates request in
        if RangeHeaders request = [] then Inr (planFullRepresentation request base False)
        else
          (case parseSingleRange (RangeHeaders request) (Size request) of
             None \<Rightarrow> Inr (planRangeFailure request base RequestFailureInvalidRange)
           | Some selected \<Rightarrow>
               if RangePolicyOf request \<noteq> RangeSingle \<or> \<not> Seekable request
               then Inr (planRangeFailure request base RequestFailureRangeNotAllowed)
               else if IfRangeHeaders request \<noteq> [] \<and> \<not> ifRangeMatches dates request
               then Inr (planFullRepresentation request base True)
               else if Length selected > MaxResponseBytes request
               then Inr (base\<lparr>Status := 413, FailureCode := Some RequestFailureRequestTooLarge\<rparr>)
               else Inr (base\<lparr>Status := 206, Range := selected, ContentLength := Length selected,
                     ContentRange := ''bytes '' @ FormatInt (Offset selected) @ ''-''
                       @ FormatInt (Offset selected + Length selected - 1) @ ''/''
                       @ FormatInt (Size request),
                     WriteBody := (Method request = MethodGet)\<rparr>)))"

section \<open>Facts on the parser\<close>

lemma parseRangeInteger_range: "parseRangeInteger v = Some n \<Longrightarrow> 0 \<le> n \<and> n \<le> MaxInt64"
  by (auto simp: parseRangeInteger_def digits_value_nonneg split: if_splits)

lemma FormatInt_nonneg: "0 \<le> n \<Longrightarrow> FormatInt n = format_nat (nat n)"
  by (simp add: FormatInt_def)

lemma parse_format: "0 \<le> n \<Longrightarrow> n \<le> MaxInt64 \<Longrightarrow> parseRangeInteger (FormatInt n) = Some n"
  by (simp add: parseRangeInteger_def FormatInt_nonneg format_nat_digits digits_value_format_nat)

text \<open>Decimal digits contain none of the separators of a range header.\<close>

lemma digits_free:
  assumes "list_all is_digit s" and "\<not> is_digit c"
  shows "c \<notin> set s"
  using assms by (auto simp: list_all_iff)

lemma not_digit_separators:
  "\<not> is_digit (CHR ''-'')" "\<not> is_digit (CHR '','')" "\<not> is_digit (CHR '' '')"
  "\<not> is_digit (CHR 0x09)" "\<not> is_digit (CHR 0x0D)" "\<not> is_digit (CHR 0x0A)"
  by (simp_all add: is_digit_def)

lemma Contains_single: "Contains s [c] \<longleftrightarrow> c \<in> set s"
  by (induction s) (auto simp: HasPrefix_def)

lemma selected_within:
  assumes "parseSingleRange headers sz = Some r" and "0 \<le> sz"
  shows "0 \<le> Offset r \<and> 0 < Length r \<and> Offset r + Length r \<le> sz"
  using assms parseRangeInteger_range
  by (auto simp: parseSingleRange_def Let_def
      split: list.splits if_splits option.splits dest: parseRangeInteger_range)

text \<open>A header \<open>bytes=<spec>\<close> with one dash and no blank or comma is taken apart as written.\<close>

lemma HasPrefix_cons: "HasPrefix (c # s) [d] \<longleftrightarrow> c = d"
  by (auto simp: HasPrefix_def)

lemma format_nat_head: "\<not> HasPrefix (format_nat n @ s) ''-''"
proof -
  obtain c cs where f: "format_nat n = c # cs" by (cases "format_nat n") auto
  have "is_digit c" using format_nat_digits [of n] by (simp add: f)
  then show ?thesis using not_digit_separators by (auto simp: f HasPrefix_def)
qed

lemma takeWhile_format: "takeWhile (\<lambda>c. c \<noteq> CHR ''-'') (format_nat n @ CHR ''-'' # s) = format_nat n"
  using digits_free [OF format_nat_digits not_digit_separators(1)]
  by (subst takeWhile_append2) auto

lemmas format_nat_free = digits_free [OF format_nat_digits]

lemma range_header_shape:
  assumes "set s \<inter> {CHR ''-'', CHR '','', CHR '' '', CHR 0x09, CHR 0x0D, CHR 0x0A} = {}"
  shows "HasPrefix (''bytes='' @ format_nat n @ ''-'' @ s) ''bytes=''"
    and "\<not> ContainsAny (''bytes='' @ format_nat n @ ''-'' @ s) [CHR '' '', CHR 0x09, CHR 0x0D, CHR 0x0A]"
    and "\<not> Contains (format_nat n @ ''-'' @ s) '',''"
    and "count_list (format_nat n @ ''-'' @ s) (CHR ''-'') = 1"
proof -
  show "HasPrefix (''bytes='' @ format_nat n @ ''-'' @ s) ''bytes=''" by (rule HasPrefix_append)
  show "\<not> ContainsAny (''bytes='' @ format_nat n @ ''-'' @ s) [CHR '' '', CHR 0x09, CHR 0x0D, CHR 0x0A]"
    using assms format_nat_free not_digit_separators
    by (auto simp: ContainsAny_def list_ex_iff)
  show "\<not> Contains (format_nat n @ ''-'' @ s) '',''"
    using assms format_nat_free not_digit_separators by (auto simp: Contains_single)
  show "count_list (format_nat n @ ''-'' @ s) (CHR ''-'') = 1"
    using assms format_nat_free [OF not_digit_separators(1)]
    by (auto simp: count_list_0_iff)
qed

lemma parse_range_unfold:
  assumes "sz \<noteq> 0" and "set s \<inter> {CHR ''-'', CHR '','', CHR '' '', CHR 0x09, CHR 0x0D, CHR 0x0A} = {}"
    and "0 \<le> a" and "a \<le> MaxInt64"
  shows "parseSingleRange [''bytes='' @ FormatInt a @ ''-'' @ s] sz =
    (if a \<ge> sz then None
     else if s = [] then
       Some \<lparr>Kind = HTTPRangeOpenEnded, Start = Some a, EndExclusive = None, SuffixLength = None,
             Offset = a, Length = sz - a\<rparr>
     else case parseRangeInteger s of
       None \<Rightarrow> None
     | Some b \<Rightarrow> if b < a then None else
         let e = (if b < sz - 1 then b + 1 else sz) in
         Some \<lparr>Kind = HTTPRangeNormal, Start = Some a, EndExclusive = Some e, SuffixLength = None,
               Offset = a, Length = e - a\<rparr>)"
proof -
  define spec where "spec = FormatInt a @ ''-'' @ s"
  define h where "h = ''bytes='' @ spec"
  have f: "FormatInt a = format_nat (nat a)" using assms(3) by (simp add: FormatInt_nonneg)
  have h: "HasPrefix h ''bytes=''" "\<not> ContainsAny h [CHR '' '', CHR 0x09, CHR 0x0D, CHR 0x0A]"
    "\<not> Contains spec '',''" "count_list spec (CHR ''-'') = 1"
    using range_header_shape [OF assms(2), of "nat a"] unfolding h_def spec_def f by blast+
  have t: "TrimPrefix h ''bytes='' = spec" unfolding h_def by (rule TrimPrefix_append)
  have p0: "takeWhile (\<lambda>c. c \<noteq> CHR ''-'') spec = FormatInt a"
    using takeWhile_format [of "nat a" s] by (simp add: spec_def f)
  have nd: "\<not> HasPrefix spec ''-''" "spec \<noteq> []"
    using format_nat_head [of "nat a" "''-'' @ s"] by (simp_all add: spec_def f)
  have p1: "drop (Suc (length (FormatInt a))) spec = s" by (simp add: spec_def)
  show ?thesis
    unfolding spec_def [symmetric] h_def [symmetric] parseSingleRange_def
    using assms(1) h nd parse_format [OF assms(3,4)] by (simp add: t p0 p1 Let_def)
qed

section \<open>Properties\<close>

text \<open>
  A representation plan never delivers more than the request allows: a plan with status 200 or
  206 has a content length equal to the length of its range and at most the response limit, and the
  range lies inside the representation; every other plan has a failure code, an empty content length
  and no body. A body is written for GET only.
\<close>

theorem plan_within_limits:
  assumes "PlanRepresentation dates request = Inr plan"
  shows "(Status plan \<in> {200, 206} \<longrightarrow>
      ContentLength plan = Length (Range plan) \<and> ContentLength plan \<le> MaxResponseBytes request
      \<and> 0 \<le> Offset (Range plan) \<and> 0 \<le> Length (Range plan)
      \<and> Offset (Range plan) + Length (Range plan) \<le> Size request \<and> FailureCode plan = None)
    \<and> (Status plan \<notin> {200, 206} \<longrightarrow> Status plan \<in> {412, 413, 416} \<and> ContentLength plan = 0
         \<and> \<not> WriteBody plan \<and> FailureCode plan \<noteq> None)
    \<and> (WriteBody plan \<longrightarrow> Method request = MethodGet)"
proof -
  have v: "validRepresentationRequest request"
    using assms by (auto simp: PlanRepresentation_def split: if_splits)
  then have sz: "0 \<le> Size request" by (simp add: validRepresentationRequest_def)
  show ?thesis
  proof (cases "RangeHeaders request = []")
    case True
    with assms v sz show ?thesis
      by (auto simp: PlanRepresentation_def planFullRepresentation_def base_plan_def empty_range_def
          Let_def split: if_splits)
  next
    case False
    show ?thesis
    proof (cases "parseSingleRange (RangeHeaders request) (Size request)")
      case None
      with assms v False show ?thesis
        by (auto simp: PlanRepresentation_def planRangeFailure_def base_plan_def Let_def)
    next
      case (Some selected)
      then have "0 \<le> Offset selected \<and> 0 < Length selected
          \<and> Offset selected + Length selected \<le> Size request"
        using sz by (rule selected_within)
      with assms v sz False Some show ?thesis
        by (auto simp: PlanRepresentation_def planRangeFailure_def planFullRepresentation_def
            base_plan_def empty_range_def Let_def split: if_splits)
    qed
  qed
qed

definition example_request :: RepresentationRequest where
  "example_request = \<lparr>Method = MethodGet, RangeHeaders = [''bytes=2-5''], IfRangeHeaders = [], Size = 10,
     ETag = [CHR 0x22, CHR ''v'', CHR 0x22], LastModified = None, RangePolicyOf = RangeSingle,
     Seekable = True, FullAllowed = True, MaxResponseBytes = 8\<rparr>"

definition example_dates :: HttpDates where
  "example_dates = \<lparr>ParseTime = (\<lambda>_. None), FormatTime = (\<lambda>_. [])\<rparr>"

lemma example_parse: "parseSingleRange [''bytes=2-5''] 10 =
    Some \<lparr>Kind = HTTPRangeNormal, Start = Some 2, EndExclusive = Some 6, SuffixLength = None,
      Offset = 2, Length = 4\<rparr>"
  by (simp add: parseSingleRange_def HasPrefix_def TrimPrefix_def ContainsAny_def Let_def
      parseRangeInteger_def is_digit_def digit_value_def MaxInt64_def)

theorem plan_within_limits_witness:
  "\<exists>plan. PlanRepresentation example_dates example_request = Inr plan
     \<and> Status plan = 206 \<and> ContentLength plan \<le> 8"
proof -
  obtain plan where p: "PlanRepresentation example_dates example_request = Inr plan"
    and s: "Status plan = 206"
    by (simp add: PlanRepresentation_def example_request_def validRepresentationRequest_def
        validEntityTag_def TrimPrefix_def HasPrefix_def example_parse base_plan_def Let_def)
  have "MaxResponseBytes example_request = 8" by (simp add: example_request_def)
  with p s plan_within_limits [OF p] show ?thesis by auto
qed



text \<open>
  With an \<open>If-Range\<close> header a partial response is planned only when the header is single and
  either equals the current strong entity tag or is a date not before the second of the last
  modification; otherwise the whole representation is planned, or the request is refused with 412 or
  416.
\<close>

theorem if_range_guards_partial:
  assumes "PlanRepresentation dates request = Inr plan" and "IfRangeHeaders request \<noteq> []"
    and "Status plan = 206"
  shows "\<exists>h. IfRangeHeaders request = [h]
    \<and> (TrimSpace h = ETag request \<and> isStrongEntityTag (ETag request)
       \<or> (\<exists>date modified. ParseTime dates (TrimSpace h) = Some date
            \<and> LastModified request = Some modified \<and> modified - modified mod Second \<le> date))"
proof -
  have "ifRangeMatches dates request"
    using assms by (auto simp: PlanRepresentation_def planFullRepresentation_def planRangeFailure_def
        base_plan_def Let_def split: if_splits option.splits)
  then show ?thesis
    by (auto simp: ifRangeMatches_def truncate_second_def Let_def
        split: list.splits if_splits option.splits)
qed

lemma example_trim: "TrimSpace [CHR 0x22, CHR ''v'', CHR 0x22] = [CHR 0x22, CHR ''v'', CHR 0x22]"
proof -
  have "cut_any space_seqs [CHR 0x22, CHR ''v'', CHR 0x22] = None"
    and "cut_any (map rev space_seqs) [CHR 0x22, CHR ''v'', CHR 0x22] = None"
    by code_simp+
  then show ?thesis by (simp add: TrimSpace_def trim_left_stop)
qed

theorem if_range_guards_partial_witness:
  "\<exists>plan. PlanRepresentation example_dates (example_request\<lparr>IfRangeHeaders := [[CHR 0x22, CHR ''v'', CHR 0x22]]\<rparr>)
       = Inr plan \<and> Status plan = 206 \<and> isStrongEntityTag [CHR 0x22, CHR ''v'', CHR 0x22]"
proof -
  let ?r = "example_request\<lparr>IfRangeHeaders := [[CHR 0x22, CHR ''v'', CHR 0x22]]\<rparr>"
  have t: "TrimSpace [CHR 0x22, CHR ''v'', CHR 0x22] = [CHR 0x22, CHR ''v'', CHR 0x22]"
    by (rule example_trim)
  obtain plan where p: "PlanRepresentation example_dates ?r = Inr plan" and s: "Status plan = 206"
    by (simp add: PlanRepresentation_def example_request_def validRepresentationRequest_def
        validEntityTag_def isStrongEntityTag_def ifRangeMatches_def t TrimPrefix_def HasPrefix_def
        example_parse base_plan_def Let_def)
  have "IfRangeHeaders ?r \<noteq> []" and "ETag ?r = [CHR 0x22, CHR ''v'', CHR 0x22]"
    and "ParseTime example_dates = (\<lambda>_. None)"
    by (simp_all add: example_request_def example_dates_def)
  with p s if_range_guards_partial [OF p] show ?thesis by auto
qed

end
