(* ===== verification/Tables.thy ===== *)
theory Tables
  imports Prelude
begin

text \<open>
  Database tables as the components use them. A table is the list of its rows. The statements of the
  code are translated into list operations: a keyed \<open>Take\<close> or \<open>Find\<close> with \<open>LIMIT 1\<close> is the first
  matching row, an \<open>UPDATE ... WHERE\<close> maps the matching rows and counts them, and the optimistic
  update of the code (\<open>WHERE key = ? AND version = ?\<close> with a test that one row was affected) is
  \<open>cas_update\<close>. A transaction whose body returns an error is rolled back; the bodies therefore return
  the new tables only together with success. Whether a statement fails in the database is never
  decided here: every component takes that as an argument.
\<close>

section \<open>Lookup\<close>

abbreviation take_row :: "('r \<Rightarrow> bool) \<Rightarrow> 'r list \<Rightarrow> 'r option" where
  "take_row p rows \<equiv> find p rows"

lemma take_row_Some: "take_row p rows = Some r \<Longrightarrow> r \<in> set rows \<and> p r"
  by (auto simp: find_Some_iff)

lemma take_row_None: "take_row p rows = None \<longleftrightarrow> (\<forall>r \<in> set rows. \<not> p r)"
  by (auto simp: find_None_iff)

lemma take_row_key:
  assumes "distinct (map key rows)" and "r \<in> set rows" and "key r = k"
  shows "take_row (\<lambda>x. key x = k) rows = Some r"
  using assms by (induction rows) auto

lemma take_row_key_iff:
  assumes "distinct (map key rows)"
  shows "take_row (\<lambda>x. key x = k) rows = Some r \<longleftrightarrow> r \<in> set rows \<and> key r = k"
proof
  assume "take_row (\<lambda>x. key x = k) rows = Some r"
  then show "r \<in> set rows \<and> key r = k" by (rule take_row_Some)
next
  assume "r \<in> set rows \<and> key r = k"
  then show "take_row (\<lambda>x. key x = k) rows = Some r" using assms by (auto intro: take_row_key)
qed

lemma key_unique:
  assumes "distinct (map key rows)" and "r \<in> set rows" and "s \<in> set rows" and "key r = key s"
  shows "r = s"
  using assms by (metis distinct_map inj_onD)

section \<open>Update\<close>

definition update_where :: "('r \<Rightarrow> bool) \<Rightarrow> ('r \<Rightarrow> 'r) \<Rightarrow> 'r list \<Rightarrow> 'r list" where
  "update_where p f rows = map (\<lambda>r. if p r then f r else r) rows"

definition rows_affected :: "('r \<Rightarrow> bool) \<Rightarrow> 'r list \<Rightarrow> nat" where
  "rows_affected p rows = length (filter p rows)"

definition cas_update ::
  "('r \<Rightarrow> 'k) \<Rightarrow> ('r \<Rightarrow> int) \<Rightarrow> ('r \<Rightarrow> 'r \<Rightarrow> 'r) \<Rightarrow> 'r \<Rightarrow> 'r list \<Rightarrow> 'r list option" where
  "cas_update key ver merge new rows =
     (let hit = (\<lambda>r. key r = key new \<and> ver r = wrap64 (ver new - 1))
      in if rows_affected hit rows = 1 then Some (update_where hit (\<lambda>r. merge r new) rows) else None)"

lemma update_where_keys:
  assumes "\<And>r. key (f r) = key r"
  shows "map key (update_where p f rows) = map key rows"
  using assms by (simp add: update_where_def)

lemma set_update_where: "set (update_where p f rows) = (\<lambda>r. if p r then f r else r) ` set rows"
  by (simp add: update_where_def)

lemma ball_update_where:
  "(\<forall>x \<in> set (update_where p f rows). Q x) \<longleftrightarrow> (\<forall>x \<in> set rows. Q (if p x then f x else x))"
  by (auto simp: update_where_def)

lemma update_where_cong:
  assumes "\<And>r. r \<in> set rows \<Longrightarrow> p r = q r" and "\<And>r. r \<in> set rows \<Longrightarrow> q r \<Longrightarrow> f r = g r"
  shows "update_where p f rows = update_where q g rows"
  using assms by (auto simp: update_where_def)

lemma filter_single:
  assumes "distinct (map key rows)" and "r \<in> set rows" and "\<And>x. x \<in> set rows \<Longrightarrow> p x \<longleftrightarrow> x = r"
  shows "filter p rows = [r]"
  using assms
proof (induction rows)
  case Nil
  then show ?case by simp
next
  case (Cons x rows)
  show ?case
  proof (cases "x = r")
    case True
    with Cons.prems have "\<forall>y \<in> set rows. \<not> p y" by auto
    with True Cons.prems show ?thesis by (simp add: filter_empty_conv)
  next
    case False
    with Cons show ?thesis by auto
  qed
qed

text \<open>The total of a weight over a table when one row is replaced, and when a row is added.\<close>

lemma sum_update_one:
  fixes h :: "'r \<Rightarrow> int"
  assumes "distinct (map key rows)" and "r \<in> set rows"
    and "\<And>x. x \<in> set rows \<Longrightarrow> p x \<longleftrightarrow> x = r"
  shows "(\<Sum>x \<leftarrow> update_where p f rows. h x) = (\<Sum>x \<leftarrow> rows. h x) - h r + h (f r)"
  using assms
proof (induction rows)
  case Nil
  then show ?case by simp
next
  case (Cons x rows)
  show ?case
  proof (cases "x = r")
    case True
    with Cons.prems have "\<forall>y \<in> set rows. \<not> p y" by auto
    then have "update_where p f rows = rows" by (simp add: update_where_def map_idI)
    moreover have "p x" using True Cons.prems by auto
    ultimately show ?thesis using True by (simp add: update_where_def)
  next
    case False
    then have "\<not> p x" and "r \<in> set rows" using Cons.prems by auto
    with Cons have "(\<Sum>x \<leftarrow> update_where p f rows. h x) = (\<Sum>x \<leftarrow> rows. h x) - h r + h (f r)"
      by simp
    with \<open>\<not> p x\<close> show ?thesis by (simp add: update_where_def)
  qed
qed

section \<open>Exclusive slots\<close>

text \<open>
  Tables in which a row is live or finished, at most one row of a slot is live, and a finished row never
  changes: leases per holder, policies per scope, holds per point and type.
\<close>

definition exclusive :: "('r \<Rightarrow> 'k) \<Rightarrow> ('r \<Rightarrow> 's) \<Rightarrow> ('r \<Rightarrow> bool) \<Rightarrow> 'r list \<Rightarrow> bool" where
  "exclusive key slot live rows \<longleftrightarrow> distinct (map key rows) \<and> distinct (map slot (filter live rows))"

definition rows_follow :: "('r \<Rightarrow> 'k) \<Rightarrow> ('r \<Rightarrow> 's) \<Rightarrow> ('r \<Rightarrow> bool) \<Rightarrow> 'r list \<Rightarrow> 'r list \<Rightarrow> bool" where
  "rows_follow key slot live rows rows' \<longleftrightarrow>
     (\<forall>r \<in> set rows. \<exists>r' \<in> set rows'. key r' = key r \<and> slot r' = slot r \<and> (live r \<or> r' = r))"

lemma rows_follow_refl: "rows_follow key slot live rows rows"
  by (auto simp: rows_follow_def)

lemma rows_follow_trans:
  "rows_follow key slot live a b \<Longrightarrow> rows_follow key slot live b c \<Longrightarrow> rows_follow key slot live a c"
  unfolding rows_follow_def by metis

lemma distinct_filter_map:
  assumes "distinct (map h (filter P xs))" and "\<And>x. x \<in> set xs \<Longrightarrow> P (g x) \<Longrightarrow> P x \<and> h (g x) = h x"
  shows "distinct (map h (filter P (map g xs)))"
  using assms
proof (induction xs)
  case (Cons x xs)
  have "h ` set (filter P (map g xs)) \<subseteq> h ` set (filter P xs)"
    using Cons.prems(2) by (force simp: image_iff)
  with Cons Cons.prems(2) [of x] show ?case by (auto split: if_splits)
qed simp

lemma exclusive_append:
  assumes "exclusive key slot live rows" and "key x \<notin> set (map key rows)"
    and "\<And>r. r \<in> set rows \<Longrightarrow> live r \<Longrightarrow> slot r \<noteq> slot x"
  shows "exclusive key slot live (rows @ [x]) \<and> rows_follow key slot live rows (rows @ [x])"
  using assms(1,2) assms(3) [symmetric] by (auto simp: exclusive_def rows_follow_def dest: assms(3))

lemma exclusive_update:
  assumes "exclusive key slot live rows"
    and "\<And>r. r \<in> set rows \<Longrightarrow> p r \<Longrightarrow> live r \<and> key (f r) = key r \<and> slot (f r) = slot r"
  shows "exclusive key slot live (update_where p f rows) \<and> rows_follow key slot live rows (update_where p f rows)"
proof
  let ?g = "\<lambda>r. if p r then f r else r"
  have "distinct (map slot (filter live (map ?g rows)))"
    using assms by (intro distinct_filter_map) (auto simp: exclusive_def split: if_splits)
  moreover have "map key (map ?g rows) = map key rows" using assms(2) by simp
  ultimately show "exclusive key slot live (update_where p f rows)"
    using assms(1) unfolding exclusive_def update_where_def by metis
  show "rows_follow key slot live rows (update_where p f rows)"
    unfolding rows_follow_def
  proof
    fix r assume "r \<in> set rows"
    then show "\<exists>r' \<in> set (update_where p f rows). key r' = key r \<and> slot r' = slot r \<and> (live r \<or> r' = r)"
      using assms(2) [of r] by (intro bexI [of _ "?g r"]) (auto simp: set_update_where)
  qed
qed

section \<open>Versioned tables\<close>

text \<open>
  The contract of a table whose rows carry a key and a version: the columns an update writes leave
  the key alone and include the version.
\<close>

locale versioned_table =
  fixes key :: "'r \<Rightarrow> 'k"
    and ver :: "'r \<Rightarrow> int"
    and merge :: "'r \<Rightarrow> 'r \<Rightarrow> 'r"
  assumes merge_key: "key (merge r n) = key r"
    and merge_ver: "ver (merge r n) = ver n"
begin

lemma cas_keys: "cas_update key ver merge n rows = Some rows' \<Longrightarrow> map key rows' = map key rows"
  by (auto simp: cas_update_def Let_def update_where_keys merge_key split: if_splits)

lemma cas_result:
  assumes "cas_update key ver merge n rows = Some rows'" and "distinct (map key rows)"
  shows "rows' = update_where (\<lambda>r. key r = key n) (\<lambda>r. merge r n) rows"
proof -
  let ?hit = "\<lambda>r. key r = key n \<and> ver r = wrap64 (ver n - 1)"
  have one: "length (filter ?hit rows) = 1" and rows': "rows' = update_where ?hit (\<lambda>r. merge r n) rows"
    using assms(1) by (auto simp: cas_update_def Let_def rows_affected_def split: if_splits)
  obtain r where "filter ?hit rows = [r]" using one by (cases "filter ?hit rows") auto
  then have "r \<in> set (filter ?hit rows)" by simp
  then have r: "r \<in> set rows" "?hit r" by auto
  have "?hit x \<longleftrightarrow> key x = key n" if "x \<in> set rows" for x
    using key_unique [OF assms(2) that r(1)] r(2) by auto
  then show ?thesis by (auto simp: rows' update_where_def)
qed

lemma cas_present:
  assumes "distinct (map key rows)" and "r \<in> set rows" and "key r = key n" and "ver r = wrap64 (ver n - 1)"
  shows "cas_update key ver merge n rows = Some (update_where (\<lambda>r. key r = key n) (\<lambda>r. merge r n) rows)"
proof -
  let ?hit = "\<lambda>r. key r = key n \<and> ver r = wrap64 (ver n - 1)"
  have "?hit x \<longleftrightarrow> x = r" if "x \<in> set rows" for x
    using key_unique [OF assms(1) that assms(2)] assms(3,4) by auto
  then have "filter ?hit rows = [r]" by (rule filter_single [OF assms(1,2)])
  then have "cas_update key ver merge n rows \<noteq> None"
    by (simp add: cas_update_def rows_affected_def)
  then show ?thesis using cas_result [OF _ assms(1)] by blast
qed

text \<open>An update that was overtaken finds no row: of two updates from one version one succeeds.\<close>

lemma cas_overtaken:
  assumes "cas_update key ver merge n rows = Some rows'" and "distinct (map key rows)"
    and "key m = key n" and "ver m = ver n" and "in_i64 (ver n)" and "in_i64 (ver n - 1)"
  shows "cas_update key ver merge m rows' = None"
proof -
  have "\<not> (key r = key m \<and> ver r = wrap64 (ver m - 1))" if "r \<in> set rows'" for r
    using that assms(3-6) by (auto simp: cas_result [OF assms(1,2)] set_update_where merge_ver merge_key)
  then have "filter (\<lambda>r. key r = key m \<and> ver r = wrap64 (ver m - 1)) rows' = []"
    by (auto simp: filter_empty_conv)
  then show ?thesis by (simp add: cas_update_def rows_affected_def)
qed

end

end
