(* ===== verification/Asset_Domain.thy ===== *)
theory Asset_Domain
  imports Transition_Systems
begin

text \<open>
  The domain vocabulary of backup assets, \<open>backend/internal/backupasset/domain.go\<close> (and the sentinel
  errors of \<open>errors.go\<close>): the enumerations, opaque identifiers, the transition tables of
  repositories and recovery points, the consistency of a recovery point profile, the mapping of
  publication modes, the capabilities of a task, imported repository identities and observations of a
  mutable head. The enumerations are strings in Go; a string outside the constants is an \<open>Other\<close>
  value, the empty string \<open>Other []\<close>. \<open>ValidateOpaqueID\<close> returns an error that callers compare with
  \<open>nil\<close>, so it is a predicate here; the other checks return the sentinel error they wrap.
\<close>

section \<open>Enumerations\<close>

datatype RepositoryStatus =
    RepositoryConnecting | RepositoryOnline | RepositoryDegraded | RepositoryOffline
  | RepositoryDisconnected | RepositoryPurging | RepositoryPurgeBlocked
  | RepositoryStatusOther string

datatype ProviderKind =
    ProviderRestic | ProviderRsync | ProviderRclone | ProviderCommand | ProviderVerifiedImport
  | ProviderKindOther string

datatype TaskPublicationMode =
    PublicationLegacyMutable | PublicationVersionedHardlink | PublicationVersionedFullCopy
  | PublicationVersionedPrefix | PublicationNativeObjectVersions | PublicationNativeSnapshot
  | TaskPublicationModeOther string

datatype VersionMode =
    VersionNativeSnapshot | VersionHardlinkTree | VersionFullCopyTree | VersionVersionedPrefix
  | VersionNativeObjectVersions | VersionMutableHead | VersionModeOther string

datatype PointVersionSemantics =
    PointNativeSnapshot | PointXirangManifest | PointImportedBaseline | PointMutableHead
  | PointVersionSemanticsOther string

datatype RecoveryPointState =
    RecoveryPointObserved | RecoveryPointRetired | RecoveryPointPreparing
  | RecoveryPointVerifying | RecoveryPointCommitted | RecoveryPointDegraded
  | RecoveryPointExpiring | RecoveryPointExpired | RecoveryPointFailed
  | RecoveryPointPurgeBlocked | RecoveryPointStateOther string

datatype RetirementReason =
    RetirementCutover | RetirementWithdrawn | RetirementReasonOther string

datatype ImmutabilityLevel =
    ImmutabilityMutable | ImmutabilityXirangManaged | ImmutabilityBackendVersioned
  | ImmutabilityStorageWORM | ImmutabilityLevelOther string

datatype PhysicalAvailability =
    PhysicalOnline | PhysicalOffline | PhysicalMissing | PhysicalUnknown
  | PhysicalAvailabilityOther string

datatype HoldState =
    HoldNone | HoldActive | HoldReleased | HoldStateOther string

datatype RetentionPolicyScopeKind =
    RetentionPolicyScopeRepository | RetentionPolicyScopeTaskLink
  | RetentionPolicyScopeKindOther string

datatype RetentionPolicyStatus =
    RetentionPolicyActive | RetentionPolicyDeleted | RetentionPolicyStatusOther string

datatype RecoveryPointHoldType =
    RecoveryPointHoldOperational | RecoveryPointHoldLegal | RecoveryPointHoldTypeOther string

datatype LifecycleOperation =
    LifecycleRetentionExpire | LifecycleExplicitPurge | LifecycleMutableRetire
  | LifecycleOperationOther string

datatype SourceLifecycleStage =
    SourceLifecyclePrepare | SourceLifecycleCleanup | SourceLifecycleStageOther string

datatype LifecyclePhase =
    LifecyclePhaseSelected | LifecyclePhaseRevoking | LifecyclePhaseDraining
  | LifecyclePhaseCleaning | LifecyclePhaseProviderDelete | LifecyclePhaseTombstoning
  | LifecyclePhaseBlocked | LifecyclePhaseComplete | LifecyclePhaseOther string

datatype LifecycleBlockedReason =
    LifecycleBlockedActiveHold | LifecycleBlockedLeaseLive | LifecycleBlockedLeaseDrainUnproven
  | LifecycleBlockedOwnerCleanupUnproven | LifecycleBlockedProviderWORM
  | LifecycleBlockedProviderUnavailable | LifecycleBlockedProviderIdentityConflict
  | LifecycleBlockedProviderNativeVersionReferenced | LifecycleBlockedProviderDeleteUnproven
  | LifecycleBlockedDeletionUnavailable | LifecycleBlockedFenceLost
  | LifecycleBlockedReasonOther string

datatype ImportCandidateKind =
    ImportCandidateNativeSnapshot | ImportCandidateXirangManifest
  | ImportCandidateImportedBaseline | ImportCandidateMutableHead
  | ImportCandidateKindOther string

datatype ImportReviewState =
    ImportReviewPending | ImportReviewAccepted | ImportReviewRejected
  | ImportReviewStateOther string

datatype PurgePlanStatus =
    PurgePlanReady | PurgePlanBound | PurgePlanExecuting | PurgePlanConsumed
  | PurgePlanInvalidated | PurgePlanStatusOther string

datatype ConfigImportEntityKind =
    ConfigImportRepository | ConfigImportTaskLink | ConfigImportRetentionPolicy
  | ConfigImportHold | ConfigImportEntityKindOther string

datatype ManifestCompleteness =
    ManifestComplete | ManifestPartial | ManifestUnavailable | ManifestCompletenessOther string

datatype CatalogGenerationState =
    CatalogGenerationBuilding | CatalogGenerationComplete | CatalogGenerationPartial
  | CatalogGenerationFailed | CatalogGenerationSuperseded | CatalogGenerationStateOther string

datatype CatalogEntryType =
    CatalogEntryFile | CatalogEntryDirectory | CatalogEntrySymlink | CatalogEntryHardlink
  | CatalogEntrySpecial | CatalogEntryUnknown | CatalogEntryTypeOther string

datatype LeaseHolderType =
    LeaseHolderRsyncParent | LeaseHolderCatalogBuild | LeaseHolderContentSession
  | LeaseHolderProcessingJob | LeaseHolderExportJob | LeaseHolderRecoveryJob
  | LeaseHolderPointPublication | LeaseHolderSearchIndex | LeaseHolderRetentionWorker
  | LeaseHolderOther string

datatype CapabilityCode =
    CapabilityFeatureDisabled | CapabilityTaskArtifactContractMissing
  | CapabilityRepositoryOffline | CapabilityRepositoryDisconnected
  | CapabilityProviderUnavailable | CapabilityRepositoryIdentityUnavailable
  | CapabilityProviderProtocolIncompatible | CapabilityProviderOperationTimeout
  | CapabilityProviderResourceLimit | CapabilityPointNotCommitted
  | CapabilityMutableSourceChanged | CapabilityCatalogUnavailable
  | CapabilitySequentialReadUnavailable | CapabilityRangeUnavailable
  | CapabilityDownloadUnavailable | CapabilityRestoreUnavailable
  | CapabilityDeletionUnavailable | CapabilityDiffUnavailable | CapabilityCodeOther string

datatype asset_error =
    ErrNotFound | ErrForbidden | ErrConflict | ErrInvalidState | ErrInvalidAssetRef
  | ErrProviderUnavailable | ErrCapabilityUnavailable | ErrKeyUnavailable | ErrKeyLost
  | ErrKeyRotationProhibited | ErrLeaseHeld | ErrLeaseFenceLost | ErrLeaseDeadlineExceeded
  | ErrPublicationInProgress | ErrPublicationUnconfirmed | ErrPublicationSessionAbandoned

section \<open>Sets of valid values and transition tables\<close>

definition validRepositoryStatuses :: "RepositoryStatus list" where
  "validRepositoryStatuses =
     [RepositoryConnecting, RepositoryOnline, RepositoryDegraded, RepositoryOffline,
      RepositoryDisconnected, RepositoryPurging, RepositoryPurgeBlocked]"

definition validRecoveryPointStates :: "RecoveryPointState list" where
  "validRecoveryPointStates =
     [RecoveryPointObserved, RecoveryPointRetired, RecoveryPointPreparing, RecoveryPointVerifying,
      RecoveryPointCommitted, RecoveryPointDegraded, RecoveryPointExpiring, RecoveryPointExpired,
      RecoveryPointFailed, RecoveryPointPurgeBlocked]"

definition validVersionModes :: "VersionMode list" where
  "validVersionModes =
     [VersionNativeSnapshot, VersionHardlinkTree, VersionFullCopyTree, VersionVersionedPrefix,
      VersionNativeObjectVersions, VersionMutableHead]"

definition validPointSemantics :: "PointVersionSemantics list" where
  "validPointSemantics =
     [PointNativeSnapshot, PointXirangManifest, PointImportedBaseline, PointMutableHead]"

definition validImmutabilityLevels :: "ImmutabilityLevel list" where
  "validImmutabilityLevels =
     [ImmutabilityMutable, ImmutabilityXirangManaged, ImmutabilityBackendVersioned,
      ImmutabilityStorageWORM]"

definition validPhysicalAvailability :: "PhysicalAvailability list" where
  "validPhysicalAvailability =
     [PhysicalOnline, PhysicalOffline, PhysicalMissing, PhysicalUnknown]"

definition validHoldStates :: "HoldState list" where
  "validHoldStates =
     [HoldNone, HoldActive, HoldReleased]"

definition validRetirementReasons :: "RetirementReason list" where
  "validRetirementReasons =
     [RetirementCutover, RetirementWithdrawn]"

definition validMutableStates :: "RecoveryPointState list" where
  "validMutableStates =
     [RecoveryPointObserved, RecoveryPointRetired, RecoveryPointExpiring, RecoveryPointExpired,
      RecoveryPointPurgeBlocked]"

definition validImmutableStates :: "RecoveryPointState list" where
  "validImmutableStates =
     [RecoveryPointPreparing, RecoveryPointVerifying, RecoveryPointCommitted,
      RecoveryPointDegraded, RecoveryPointExpiring, RecoveryPointExpired, RecoveryPointFailed,
      RecoveryPointPurgeBlocked]"

definition validRetentionPolicyScopeKinds :: "RetentionPolicyScopeKind list" where
  "validRetentionPolicyScopeKinds =
     [RetentionPolicyScopeRepository, RetentionPolicyScopeTaskLink]"

definition validRetentionPolicyStatuses :: "RetentionPolicyStatus list" where
  "validRetentionPolicyStatuses =
     [RetentionPolicyActive, RetentionPolicyDeleted]"

definition validRecoveryPointHoldTypes :: "RecoveryPointHoldType list" where
  "validRecoveryPointHoldTypes =
     [RecoveryPointHoldOperational, RecoveryPointHoldLegal]"

definition validRecoveryPointHoldRecordStates :: "HoldState list" where
  "validRecoveryPointHoldRecordStates =
     [HoldActive, HoldReleased]"

definition validLifecycleOperations :: "LifecycleOperation list" where
  "validLifecycleOperations =
     [LifecycleRetentionExpire, LifecycleExplicitPurge, LifecycleMutableRetire]"

definition validLifecyclePhases :: "LifecyclePhase list" where
  "validLifecyclePhases =
     [LifecyclePhaseSelected, LifecyclePhaseRevoking, LifecyclePhaseDraining,
      LifecyclePhaseCleaning, LifecyclePhaseProviderDelete, LifecyclePhaseTombstoning,
      LifecyclePhaseBlocked, LifecyclePhaseComplete]"

definition validImportCandidateKinds :: "ImportCandidateKind list" where
  "validImportCandidateKinds =
     [ImportCandidateNativeSnapshot, ImportCandidateXirangManifest,
      ImportCandidateImportedBaseline, ImportCandidateMutableHead]"

definition validLifecycleBlockedReasons :: "LifecycleBlockedReason list" where
  "validLifecycleBlockedReasons =
     [LifecycleBlockedActiveHold, LifecycleBlockedLeaseLive, LifecycleBlockedLeaseDrainUnproven,
      LifecycleBlockedOwnerCleanupUnproven, LifecycleBlockedProviderWORM,
      LifecycleBlockedProviderUnavailable, LifecycleBlockedProviderIdentityConflict,
      LifecycleBlockedProviderDeleteUnproven, LifecycleBlockedProviderNativeVersionReferenced,
      LifecycleBlockedDeletionUnavailable, LifecycleBlockedFenceLost]"

definition validImportReviewStates :: "ImportReviewState list" where
  "validImportReviewStates =
     [ImportReviewPending, ImportReviewAccepted, ImportReviewRejected]"

definition validPurgePlanStatuses :: "PurgePlanStatus list" where
  "validPurgePlanStatuses =
     [PurgePlanReady, PurgePlanBound, PurgePlanExecuting, PurgePlanConsumed, PurgePlanInvalidated]"

definition validConfigImportEntityKinds :: "ConfigImportEntityKind list" where
  "validConfigImportEntityKinds =
     [ConfigImportRepository, ConfigImportTaskLink, ConfigImportRetentionPolicy, ConfigImportHold]"

definition validCapabilityCodes :: "CapabilityCode list" where
  "validCapabilityCodes =
     [CapabilityFeatureDisabled, CapabilityTaskArtifactContractMissing,
      CapabilityRepositoryOffline, CapabilityRepositoryDisconnected,
      CapabilityProviderUnavailable, CapabilityRepositoryIdentityUnavailable,
      CapabilityProviderProtocolIncompatible, CapabilityProviderOperationTimeout,
      CapabilityProviderResourceLimit, CapabilityPointNotCommitted,
      CapabilityMutableSourceChanged, CapabilityCatalogUnavailable,
      CapabilitySequentialReadUnavailable, CapabilityRangeUnavailable,
      CapabilityDownloadUnavailable, CapabilityRestoreUnavailable, CapabilityDeletionUnavailable,
      CapabilityDiffUnavailable]"

definition repositoryTransitions :: "(RepositoryStatus \<times> RepositoryStatus) list" where
  "repositoryTransitions =
     [(RepositoryConnecting, RepositoryOnline), (RepositoryConnecting, RepositoryDegraded),
      (RepositoryConnecting, RepositoryOffline), (RepositoryConnecting, RepositoryDisconnected),
      (RepositoryOnline, RepositoryDegraded), (RepositoryOnline, RepositoryOffline),
      (RepositoryOnline, RepositoryDisconnected), (RepositoryOnline, RepositoryPurging),
      (RepositoryDegraded, RepositoryOnline), (RepositoryDegraded, RepositoryOffline),
      (RepositoryDegraded, RepositoryDisconnected), (RepositoryDegraded, RepositoryPurging),
      (RepositoryOffline, RepositoryConnecting), (RepositoryOffline, RepositoryOnline),
      (RepositoryOffline, RepositoryDegraded), (RepositoryOffline, RepositoryDisconnected),
      (RepositoryOffline, RepositoryPurging), (RepositoryDisconnected, RepositoryConnecting),
      (RepositoryDisconnected, RepositoryPurging), (RepositoryPurging, RepositoryPurgeBlocked),
      (RepositoryPurgeBlocked, RepositoryPurging)]"

definition immutableRecoveryPointTransitions :: "(RecoveryPointState \<times> RecoveryPointState) list" where
  "immutableRecoveryPointTransitions =
     [(RecoveryPointPreparing, RecoveryPointVerifying),
      (RecoveryPointPreparing, RecoveryPointFailed),
      (RecoveryPointVerifying, RecoveryPointCommitted),
      (RecoveryPointVerifying, RecoveryPointFailed),
      (RecoveryPointCommitted, RecoveryPointDegraded),
      (RecoveryPointCommitted, RecoveryPointExpiring),
      (RecoveryPointDegraded, RecoveryPointCommitted),
      (RecoveryPointDegraded, RecoveryPointExpiring),
      (RecoveryPointExpiring, RecoveryPointExpired),
      (RecoveryPointExpiring, RecoveryPointPurgeBlocked),
      (RecoveryPointPurgeBlocked, RecoveryPointExpiring)]"

definition mutableRecoveryPointTransitions :: "(RecoveryPointState \<times> RecoveryPointState) list" where
  "mutableRecoveryPointTransitions =
     [(RecoveryPointObserved, RecoveryPointRetired),
      (RecoveryPointObserved, RecoveryPointExpiring),
      (RecoveryPointRetired, RecoveryPointExpiring),
      (RecoveryPointExpiring, RecoveryPointExpired),
      (RecoveryPointExpiring, RecoveryPointPurgeBlocked),
      (RecoveryPointPurgeBlocked, RecoveryPointExpiring)]"

definition validImmutableModeSemantics :: "(VersionMode \<times> PointVersionSemantics) list" where
  "validImmutableModeSemantics =
     [(VersionNativeSnapshot, PointNativeSnapshot), (VersionHardlinkTree, PointXirangManifest),
      (VersionFullCopyTree, PointXirangManifest), (VersionVersionedPrefix, PointXirangManifest),
      (VersionNativeObjectVersions, PointXirangManifest),
      (VersionNativeSnapshot, PointImportedBaseline),
      (VersionHardlinkTree, PointImportedBaseline), (VersionFullCopyTree, PointImportedBaseline),
      (VersionVersionedPrefix, PointImportedBaseline),
      (VersionNativeObjectVersions, PointImportedBaseline)]"

definition allowedCapabilityParams :: "string list" where
  "allowedCapabilityParams =
     [''provider_kind'', ''repository_status'', ''recovery_point_state'', ''capability'',
      ''correlation_id'', ''retry_after_seconds'']"

section \<open>Identifiers\<close>

text \<open>\<open>hex.EncodeToString\<close>; a byte is a number below 256.\<close>

definition hex_digit :: "nat \<Rightarrow> char" where
  "hex_digit n = ''0123456789abcdef'' ! n"

fun EncodeToString :: "nat list \<Rightarrow> string" where
  "EncodeToString [] = []"
| "EncodeToString (b # raw) = hex_digit (b div 16) # hex_digit (b mod 16) # EncodeToString raw"

text \<open>
  \<open>newOpaqueIDFrom\<close>: \<open>source\<close> is what \<open>io.ReadFull\<close> delivers, \<open>None\<close> when the random source fails.
\<close>

definition newOpaqueIDFrom :: "nat list option \<Rightarrow> (string, string) result" where
  "newOpaqueIDFrom source =
     (case source of
        None \<Rightarrow> Inl ''generate opaque ID''
      | Some raw \<Rightarrow> Inr (EncodeToString raw))"

definition is_lower_hex_char :: "char \<Rightarrow> bool" where
  "is_lower_hex_char c \<longleftrightarrow> is_digit c \<or> 97 \<le> (of_char c :: nat) \<and> (of_char c :: nat) \<le> 102"

text \<open>The loop over runes compares with ASCII bounds, so it is a loop over the bytes.\<close>

definition isLowerHex :: "string \<Rightarrow> nat \<Rightarrow> bool" where
  "isLowerHex value len = (if length value \<noteq> len then False else list_all is_lower_hex_char value)"

definition ValidateOpaqueID :: "string \<Rightarrow> bool" where
  "ValidateOpaqueID value = isLowerHex value 32"

record AssetRef =
  arRecoveryPointID :: string
  arEntryID :: string

definition ValidateAssetRef :: "AssetRef \<Rightarrow> (asset_error, unit) result" where
  "ValidateAssetRef ref =
     (if \<not> ValidateOpaqueID (arRecoveryPointID ref) \<or> \<not> isLowerHex (arEntryID ref) 64
      then Inl ErrInvalidAssetRef else Inr ())"

section \<open>Imported repository identities\<close>

text \<open>
  \<open>sha256.Sum256\<close> is the argument \<open>sum256\<close>: a function from the bytes of a string to 32 bytes.
\<close>

definition ImportedRepositoryIdentityRefPrefix :: string where
  "ImportedRepositoryIdentityRefPrefix = ''identity_ref:v1:''"

definition ImportedIdentityRef :: "(string \<Rightarrow> nat list) \<Rightarrow> string \<Rightarrow> string" where
  "ImportedIdentityRef sum256 identity = EncodeToString (sum256 identity)"

definition FormatImportedRepositoryIdentity :: "string \<Rightarrow> string" where
  "FormatImportedRepositoryIdentity identityRef =
     ImportedRepositoryIdentityRefPrefix @ TrimSpace identityRef"

definition BindImportedRepositoryIdentity ::
  "(string \<Rightarrow> nat list) \<Rightarrow> string option \<Rightarrow> string \<Rightarrow> (asset_error, string) result" where
  "BindImportedRepositoryIdentity sum256 stored observed0 =
     (let observed = TrimSpace observed0 in
      if observed = [] then Inl ErrConflict
      else case stored of
        None \<Rightarrow> Inr observed
      | Some value \<Rightarrow>
          if TrimSpace value = [] then Inr observed
          else
            let current = TrimSpace value in
            if HasPrefix current ImportedRepositoryIdentityRefPrefix
            then
              (if ImportedIdentityRef sum256 observed \<noteq> TrimPrefix current ImportedRepositoryIdentityRefPrefix
               then Inl ErrConflict else Inr observed)
            else if current \<noteq> observed then Inl ErrConflict
            else Inr observed)"

section \<open>Simple checks\<close>

definition ValidateRetentionPolicyScope ::
  "RetentionPolicyScopeKind \<Rightarrow> string \<Rightarrow> (asset_error, unit) result" where
  "ValidateRetentionPolicyScope kind scopeID =
     (if kind \<notin> set validRetentionPolicyScopeKinds \<or> \<not> ValidateOpaqueID scopeID
      then Inl ErrInvalidState else Inr ())"

definition ValidateRecoveryPointHoldType :: "RecoveryPointHoldType \<Rightarrow> (asset_error, unit) result" where
  "ValidateRecoveryPointHoldType holdType = require (holdType \<in> set validRecoveryPointHoldTypes) ErrInvalidState"

definition ValidateRetentionPolicyStatus :: "RetentionPolicyStatus \<Rightarrow> (asset_error, unit) result" where
  "ValidateRetentionPolicyStatus status = require (status \<in> set validRetentionPolicyStatuses) ErrInvalidState"

definition ValidateRecoveryPointHoldRecordState :: "HoldState \<Rightarrow> (asset_error, unit) result" where
  "ValidateRecoveryPointHoldRecordState state =
     require (state \<in> set validRecoveryPointHoldRecordStates) ErrInvalidState"

definition ValidateLifecycleOperation :: "LifecycleOperation \<Rightarrow> (asset_error, unit) result" where
  "ValidateLifecycleOperation operation = require (operation \<in> set validLifecycleOperations) ErrInvalidState"

record SourceLifecycleRequest =
  slRecoveryPointID :: string
  slLifecycleAttemptID :: string
  slOperation :: LifecycleOperation
  slStage :: SourceLifecycleStage

definition ValidateSourceLifecycleRequest :: "SourceLifecycleRequest \<Rightarrow> (asset_error, unit) result" where
  "ValidateSourceLifecycleRequest request =
     (if \<not> ValidateOpaqueID (slRecoveryPointID request) \<or> \<not> ValidateOpaqueID (slLifecycleAttemptID request)
         \<or> \<not> is_ok (ValidateLifecycleOperation (slOperation request))
         \<or> slStage request \<noteq> SourceLifecyclePrepare \<and> slStage request \<noteq> SourceLifecycleCleanup
      then Inl ErrInvalidState else Inr ())"

definition ValidateLifecyclePhase :: "LifecyclePhase \<Rightarrow> (asset_error, unit) result" where
  "ValidateLifecyclePhase phase = require (phase \<in> set validLifecyclePhases) ErrInvalidState"

definition ValidateLifecycleBlockedReason :: "LifecycleBlockedReason \<Rightarrow> (asset_error, unit) result" where
  "ValidateLifecycleBlockedReason reason = require (reason \<in> set validLifecycleBlockedReasons) ErrInvalidState"

definition ValidateImportCandidateKind :: "ImportCandidateKind \<Rightarrow> (asset_error, unit) result" where
  "ValidateImportCandidateKind kind = require (kind \<in> set validImportCandidateKinds) ErrInvalidState"

definition ValidateImportReviewState :: "ImportReviewState \<Rightarrow> (asset_error, unit) result" where
  "ValidateImportReviewState state = require (state \<in> set validImportReviewStates) ErrInvalidState"

definition ValidatePurgePlanStatus :: "PurgePlanStatus \<Rightarrow> (asset_error, unit) result" where
  "ValidatePurgePlanStatus status = require (status \<in> set validPurgePlanStatuses) ErrInvalidState"

definition ValidateConfigImportEntityKind :: "ConfigImportEntityKind \<Rightarrow> (asset_error, unit) result" where
  "ValidateConfigImportEntityKind kind = require (kind \<in> set validConfigImportEntityKinds) ErrInvalidState"

section \<open>Repositories and recovery points\<close>

definition ValidateRepositoryTransition :: "RepositoryStatus \<Rightarrow> RepositoryStatus \<Rightarrow> (asset_error, unit) result" where
  "ValidateRepositoryTransition from to =
     (if from \<notin> set validRepositoryStatuses \<or> to \<notin> set validRepositoryStatuses then Inl ErrInvalidState
      else if from = to \<or> (from, to) \<in> set repositoryTransitions then Inr ()
      else Inl ErrInvalidState)"

record RecoveryPointProfile =
  pVersionMode :: VersionMode
  pSemantics :: PointVersionSemantics
  pState :: RecoveryPointState
  pImmutability :: ImmutabilityLevel
  pAvailability :: PhysicalAvailability
  pHold :: HoldState
  pObservedAt :: "time option"
  pRetirementReason :: RetirementReason
  pRetiredAt :: "time option"
  pHasEncryptedRollbackLocator :: bool

definition ValidateRecoveryPointProfile :: "RecoveryPointProfile \<Rightarrow> (asset_error, unit) result" where
  "ValidateRecoveryPointProfile profile =
     (if pVersionMode profile \<notin> set validVersionModes \<or> pSemantics profile \<notin> set validPointSemantics
         \<or> pState profile \<notin> set validRecoveryPointStates \<or> pImmutability profile \<notin> set validImmutabilityLevels
         \<or> pAvailability profile \<notin> set validPhysicalAvailability
      then Inl ErrInvalidState
      else
        let hold = (if pHold profile = HoldStateOther [] then HoldNone else pHold profile) in
        if hold \<notin> set validHoldStates then Inl ErrInvalidState
        else if pSemantics profile = PointMutableHead then
          (if pVersionMode profile \<noteq> VersionMutableHead \<or> pImmutability profile \<noteq> ImmutabilityMutable
              \<or> hold \<noteq> HoldNone
           then Inl ErrInvalidState
           else if pState profile \<notin> set validMutableStates \<or> pObservedAt profile = None
           then Inl ErrInvalidState
           else if pState profile = RecoveryPointRetired then
             (if pRetirementReason profile \<notin> set validRetirementReasons \<or> pRetiredAt profile = None
                 \<or> \<not> pHasEncryptedRollbackLocator profile
              then Inl ErrInvalidState else Inr ())
           else if pState profile = RecoveryPointObserved
                   \<and> (pRetirementReason profile \<noteq> RetirementReasonOther [] \<or> pRetiredAt profile \<noteq> None
                      \<or> pHasEncryptedRollbackLocator profile)
           then Inl ErrInvalidState
           else Inr ())
        else if pVersionMode profile = VersionMutableHead \<or> pImmutability profile = ImmutabilityMutable
           \<or> pObservedAt profile \<noteq> None \<or> pRetirementReason profile \<noteq> RetirementReasonOther []
           \<or> pRetiredAt profile \<noteq> None \<or> pHasEncryptedRollbackLocator profile
        then Inl ErrInvalidState
        else if pState profile \<notin> set validImmutableStates then Inl ErrInvalidState
        else if (pVersionMode profile, pSemantics profile) \<notin> set validImmutableModeSemantics
        then Inl ErrInvalidState
        else Inr ())"

definition ValidateRecoveryPointTransition ::
  "RecoveryPointProfile \<Rightarrow> RecoveryPointState \<Rightarrow> (asset_error, unit) result" where
  "ValidateRecoveryPointTransition profile to =
     bind_result (ValidateRecoveryPointProfile profile) (\<lambda>_.
       if to \<notin> set validRecoveryPointStates then Inl ErrInvalidState
       else if pState profile = to then Inr ()
       else
         let key = (pState profile, to) in
         if pSemantics profile = PointMutableHead
         then (if key \<in> set mutableRecoveryPointTransitions then Inr () else Inl ErrInvalidState)
         else if key \<in> set immutableRecoveryPointTransitions then Inr ()
         else Inl ErrInvalidState)"

definition versionModeForPublication :: "TaskPublicationMode \<Rightarrow> VersionMode" where
  "versionModeForPublication mode =
     (case mode of
        PublicationVersionedHardlink \<Rightarrow> VersionHardlinkTree
      | PublicationVersionedFullCopy \<Rightarrow> VersionFullCopyTree
      | PublicationVersionedPrefix \<Rightarrow> VersionVersionedPrefix
      | PublicationNativeObjectVersions \<Rightarrow> VersionNativeObjectVersions
      | _ \<Rightarrow> VersionModeOther [])"

definition MapPublicationMode ::
  "ProviderKind \<Rightarrow> TaskPublicationMode
   \<Rightarrow> (asset_error, VersionMode \<times> PointVersionSemantics \<times> RecoveryPointState) result" where
  "MapPublicationMode provider mode =
     (let manifest = (\<lambda>version. Inr (version, PointXirangManifest, RecoveryPointPreparing)) in
      if provider = ProviderCommand then Inl ErrCapabilityUnavailable
      else if provider = ProviderRestic then
        (if mode \<noteq> PublicationNativeSnapshot then Inl ErrInvalidState
         else Inr (VersionNativeSnapshot, PointNativeSnapshot, RecoveryPointPreparing))
      else if provider = ProviderRsync \<and> mode = PublicationLegacyMutable
              \<or> provider = ProviderRclone \<and> mode = PublicationLegacyMutable
      then Inr (VersionMutableHead, PointMutableHead, RecoveryPointObserved)
      else if provider = ProviderRsync \<and> mode = PublicationVersionedHardlink then manifest VersionHardlinkTree
      else if provider = ProviderRsync \<and> mode = PublicationVersionedFullCopy then manifest VersionFullCopyTree
      else if provider = ProviderRclone \<and> mode = PublicationVersionedPrefix then manifest VersionVersionedPrefix
      else if provider = ProviderRclone \<and> mode = PublicationNativeObjectVersions
      then manifest VersionNativeObjectVersions
      else if provider = ProviderVerifiedImport then
        (let version = versionModeForPublication mode in
         if version = VersionModeOther [] \<or> version = VersionMutableHead then Inl ErrInvalidState
         else Inr (version, PointImportedBaseline, RecoveryPointPreparing))
      else Inl ErrInvalidState)"

section \<open>Capabilities\<close>

record CapabilityReason =
  crCode :: CapabilityCode
  crParams :: "(string \<times> string) list"

record CapabilitySet =
  csList :: bool
  csSearchPath :: bool
  csOpenSequential :: bool
  csOpenRange :: bool
  csDownload :: bool
  csRestore :: bool
  csDiff :: bool
  csNativeHistory :: bool
  csReason :: "CapabilityReason option"

record TaskArtifactContract =
  tcProvider :: ProviderKind
  tcPublicationMode :: TaskPublicationMode
  tcHasArtifactContract :: bool

definition refused_capabilities :: "CapabilityCode \<Rightarrow> CapabilitySet" where
  "refused_capabilities code =
     \<lparr>csList = False, csSearchPath = False, csOpenSequential = False, csOpenRange = False,
      csDownload = False, csRestore = False, csDiff = False, csNativeHistory = False,
      csReason = Some \<lparr>crCode = code, crParams = []\<rparr>\<rparr>"

definition CapabilitiesForTask :: "TaskArtifactContract \<Rightarrow> CapabilitySet" where
  "CapabilitiesForTask contract =
     (if tcProvider contract = ProviderCommand \<and> \<not> tcHasArtifactContract contract
      then refused_capabilities CapabilityTaskArtifactContractMissing
      else
        let capabilities =
              \<lparr>csList = True, csSearchPath = True, csOpenSequential = True, csOpenRange = False,
               csDownload = True, csRestore = True, csDiff = False, csNativeHistory = False,
               csReason = None\<rparr>
        in case tcProvider contract of
             ProviderRestic \<Rightarrow> capabilities\<lparr>csDiff := True, csNativeHistory := True\<rparr>
           | ProviderRsync \<Rightarrow> capabilities\<lparr>csDiff := tcPublicationMode contract \<noteq> PublicationLegacyMutable\<rparr>
           | ProviderRclone \<Rightarrow>
               capabilities\<lparr>csDiff := tcPublicationMode contract \<noteq> PublicationLegacyMutable,
                            csNativeHistory := tcPublicationMode contract = PublicationNativeObjectVersions\<rparr>
           | ProviderCommand \<Rightarrow> capabilities\<lparr>csDiff := tcPublicationMode contract \<noteq> PublicationLegacyMutable\<rparr>
           | _ \<Rightarrow> refused_capabilities CapabilityProviderUnavailable)"

text \<open>\<open>strconv.ParseUint(s, 10, 64)\<close>: digits only, below \<open>2 ^ 64\<close>.\<close>

definition ParseUint10 :: "string \<Rightarrow> int option" where
  "ParseUint10 s =
     (let v = digits_value 0 s
      in if s = [] \<or> \<not> list_all is_digit s \<or> v > 18446744073709551615 then None else Some v)"

definition valid_capability_param :: "string \<times> string \<Rightarrow> bool" where
  "valid_capability_param kv =
     (let key = fst kv; value = snd kv in
      if key \<notin> set allowedCapabilityParams \<or> ContainsAny value [CHR 0x0D, CHR 0x0A, CHR 0x00]
         \<or> length value > 128
      then False
      else if key = ''retry_after_seconds''
      then (case ParseUint10 value of None \<Rightarrow> False | Some parsed \<Rightarrow> parsed \<noteq> 0)
      else True)"

definition ValidateCapabilityReason :: "CapabilityReason \<Rightarrow> (asset_error, unit) result" where
  "ValidateCapabilityReason reason =
     (if crCode reason \<notin> set validCapabilityCodes then Inl ErrInvalidState
      else if \<not> list_all valid_capability_param (crParams reason) then Inl ErrInvalidState
      else Inr ())"

section \<open>Observations of a mutable head\<close>

record MutableHead =
  mhID :: string
  mhRepositoryID :: string
  mhState :: RecoveryPointState
  mhSourceFingerprint :: string
  mhObservedAt :: time
  mhAvailability :: PhysicalAvailability
  mhCatalogGeneration :: string

record MutableObservation =
  moSourceFingerprint :: string
  moObservedAt :: time
  moAvailability :: PhysicalAvailability
  moCatalogGeneration :: string

definition ApplyMutableObservation ::
  "MutableHead \<Rightarrow> MutableObservation \<Rightarrow> (asset_error, MutableHead) result" where
  "ApplyMutableObservation current observation =
     (if \<not> ValidateOpaqueID (mhID current) \<or> \<not> ValidateOpaqueID (mhRepositoryID current)
         \<or> mhState current \<noteq> RecoveryPointObserved
      then Inl ErrInvalidState
      else if IsZero (moObservedAt observation) \<or> moAvailability observation \<notin> set validPhysicalAvailability
      then Inl ErrInvalidState
      else if moCatalogGeneration observation \<noteq> [] \<and> \<not> ValidateOpaqueID (moCatalogGeneration observation)
      then Inl ErrInvalidState
      else Inr (current\<lparr>mhSourceFingerprint := moSourceFingerprint observation,
                        mhObservedAt := moObservedAt observation,
                        mhAvailability := moAvailability observation,
                        mhCatalogGeneration := moCatalogGeneration observation\<rparr>))"

section \<open>Identifiers are well formed\<close>

lemma isLowerHex_replicate: "is_lower_hex_char c \<Longrightarrow> isLowerHex (replicate n c) n"
  by (simp add: isLowerHex_def list_all_iff)

lemma hex_digit_lower: "n < 16 \<Longrightarrow> is_lower_hex_char (hex_digit n)"
proof -
  have "list_all is_lower_hex_char ''0123456789abcdef''" by code_simp
  then show "n < 16 \<Longrightarrow> is_lower_hex_char (hex_digit n)" by (simp add: hex_digit_def list_all_length)
qed

lemma EncodeToString_length [simp]: "length (EncodeToString raw) = 2 * length raw"
  by (induction raw) simp_all

lemma EncodeToString_lower: "list_all (\<lambda>b. b < 256) raw \<Longrightarrow> isLowerHex (EncodeToString raw) (2 * length raw)"
proof (induction raw)
  case (Cons b raw)
  then show ?case by (auto simp: isLowerHex_def intro!: hex_digit_lower)
qed (simp add: isLowerHex_def)

lemma hex_digit_inj: "m < 16 \<Longrightarrow> n < 16 \<Longrightarrow> hex_digit m = hex_digit n \<Longrightarrow> m = n"
proof -
  have "distinct ''0123456789abcdef''" by code_simp
  then show "m < 16 \<Longrightarrow> n < 16 \<Longrightarrow> hex_digit m = hex_digit n \<Longrightarrow> m = n"
    unfolding hex_digit_def by (subst (asm) nth_eq_iff_index_eq) simp_all
qed

lemma EncodeToString_inj:
  assumes "EncodeToString raw = EncodeToString raw'" and "list_all (\<lambda>b. b < 256) raw" and "list_all (\<lambda>b. b < 256) raw'"
  shows "raw = raw'"
  using assms
proof (induction raw arbitrary: raw')
  case Nil
  then show ?case by (cases raw') auto
next
  case (Cons b raw)
  then obtain c rest where raw': "raw' = c # rest" by (cases raw') auto
  have "b div 16 = c div 16" "b mod 16 = c mod 16"
    using Cons.prems raw' by (auto intro!: hex_digit_inj)
  then have "b = c" by (metis mult_div_mod_eq)
  with Cons raw' show ?case by simp
qed

section \<open>Life of a recovery point\<close>

text \<open>The changes of state the check allows to some point with immutable, or mutable, semantics.\<close>

definition immutable_point_step :: "RecoveryPointState \<Rightarrow> RecoveryPointState \<Rightarrow> bool" where
  "immutable_point_step a b \<longleftrightarrow>
     (\<exists>p. pState p = a \<and> pSemantics p \<noteq> PointMutableHead \<and> is_ok (ValidateRecoveryPointTransition p b))"

definition mutable_point_step :: "RecoveryPointState \<Rightarrow> RecoveryPointState \<Rightarrow> bool" where
  "mutable_point_step a b \<longleftrightarrow>
     (\<exists>p. pState p = a \<and> pSemantics p = PointMutableHead \<and> is_ok (ValidateRecoveryPointTransition p b))"

lemma transition_ok_iff:
  "is_ok (ValidateRecoveryPointTransition p b) \<longleftrightarrow>
     is_ok (ValidateRecoveryPointProfile p) \<and> b \<in> set validRecoveryPointStates
     \<and> (pState p = b \<or> (pState p, b) \<in> (if pSemantics p = PointMutableHead
          then set mutableRecoveryPointTransitions else set immutableRecoveryPointTransitions))"
  by (cases "ValidateRecoveryPointProfile p") (auto simp: ValidateRecoveryPointTransition_def Let_def)

lemma profile_state_valid:
  assumes "is_ok (ValidateRecoveryPointProfile p)"
  shows "pState p \<in> (if pSemantics p = PointMutableHead then set validMutableStates else set validImmutableStates)"
  using assms by (auto simp: ValidateRecoveryPointProfile_def Let_def split: if_splits)

lemma immutable_point_step_iff:
  "immutable_point_step a b \<longleftrightarrow>
     a \<in> set validImmutableStates \<and> (a = b \<or> (a, b) \<in> set immutableRecoveryPointTransitions)"
proof
  assume "immutable_point_step a b"
  then show "a \<in> set validImmutableStates \<and> (a = b \<or> (a, b) \<in> set immutableRecoveryPointTransitions)"
    using profile_state_valid by (fastforce simp: immutable_point_step_def transition_ok_iff)
next
  assume a: "a \<in> set validImmutableStates \<and> (a = b \<or> (a, b) \<in> set immutableRecoveryPointTransitions)"
  let ?p = "\<lparr>pVersionMode = VersionNativeSnapshot, pSemantics = PointNativeSnapshot, pState = a,
    pImmutability = ImmutabilityXirangManaged, pAvailability = PhysicalOnline, pHold = HoldNone,
    pObservedAt = None, pRetirementReason = RetirementReasonOther [], pRetiredAt = None,
    pHasEncryptedRollbackLocator = False\<rparr>"
  have sub: "set validImmutableStates \<subseteq> set validRecoveryPointStates"
    "(\<lambda>(x, y). y) ` set immutableRecoveryPointTransitions \<subseteq> set validRecoveryPointStates" by code_simp+
  have "is_ok (ValidateRecoveryPointProfile ?p)"
    using a sub by (auto simp: ValidateRecoveryPointProfile_def validVersionModes_def validPointSemantics_def
        validImmutabilityLevels_def validPhysicalAvailability_def validHoldStates_def validImmutableModeSemantics_def)
  with a sub show "immutable_point_step a b"
    unfolding immutable_point_step_def by (intro exI [of _ ?p]) (auto simp: transition_ok_iff)
qed

lemma mutable_point_step_sound:
  assumes "mutable_point_step a b"
  shows "a \<in> set validMutableStates \<and> (a = b \<or> (a, b) \<in> set mutableRecoveryPointTransitions)"
  using assms profile_state_valid by (fastforce simp: mutable_point_step_def transition_ok_iff)

definition point_readable :: "RecoveryPointState \<Rightarrow> bool" where
  "point_readable s \<longleftrightarrow> s \<in> {RecoveryPointObserved, RecoveryPointCommitted, RecoveryPointDegraded}"

definition point_leaving :: "RecoveryPointState \<Rightarrow> bool" where
  "point_leaving s \<longleftrightarrow> s \<in> {RecoveryPointExpiring, RecoveryPointExpired, RecoveryPointPurgeBlocked}"

lemmas point_tables = validImmutableStates_def validMutableStates_def immutableRecoveryPointTransitions_def
  mutableRecoveryPointTransitions_def

interpretation immutable_point: terminal_machine immutable_point_step
  "\<lambda>s. s = RecoveryPointExpired \<or> s = RecoveryPointFailed"
  by unfold_locales (auto simp: immutable_point_step_iff point_tables)

interpretation immutable_commit: gated_machine immutable_point_step
  "\<lambda>s. s \<notin> {RecoveryPointPreparing, RecoveryPointVerifying, RecoveryPointFailed}" "\<lambda>s. s = RecoveryPointVerifying"
  by unfold_locales (auto simp: immutable_point_step_iff point_tables)

interpretation immutable_exit: closed_machine immutable_point_step point_leaving
  by unfold_locales (auto simp: immutable_point_step_iff point_leaving_def point_tables)

interpretation mutable_exit: closed_machine mutable_point_step point_leaving
  by unfold_locales (auto dest!: mutable_point_step_sound simp: point_leaving_def point_tables)

interpretation mutable_retire: closed_machine mutable_point_step "\<lambda>s. s \<noteq> RecoveryPointObserved"
  by unfold_locales (auto dest!: mutable_point_step_sound simp: point_tables)



section \<open>Publication\<close>

text \<open>The profile of a point that a publication creates, before anything is known of its storage.\<close>

definition published_profile :: "VersionMode \<times> PointVersionSemantics \<times> RecoveryPointState \<Rightarrow> time \<Rightarrow> RecoveryPointProfile" where
  "published_profile vss now =
     (let semantics = fst (snd vss); is_mutable = (semantics = PointMutableHead) in
      \<lparr>pVersionMode = fst vss, pSemantics = semantics, pState = snd (snd vss),
       pImmutability = (if is_mutable then ImmutabilityMutable else ImmutabilityXirangManaged),
       pAvailability = PhysicalUnknown, pHold = HoldNone,
       pObservedAt = (if is_mutable then Some now else None),
       pRetirementReason = RetirementReasonOther [], pRetiredAt = None, pHasEncryptedRollbackLocator = False\<rparr>)"

text \<open>
  Publication modes map to consistent points. Whatever version mode, semantics and first state
  \<open>MapPublicationMode\<close> gives to a provider and mode, the profile made of them is valid, and so is its
  next step: to verifying for an immutable point, to retired for a mutable head.
\<close>

theorem published_profile_valid:
  assumes "MapPublicationMode provider mode = Inr vss"
  shows "is_ok (ValidateRecoveryPointProfile (published_profile vss now))
    \<and> is_ok (ValidateRecoveryPointTransition (published_profile vss now)
        (if fst (snd vss) = PointMutableHead then RecoveryPointRetired else RecoveryPointVerifying))"
proof -
  have "vss = (VersionMutableHead, PointMutableHead, RecoveryPointObserved)
    \<or> fst (snd vss) \<noteq> PointMutableHead \<and> snd (snd vss) = RecoveryPointPreparing
      \<and> (fst vss, fst (snd vss)) \<in> set validImmutableModeSemantics"
    using assms
    by (cases provider; cases mode; clarsimp simp: MapPublicationMode_def versionModeForPublication_def validImmutableModeSemantics_def Let_def)
  then have "is_ok (ValidateRecoveryPointProfile (published_profile vss now))"
  proof
    assume "vss = (VersionMutableHead, PointMutableHead, RecoveryPointObserved)"
    then show ?thesis by (simp add: published_profile_def ValidateRecoveryPointProfile_def validVersionModes_def
        validPointSemantics_def validRecoveryPointStates_def validImmutabilityLevels_def
        validPhysicalAvailability_def validHoldStates_def validMutableStates_def)
  next
    assume imm: "fst (snd vss) \<noteq> PointMutableHead \<and> snd (snd vss) = RecoveryPointPreparing
      \<and> (fst vss, fst (snd vss)) \<in> set validImmutableModeSemantics"
    have "set (map fst validImmutableModeSemantics) \<subseteq> set validVersionModes - {VersionMutableHead}"
      "set (map snd validImmutableModeSemantics) \<subseteq> set validPointSemantics" by code_simp+
    with imm have "fst vss \<in> set validVersionModes" "fst vss \<noteq> VersionMutableHead" "fst (snd vss) \<in> set validPointSemantics"
      by force+
    with imm show ?thesis
      by (simp add: published_profile_def ValidateRecoveryPointProfile_def Let_def
        validRecoveryPointStates_def validImmutabilityLevels_def
        validPhysicalAvailability_def validHoldStates_def validImmutableStates_def)
  qed
  moreover have "pState (published_profile vss now) = snd (snd vss)" "pSemantics (published_profile vss now) = fst (snd vss)"
    by (simp_all add: published_profile_def Let_def)
  ultimately show ?thesis
    using \<open>vss = (VersionMutableHead, PointMutableHead, RecoveryPointObserved)
      \<or> fst (snd vss) \<noteq> PointMutableHead \<and> snd (snd vss) = RecoveryPointPreparing
      \<and> (fst vss, fst (snd vss)) \<in> set validImmutableModeSemantics\<close>
    by (auto simp: transition_ok_iff validRecoveryPointStates_def mutableRecoveryPointTransitions_def
        immutableRecoveryPointTransitions_def)
qed

theorem published_profile_valid_witness:
  "is_ok (ValidateRecoveryPointProfile (published_profile (VersionHardlinkTree, PointXirangManifest, RecoveryPointPreparing) 5))"
proof -
  have "MapPublicationMode ProviderRsync PublicationVersionedHardlink
    = Inr (VersionHardlinkTree, PointXirangManifest, RecoveryPointPreparing)" by (simp add: MapPublicationMode_def)
  from published_profile_valid [OF this, of 5] show ?thesis by simp
qed

section \<open>Identities\<close>

text \<open>A binding yields the trimmed observation, and refuses another one afterwards.\<close>

lemma bind_identity_result:
  assumes "BindImportedRepositoryIdentity sum256 stored observed = Inr identity"
  shows "identity = TrimSpace observed \<and> identity \<noteq> []"
  using assms by (auto simp: BindImportedRepositoryIdentity_def Let_def split: if_splits option.splits)

lemma bind_identity_exclusive:
  assumes "BindImportedRepositoryIdentity sum256 (Some stored) observed = Inr identity"
    and "TrimSpace stored \<noteq> []" and "\<not> HasPrefix (TrimSpace stored) ImportedRepositoryIdentityRefPrefix"
  shows "identity = TrimSpace stored"
  using assms by (auto simp: BindImportedRepositoryIdentity_def Let_def split: if_splits)

end
