(* ===== verification/Content_Budget.thy ===== *)
theory Content_Budget
  imports Tables Asset_Domain Content_Range
begin

text \<open>
  The content delivery budget, \<open>backend/internal/backupasset/content/budget.go\<close>: reservations of
  bytes and request slots against three usage scopes (global, provider, user) and against the
  delivery grant, their finalisation, and the retry loop around the transactions.

  State. The tables \<open>backup_asset_delivery_usage\<close>, \<open>backup_asset_delivery_grants\<close> and
  \<open>backup_asset_delivery_requests\<close> are the record \<open>budget_db\<close>; a grant row holds the columns this
  service reads or writes. Environment. \<open>budget_env\<close> holds what the service does not decide: the
  clock, the configured limits (or an error), which statement fails with which database error in
  which attempt, the context's error, and what other transactions do to the tables before each
  attempt. A transaction body runs on the tables as it finds them, because it locks the rows it reads
  (\<open>FOR UPDATE\<close>); an error rolls it back.
\<close>

section \<open>Types\<close>

datatype budget_error =
    ErrInvalidBudgetConfig | ErrInvalidReservation | ErrBudgetExhausted | ErrGrantUnavailable
  | ErrReservationReplay | ErrReservationNotFound | ErrReservationStale | ErrBudgetState
  | errBudgetConcurrent | DBError string | CtxError string

datatype BudgetScopeKind = BudgetScopeGlobal | BudgetScopeProvider | BudgetScopeUser

type_synonym BudgetScopeKey = "BudgetScopeKind \<times> string"

record BudgetScopeLimits =
  WindowBytes :: int
  WindowRequests :: int
  MaxInFlight :: int

record BudgetLimits =
  Window :: duration
  LimitsGlobal :: BudgetScopeLimits
  LimitsProvider :: BudgetScopeLimits
  LimitsUser :: BudgetScopeLimits

datatype RequestState =
    RequestReserved | RequestStreaming | RequestSucceeded | RequestBlocked | RequestCanceled
  | RequestFailed | RequestReconciled | RequestStateOther string

datatype DeliveryState =
    DeliveryIssued | DeliveryActive | DeliveryDraining | DeliveryRevoked | DeliveryExpired
  | DeliveryClosed | DeliveryStateOther string

datatype DeliveryResourceKind =
    DeliveryResourceBackupAsset | DeliveryResourceRecoveryResult | DeliveryResourceOther string

datatype AuditOutcome = AuditOutcomeSuccess | AuditOutcomeFailure | AuditOutcomeBlocked

datatype AuditStateColumn = AuditNone | AuditPending | AuditStateOther string

record UsageRow =
  uScopeKind :: BudgetScopeKind
  uScopeID :: string
  uWindowStartedAt :: time
  uWindowExpiresAt :: time
  uRequestCount :: int
  uReservedBytes :: int
  uDeliveredBytes :: int
  uInFlight :: int
  uVersion :: int
  uUpdatedAt :: time

record GrantRow =
  gID :: string
  gResourceKind :: DeliveryResourceKind
  gOwnerUserID :: nat
  gProviderKind :: string
  gSessionExpiresAt :: time
  gState :: DeliveryState
  gAbsoluteExpiresAt :: time
  gIdleExpiresAt :: time
  gIdleTTLSeconds :: int
  gLastActivityAt :: time
  gMaxBytesPerRequest :: int
  gMaxCumulativeBytes :: int
  gMaxRequests :: int
  gMaxInFlight :: int
  gReservedBytes :: int
  gDeliveredBytes :: int
  gRequestCount :: int
  gInFlight :: int
  gVersion :: int
  gAuditState :: AuditStateColumn
  gAuditRangeCount :: int
  gAuditRangeBytes :: int
  gAuditRequestCount :: int
  gAuditSuccessCount :: int
  gAuditBlockedCount :: int
  gAuditFailureCount :: int
  gAuditFailureCode :: string
  gAuditAttemptCount :: int
  gAuditNextAttemptAt :: "time option"
  gUpdatedAt :: time

record RequestRow =
  rID :: string
  rGrantID :: string
  rMethod :: http_method
  rRangeKind :: HTTPRangeKind
  rRangeStart :: "int option"
  rRangeEndExclusive :: "int option"
  rSuffixLength :: "int option"
  rState :: RequestState
  rReservedBytes :: int
  rProviderBytes :: int
  rResponseBytes :: int
  rHTTPStatus :: int
  rFailureCode :: "RequestFailureCode option"
  rStartedAt :: time
  rLastProgressAt :: time
  rFinishedAt :: "time option"
  rCreatedAt :: time
  rUpdatedAt :: time
  rVersion :: int

record budget_db =
  usages :: "UsageRow list"
  grants :: "GrantRow list"
  requests :: "RequestRow list"

record ReservationIntent =
  iRequestID :: string
  iGrantID :: string
  iMethod :: http_method
  iRange :: HTTPRange
  iReservedBytes :: int

record BlockedRequest =
  bRequestID :: string
  bGrantID :: string
  bMethod :: http_method
  bStatus :: int
  bFailureCode :: "RequestFailureCode option"
  bRangeRequested :: bool

record Reservation =
  resRequestID :: string
  resGrantID :: string
  resRequestVersion :: int
  resReservedBytes :: int

record FinalizeIntent =
  fRequestID :: string
  fExpectedRequestVersion :: int
  fState :: RequestState
  fHTTPStatus :: int
  fFailureCode :: "RequestFailureCode option"
  fProviderBytes :: int
  fResponseBytes :: int
  fEvidenceKnown :: bool

record Finalization =
  finRequestID :: string
  finState :: RequestState
  finChargedBytes :: int
  finAlreadyFinalized :: bool
  finFirstSuccessfulGET :: bool

record reservationSpec =
  sRequestID :: string
  sGrantID :: string
  sMethod :: http_method
  sRange :: HTTPRange
  sReservedBytes :: int
  sBlocked :: bool
  sRangeRequested :: bool
  sStatus :: int
  sFailure :: "RequestFailureCode option"

text \<open>The statements of the service, as names for the places where the database can fail.\<close>

datatype budget_stmt =
    StmtLoadGrantScope | StmtLoadRequest | StmtLockUsage BudgetScopeKind
  | StmtCreateUsage BudgetScopeKind | StmtRelockUsage BudgetScopeKind | StmtLockGrant
  | StmtTakeRequest | StmtLockRequest | StmtPreviousGet | StmtUpdateUsage BudgetScopeKind
  | StmtUpdateGrant | StmtCreateRequest | StmtUpdateRequest | StmtBegin | StmtCommit

type_synonym faults = "budget_stmt \<Rightarrow> string option"

record budget_env =
  envNow :: time
  envLimits :: "BudgetLimits option"
  envFault :: faults
  envTxFault :: "nat \<Rightarrow> faults"
  envCtxErr :: "nat \<Rightarrow> string option"
  envOthers :: "nat \<Rightarrow> budget_db \<Rightarrow> budget_db"
  envUnicodeLower :: "string \<Rightarrow> string"

definition run_stmt :: "faults \<Rightarrow> budget_stmt \<Rightarrow> (budget_error, unit) result" where
  "run_stmt flt stmt = (case flt stmt of Some message \<Rightarrow> Inl (DBError message) | None \<Rightarrow> Inr ())"

section \<open>Validation\<close>

definition validBudgetScopeLimits :: "BudgetScopeLimits \<Rightarrow> bool" where
  "validBudgetScopeLimits limits \<longleftrightarrow>
     WindowBytes limits > 0 \<and> WindowRequests limits > 0 \<and> MaxInFlight limits > 0"

definition validBudgetLimits :: "BudgetLimits \<Rightarrow> bool" where
  "validBudgetLimits limits \<longleftrightarrow>
     Window limits > 0 \<and> validBudgetScopeLimits (LimitsGlobal limits)
     \<and> validBudgetScopeLimits (LimitsProvider limits) \<and> validBudgetScopeLimits (LimitsUser limits)"

definition orderedBudgetScopeKeys :: "GrantRow \<Rightarrow> BudgetScopeKey list" where
  "orderedBudgetScopeKeys grant =
     [(BudgetScopeGlobal, ''global''),
      (BudgetScopeProvider, gProviderKind grant),
      (BudgetScopeUser, format_nat (gOwnerUserID grant))]"

definition validBudgetScopeKeys :: "BudgetScopeKey list \<Rightarrow> bool" where
  "validBudgetScopeKeys keys =
     (if length keys \<noteq> 3 \<or> keys ! 0 \<noteq> (BudgetScopeGlobal, ''global'')
         \<or> fst (keys ! 1) \<noteq> BudgetScopeProvider \<or> fst (keys ! 2) \<noteq> BudgetScopeUser then False
      else if snd (keys ! 1) \<noteq> ''restic'' \<and> snd (keys ! 1) \<noteq> ''rsync'' \<and> snd (keys ! 1) \<noteq> ''rclone''
      then False
      else case ParseInt10 (snd (keys ! 2)) of None \<Rightarrow> False | Some ownerID \<Rightarrow> ownerID > 0)"

definition limitsForScope :: "BudgetLimits \<Rightarrow> BudgetScopeKind \<Rightarrow> BudgetScopeLimits" where
  "limitsForScope limits kind =
     (case kind of
        BudgetScopeGlobal \<Rightarrow> LimitsGlobal limits
      | BudgetScopeProvider \<Rightarrow> LimitsProvider limits
      | BudgetScopeUser \<Rightarrow> LimitsUser limits)"

definition validPersistedHTTPRange :: "HTTPRange \<Rightarrow> bool" where
  "validPersistedHTTPRange value =
     (case Kind value of
        HTTPRangeFull \<Rightarrow>
          Start value = None \<and> EndExclusive value = None \<and> SuffixLength value = None
          \<and> Offset value = 0 \<and> Length value \<ge> 0
      | HTTPRangeNormal \<Rightarrow>
          (case (Start value, EndExclusive value, SuffixLength value) of
             (Some start, Some endExclusive, None) \<Rightarrow>
               start \<ge> 0 \<and> endExclusive > start \<and> Offset value = start
               \<and> Length value = endExclusive - start
           | _ \<Rightarrow> False)
      | HTTPRangeOpenEnded \<Rightarrow>
          (case (Start value, EndExclusive value, SuffixLength value) of
             (Some start, None, None) \<Rightarrow> start \<ge> 0 \<and> Offset value = start \<and> Length value > 0
           | _ \<Rightarrow> False)
      | HTTPRangeSuffix \<Rightarrow>
          (case (Start value, EndExclusive value, SuffixLength value) of
             (None, None, Some suffix) \<Rightarrow>
               suffix > 0 \<and> Offset value \<ge> 0 \<and> Length value > 0 \<and> Length value \<le> suffix
           | _ \<Rightarrow> False)
      | HTTPRangeUnset \<Rightarrow> False)"

definition validRequestFailureCode :: "RequestFailureCode option \<Rightarrow> bool" where
  "validRequestFailureCode value =
     (case value of
        None \<Rightarrow> False
      | Some (RequestFailureOther code) \<Rightarrow>
          code \<in> {''session_revoked'', ''permission_changed'', ''source_changed'', ''lease_lost'',
                  ''feature_disabled''}
      | Some _ \<Rightarrow> True)"

definition requestFinalizable :: "RequestState \<Rightarrow> bool" where
  "requestFinalizable state \<longleftrightarrow>
     state = RequestSucceeded \<or> state = RequestCanceled \<or> state = RequestFailed
     \<or> state = RequestReconciled"

definition requestTerminal :: "RequestState \<Rightarrow> bool" where
  "requestTerminal state \<longleftrightarrow>
     state = RequestSucceeded \<or> state = RequestBlocked \<or> state = RequestCanceled
     \<or> state = RequestFailed \<or> state = RequestReconciled"

definition validReservationIntent :: "ReservationIntent \<Rightarrow> bool" where
  "validReservationIntent intent =
     (if \<not> ValidateOpaqueID (iRequestID intent) \<or> \<not> ValidateOpaqueID (iGrantID intent)
         \<or> (iMethod intent \<noteq> MethodGet \<and> iMethod intent \<noteq> MethodHead)
         \<or> iReservedBytes intent < 0 \<or> \<not> validPersistedHTTPRange (iRange intent) then False
      else if iMethod intent = MethodHead then iReservedBytes intent = 0
      else iReservedBytes intent \<ge> Length (iRange intent))"

definition validBlockedRequest :: "BlockedRequest \<Rightarrow> bool" where
  "validBlockedRequest request \<longleftrightarrow>
     ValidateOpaqueID (bRequestID request) \<and> ValidateOpaqueID (bGrantID request)
     \<and> (bMethod request = MethodGet \<or> bMethod request = MethodHead)
     \<and> bStatus request \<ge> 100 \<and> bStatus request \<le> 599
     \<and> bFailureCode request \<noteq> None \<and> validRequestFailureCode (bFailureCode request)"

definition validFinalizeIntent :: "FinalizeIntent \<Rightarrow> bool" where
  "validFinalizeIntent intent =
     (if \<not> ValidateOpaqueID (fRequestID intent) \<or> fExpectedRequestVersion intent \<le> 0
         \<or> \<not> requestFinalizable (fState intent) \<or> fHTTPStatus intent < 100 \<or> fHTTPStatus intent > 599
      then False
      else if fState intent = RequestSucceeded
      then fHTTPStatus intent \<ge> 200 \<and> fHTTPStatus intent \<le> 299 \<and> fFailureCode intent = None
           \<and> fEvidenceKnown intent \<and> fProviderBytes intent \<ge> 0 \<and> fResponseBytes intent \<ge> 0
      else fFailureCode intent \<noteq> None \<and> validRequestFailureCode (fFailureCode intent))"

section \<open>Byte arithmetic\<close>

definition withinByteLimit :: "int \<Rightarrow> int \<Rightarrow> int \<Rightarrow> int \<Rightarrow> bool" where
  "withinByteLimit delivered reserved additional limit \<longleftrightarrow>
     delivered \<ge> 0 \<and> reserved \<ge> 0 \<and> additional \<ge> 0 \<and> limit \<ge> 0
     \<and> delivered \<le> limit \<and> reserved \<le> wrap64 (limit - delivered)
     \<and> additional \<le> wrap64 (wrap64 (limit - delivered) - reserved)"

definition wouldAddOverflow :: "int \<Rightarrow> int \<Rightarrow> bool" where
  "wouldAddOverflow current additional \<longleftrightarrow>
     current < 0 \<or> additional < 0 \<or> current > wrap64 (MaxInt64 - additional)"

definition finalCharge :: "int \<Rightarrow> FinalizeIntent \<Rightarrow> int \<times> bool" where
  "finalCharge reserved intent =
     (let valid = (fEvidenceKnown intent \<and> fProviderBytes intent \<ge> 0 \<and> fResponseBytes intent \<ge> 0
                   \<and> fProviderBytes intent \<le> reserved \<and> fResponseBytes intent \<le> reserved)
      in if \<not> valid then (reserved, False)
         else (max (fProviderBytes intent) (fResponseBytes intent), True))"

definition boundedEvidence :: "int \<Rightarrow> int \<Rightarrow> int" where
  "boundedEvidence reserved evidence = (if evidence < 0 \<or> evidence > reserved then 0 else evidence)"

definition boundedAuditCounter :: "int \<Rightarrow> int \<Rightarrow> int \<Rightarrow> int" where
  "boundedAuditCounter current increment maximum =
     (if current \<ge> maximum \<or> increment \<ge> wrap64 (maximum - current) then maximum
      else wrap64 (current + increment))"

definition ComputeReservationBytes :: "int \<Rightarrow> int \<Rightarrow> bool \<Rightarrow> (budget_error, int) result" where
  "ComputeReservationBytes responseBytes providerLimit probePossible =
     (if responseBytes < 0 \<or> providerLimit < 0 \<or> probePossible \<and> providerLimit = MaxInt64
      then Inl ErrInvalidReservation
      else Inr (max responseBytes (if probePossible then wrap64 (providerLimit + 1) else providerLimit)))"

definition MaxAuditRangeCount :: int where "MaxAuditRangeCount = 1000000"

definition MaxAuditRangeBytes :: int where "MaxAuditRangeBytes = 1125899906842624"

section \<open>Row preparation\<close>

definition prepareUsageReservation ::
  "UsageRow \<Rightarrow> BudgetScopeLimits \<Rightarrow> time \<Rightarrow> duration \<Rightarrow> int \<Rightarrow> bool \<Rightarrow> (budget_error, UsageRow) result" where
  "prepareUsageReservation usage limits now window reservedBytes active =
     (if uVersion usage \<le> 0 \<or> uRequestCount usage < 0 \<or> uReservedBytes usage < 0
         \<or> uDeliveredBytes usage < 0 \<or> uInFlight usage < 0
         \<or> \<not> uWindowExpiresAt usage > uWindowStartedAt usage
      then Inl ErrBudgetState
      else
        let u1 = (if \<not> now < uWindowExpiresAt usage \<and> uInFlight usage = 0
                  then usage\<lparr>uWindowStartedAt := now, uWindowExpiresAt := now + window,
                             uRequestCount := 0, uReservedBytes := 0, uDeliveredBytes := 0\<rparr>
                  else usage)
        in if uRequestCount u1 \<ge> WindowRequests limits then Inl ErrBudgetExhausted
           else if active \<and> (uInFlight u1 \<ge> MaxInFlight limits
                  \<or> \<not> withinByteLimit (uDeliveredBytes u1) (uReservedBytes u1) reservedBytes (WindowBytes limits))
           then Inl ErrBudgetExhausted
           else
             let u2 = (if active
                       then u1\<lparr>uReservedBytes := wrap64 (uReservedBytes u1 + reservedBytes),
                               uInFlight := wrap64 (uInFlight u1 + 1)\<rparr>
                       else u1)
             in Inr (u2\<lparr>uRequestCount := wrap64 (uRequestCount u2 + 1),
                        uVersion := wrap64 (uVersion u2 + 1), uUpdatedAt := now\<rparr>))"

definition refreshedIdleExpiry :: "GrantRow \<Rightarrow> time \<Rightarrow> time" where
  "refreshedIdleExpiry grant now =
     (if gIdleTTLSeconds grant \<le> 0 \<or> gIdleTTLSeconds grant > MaxInt64 div Second
      then gAbsoluteExpiresAt grant
      else
        let candidate = now + gIdleTTLSeconds grant * Second
        in if candidate > gAbsoluteExpiresAt grant then gAbsoluteExpiresAt grant else candidate)"

definition prepareGrantReservation ::
  "GrantRow \<Rightarrow> time \<Rightarrow> int \<Rightarrow> bool \<Rightarrow> (budget_error, GrantRow) result" where
  "prepareGrantReservation grant now reservedBytes active =
     (if gVersion grant \<le> 0 \<or> gRequestCount grant < 0 \<or> gReservedBytes grant < 0
         \<or> gDeliveredBytes grant < 0 \<or> gInFlight grant < 0 \<or> gMaxRequests grant \<le> 0
         \<or> gMaxInFlight grant \<le> 0 \<or> gMaxBytesPerRequest grant \<le> 0
         \<or> gMaxCumulativeBytes grant < gMaxBytesPerRequest grant
      then Inl ErrBudgetState
      else if gRequestCount grant \<ge> gMaxRequests grant then Inl ErrBudgetExhausted
      else if active \<and> (reservedBytes > gMaxBytesPerRequest grant \<or> gInFlight grant \<ge> gMaxInFlight grant
             \<or> \<not> withinByteLimit (gDeliveredBytes grant) (gReservedBytes grant) reservedBytes
                  (gMaxCumulativeBytes grant))
      then Inl ErrBudgetExhausted
      else
        let g1 = (if active
                  then (let g0 = grant\<lparr>gReservedBytes := wrap64 (gReservedBytes grant + reservedBytes),
                                       gInFlight := wrap64 (gInFlight grant + 1),
                                       gLastActivityAt := now\<rparr>
                        in g0\<lparr>gIdleExpiresAt := refreshedIdleExpiry g0 now\<rparr>)
                  else grant)
        in Inr (g1\<lparr>gRequestCount := wrap64 (gRequestCount g1 + 1),
                   gVersion := wrap64 (gVersion g1 + 1), gUpdatedAt := now\<rparr>))"

definition applyGrantAuditSummary ::
  "GrantRow \<Rightarrow> AuditOutcome \<Rightarrow> int \<Rightarrow> bool \<Rightarrow> (budget_error, GrantRow) result" where
  "applyGrantAuditSummary grant outcome responseBytes rangeRequested =
     (if responseBytes < 0
         \<or> (gAuditState grant \<noteq> AuditNone \<and> gAuditState grant \<noteq> AuditPending)
         \<or> gAuditRangeCount grant < 0 \<or> gAuditRangeBytes grant < 0 \<or> gAuditRequestCount grant < 0
         \<or> gAuditSuccessCount grant < 0 \<or> gAuditBlockedCount grant < 0 \<or> gAuditFailureCount grant < 0
         \<or> gAuditFailureCode grant \<noteq> [] \<or> gAuditAttemptCount grant \<noteq> 0
         \<or> gAuditNextAttemptAt grant \<noteq> None
      then Inl ErrBudgetState
      else if gAuditState grant = AuditNone \<and> (gAuditRangeCount grant \<noteq> 0 \<or> gAuditRangeBytes grant \<noteq> 0
         \<or> gAuditRequestCount grant \<noteq> 0 \<or> gAuditSuccessCount grant \<noteq> 0
         \<or> gAuditBlockedCount grant \<noteq> 0 \<or> gAuditFailureCount grant \<noteq> 0)
      then Inl ErrBudgetState
      else
        let g1 = grant\<lparr>gAuditState := AuditPending,
                   gAuditRequestCount := boundedAuditCounter (gAuditRequestCount grant) 1 MaxAuditRangeCount\<rparr>;
            g2 = (if rangeRequested
                  then g1\<lparr>gAuditRangeCount := boundedAuditCounter (gAuditRangeCount g1) 1 MaxAuditRangeCount,
                          gAuditRangeBytes :=
                            boundedAuditCounter (gAuditRangeBytes g1) responseBytes MaxAuditRangeBytes\<rparr>
                  else g1)
        in Inr (case outcome of
             AuditOutcomeSuccess \<Rightarrow>
               g2\<lparr>gAuditSuccessCount := boundedAuditCounter (gAuditSuccessCount g2) 1 MaxAuditRangeCount\<rparr>
           | AuditOutcomeBlocked \<Rightarrow>
               g2\<lparr>gAuditBlockedCount := boundedAuditCounter (gAuditBlockedCount g2) 1 MaxAuditRangeCount\<rparr>
           | AuditOutcomeFailure \<Rightarrow>
               g2\<lparr>gAuditFailureCount := boundedAuditCounter (gAuditFailureCount g2) 1 MaxAuditRangeCount\<rparr>))"

definition grantAcceptsNewRequest :: "GrantRow \<Rightarrow> time \<Rightarrow> bool" where
  "grantAcceptsNewRequest grant now \<longleftrightarrow>
     gState grant = DeliveryActive \<and> now < gIdleExpiresAt grant
     \<and> now < gAbsoluteExpiresAt grant \<and> now < gSessionExpiresAt grant"

definition buildReservationRow :: "reservationSpec \<Rightarrow> time \<Rightarrow> RequestRow" where
  "buildReservationRow spec now =
     (let request =
        \<lparr>rID = sRequestID spec, rGrantID = sGrantID spec, rMethod = sMethod spec,
         rRangeKind = Kind (sRange spec), rRangeStart = Start (sRange spec),
         rRangeEndExclusive = EndExclusive (sRange spec), rSuffixLength = SuffixLength (sRange spec),
         rState = RequestReserved, rReservedBytes = sReservedBytes spec, rProviderBytes = 0,
         rResponseBytes = 0, rHTTPStatus = 0, rFailureCode = None, rStartedAt = now,
         rLastProgressAt = now, rFinishedAt = None, rCreatedAt = now, rUpdatedAt = now, rVersion = 1\<rparr>
      in if sBlocked spec
         then request\<lparr>rState := RequestBlocked, rReservedBytes := 0, rHTTPStatus := sStatus spec,
                      rFailureCode := sFailure spec, rFinishedAt := Some now\<rparr>
         else request)"

definition terminalFinalization :: "RequestRow \<Rightarrow> Finalization" where
  "terminalFinalization request =
     \<lparr>finRequestID = rID request, finState = rState request,
      finChargedBytes = (if rState request = RequestReconciled then rReservedBytes request
                         else max (rProviderBytes request) (rResponseBytes request)),
      finAlreadyFinalized = True, finFirstSuccessfulGET = False\<rparr>"


section \<open>Statements on the tables\<close>

definition usage_key :: "UsageRow \<Rightarrow> BudgetScopeKey" where
  "usage_key usage = (uScopeKind usage, uScopeID usage)"

definition gorm_ErrRecordNotFound :: budget_error where
  "gorm_ErrRecordNotFound = DBError ''record not found''"

definition loadGrantScope :: "faults \<Rightarrow> budget_db \<Rightarrow> string \<Rightarrow> (budget_error, GrantRow) result" where
  "loadGrantScope flt db grantID =
     bind_result (run_stmt flt StmtLoadGrantScope) (\<lambda>_.
       case take_row (\<lambda>g. gID g = grantID) (grants db) of
         None \<Rightarrow> Inl ErrGrantUnavailable
       | Some grant \<Rightarrow> Inr grant)"

definition lockUsage ::
  "faults \<Rightarrow> budget_stmt \<Rightarrow> budget_db \<Rightarrow> BudgetScopeKey \<Rightarrow> (budget_error, UsageRow option) result" where
  "lockUsage flt stmt db key =
     bind_result (run_stmt flt stmt) (\<lambda>_. Inr (take_row (\<lambda>u. usage_key u = key) (usages db)))"

definition new_usage :: "BudgetScopeKey \<Rightarrow> time \<Rightarrow> duration \<Rightarrow> UsageRow" where
  "new_usage key now window =
     \<lparr>uScopeKind = fst key, uScopeID = snd key, uWindowStartedAt = now, uWindowExpiresAt = now + window,
      uRequestCount = 0, uReservedBytes = 0, uDeliveredBytes = 0, uInFlight = 0, uVersion = 1,
      uUpdatedAt = now\<rparr>"

text \<open>\<open>INSERT ... ON CONFLICT DO NOTHING\<close> on the primary key (scope kind, scope id).\<close>

definition insert_usage :: "UsageRow \<Rightarrow> budget_db \<Rightarrow> budget_db" where
  "insert_usage candidate db =
     (if list_ex (\<lambda>u. usage_key u = usage_key candidate) (usages db) then db
      else db\<lparr>usages := usages db @ [candidate]\<rparr>)"

definition lockOrCreateUsage ::
  "faults \<Rightarrow> budget_db \<Rightarrow> BudgetScopeKey \<Rightarrow> time \<Rightarrow> duration \<Rightarrow> (budget_error, budget_db \<times> UsageRow) result" where
  "lockOrCreateUsage flt db key now window =
     bind_result (lockUsage flt (StmtLockUsage (fst key)) db key) (\<lambda>found.
       case found of
         Some usage \<Rightarrow> Inr (db, usage)
       | None \<Rightarrow>
           bind_result (run_stmt flt (StmtCreateUsage (fst key))) (\<lambda>_.
             let db1 = insert_usage (new_usage key now window) db
             in bind_result (lockUsage flt (StmtRelockUsage (fst key)) db1 key) (\<lambda>again.
                  case again of
                    Some usage \<Rightarrow> Inr (db1, usage)
                  | None \<Rightarrow> Inl gorm_ErrRecordNotFound)))"

definition lockExistingUsage ::
  "faults \<Rightarrow> budget_db \<Rightarrow> BudgetScopeKey \<Rightarrow> (budget_error, UsageRow) result" where
  "lockExistingUsage flt db key =
     bind_result (lockUsage flt (StmtLockUsage (fst key)) db key) (\<lambda>found.
       case found of Some usage \<Rightarrow> Inr usage | None \<Rightarrow> Inl ErrBudgetState)"

definition lockGrant :: "faults \<Rightarrow> budget_db \<Rightarrow> string \<Rightarrow> (budget_error, GrantRow) result" where
  "lockGrant flt db grantID =
     bind_result (run_stmt flt StmtLockGrant) (\<lambda>_.
       case take_row (\<lambda>g. gID g = grantID) (grants db) of
         None \<Rightarrow> Inl ErrGrantUnavailable
       | Some grant \<Rightarrow> Inr grant)"

definition lockRequest :: "faults \<Rightarrow> budget_db \<Rightarrow> string \<Rightarrow> (budget_error, RequestRow) result" where
  "lockRequest flt db requestID =
     bind_result (run_stmt flt StmtLockRequest) (\<lambda>_.
       case take_row (\<lambda>r. rID r = requestID) (requests db) of
         None \<Rightarrow> Inl ErrReservationNotFound
       | Some request \<Rightarrow> Inr request)"

text \<open>The columns the three optimistic updates write.\<close>

definition merge_usage :: "UsageRow \<Rightarrow> UsageRow \<Rightarrow> UsageRow" where
  "merge_usage old new =
     old\<lparr>uWindowStartedAt := uWindowStartedAt new, uWindowExpiresAt := uWindowExpiresAt new,
         uRequestCount := uRequestCount new, uReservedBytes := uReservedBytes new,
         uDeliveredBytes := uDeliveredBytes new, uInFlight := uInFlight new,
         uVersion := uVersion new, uUpdatedAt := uUpdatedAt new\<rparr>"

definition merge_grant :: "GrantRow \<Rightarrow> GrantRow \<Rightarrow> GrantRow" where
  "merge_grant old new =
     old\<lparr>gIdleExpiresAt := gIdleExpiresAt new, gLastActivityAt := gLastActivityAt new,
         gReservedBytes := gReservedBytes new, gDeliveredBytes := gDeliveredBytes new,
         gRequestCount := gRequestCount new, gInFlight := gInFlight new,
         gAuditState := gAuditState new, gAuditRangeCount := gAuditRangeCount new,
         gAuditRangeBytes := gAuditRangeBytes new, gAuditRequestCount := gAuditRequestCount new,
         gAuditSuccessCount := gAuditSuccessCount new, gAuditBlockedCount := gAuditBlockedCount new,
         gAuditFailureCount := gAuditFailureCount new, gVersion := gVersion new,
         gUpdatedAt := gUpdatedAt new\<rparr>"

definition merge_request :: "RequestRow \<Rightarrow> RequestRow \<Rightarrow> RequestRow" where
  "merge_request old new =
     old\<lparr>rState := rState new, rProviderBytes := rProviderBytes new, rResponseBytes := rResponseBytes new,
         rHTTPStatus := rHTTPStatus new, rFailureCode := rFailureCode new,
         rLastProgressAt := rLastProgressAt new, rFinishedAt := rFinishedAt new,
         rVersion := rVersion new, rUpdatedAt := rUpdatedAt new\<rparr>"

definition updateUsage :: "faults \<Rightarrow> budget_db \<Rightarrow> UsageRow \<Rightarrow> (budget_error, budget_db) result" where
  "updateUsage flt db usage =
     bind_result (run_stmt flt (StmtUpdateUsage (uScopeKind usage))) (\<lambda>_.
       case cas_update usage_key uVersion merge_usage usage (usages db) of
         None \<Rightarrow> Inl errBudgetConcurrent
       | Some rows \<Rightarrow> Inr (db\<lparr>usages := rows\<rparr>))"

definition updateGrantCounters :: "faults \<Rightarrow> budget_db \<Rightarrow> GrantRow \<Rightarrow> (budget_error, budget_db) result" where
  "updateGrantCounters flt db grant =
     bind_result (run_stmt flt StmtUpdateGrant) (\<lambda>_.
       case cas_update gID gVersion merge_grant grant (grants db) of
         None \<Rightarrow> Inl errBudgetConcurrent
       | Some rows \<Rightarrow> Inr (db\<lparr>grants := rows\<rparr>))"

definition updateRequest :: "faults \<Rightarrow> budget_db \<Rightarrow> RequestRow \<Rightarrow> (budget_error, budget_db) result" where
  "updateRequest flt db request =
     bind_result (run_stmt flt StmtUpdateRequest) (\<lambda>_.
       case cas_update rID rVersion merge_request request (requests db) of
         None \<Rightarrow> Inl errBudgetConcurrent
       | Some rows \<Rightarrow> Inr (db\<lparr>requests := rows\<rparr>))"

interpretation usage_table: versioned_table usage_key uVersion merge_usage
  by unfold_locales (simp_all add: usage_key_def merge_usage_def)

interpretation grant_table: versioned_table gID gVersion merge_grant
  by unfold_locales (simp_all add: merge_grant_def)

interpretation request_table: versioned_table rID rVersion merge_request
  by unfold_locales (simp_all add: merge_request_def)

section \<open>Transactions\<close>

text \<open>The loops over the scopes, in the order of the keys.\<close>

fun lockOrCreateScopes ::
  "faults \<Rightarrow> time \<Rightarrow> BudgetLimits \<Rightarrow> BudgetScopeKey list \<Rightarrow> budget_db
   \<Rightarrow> (budget_error, budget_db \<times> (UsageRow \<times> BudgetScopeLimits) list) result" where
  "lockOrCreateScopes flt now limits [] db = Inr (db, [])"
| "lockOrCreateScopes flt now limits (key # keys) db =
     bind_result (lockOrCreateUsage flt db key now (Window limits)) (\<lambda>(db1, usage).
       bind_result (lockOrCreateScopes flt now limits keys db1) (\<lambda>(db2, scopes).
         Inr (db2, (usage, limitsForScope limits (fst key)) # scopes)))"

fun prepareScopes ::
  "time \<Rightarrow> duration \<Rightarrow> int \<Rightarrow> bool \<Rightarrow> (UsageRow \<times> BudgetScopeLimits) list \<Rightarrow> (budget_error, UsageRow list) result" where
  "prepareScopes now window reservedBytes active [] = Inr []"
| "prepareScopes now window reservedBytes active ((usage, limits) # scopes) =
     bind_result (prepareUsageReservation usage limits now window reservedBytes active) (\<lambda>row.
       bind_result (prepareScopes now window reservedBytes active scopes) (\<lambda>rows. Inr (row # rows)))"

fun updateUsages :: "faults \<Rightarrow> UsageRow list \<Rightarrow> budget_db \<Rightarrow> (budget_error, budget_db) result" where
  "updateUsages flt [] db = Inr db"
| "updateUsages flt (row # rows) db = bind_result (updateUsage flt db row) (updateUsages flt rows)"

fun lockExistingScopes ::
  "faults \<Rightarrow> budget_db \<Rightarrow> BudgetScopeKey list \<Rightarrow> (budget_error, UsageRow list) result" where
  "lockExistingScopes flt db [] = Inr []"
| "lockExistingScopes flt db (key # keys) =
     bind_result (lockExistingUsage flt db key) (\<lambda>usage.
       bind_result (lockExistingScopes flt db keys) (\<lambda>rows. Inr (usage # rows)))"

definition reserve_tx ::
  "BudgetLimits \<Rightarrow> GrantRow \<Rightarrow> time \<Rightarrow> reservationSpec \<Rightarrow> faults \<Rightarrow> budget_db
   \<Rightarrow> (budget_error, budget_db \<times> Reservation) result" where
  "reserve_tx limits scopeGrant now spec flt db =
     bind_result (lockOrCreateScopes flt now limits (orderedBudgetScopeKeys scopeGrant) db) (\<lambda>(db1, scopes).
     bind_result (lockGrant flt db1 (sGrantID spec)) (\<lambda>grant.
       if gOwnerUserID grant \<noteq> gOwnerUserID scopeGrant \<or> gProviderKind grant \<noteq> gProviderKind scopeGrant
          \<or> \<not> grantAcceptsNewRequest grant now
       then Inl ErrGrantUnavailable
       else
     bind_result (run_stmt flt StmtTakeRequest) (\<lambda>_.
       if take_row (\<lambda>r. rID r = sRequestID spec) (requests db1) \<noteq> None then Inl ErrReservationReplay
       else
     let active = (\<not> sBlocked spec) in
     bind_result (prepareScopes now (Window limits) (sReservedBytes spec) active scopes) (\<lambda>rows.
     bind_result (prepareGrantReservation grant now (sReservedBytes spec) active) (\<lambda>grant1.
     bind_result (if sBlocked spec then applyGrantAuditSummary grant1 AuditOutcomeBlocked 0 (sRangeRequested spec)
                  else Inr grant1) (\<lambda>grant2.
     bind_result (updateUsages flt rows db1) (\<lambda>db2.
     bind_result (updateGrantCounters flt db2 grant2) (\<lambda>db3.
     bind_result (run_stmt flt StmtCreateRequest) (\<lambda>_.
       let request = buildReservationRow spec now in
       Inr (db3\<lparr>requests := requests db3 @ [request]\<rparr>,
            \<lparr>resRequestID = rID request, resGrantID = rGrantID request,
             resRequestVersion = rVersion request, resReservedBytes = rReservedBytes request\<rparr>))))))))))"

definition settle_usage :: "time \<Rightarrow> int \<Rightarrow> int \<Rightarrow> UsageRow \<Rightarrow> UsageRow" where
  "settle_usage now reserved charged usage =
     usage\<lparr>uReservedBytes := wrap64 (uReservedBytes usage - reserved),
           uDeliveredBytes := wrap64 (uDeliveredBytes usage + charged),
           uInFlight := wrap64 (uInFlight usage - 1), uVersion := wrap64 (uVersion usage + 1),
           uUpdatedAt := now\<rparr>"

definition settle_grant :: "time \<Rightarrow> int \<Rightarrow> int \<Rightarrow> GrantRow \<Rightarrow> GrantRow" where
  "settle_grant now reserved charged grant =
     grant\<lparr>gReservedBytes := wrap64 (gReservedBytes grant - reserved),
           gDeliveredBytes := wrap64 (gDeliveredBytes grant + charged),
           gInFlight := wrap64 (gInFlight grant - 1), gVersion := wrap64 (gVersion grant + 1),
           gUpdatedAt := now\<rparr>"

definition settle_request :: "time \<Rightarrow> FinalizeIntent \<Rightarrow> RequestRow \<Rightarrow> RequestRow" where
  "settle_request now intent request =
     request\<lparr>rState := fState intent,
             rProviderBytes := boundedEvidence (rReservedBytes request) (fProviderBytes intent),
             rResponseBytes := boundedEvidence (rReservedBytes request) (fResponseBytes intent),
             rHTTPStatus := fHTTPStatus intent, rFailureCode := fFailureCode intent,
             rFinishedAt := Some now, rLastProgressAt := now, rUpdatedAt := now,
             rVersion := wrap64 (rVersion request + 1)\<rparr>"

definition firstSuccessfulGET ::
  "faults \<Rightarrow> budget_db \<Rightarrow> GrantRow \<Rightarrow> RequestRow \<Rightarrow> FinalizeIntent \<Rightarrow> (budget_error, bool) result" where
  "firstSuccessfulGET flt db grant request intent =
     (if gResourceKind grant = DeliveryResourceBackupAsset \<and> rMethod request = MethodGet
         \<and> fState intent = RequestSucceeded \<and> (fHTTPStatus intent = 200 \<or> fHTTPStatus intent = 206)
      then bind_result (run_stmt flt StmtPreviousGet) (\<lambda>_.
             Inr (take_row (\<lambda>r. rGrantID r = gID grant \<and> rMethod r = MethodGet \<and> rState r = RequestSucceeded)
                    (requests db) = None))
      else Inr False)"

definition cannot_settle :: "int \<Rightarrow> int \<Rightarrow> int \<Rightarrow> int \<Rightarrow> int \<Rightarrow> bool" where
  "cannot_settle rowReserved rowInFlight rowDelivered reserved charged \<longleftrightarrow>
     rowReserved < reserved \<or> rowInFlight \<le> 0 \<or> wouldAddOverflow rowDelivered charged"

definition finalize_active ::
  "time \<Rightarrow> FinalizeIntent \<Rightarrow> faults \<Rightarrow> budget_db \<Rightarrow> UsageRow list \<Rightarrow> GrantRow \<Rightarrow> RequestRow
   \<Rightarrow> (budget_error, budget_db \<times> Finalization) result" where
  "finalize_active now intent flt db scopes grant request =
     bind_result (firstSuccessfulGET flt db grant request intent) (\<lambda>first.
     let (charged, evidenceValid) = finalCharge (rReservedBytes request) intent in
       if cannot_settle (gReservedBytes grant) (gInFlight grant) (gDeliveredBytes grant)
            (rReservedBytes request) charged
       then Inl ErrBudgetState
       else if list_ex (\<lambda>usage. cannot_settle (uReservedBytes usage) (uInFlight usage)
                 (uDeliveredBytes usage) (rReservedBytes request) charged) scopes
       then Inl ErrBudgetState
       else
     bind_result (updateUsages flt (map (settle_usage now (rReservedBytes request) charged) scopes) db) (\<lambda>db1.
     bind_result (applyGrantAuditSummary grant
                    (if fState intent = RequestSucceeded then AuditOutcomeSuccess else AuditOutcomeFailure)
                    (boundedEvidence (rReservedBytes request) (fResponseBytes intent))
                    (rRangeKind request \<noteq> HTTPRangeFull)) (\<lambda>grant1.
     bind_result (updateGrantCounters flt db1 (settle_grant now (rReservedBytes request) charged grant1)) (\<lambda>db2.
       if \<not> evidenceValid \<and> fState intent = RequestSucceeded then Inl ErrInvalidReservation
       else
     bind_result (updateRequest flt db2 (settle_request now intent request)) (\<lambda>db3.
       Inr (db3, \<lparr>finRequestID = rID request, finState = fState intent, finChargedBytes = charged,
                  finAlreadyFinalized = False, finFirstSuccessfulGET = first\<rparr>))))))"

definition finalize_tx ::
  "GrantRow \<Rightarrow> string \<Rightarrow> time \<Rightarrow> FinalizeIntent \<Rightarrow> faults \<Rightarrow> budget_db
   \<Rightarrow> (budget_error, budget_db \<times> Finalization) result" where
  "finalize_tx scopeGrant grantID now intent flt db =
     bind_result (lockExistingScopes flt db (orderedBudgetScopeKeys scopeGrant)) (\<lambda>scopes.
     bind_result (lockGrant flt db grantID) (\<lambda>grant.
       if gOwnerUserID grant \<noteq> gOwnerUserID scopeGrant \<or> gProviderKind grant \<noteq> gProviderKind scopeGrant
       then Inl ErrBudgetState
       else
     bind_result (lockRequest flt db (fRequestID intent)) (\<lambda>request.
       if rGrantID request \<noteq> gID grant then Inl ErrBudgetState
       else if requestTerminal (rState request) then Inr (db, terminalFinalization request)
       else if rState request \<noteq> RequestReserved \<and> rState request \<noteq> RequestStreaming then Inl ErrBudgetState
       else if rVersion request \<noteq> fExpectedRequestVersion intent then Inl ErrReservationStale
       else finalize_active now intent flt db scopes grant request)))"

section \<open>Retry\<close>

definition budget_error_message :: "budget_error \<Rightarrow> string" where
  "budget_error_message err =
     (case err of
        ErrInvalidBudgetConfig \<Rightarrow> ''invalid content budget config''
      | ErrInvalidReservation \<Rightarrow> ''invalid content reservation''
      | ErrBudgetExhausted \<Rightarrow> ''content budget exhausted''
      | ErrGrantUnavailable \<Rightarrow> ''content grant unavailable''
      | ErrReservationReplay \<Rightarrow> ''content reservation replay''
      | ErrReservationNotFound \<Rightarrow> ''content reservation not found''
      | ErrReservationStale \<Rightarrow> ''content reservation stale''
      | ErrBudgetState \<Rightarrow> ''invalid content budget state''
      | errBudgetConcurrent \<Rightarrow> ''concurrent content budget update''
      | DBError message \<Rightarrow> message
      | CtxError message \<Rightarrow> message)"

definition retryableBudgetError :: "(string \<Rightarrow> string) \<Rightarrow> budget_error \<Rightarrow> bool" where
  "retryableBudgetError unicode_lower err =
     (if err = errBudgetConcurrent then True
      else
        let message = ToLower unicode_lower (budget_error_message err)
        in Contains message ''database is locked'' \<or> Contains message ''database table is locked''
           \<or> Contains message ''deadlock detected'' \<or> Contains message ''could not serialize access''
           \<or> Contains message ''serialization failure'')"

text \<open>
  \<open>db.Transaction\<close>: the operation runs between \<open>BEGIN\<close> and \<open>COMMIT\<close>; when it returns an error, or
  the commit fails, the tables are as before.
\<close>

definition Transaction ::
  "faults \<Rightarrow> (faults \<Rightarrow> budget_db \<Rightarrow> (budget_error, budget_db \<times> 'a) result) \<Rightarrow> budget_db
   \<Rightarrow> budget_db \<times> (budget_error, 'a) result" where
  "Transaction flt operation db =
     (case bind_result (run_stmt flt StmtBegin) (\<lambda>_.
             bind_result (operation flt db) (\<lambda>r. bind_result (run_stmt flt StmtCommit) (\<lambda>_. Inr r))) of
        Inl err \<Rightarrow> (db, Inl err)
      | Inr (db1, value) \<Rightarrow> (db1, Inr value))"

text \<open>
  The loop of \<open>transactionWithRetry\<close>. \<open>remaining\<close> counts the attempts after this one; other
  transactions commit between two attempts (\<open>envOthers\<close>).
\<close>

fun retry_loop ::
  "budget_env \<Rightarrow> (faults \<Rightarrow> budget_db \<Rightarrow> (budget_error, budget_db \<times> 'a) result) \<Rightarrow> nat \<Rightarrow> nat \<Rightarrow> budget_db
   \<Rightarrow> budget_db \<times> (budget_error, 'a) result" where
  "retry_loop env operation remaining attempt db =
     (case Transaction (envTxFault env attempt) operation (envOthers env attempt db) of
        (db1, Inr value) \<Rightarrow> (db1, Inr value)
      | (db1, Inl err) \<Rightarrow>
          if \<not> retryableBudgetError (envUnicodeLower env) err then (db1, Inl err)
          else case envCtxErr env attempt of
                 Some message \<Rightarrow> (db1, Inl (CtxError message))
               | None \<Rightarrow> (case remaining of
                   0 \<Rightarrow> (db1, Inl err)
                 | Suc n \<Rightarrow> retry_loop env operation n (Suc attempt) db1))"

declare retry_loop.simps [simp del]

definition transactionWithRetry ::
  "budget_env \<Rightarrow> (faults \<Rightarrow> budget_db \<Rightarrow> (budget_error, budget_db \<times> 'a) result) \<Rightarrow> budget_db
   \<Rightarrow> budget_db \<times> (budget_error, 'a) result" where
  "transactionWithRetry env operation db = retry_loop env operation 15 0 db"

section \<open>The service\<close>

definition NewBudgetService :: "budget_env \<Rightarrow> (budget_error, budget_env) result" where
  "NewBudgetService env =
     (case envLimits env of
        None \<Rightarrow> Inl ErrInvalidBudgetConfig
      | Some limits \<Rightarrow> if \<not> validBudgetLimits limits then Inl ErrInvalidBudgetConfig else Inr env)"

definition reserve ::
  "budget_env \<Rightarrow> reservationSpec \<Rightarrow> budget_db \<Rightarrow> budget_db \<times> (budget_error, Reservation) result" where
  "reserve env spec db =
     (case envLimits env of
        None \<Rightarrow> (db, Inl ErrInvalidBudgetConfig)
      | Some limits \<Rightarrow>
          if \<not> validBudgetLimits limits then (db, Inl ErrInvalidBudgetConfig)
          else case loadGrantScope (envFault env) db (sGrantID spec) of
            Inl err \<Rightarrow> (db, Inl err)
          | Inr scopeGrant \<Rightarrow>
              if \<not> validBudgetScopeKeys (orderedBudgetScopeKeys scopeGrant) then (db, Inl ErrGrantUnavailable)
              else transactionWithRetry env (reserve_tx limits scopeGrant (envNow env) spec) db)"

definition intent_spec :: "ReservationIntent \<Rightarrow> reservationSpec" where
  "intent_spec intent =
     \<lparr>sRequestID = iRequestID intent, sGrantID = iGrantID intent, sMethod = iMethod intent,
      sRange = iRange intent, sReservedBytes = iReservedBytes intent, sBlocked = False,
      sRangeRequested = False, sStatus = 0, sFailure = None\<rparr>"

definition Reserve ::
  "budget_env \<Rightarrow> ReservationIntent \<Rightarrow> budget_db \<Rightarrow> budget_db \<times> (budget_error, Reservation) result" where
  "Reserve env intent db =
     (if \<not> validReservationIntent intent then (db, Inl ErrInvalidReservation)
      else reserve env (intent_spec intent) db)"

definition blocked_spec :: "BlockedRequest \<Rightarrow> reservationSpec" where
  "blocked_spec request =
     \<lparr>sRequestID = bRequestID request, sGrantID = bGrantID request, sMethod = bMethod request,
      sRange = \<lparr>Kind = HTTPRangeFull, Start = None, EndExclusive = None, SuffixLength = None,
                Offset = 0, Length = 0\<rparr>,
      sReservedBytes = 0, sBlocked = True, sRangeRequested = bRangeRequested request,
      sStatus = bStatus request, sFailure = bFailureCode request\<rparr>"

definition RecordBlocked ::
  "budget_env \<Rightarrow> BlockedRequest \<Rightarrow> budget_db \<Rightarrow> budget_db \<times> (budget_error, unit) result" where
  "RecordBlocked env request db =
     (if \<not> validBlockedRequest request then (db, Inl ErrInvalidReservation)
      else case reserve env (blocked_spec request) db of
          (db1, Inl err) \<Rightarrow> (db1, Inl err)
        | (db1, Inr _) \<Rightarrow> (db1, Inr ()))"

definition Finalize ::
  "budget_env \<Rightarrow> FinalizeIntent \<Rightarrow> budget_db \<Rightarrow> budget_db \<times> (budget_error, Finalization) result" where
  "Finalize env intent db =
     (if \<not> validFinalizeIntent intent then (db, Inl ErrInvalidReservation)
      else case bind_result (run_stmt (envFault env) StmtLoadRequest) (\<lambda>_.
                  case take_row (\<lambda>r. rID r = fRequestID intent) (requests db) of
                    None \<Rightarrow> Inl ErrReservationNotFound
                  | Some snapshot \<Rightarrow> bind_result (loadGrantScope (envFault env) db (rGrantID snapshot))
                      (\<lambda>scopeGrant. Inr (rGrantID snapshot, scopeGrant))) of
             Inl err \<Rightarrow> (db, Inl err)
           | Inr (grantID, scopeGrant) \<Rightarrow>
               if \<not> validBudgetScopeKeys (orderedBudgetScopeKeys scopeGrant) then (db, Inl ErrBudgetState)
               else transactionWithRetry env (finalize_tx scopeGrant grantID (envNow env) intent) db)"

end
