(* ===== verification/Budget_Ledger.thy ===== *)
theory Budget_Ledger
  imports Content_Budget
begin

text \<open>
  Correctness of the content delivery budget. The counters that \<open>budget.go\<close> keeps on the grant row
  and on the three usage rows are caches: each must equal the total over the requests that are
  reserved or streaming. \<open>ledger\<close> states that, together with the key and range constraints of the
  tables. The theory shows what the steps of the two transactions do to the rows, and that both
  transactions keep the ledger.
\<close>

section \<open>The specification\<close>

definition request_active :: "RequestRow \<Rightarrow> bool" where
  "request_active r \<longleftrightarrow> rState r = RequestReserved \<or> rState r = RequestStreaming"

definition held :: "(RequestRow \<Rightarrow> int) \<Rightarrow> (RequestRow \<Rightarrow> bool) \<Rightarrow> RequestRow list \<Rightarrow> int" where
  "held w p rows = (\<Sum>r \<leftarrow> rows. if request_active r \<and> p r then w r else 0)"

definition of_grant :: "string \<Rightarrow> RequestRow \<Rightarrow> bool" where
  "of_grant grantID r \<longleftrightarrow> rGrantID r = grantID"

definition in_scope :: "GrantRow list \<Rightarrow> BudgetScopeKey \<Rightarrow> RequestRow \<Rightarrow> bool" where
  "in_scope gs key r = list_ex (\<lambda>g. gID g = rGrantID r \<and> key \<in> set (orderedBudgetScopeKeys g)) gs"

definition grant_typed :: "GrantRow \<Rightarrow> bool" where
  "grant_typed g = list_all in_i64
     [gReservedBytes g, gDeliveredBytes g, gInFlight g, gRequestCount g, gMaxBytesPerRequest g,
      gMaxCumulativeBytes g, gMaxRequests g, gMaxInFlight g]"

definition usage_typed :: "UsageRow \<Rightarrow> bool" where
  "usage_typed u = list_all in_i64 [uReservedBytes u, uDeliveredBytes u, uInFlight u, uRequestCount u]"

definition limits_typed :: "BudgetLimits \<Rightarrow> bool" where
  "limits_typed l = list_all (\<lambda>s. list_all in_i64 [WindowBytes s, WindowRequests s, MaxInFlight s])
     [LimitsGlobal l, LimitsProvider l, LimitsUser l]"

definition grant_settled :: "RequestRow list \<Rightarrow> GrantRow \<Rightarrow> bool" where
  "grant_settled rows g \<longleftrightarrow>
     gReservedBytes g = held rReservedBytes (of_grant (gID g)) rows
     \<and> gInFlight g = held (\<lambda>_. 1) (of_grant (gID g)) rows"

definition usage_settled :: "GrantRow list \<Rightarrow> RequestRow list \<Rightarrow> UsageRow \<Rightarrow> bool" where
  "usage_settled gs rows u \<longleftrightarrow>
     uReservedBytes u = held rReservedBytes (in_scope gs (usage_key u)) rows
     \<and> uInFlight u = held (\<lambda>_. 1) (in_scope gs (usage_key u)) rows"

definition scopes_present :: "budget_db \<Rightarrow> bool" where
  "scopes_present db \<longleftrightarrow>
     (\<forall>r \<in> set (requests db). \<forall>g \<in> set (grants db). request_active r \<and> gID g = rGrantID r \<longrightarrow>
        set (orderedBudgetScopeKeys g) \<subseteq> usage_key ` set (usages db))"

definition ledger :: "budget_db \<Rightarrow> bool" where
  "ledger db \<longleftrightarrow>
     distinct (map usage_key (usages db)) \<and> distinct (map gID (grants db))
     \<and> distinct (map rID (requests db))
     \<and> list_all grant_typed (grants db) \<and> list_all usage_typed (usages db)
     \<and> (\<forall>r \<in> set (requests db). 0 \<le> rReservedBytes r)
     \<and> (\<forall>g \<in> set (grants db). grant_settled (requests db) g)
     \<and> (\<forall>u \<in> set (usages db). usage_settled (grants db) (requests db) u)
     \<and> scopes_present db"

definition grant_within :: "GrantRow \<Rightarrow> bool" where
  "grant_within g \<longleftrightarrow>
     0 \<le> gDeliveredBytes g \<and> gDeliveredBytes g + gReservedBytes g \<le> gMaxCumulativeBytes g
     \<and> gInFlight g \<le> gMaxInFlight g \<and> gRequestCount g \<le> gMaxRequests g"

section \<open>Totals over the active requests\<close>

lemma held_Nil [simp]: "held w p [] = 0"
  by (simp add: held_def)

lemma held_Cons [simp]:
  "held w p (r # rows) = (if request_active r \<and> p r then w r else 0) + held w p rows"
  by (simp add: held_def)

lemma held_append [simp]: "held w p (rows @ rows') = held w p rows + held w p rows'"
  by (simp add: held_def)

lemma held_nonneg: "(\<And>r. r \<in> set rows \<Longrightarrow> 0 \<le> w r) \<Longrightarrow> 0 \<le> held w p rows"
  by (induction rows) auto

lemma held_none: "held (\<lambda>_. 1) p rows = 0 \<Longrightarrow> held w p rows = 0"
proof (induction rows)
  case (Cons r rows)
  moreover have "0 \<le> held (\<lambda>_. 1) p rows" by (rule held_nonneg) simp
  ultimately show ?case by (auto split: if_splits)
qed simp

lemma held_no_scope:
  assumes "\<And>r. r \<in> set rows \<Longrightarrow> request_active r \<Longrightarrow> \<not> p r"
  shows "held w p rows = 0"
  using assms by (induction rows) auto

lemma held_replace:
  assumes "distinct (map rID rows)" and "q \<in> set rows"
  shows "held w p (update_where (\<lambda>r. rID r = rID q) f rows)
         = held w p rows - (if request_active q \<and> p q then w q else 0)
           + (if request_active (f q) \<and> p (f q) then w (f q) else 0)"
  unfolding held_def
  by (rule sum_update_one [OF assms]) (use key_unique [OF assms(1) _ assms(2)] in auto)

text \<open>The scopes of a request depend on identity, owner and provider of the grants only.\<close>

definition grant_ident :: "GrantRow \<Rightarrow> string \<times> BudgetScopeKey list" where
  "grant_ident g = (gID g, orderedBudgetScopeKeys g)"

lemma in_scope_ident:
  assumes "map grant_ident gs' = map grant_ident gs"
  shows "in_scope gs' key r = in_scope gs key r"
proof -
  have "in_scope gs key r = list_ex (\<lambda>(i, ks). i = rGrantID r \<and> key \<in> set ks) (map grant_ident gs)" for gs
    by (induction gs) (simp_all add: in_scope_def grant_ident_def)
  with assms show ?thesis by metis
qed

lemma in_scope_grant:
  assumes "distinct (map gID gs)" and "g \<in> set gs" and "rGrantID r = gID g"
  shows "in_scope gs key r \<longleftrightarrow> key \<in> set (orderedBudgetScopeKeys g)"
  using assms key_unique [OF assms(1) _ assms(2)] by (auto simp: in_scope_def list_ex_iff)

lemma merge_grant_simps [simp]:
  "gID (merge_grant g n) = gID g" "gReservedBytes (merge_grant g n) = gReservedBytes n"
  "gInFlight (merge_grant g n) = gInFlight n" "gDeliveredBytes (merge_grant g n) = gDeliveredBytes n"
  "gRequestCount (merge_grant g n) = gRequestCount n"
  "gMaxCumulativeBytes (merge_grant g n) = gMaxCumulativeBytes g"
  "gMaxBytesPerRequest (merge_grant g n) = gMaxBytesPerRequest g"
  "gMaxRequests (merge_grant g n) = gMaxRequests g" "gMaxInFlight (merge_grant g n) = gMaxInFlight g"
  "grant_ident (merge_grant g n) = grant_ident g"
  by (simp_all add: merge_grant_def grant_ident_def orderedBudgetScopeKeys_def)

lemma merge_usage_same: "usage_key n = usage_key u \<Longrightarrow> merge_usage u n = n"
  by (simp add: merge_usage_def usage_key_def)

section \<open>What the preparation steps do\<close>

lemma withinByteLimit_exact:
  assumes "in_i64 limit"
  shows "withinByteLimit delivered reserved additional limit \<longleftrightarrow>
    0 \<le> delivered \<and> 0 \<le> reserved \<and> 0 \<le> additional \<and> delivered + reserved + additional \<le> limit"
proof (cases "0 \<le> delivered \<and> 0 \<le> reserved \<and> 0 \<le> additional \<and> delivered \<le> limit")
  case True
  then have d: "wrap64 (limit - delivered) = limit - delivered"
    using assms by (intro wrap64_id) (simp add: in_i64_def MinInt64_def)
  show ?thesis
  proof (cases "reserved \<le> limit - delivered")
    case less: True
    have "wrap64 (limit - delivered - reserved) = limit - delivered - reserved"
      using assms True less by (intro wrap64_id) (simp add: in_i64_def MinInt64_def)
    with True d show ?thesis by (auto simp: withinByteLimit_def)
  next
    case False
    with True d show ?thesis by (auto simp: withinByteLimit_def)
  qed
next
  case False
  then show ?thesis by (auto simp: withinByteLimit_def)
qed

lemma wouldAddOverflow_exact:
  assumes "in_i64 additional"
  shows "\<not> wouldAddOverflow current additional \<longleftrightarrow>
    0 \<le> current \<and> 0 \<le> additional \<and> current + additional \<le> MaxInt64"
proof (cases "0 \<le> additional")
  case True
  with assms have "wrap64 (MaxInt64 - additional) = MaxInt64 - additional"
    by (intro wrap64_id) (simp add: in_i64_def MinInt64_def MaxInt64_def)
  with True show ?thesis by (auto simp: wouldAddOverflow_def)
next
  case False
  then show ?thesis by (auto simp: wouldAddOverflow_def)
qed

lemma add_in_i64: "0 \<le> x \<Longrightarrow> x < y \<Longrightarrow> in_i64 y \<Longrightarrow> in_i64 (x + 1)"
  by (simp add: in_i64_def MinInt64_def)

lemma prepareUsage_ok:
  assumes "prepareUsageReservation u l now window bytes active = Inr n"
    and "usage_typed u" and "in_i64 (WindowBytes l)" and "in_i64 (WindowRequests l)" and "in_i64 (MaxInFlight l)"
    and "uInFlight u = 0 \<Longrightarrow> uReservedBytes u = 0"
  shows "usage_key n = usage_key u \<and> usage_typed n
    \<and> uReservedBytes n = uReservedBytes u + (if active then bytes else 0)
    \<and> uInFlight n = uInFlight u + (if active then 1 else 0)
    \<and> uRequestCount n \<le> WindowRequests l
    \<and> (active \<longrightarrow> 0 \<le> bytes \<and> uInFlight n \<le> MaxInFlight l
        \<and> uDeliveredBytes n + uReservedBytes n \<le> WindowBytes l)
    \<and> uVersion n = wrap64 (uVersion u + 1)"
proof -
  define u1 where "u1 = (if \<not> now < uWindowExpiresAt u \<and> uInFlight u = 0
    then u\<lparr>uWindowStartedAt := now, uWindowExpiresAt := now + window, uRequestCount := 0,
           uReservedBytes := 0, uDeliveredBytes := 0\<rparr> else u)"
  have u1: "usage_key u1 = usage_key u" "uReservedBytes u1 = uReservedBytes u" "uInFlight u1 = uInFlight u"
    "uVersion u1 = uVersion u" "usage_typed u1"
    using assms(2,6) by (auto simp: u1_def usage_key_def usage_typed_def in_i64_def MinInt64_def MaxInt64_def)
  have nonneg: "0 \<le> uInFlight u1" "0 \<le> uRequestCount u1" "uRequestCount u1 < WindowRequests l"
    and act: "active \<Longrightarrow> uInFlight u1 < MaxInFlight l
      \<and> withinByteLimit (uDeliveredBytes u1) (uReservedBytes u1) bytes (WindowBytes l)"
    and n: "n = (let u2 = (if active
                       then u1\<lparr>uReservedBytes := wrap64 (uReservedBytes u1 + bytes),
                               uInFlight := wrap64 (uInFlight u1 + 1)\<rparr> else u1)
             in u2\<lparr>uRequestCount := wrap64 (uRequestCount u2 + 1),
                   uVersion := wrap64 (uVersion u2 + 1), uUpdatedAt := now\<rparr>)"
    using assms(1) unfolding prepareUsageReservation_def Let_def u1_def [symmetric]
    by (auto simp: u1_def split: if_splits)
  have count: "wrap64 (uRequestCount u1 + 1) = uRequestCount u1 + 1"
    by (rule wrap64_id, rule add_in_i64 [OF nonneg(2,3) assms(4)])
  show ?thesis
  proof (cases active)
    case True
    have flight: "wrap64 (uInFlight u1 + 1) = uInFlight u1 + 1"
      using act [OF True] by (intro wrap64_id add_in_i64 [OF nonneg(1) _ assms(5)]) simp
    have lim: "0 \<le> uDeliveredBytes u1" "0 \<le> uReservedBytes u1" "0 \<le> bytes"
      "uDeliveredBytes u1 + uReservedBytes u1 + bytes \<le> WindowBytes l"
      using act [OF True] by (simp_all add: withinByteLimit_exact [OF assms(3)])
    have "wrap64 (uReservedBytes u1 + bytes) = uReservedBytes u1 + bytes"
      using lim assms(3) by (intro wrap64_id) (simp add: in_i64_def MinInt64_def)
    with True flight count lim u1 nonneg act [OF True] show ?thesis
      by (simp add: n usage_key_def usage_typed_def) (metis wrap64_range)
  next
    case False
    with count u1 nonneg show ?thesis
      by (simp add: n usage_key_def usage_typed_def) (metis wrap64_range)
  qed
qed

lemma prepareGrant_ok:
  assumes "prepareGrantReservation g now bytes active = Inr n" and "grant_typed g"
  shows "gID n = gID g \<and> grant_typed n \<and> grant_ident n = grant_ident g
    \<and> gReservedBytes n = gReservedBytes g + (if active then bytes else 0)
    \<and> gInFlight n = gInFlight g + (if active then 1 else 0)
    \<and> gDeliveredBytes n = gDeliveredBytes g \<and> gRequestCount n = gRequestCount g + 1
    \<and> gRequestCount n \<le> gMaxRequests g
    \<and> (active \<longrightarrow> 0 \<le> bytes \<and> bytes \<le> gMaxBytesPerRequest g \<and> gInFlight n \<le> gMaxInFlight g
        \<and> gDeliveredBytes n + gReservedBytes n \<le> gMaxCumulativeBytes g)"
proof -
  have t: "in_i64 (gMaxCumulativeBytes g)" "in_i64 (gMaxInFlight g)" "in_i64 (gMaxRequests g)"
    using assms(2) by (simp_all add: grant_typed_def)
  have pos: "0 \<le> gRequestCount g" "0 \<le> gInFlight g" "gRequestCount g < gMaxRequests g"
    and act: "active \<Longrightarrow> gInFlight g < gMaxInFlight g \<and> bytes \<le> gMaxBytesPerRequest g
      \<and> withinByteLimit (gDeliveredBytes g) (gReservedBytes g) bytes (gMaxCumulativeBytes g)"
    using assms(1) unfolding prepareGrantReservation_def Let_def by (auto split: if_splits)
  have count: "wrap64 (gRequestCount g + 1) = gRequestCount g + 1"
    by (rule wrap64_id, rule add_in_i64 [OF pos(1,3) t(3)])
  show ?thesis
  proof (cases active)
    case True
    have flight: "wrap64 (gInFlight g + 1) = gInFlight g + 1"
      using act [OF True] by (intro wrap64_id add_in_i64 [OF pos(2) _ t(2)]) simp
    have lim: "0 \<le> gDeliveredBytes g" "0 \<le> gReservedBytes g" "0 \<le> bytes"
      "gDeliveredBytes g + gReservedBytes g + bytes \<le> gMaxCumulativeBytes g"
      using act [OF True] by (simp_all add: withinByteLimit_exact [OF t(1)])
    have sum: "wrap64 (gReservedBytes g + bytes) = gReservedBytes g + bytes"
      using lim t(1) by (intro wrap64_id) (simp add: in_i64_def MinInt64_def)
    obtain idle where n: "n = g\<lparr>gReservedBytes := gReservedBytes g + bytes, gInFlight := gInFlight g + 1,
        gLastActivityAt := now, gIdleExpiresAt := idle, gRequestCount := gRequestCount g + 1,
        gVersion := wrap64 (gVersion g + 1), gUpdatedAt := now\<rparr>"
      using assms(1) True flight count sum unfolding prepareGrantReservation_def Let_def
      by (auto split: if_splits)
    show ?thesis using True lim pos act [OF True] assms(2) flight count sum wrap64_range
      by (simp add: n grant_typed_def grant_ident_def orderedBudgetScopeKeys_def) (metis wrap64_range)
  next
    case False
    then have n: "n = g\<lparr>gRequestCount := gRequestCount g + 1,
        gVersion := wrap64 (gVersion g + 1), gUpdatedAt := now\<rparr>"
      using assms(1) count unfolding prepareGrantReservation_def Let_def by (auto split: if_splits)
    show ?thesis using False pos assms(2) count
      by (simp add: n grant_typed_def grant_ident_def orderedBudgetScopeKeys_def) (metis wrap64_range)
  qed
qed

lemma applyAudit_ok:
  assumes "applyGrantAuditSummary g outcome bytes ranged = Inr n"
  shows "gID n = gID g \<and> grant_ident n = grant_ident g \<and> grant_typed n = grant_typed g
    \<and> gReservedBytes n = gReservedBytes g \<and> gInFlight n = gInFlight g
    \<and> gDeliveredBytes n = gDeliveredBytes g \<and> gRequestCount n = gRequestCount g
    \<and> gMaxRequests n = gMaxRequests g \<and> gMaxInFlight n = gMaxInFlight g
    \<and> gMaxCumulativeBytes n = gMaxCumulativeBytes g \<and> gVersion n = gVersion g"
  using assms unfolding applyGrantAuditSummary_def Let_def guard_eq_Inr
  by (elim conjE, drule_tac Inr_inject, (thin_tac "\<not> _")+, cases outcome; cases ranged;
      clarsimp simp: grant_typed_def grant_ident_def orderedBudgetScopeKeys_def)

section \<open>Locking the scope rows\<close>

definition idle_usage :: "UsageRow \<Rightarrow> bool" where
  "idle_usage u \<longleftrightarrow> uReservedBytes u = 0 \<and> uInFlight u = 0 \<and> usage_typed u"

lemma new_usage_simps [simp]:
  "usage_key (new_usage key now window) = key" "idle_usage (new_usage key now window)"
  by (simp_all add: idle_usage_def new_usage_def usage_key_def usage_typed_def in_i64_def MinInt64_def MaxInt64_def)

lemma lockOrCreateUsage_ok:
  assumes "lockOrCreateUsage flt db key now window = Inr (db', u)"
    and "distinct (map usage_key (usages db))"
  shows "grants db' = grants db \<and> requests db' = requests db \<and> distinct (map usage_key (usages db'))
    \<and> u \<in> set (usages db') \<and> usage_key u = key
    \<and> (usages db' = usages db
       \<or> key \<notin> usage_key ` set (usages db) \<and> usages db' = usages db @ [new_usage key now window])"
proof (cases "take_row (\<lambda>u. usage_key u = key) (usages db)")
  case None
  have "key \<notin> usage_key ` set (usages db)" using None by (auto simp: take_row_None)
  moreover from this have "db' = db\<lparr>usages := usages db @ [new_usage key now window]\<rparr>"
    and "take_row (\<lambda>u. usage_key u = key) (usages db @ [new_usage key now window]) = Some u"
    using assms(1) None by (auto simp: lockOrCreateUsage_def lockUsage_def insert_usage_def result_simps
        list_ex_iff take_row_None image_iff split: option.splits if_splits)
  ultimately show ?thesis using assms(2) by (auto dest: take_row_Some)
next
  case (Some v)
  then have "db' = db" "u = v"
    using assms(1) by (auto simp: lockOrCreateUsage_def lockUsage_def result_simps split: option.splits)
  then show ?thesis using Some assms(2) by (auto dest: take_row_Some)
qed

lemma lockOrCreateScopes_ok:
  assumes "lockOrCreateScopes flt now limits keys db = Inr (db', scopes)"
    and "distinct (map usage_key (usages db))"
  shows "grants db' = grants db \<and> requests db' = requests db \<and> distinct (map usage_key (usages db'))
    \<and> map (usage_key \<circ> fst) scopes = keys \<and> fst ` set scopes \<subseteq> set (usages db')
    \<and> (\<forall>(u, l) \<in> set scopes. l = limitsForScope limits (fst (usage_key u)))
    \<and> set (usages db) \<subseteq> set (usages db')
    \<and> (\<forall>u \<in> set (usages db') - set (usages db).
         usage_key u \<notin> usage_key ` set (usages db) \<and> idle_usage u)"
  using assms
proof (induction keys arbitrary: db db' scopes)
  case Nil
  then show ?case by simp
next
  case (Cons key keys)
  obtain db1 u rest where one: "lockOrCreateUsage flt db key now (Window limits) = Inr (db1, u)"
    and more: "lockOrCreateScopes flt now limits keys db1 = Inr (db', rest)"
    and scopes: "scopes = (u, limitsForScope limits (fst key)) # rest"
    using Cons.prems(1) by (auto simp: result_simps)
  note A = lockOrCreateUsage_ok [OF one Cons.prems(2)]
  note B = Cons.IH [OF more conjunct1 [OF conjunct2 [OF conjunct2 [OF A]]]]
  have "set (usages db) \<subseteq> set (usages db1)" using A by auto
  moreover have "usage_key v \<notin> usage_key ` set (usages db) \<and> idle_usage v"
    if "v \<in> set (usages db') - set (usages db)" for v
  proof (cases "v \<in> set (usages db1)")
    case True
    with that A have "v = new_usage key now (Window limits)" and "key \<notin> usage_key ` set (usages db)" by auto
    then show ?thesis by auto
  next
    case False
    with that B have "usage_key v \<notin> usage_key ` set (usages db1) \<and> idle_usage v"
      by blast
    with \<open>set (usages db) \<subseteq> set (usages db1)\<close> show ?thesis by blast
  qed
  ultimately show ?case using A B scopes by auto
qed

lemma ledger_fresh_scopes:
  assumes "ledger db" and "grants db' = grants db" and "requests db' = requests db"
    and "distinct (map usage_key (usages db'))" and "set (usages db) \<subseteq> set (usages db')"
    and "\<forall>u \<in> set (usages db') - set (usages db).
         usage_key u \<notin> usage_key ` set (usages db) \<and> idle_usage u"
  shows "ledger db'"
proof -
  have "usage_settled (grants db') (requests db') u \<and> usage_typed u" if u: "u \<in> set (usages db')" for u
  proof (cases "u \<in> set (usages db)")
    case True
    with assms(1-3) show ?thesis by (simp add: ledger_def list_all_iff)
  next
    case False
    with u assms(6) have key: "usage_key u \<notin> usage_key ` set (usages db)"
      and new: "uReservedBytes u = 0" "uInFlight u = 0" "usage_typed u" by (auto simp: idle_usage_def)
    have "\<not> in_scope (grants db) (usage_key u) r" if "r \<in> set (requests db)" "request_active r" for r
      using that key assms(1) by (fastforce simp: in_scope_def list_ex_iff ledger_def scopes_present_def)
    then have "held w (in_scope (grants db) (usage_key u)) (requests db) = 0" for w
      by (rule held_no_scope)
    with assms(2,3) new show ?thesis by (simp add: usage_settled_def)
  qed
  moreover have "scopes_present db'"
    using assms(1) image_mono [OF assms(5), of usage_key]
    unfolding ledger_def scopes_present_def assms(2,3) by (meson subset_trans)
  ultimately show ?thesis using assms by (auto simp: ledger_def list_all_iff)
qed

section \<open>Writing the rows back\<close>

definition override :: "UsageRow list \<Rightarrow> UsageRow \<Rightarrow> UsageRow" where
  "override rows u = (case take_row (\<lambda>n. usage_key n = usage_key u) rows of None \<Rightarrow> u | Some n \<Rightarrow> n)"

lemma override_key [simp]: "usage_key (override rows u) = usage_key u"
  by (auto simp: override_def split: option.splits dest: take_row_Some)

lemma updateUsages_ok:
  assumes "updateUsages flt rows db = Inr db'" and "distinct (map usage_key (usages db))"
    and "distinct (map usage_key rows)"
  shows "db' = db\<lparr>usages := map (override rows) (usages db)\<rparr>"
  using assms
proof (induction rows arbitrary: db)
  case Nil
  have "override [] = id" by (auto simp: override_def)
  with Nil show ?case by simp
next
  case (Cons row rows)
  obtain db1 where one: "updateUsage flt db row = Inr db1" and more: "updateUsages flt rows db1 = Inr db'"
    using Cons.prems(1) by (auto simp: result_simps)
  obtain us where cas: "cas_update usage_key uVersion merge_usage row (usages db) = Some us"
    and db1: "db1 = db\<lparr>usages := us\<rparr>"
    using one by (auto simp: updateUsage_def result_simps split: option.splits)
  note us = usage_table.cas_result [OF cas Cons.prems(2)]
  have "map usage_key us = map usage_key (usages db)" by (rule usage_table.cas_keys [OF cas])
  then have "db' = db1\<lparr>usages := map (override rows) us\<rparr>"
    using Cons.IH [OF more] Cons.prems(2,3) db1 by simp
  moreover have "map (override rows) us = map (override (row # rows)) (usages db)"
  proof -
    have "take_row (\<lambda>n. usage_key n = usage_key row) rows = None"
      using Cons.prems(3) by (auto simp: take_row_None image_iff)
    then have "override rows (if usage_key u = usage_key row then merge_usage u row else u)
      = override (row # rows) u" for u
      using merge_usage_same [of row u] by (auto simp: override_def)
    then show ?thesis by (simp add: us update_where_def)
  qed
  ultimately show ?case by (simp add: db1)
qed

lemma updateGrant_ok:
  assumes "updateGrantCounters flt db n = Inr db'" and "distinct (map gID (grants db))"
  shows "db' = db\<lparr>grants := update_where (\<lambda>g. gID g = gID n) (\<lambda>g. merge_grant g n) (grants db)\<rparr>"
  using assms grant_table.cas_result
  by (auto simp: updateGrantCounters_def result_simps split: option.splits)

lemma updateRequest_ok:
  assumes "updateRequest flt db n = Inr db'" and "distinct (map rID (requests db))"
  shows "db' = db\<lparr>requests := update_where (\<lambda>r. rID r = rID n) (\<lambda>r. merge_request r n) (requests db)\<rparr>"
  using assms request_table.cas_result
  by (auto simp: updateRequest_def result_simps split: option.splits)

section \<open>One request opened or closed\<close>

text \<open>
  Both transactions change the rows of one grant and of its three scopes by the amounts \<open>dB\<close> of bytes
  and \<open>dS\<close> of slots by which the totals over the active requests change.
\<close>

definition totals_shift :: "RequestRow list \<Rightarrow> RequestRow list \<Rightarrow> string \<Rightarrow> int \<Rightarrow> int \<Rightarrow> bool" where
  "totals_shift reqs reqs' grantID dB dS \<longleftrightarrow>
     (\<forall>p. held rReservedBytes (\<lambda>r. p (rGrantID r)) reqs'
            = held rReservedBytes (\<lambda>r. p (rGrantID r)) reqs + (if p grantID then dB else 0)
        \<and> held (\<lambda>_. 1) (\<lambda>r. p (rGrantID r)) reqs'
            = held (\<lambda>_. 1) (\<lambda>r. p (rGrantID r)) reqs + (if p grantID then dS else 0))"

lemma shift_grant:
  assumes "totals_shift reqs reqs' gid dB dS" and "grant_settled reqs g"
    and "gID n = gID g" and "gReservedBytes n = gReservedBytes g + (if gID g = gid then dB else 0)"
    and "gInFlight n = gInFlight g + (if gID g = gid then dS else 0)"
  shows "grant_settled reqs' n"
proof -
  have "of_grant (gID g) = (\<lambda>r. rGrantID r = gID g)" by (auto simp: of_grant_def)
  moreover note assms(1) [unfolded totals_shift_def, rule_format, of "\<lambda>i. i = gID g"]
  ultimately show ?thesis using assms(2-5) by (auto simp: grant_settled_def)
qed

lemma shift_usage:
  assumes "totals_shift reqs reqs' (gID g) dB dS" and "usage_settled gs reqs u"
    and "distinct (map gID gs)" and "g \<in> set gs" and "map grant_ident gs' = map grant_ident gs"
    and "usage_key n = usage_key u"
    and "uReservedBytes n = uReservedBytes u + (if usage_key u \<in> set (orderedBudgetScopeKeys g) then dB else 0)"
    and "uInFlight n = uInFlight u + (if usage_key u \<in> set (orderedBudgetScopeKeys g) then dS else 0)"
  shows "usage_settled gs' reqs' n"
proof -
  let ?p = "\<lambda>i. list_ex (\<lambda>g. gID g = i \<and> usage_key u \<in> set (orderedBudgetScopeKeys g)) gs"
  have "?p (gID g) \<longleftrightarrow> usage_key u \<in> set (orderedBudgetScopeKeys g)"
    using key_unique [OF assms(3) _ assms(4)] assms(4) by (auto simp: list_ex_iff)
  moreover have "in_scope gs' (usage_key u) = (\<lambda>r. ?p (rGrantID r))"
    by (rule ext) (simp add: in_scope_ident [OF assms(5)], simp add: in_scope_def)
  moreover have "in_scope gs (usage_key u) = (\<lambda>r. ?p (rGrantID r))" by (auto simp: in_scope_def)
  moreover note assms(1) [unfolded totals_shift_def, rule_format, of ?p]
  ultimately show ?thesis using assms(2,6-8) by (simp add: usage_settled_def)
qed

lemma shift_scopes:
  assumes "scopes_present db" and "distinct (map gID (grants db))" and "g \<in> set (grants db)"
    and "set (orderedBudgetScopeKeys g) \<subseteq> usage_key ` set (usages db)"
    and "map grant_ident (grants db') = map grant_ident (grants db)"
    and "usage_key ` set (usages db') = usage_key ` set (usages db)"
    and "\<And>r. r \<in> set (requests db') \<Longrightarrow> request_active r \<Longrightarrow>
         rGrantID r = gID g \<or> (\<exists>s \<in> set (requests db). request_active s \<and> rGrantID s = rGrantID r)"
  shows "scopes_present db'"
  unfolding scopes_present_def
proof (intro ballI impI, elim conjE)
  fix r x' assume r: "r \<in> set (requests db')" "request_active r" and x': "x' \<in> set (grants db')" "gID x' = rGrantID r"
  have "grant_ident x' \<in> set (map grant_ident (grants db))" using x'(1) assms(5) by (metis image_eqI set_map)
  then obtain x where x: "x \<in> set (grants db)" "grant_ident x' = grant_ident x" by auto
  then have id: "gID x = rGrantID r" "orderedBudgetScopeKeys x' = orderedBudgetScopeKeys x"
    using x'(2) by (auto simp: grant_ident_def)
  show "set (orderedBudgetScopeKeys x') \<subseteq> usage_key ` set (usages db')"
  proof (cases "rGrantID r = gID g")
    case True
    then show ?thesis using key_unique [OF assms(2) x(1) assms(3)] id assms(4,6) by simp
  next
    case False
    then show ?thesis using assms(1,6) assms(7) [OF r] x(1) id unfolding scopes_present_def by metis
  qed
qed

lemma ledger_shift:
  assumes led: "ledger db" and g: "g \<in> set (grants db)"
    and gn: "gID n = gID g" "gReservedBytes n = gReservedBytes g + dB" "gInFlight n = gInFlight g + dS"
      "grant_typed (merge_grant g n)"
    and rows: "map usage_key rows = orderedBudgetScopeKeys g"
      "\<And>n. n \<in> set rows \<Longrightarrow> usage_typed n \<and> (\<exists>u \<in> set (usages db). usage_key u = usage_key n
          \<and> uReservedBytes n = uReservedBytes u + dB \<and> uInFlight n = uInFlight u + dS)"
    and req: "distinct (map rID reqs)" "\<And>r. r \<in> set reqs \<Longrightarrow> 0 \<le> rReservedBytes r"
      "totals_shift (requests db) reqs (gID g) dB dS"
      "\<And>r. r \<in> set reqs \<Longrightarrow> request_active r \<Longrightarrow>
         rGrantID r = gID g \<or> (\<exists>s \<in> set (requests db). request_active s \<and> rGrantID s = rGrantID r)"
  shows "ledger (db\<lparr>usages := map (override rows) (usages db),
    grants := update_where (\<lambda>x. gID x = gID n) (\<lambda>x. merge_grant x n) (grants db), requests := reqs\<rparr>)"
    (is "ledger ?db")
proof -
  have dist: "distinct (map usage_key (usages db))" "distinct (map gID (grants db))"
    using led by (auto simp: ledger_def)
  have ident: "map grant_ident (grants ?db) = map grant_ident (grants db)"
    by (simp add: update_where_def)
  have grant: "grant_settled reqs (if gID x = gID n then merge_grant x n else x)
      \<and> grant_typed (if gID x = gID n then merge_grant x n else x)" if x: "x \<in> set (grants db)" for x
    using shift_grant [OF req(3), of x] led x gn key_unique [OF dist(2) x g]
    by (auto simp: ledger_def list_all_iff)
  have usage: "usage_settled (grants ?db) reqs (override rows u) \<and> usage_typed (override rows u)"
    if u: "u \<in> set (usages db)" for u
  proof -
    have old: "usage_settled (grants db) (requests db) u" "usage_typed u"
      using led u by (auto simp: ledger_def list_all_iff)
    have in_rows: "usage_key u \<in> set (orderedBudgetScopeKeys g) \<longleftrightarrow> usage_key u \<in> usage_key ` set rows"
      using rows(1) by (metis set_map)
    have new: "usage_typed (override rows u) \<and>
      uReservedBytes (override rows u) = uReservedBytes u + (if usage_key u \<in> set (orderedBudgetScopeKeys g) then dB else 0)
      \<and> uInFlight (override rows u) = uInFlight u + (if usage_key u \<in> set (orderedBudgetScopeKeys g) then dS else 0)"
    proof (cases "take_row (\<lambda>n. usage_key n = usage_key u) rows")
      case None
      then have "usage_key u \<notin> usage_key ` set rows" by (auto simp: take_row_None)
      with None old(2) in_rows show ?thesis by (simp add: override_def)
    next
      case (Some m)
      then have m: "m \<in> set rows" "usage_key m = usage_key u" by (auto dest: take_row_Some)
      then have "usage_key u \<in> usage_key ` set rows" by (metis imageI)
      obtain u' where "u' \<in> set (usages db)" "usage_key u' = usage_key m" "usage_typed m"
        "uReservedBytes m = uReservedBytes u' + dB" "uInFlight m = uInFlight u' + dS"
        using rows(2) [OF m(1)] by blast
      with Some m in_rows \<open>usage_key u \<in> usage_key ` set rows\<close> key_unique [OF dist(1) _ u, of u'] show ?thesis by (auto simp: override_def)
    qed
    show ?thesis using shift_usage [OF req(3) old(1) dist(2) g ident override_key] new by blast
  qed
  have keys: "usage_key ` set (usages ?db) = usage_key ` set (usages db)" by (simp add: image_image)
  have "usage_key ` set rows \<subseteq> usage_key ` set (usages db)"
    using rows(2) by (intro image_subsetI) (metis imageI)
  then have "set (orderedBudgetScopeKeys g) \<subseteq> usage_key ` set (usages db)" by (simp flip: rows(1))
  moreover have "scopes_present db" using led by (simp add: ledger_def)
  ultimately have "scopes_present ?db"
    using shift_scopes [OF _ dist(2) g _ ident keys] req(4) by simp
  moreover have "\<forall>x \<in> set (grants ?db). grant_settled reqs x \<and> grant_typed x"
    using grant by (simp add: ball_update_where)
  moreover have "\<forall>v \<in> set (usages ?db). usage_settled (grants ?db) reqs v \<and> usage_typed v"
    using usage by simp
  moreover have "distinct (map usage_key (usages ?db))" using dist(1) by (simp add: comp_def)
  ultimately show ?thesis using dist(2) req(1,2) by (simp add: ledger_def list_all_iff update_where_keys)
qed

section \<open>The reservation transaction\<close>

lemma prepareScopes_ok:
  assumes "prepareScopes now window bytes active scopes = Inr rows"
  shows "list_all2 (\<lambda>(u, l) n. prepareUsageReservation u l now window bytes active = Inr n) scopes rows"
  using assms
proof (induction scopes arbitrary: rows)
  case (Cons scope scopes)
  then show ?case by (cases scope) (auto simp: result_simps)
qed simp

lemma prepareUsage_key:
  "prepareUsageReservation u l now window bytes active = Inr n \<Longrightarrow> usage_key n = usage_key u"
  by (auto simp: prepareUsageReservation_def Let_def usage_key_def split: if_splits)

lemma prepareScopes_keys:
  "prepareScopes now window bytes active scopes = Inr rows \<Longrightarrow> map usage_key rows = map (usage_key \<circ> fst) scopes"
proof (induction scopes arbitrary: rows)
  case (Cons scope scopes)
  then show ?case by (cases scope) (auto simp: result_simps prepareUsage_key)
qed simp

lemma scope_limits_typed:
  assumes "limits_typed limits"
  shows "in_i64 (WindowBytes (limitsForScope limits kind)) \<and> in_i64 (WindowRequests (limitsForScope limits kind))
    \<and> in_i64 (MaxInFlight (limitsForScope limits kind))"
  using assms by (cases kind) (simp_all add: limits_typed_def limitsForScope_def)

lemma usage_idle_reserved:
  "ledger db \<Longrightarrow> u \<in> set (usages db) \<Longrightarrow> uInFlight u = 0 \<Longrightarrow> uReservedBytes u = 0"
  using held_none by (fastforce simp: ledger_def usage_settled_def)

lemma scope_keys_distinct: "distinct (orderedBudgetScopeKeys g)"
  by (simp add: orderedBudgetScopeKeys_def)

text \<open>A successful reservation, taken apart into the rows it read and the rows it wrote.\<close>

lemma reserve_tx_cases:
  assumes "reserve_tx limits scopeGrant now spec flt db = Inr (db', res)" and "ledger db"
  obtains db1 scopes grant rows grant1 grant2 where
    "lockOrCreateScopes flt now limits (orderedBudgetScopeKeys scopeGrant) db = Inr (db1, scopes)"
    "ledger db1" "grants db1 = grants db" "requests db1 = requests db"
    "grant \<in> set (grants db)" "gID grant = sGrantID spec"
    "orderedBudgetScopeKeys grant = orderedBudgetScopeKeys scopeGrant" "grantAcceptsNewRequest grant now"
    "sRequestID spec \<notin> rID ` set (requests db)"
    "prepareScopes now (Window limits) (sReservedBytes spec) (\<not> sBlocked spec) scopes = Inr rows"
    "prepareGrantReservation grant now (sReservedBytes spec) (\<not> sBlocked spec) = Inr grant1"
    "(if sBlocked spec then applyGrantAuditSummary grant1 AuditOutcomeBlocked 0 (sRangeRequested spec)
      else Inr grant1) = Inr grant2"
    "db' = db1\<lparr>usages := map (override rows) (usages db1),
       grants := update_where (\<lambda>x. gID x = gID grant2) (\<lambda>x. merge_grant x grant2) (grants db1),
       requests := requests db1 @ [buildReservationRow spec now]\<rparr>"
    "res = \<lparr>resRequestID = rID (buildReservationRow spec now), resGrantID = rGrantID (buildReservationRow spec now),
       resRequestVersion = rVersion (buildReservationRow spec now),
       resReservedBytes = rReservedBytes (buildReservationRow spec now)\<rparr>"
proof -
  obtain db1 scopes grant rows grant1 grant2 db2 db3 where
    lock: "lockOrCreateScopes flt now limits (orderedBudgetScopeKeys scopeGrant) db = Inr (db1, scopes)"
    and grant: "lockGrant flt db1 (sGrantID spec) = Inr grant"
    and guard: "gOwnerUserID grant = gOwnerUserID scopeGrant" "gProviderKind grant = gProviderKind scopeGrant"
      "grantAcceptsNewRequest grant now"
    and fresh: "take_row (\<lambda>r. rID r = sRequestID spec) (requests db1) = None"
    and prep: "prepareScopes now (Window limits) (sReservedBytes spec) (\<not> sBlocked spec) scopes = Inr rows"
      "prepareGrantReservation grant now (sReservedBytes spec) (\<not> sBlocked spec) = Inr grant1"
      "(if sBlocked spec then applyGrantAuditSummary grant1 AuditOutcomeBlocked 0 (sRangeRequested spec)
        else Inr grant1) = Inr grant2"
    and upd: "updateUsages flt rows db1 = Inr db2" "updateGrantCounters flt db2 grant2 = Inr db3"
    and res: "db' = db3\<lparr>requests := requests db3 @ [buildReservationRow spec now]\<rparr>"
      "res = \<lparr>resRequestID = rID (buildReservationRow spec now), resGrantID = rGrantID (buildReservationRow spec now),
       resRequestVersion = rVersion (buildReservationRow spec now),
       resReservedBytes = rReservedBytes (buildReservationRow spec now)\<rparr>"
    using assms(1) unfolding reserve_tx_def Let_def bind_result_eq_Inr guard_eq_Inr case_prod_unfold
    by (elim exE conjE) (fastforce simp: prod_eq_iff)
  have dist: "distinct (map usage_key (usages db))" "distinct (map gID (grants db))"
    using assms(2) by (auto simp: ledger_def)
  note L = lockOrCreateScopes_ok [OF lock dist(1)]
  have led1: "ledger db1" using L by (intro ledger_fresh_scopes [OF assms(2)]) auto
  have g: "grant \<in> set (grants db)" "gID grant = sGrantID spec"
    using grant L by (auto simp: lockGrant_def result_simps split: option.splits dest: take_row_Some)
  have rows_keys: "map usage_key rows = orderedBudgetScopeKeys scopeGrant"
    using L prepareScopes_keys [OF prep(1)] by simp
  have "db2 = db1\<lparr>usages := map (override rows) (usages db1)\<rparr>"
    using updateUsages_ok [OF upd(1)] L rows_keys scope_keys_distinct by metis
  moreover from this have "db3 = db2\<lparr>grants := update_where (\<lambda>x. gID x = gID grant2)
      (\<lambda>x. merge_grant x grant2) (grants db2)\<rparr>"
    using updateGrant_ok [OF upd(2)] L dist(2) by simp
  moreover have "sRequestID spec \<notin> rID ` set (requests db)" using fresh L by (auto simp: take_row_None)
  moreover have "orderedBudgetScopeKeys grant = orderedBudgetScopeKeys scopeGrant"
    using guard(1,2) by (simp add: orderedBudgetScopeKeys_def)
  ultimately show thesis using that [OF lock led1 _ _ g _ guard(3) _ prep] L res by simp
qed

lemma totals_shift_open:
  assumes "rGrantID q = gid"
  shows "totals_shift reqs (reqs @ [q]) gid (if request_active q then rReservedBytes q else 0)
    (if request_active q then 1 else 0)"
  using assms by (simp add: totals_shift_def)

lemma reservation_row [simp]:
  "rID (buildReservationRow spec now) = sRequestID spec"
  "rGrantID (buildReservationRow spec now) = sGrantID spec"
  "rVersion (buildReservationRow spec now) = 1"
  "request_active (buildReservationRow spec now) \<longleftrightarrow> \<not> sBlocked spec"
  "rReservedBytes (buildReservationRow spec now) = (if sBlocked spec then 0 else sReservedBytes spec)"
  by (simp_all add: buildReservationRow_def request_active_def Let_def)

lemma prepared_grant_ok:
  assumes "prepareGrantReservation g now bytes (\<not> blocked) = Inr g1"
    and "(if blocked then applyGrantAuditSummary g1 AuditOutcomeBlocked 0 ranged else Inr g1) = Inr g2"
    and "grant_typed g"
  shows "gID g2 = gID g \<and> grant_typed (merge_grant g g2)
    \<and> gReservedBytes g2 = gReservedBytes g + (if blocked then 0 else bytes)
    \<and> gInFlight g2 = gInFlight g + (if blocked then 0 else 1)
    \<and> (grant_within g \<longrightarrow> grant_within (merge_grant g g2)) \<and> (\<not> blocked \<longrightarrow> 0 \<le> bytes)"
proof -
  note P = prepareGrant_ok [OF assms(1,3)]
  have "gID g2 = gID g1 \<and> grant_typed g2 = grant_typed g1 \<and> gReservedBytes g2 = gReservedBytes g1
    \<and> gInFlight g2 = gInFlight g1 \<and> gDeliveredBytes g2 = gDeliveredBytes g1
    \<and> gRequestCount g2 = gRequestCount g1"
    using assms(2) applyAudit_ok [of g1] by (cases blocked) auto
  with P assms(3) show ?thesis by (auto simp: grant_typed_def grant_within_def)
qed

lemma prepared_usage_ok:
  assumes "prepareScopes now window bytes active scopes = Inr rows" and "ledger db" and "limits_typed limits"
    and "fst ` set scopes \<subseteq> set (usages db)"
    and "\<forall>(u, l) \<in> set scopes. l = limitsForScope limits (fst (usage_key u))"
    and "n \<in> set rows"
  shows "\<exists>u l. (u, l) \<in> set scopes \<and> l = limitsForScope limits (fst (usage_key u))
    \<and> usage_key n = usage_key u \<and> usage_typed n
    \<and> uReservedBytes n = uReservedBytes u + (if active then bytes else 0)
    \<and> uInFlight n = uInFlight u + (if active then 1 else 0)
    \<and> uRequestCount n \<le> WindowRequests l
    \<and> (active \<longrightarrow> uInFlight n \<le> MaxInFlight l \<and> uDeliveredBytes n + uReservedBytes n \<le> WindowBytes l)"
proof -
  obtain u l where ul: "(u, l) \<in> set scopes" and p: "prepareUsageReservation u l now window bytes active = Inr n"
    using prepareScopes_ok [OF assms(1)] assms(6) by (fastforce simp: list_all2_conv_all_nth in_set_conv_nth)
  then have u: "u \<in> set (usages db)" and l: "l = limitsForScope limits (fst (usage_key u))"
    using assms(4,5) by force+
  have "usage_typed u" using assms(2) u by (simp add: ledger_def list_all_iff)
  moreover have "in_i64 (WindowBytes l)" "in_i64 (WindowRequests l)" "in_i64 (MaxInFlight l)"
    using l scope_limits_typed [OF assms(3)] by auto
  ultimately show ?thesis
    using prepareUsage_ok [OF p _ _ _ _ usage_idle_reserved [OF assms(2) u]] ul l
    by (intro exI [of _ u] exI [of _ l]) auto
qed

lemma reserve_tx_ledger:
  assumes "reserve_tx limits scopeGrant now spec flt db = Inr (db', res)" and "ledger db" and "limits_typed limits"
  shows "ledger db'"
  using assms(1,2)
proof (rule reserve_tx_cases)
  fix db1 scopes grant rows grant1 grant2
  assume lock: "lockOrCreateScopes flt now limits (orderedBudgetScopeKeys scopeGrant) db = Inr (db1, scopes)"
    and led1: "ledger db1" and same: "grants db1 = grants db" "requests db1 = requests db"
    and g: "grant \<in> set (grants db)" "gID grant = sGrantID spec"
      "orderedBudgetScopeKeys grant = orderedBudgetScopeKeys scopeGrant"
    and fresh: "sRequestID spec \<notin> rID ` set (requests db)"
    and prep: "prepareScopes now (Window limits) (sReservedBytes spec) (\<not> sBlocked spec) scopes = Inr rows"
      "prepareGrantReservation grant now (sReservedBytes spec) (\<not> sBlocked spec) = Inr grant1"
      "(if sBlocked spec then applyGrantAuditSummary grant1 AuditOutcomeBlocked 0 (sRangeRequested spec)
      else Inr grant1) = Inr grant2"
    and db': "db' = db1\<lparr>usages := map (override rows) (usages db1),
       grants := update_where (\<lambda>x. gID x = gID grant2) (\<lambda>x. merge_grant x grant2) (grants db1),
       requests := requests db1 @ [buildReservationRow spec now]\<rparr>"
  let ?dB = "if sBlocked spec then 0 else sReservedBytes spec" and ?dS = "if sBlocked spec then 0 else 1 :: int"
  have "distinct (map usage_key (usages db))" using assms(2) by (simp add: ledger_def)
  note L = lockOrCreateScopes_ok [OF lock this]
  have "grant_typed grant" using assms(2) g(1) by (simp add: ledger_def list_all_iff)
  note G = prepared_grant_ok [OF prep(2,3) this]
  have U: "usage_typed n \<and> (\<exists>u \<in> set (usages db1). usage_key u = usage_key n
      \<and> uReservedBytes n = uReservedBytes u + ?dB \<and> uInFlight n = uInFlight u + ?dS)" if "n \<in> set rows" for n
    using prepared_usage_ok [OF prep(1) led1 assms(3) _ _ that] L by (fastforce simp: image_subset_iff)
  have shift: "totals_shift (requests db1) (requests db1 @ [buildReservationRow spec now]) (gID grant) ?dB ?dS"
    using totals_shift_open [of "buildReservationRow spec now" "gID grant" "requests db1"] g(2)
    by (cases "sBlocked spec") simp_all
  show ?thesis unfolding db'
    using G g same fresh L prepareScopes_keys [OF prep(1)] led1
    by (intro ledger_shift [OF led1 _ _ _ _ _ _ U _ _ shift]) (auto simp: ledger_def)
qed


section \<open>The finalisation transaction\<close>

lemma finalCharge_bounds:
  assumes "finalCharge reserved intent = (charged, valid)" and "0 \<le> reserved"
  shows "0 \<le> charged \<and> charged \<le> reserved"
  using assms by (auto simp: finalCharge_def Let_def split: if_splits)

lemma lockExistingScopes_ok:
  assumes "lockExistingScopes flt db keys = Inr scopes"
  shows "map usage_key scopes = keys \<and> set scopes \<subseteq> set (usages db)"
  using assms
proof (induction keys arbitrary: scopes)
  case (Cons key keys)
  obtain u rest where "lockExistingUsage flt db key = Inr u" and "lockExistingScopes flt db keys = Inr rest"
    and "scopes = u # rest"
    using Cons.prems by (auto simp: result_simps)
  moreover from this(1) have "u \<in> set (usages db)" "usage_key u = key"
    by (auto simp: lockExistingUsage_def lockUsage_def result_simps split: option.splits dest: take_row_Some)
  ultimately show ?case using Cons.IH by auto
qed simp

lemma settle_simps [simp]:
  "usage_key (settle_usage now b c u) = usage_key u"
  "gID (settle_grant now b c g) = gID g"
  "rID (settle_request now intent r) = rID r"
  by (simp_all add: settle_usage_def usage_key_def settle_grant_def settle_request_def)

text \<open>A finalisation either finds the request terminal or closes an active one.\<close>

lemma finalize_active_cases:
  assumes "finalize_active now intent flt db scopes grant request = Inr (db', fin)"
    and "ledger db" and "map usage_key scopes = orderedBudgetScopeKeys grant"
  obtains charged valid first grant1 where
    "finalCharge (rReservedBytes request) intent = (charged, valid)"
    "valid \<or> fState intent \<noteq> RequestSucceeded"
    "firstSuccessfulGET flt db grant request intent = Inr first"
    "\<not> cannot_settle (gReservedBytes grant) (gInFlight grant) (gDeliveredBytes grant) (rReservedBytes request) charged"
    "\<forall>u \<in> set scopes. \<not> cannot_settle (uReservedBytes u) (uInFlight u) (uDeliveredBytes u) (rReservedBytes request) charged"
    "applyGrantAuditSummary grant (if fState intent = RequestSucceeded then AuditOutcomeSuccess else AuditOutcomeFailure)
       (boundedEvidence (rReservedBytes request) (fResponseBytes intent)) (rRangeKind request \<noteq> HTTPRangeFull) = Inr grant1"
    "db' = db\<lparr>usages := map (override (map (settle_usage now (rReservedBytes request) charged) scopes)) (usages db),
       grants := update_where (\<lambda>x. gID x = gID (settle_grant now (rReservedBytes request) charged grant1))
         (\<lambda>x. merge_grant x (settle_grant now (rReservedBytes request) charged grant1)) (grants db),
       requests := update_where (\<lambda>r. rID r = rID request)
         (\<lambda>r. merge_request r (settle_request now intent request)) (requests db)\<rparr>"
    "fin = \<lparr>finRequestID = rID request, finState = fState intent, finChargedBytes = charged,
       finAlreadyFinalized = False, finFirstSuccessfulGET = first\<rparr>"
proof -
  obtain charged valid where fc: "finalCharge (rReservedBytes request) intent = (charged, valid)" by fastforce
  let ?rows = "map (settle_usage now (rReservedBytes request) charged) scopes"
  obtain first grant1 db1 db2 db3 where
    first: "firstSuccessfulGET flt db grant request intent = Inr first"
    and cs: "\<not> cannot_settle (gReservedBytes grant) (gInFlight grant) (gDeliveredBytes grant) (rReservedBytes request) charged"
    "\<not> list_ex (\<lambda>u. cannot_settle (uReservedBytes u) (uInFlight u) (uDeliveredBytes u) (rReservedBytes request) charged) scopes"
    and aud: "applyGrantAuditSummary grant (if fState intent = RequestSucceeded then AuditOutcomeSuccess else AuditOutcomeFailure)
       (boundedEvidence (rReservedBytes request) (fResponseBytes intent)) (rRangeKind request \<noteq> HTTPRangeFull) = Inr grant1"
    and upd: "updateUsages flt ?rows db = Inr db1"
      "updateGrantCounters flt db1 (settle_grant now (rReservedBytes request) charged grant1) = Inr db2"
      "updateRequest flt db2 (settle_request now intent request) = Inr db3"
    and valid: "\<not> (\<not> valid \<and> fState intent = RequestSucceeded)"
    and res: "db' = db3" "fin = \<lparr>finRequestID = rID request, finState = fState intent, finChargedBytes = charged,
       finAlreadyFinalized = False, finFirstSuccessfulGET = first\<rparr>"
    using assms(1) unfolding finalize_active_def fc Let_def prod.case bind_result_eq_Inr guard_eq_Inr
    by (elim exE conjE) simp
  have dist: "distinct (map usage_key (usages db))" "distinct (map gID (grants db))" "distinct (map rID (requests db))"
    using assms(2) by (auto simp: ledger_def)
  have "map usage_key ?rows = orderedBudgetScopeKeys grant" using assms(3) by (simp add: comp_def)
  then have "db1 = db\<lparr>usages := map (override ?rows) (usages db)\<rparr>"
    using updateUsages_ok [OF upd(1) dist(1)] scope_keys_distinct by metis
  moreover from this have "db2 = db1\<lparr>grants := update_where (\<lambda>x. gID x = gID (settle_grant now (rReservedBytes request) charged grant1))
      (\<lambda>x. merge_grant x (settle_grant now (rReservedBytes request) charged grant1)) (grants db1)\<rparr>"
    using updateGrant_ok [OF upd(2)] dist(2) by simp
  moreover from calculation have "db3 = db2\<lparr>requests := update_where (\<lambda>r. rID r = rID request)
      (\<lambda>r. merge_request r (settle_request now intent request)) (requests db2)\<rparr>"
    using updateRequest_ok [OF upd(3)] dist(3) by simp
  ultimately show thesis
    using valid cs(2) res by (intro that [OF fc _ first cs(1) _ aud]) (auto simp: list_ex_iff)
qed

lemma totals_shift_close:
  assumes "distinct (map rID reqs)" and "q \<in> set reqs" and "request_active q" and "\<not> request_active (f q)"
  shows "totals_shift reqs (update_where (\<lambda>r. rID r = rID q) f reqs) (rGrantID q) (- rReservedBytes q) (- 1)"
  using held_replace [OF assms(1,2)] assms(3,4) by (simp add: totals_shift_def)

lemma settle_exact:
  assumes "\<not> cannot_settle reserved flight delivered b c" and "in_i64 reserved" and "in_i64 flight" and "in_i64 delivered"
    and "0 \<le> b" and "0 \<le> c" and "c \<le> b"
  shows "wrap64 (reserved - b) = reserved - b \<and> wrap64 (delivered + c) = delivered + c
    \<and> wrap64 (flight - 1) = flight - 1 \<and> b \<le> reserved \<and> 0 < flight \<and> 0 \<le> delivered"
proof -
  have "b \<le> reserved" "0 < flight" "\<not> wouldAddOverflow delivered c" using assms(1) by (auto simp: cannot_settle_def)
  moreover from this assms have "in_i64 c" by (auto simp: in_i64_def MinInt64_def)
  ultimately have "b \<le> reserved" "0 < flight" "0 \<le> delivered" "delivered + c \<le> MaxInt64"
    using wouldAddOverflow_exact by auto
  with assms show ?thesis by (auto simp: in_i64_def MinInt64_def MaxInt64_def)
qed

lemma merge_settled:
  "rGrantID (merge_request r (settle_request now intent r)) = rGrantID r"
  "rReservedBytes (merge_request r n) = rReservedBytes r" "rGrantID (merge_request r n) = rGrantID r"
  "rID (merge_request r n) = rID r" "rState (merge_request r (settle_request now intent q)) = fState intent"
  by (simp_all add: merge_request_def settle_request_def)

lemma settle_usage_ok:
  assumes "\<not> cannot_settle (uReservedBytes u) (uInFlight u) (uDeliveredBytes u) b c" and "usage_typed u"
    and "0 \<le> b" and "0 \<le> c" and "c \<le> b"
  shows "usage_typed (settle_usage now b c u) \<and> uReservedBytes (settle_usage now b c u) = uReservedBytes u - b
    \<and> uInFlight (settle_usage now b c u) = uInFlight u - 1
    \<and> uDeliveredBytes (settle_usage now b c u) = uDeliveredBytes u + c"
proof -
  have "in_i64 (uReservedBytes u)" "in_i64 (uInFlight u)" "in_i64 (uDeliveredBytes u)"
    using assms(2) by (simp_all add: usage_typed_def)
  note S = settle_exact [OF assms(1) this assms(3-5)]
  have "usage_typed (settle_usage now b c u)"
    using assms(2) wrap64_range by (simp add: usage_typed_def settle_usage_def)
  with S show ?thesis by (simp add: settle_usage_def)
qed

lemma settle_grant_ok:
  assumes "applyGrantAuditSummary g outcome bytes ranged = Inr g1"
    and "\<not> cannot_settle (gReservedBytes g) (gInFlight g) (gDeliveredBytes g) b c" and "grant_typed g"
    and "0 \<le> b" and "0 \<le> c" and "c \<le> b"
  shows "gID (settle_grant now b c g1) = gID g \<and> grant_typed (merge_grant g (settle_grant now b c g1))
    \<and> gReservedBytes (settle_grant now b c g1) = gReservedBytes g - b
    \<and> gInFlight (settle_grant now b c g1) = gInFlight g - 1
    \<and> gDeliveredBytes (settle_grant now b c g1) = gDeliveredBytes g + c
    \<and> gRequestCount (settle_grant now b c g1) = gRequestCount g
    \<and> (grant_within g \<longrightarrow> grant_within (merge_grant g (settle_grant now b c g1)))"
proof -
  have "in_i64 (gReservedBytes g)" "in_i64 (gInFlight g)" "in_i64 (gDeliveredBytes g)"
    using assms(3) by (simp_all add: grant_typed_def)
  note S = settle_exact [OF assms(2) this assms(4-6)]
  note A = applyAudit_ok [OF assms(1)]
  have vals: "gID (settle_grant now b c g1) = gID g"
    "gReservedBytes (settle_grant now b c g1) = gReservedBytes g - b"
    "gInFlight (settle_grant now b c g1) = gInFlight g - 1"
    "gDeliveredBytes (settle_grant now b c g1) = gDeliveredBytes g + c"
    "gRequestCount (settle_grant now b c g1) = gRequestCount g"
    using A S by (simp_all add: settle_grant_def)
  moreover have "in_i64 (gReservedBytes g - b)" "in_i64 (gInFlight g - 1)" "in_i64 (gDeliveredBytes g + c)"
    using S wrap64_range by metis+
  ultimately show ?thesis using assms(3-6) by (simp add: grant_typed_def grant_within_def)
qed

lemma finalize_tx_cases:
  assumes "finalize_tx scopeGrant grantID now intent flt db = Inr (db', fin)"
  obtains scopes grant request where
    "orderedBudgetScopeKeys grant = orderedBudgetScopeKeys scopeGrant"
    "map usage_key scopes = orderedBudgetScopeKeys grant" "set scopes \<subseteq> set (usages db)"
    "grant \<in> set (grants db)" "gID grant = grantID" "request \<in> set (requests db)"
    "rID request = fRequestID intent" "rGrantID request = gID grant"
    "requestTerminal (rState request) \<and> db' = db \<and> fin = terminalFinalization request
     \<or> request_active request \<and> rVersion request = fExpectedRequestVersion intent
       \<and> finalize_active now intent flt db scopes grant request = Inr (db', fin)"
proof -
  obtain scopes grant request where
    lock: "lockExistingScopes flt db (orderedBudgetScopeKeys scopeGrant) = Inr scopes"
      "lockGrant flt db grantID = Inr grant" "lockRequest flt db (fRequestID intent) = Inr request"
    and guard: "gOwnerUserID grant = gOwnerUserID scopeGrant" "gProviderKind grant = gProviderKind scopeGrant"
      "rGrantID request = gID grant"
    and alt: "requestTerminal (rState request) \<and> db' = db \<and> fin = terminalFinalization request
     \<or> request_active request \<and> rVersion request = fExpectedRequestVersion intent
       \<and> finalize_active now intent flt db scopes grant request = Inr (db', fin)"
    using assms unfolding finalize_tx_def bind_result_eq_Inr guard_eq_Inr
    by (elim exE conjE) (auto simp: request_active_def split: if_splits)
  have "orderedBudgetScopeKeys grant = orderedBudgetScopeKeys scopeGrant"
    using guard(1,2) by (simp add: orderedBudgetScopeKeys_def)
  moreover have "grant \<in> set (grants db)" "gID grant = grantID" "request \<in> set (requests db)"
    "rID request = fRequestID intent"
    using lock(2,3) by (auto simp: lockGrant_def lockRequest_def result_simps split: option.splits dest: take_row_Some)
  ultimately show thesis using lockExistingScopes_ok [OF lock(1)] guard(3) alt by (intro that) auto
qed

lemma finalize_active_ledger:
  assumes "finalize_active now intent flt db scopes grant request = Inr (db', fin)" and "ledger db"
    and "map usage_key scopes = orderedBudgetScopeKeys grant" and "set scopes \<subseteq> set (usages db)"
    and "grant \<in> set (grants db)" and "request \<in> set (requests db)" and "rGrantID request = gID grant"
    and "request_active request" and "requestFinalizable (fState intent)"
  shows "ledger db'"
  using assms(1-3)
proof (rule finalize_active_cases)
  fix charged valid first grant1
  assume fc: "finalCharge (rReservedBytes request) intent = (charged, valid)"
    and cs: "\<not> cannot_settle (gReservedBytes grant) (gInFlight grant) (gDeliveredBytes grant) (rReservedBytes request) charged"
    "\<forall>u \<in> set scopes. \<not> cannot_settle (uReservedBytes u) (uInFlight u) (uDeliveredBytes u) (rReservedBytes request) charged"
    and aud: "applyGrantAuditSummary grant (if fState intent = RequestSucceeded then AuditOutcomeSuccess else AuditOutcomeFailure)
       (boundedEvidence (rReservedBytes request) (fResponseBytes intent)) (rRangeKind request \<noteq> HTTPRangeFull) = Inr grant1"
    and db': "db' = db\<lparr>usages := map (override (map (settle_usage now (rReservedBytes request) charged) scopes)) (usages db),
       grants := update_where (\<lambda>x. gID x = gID (settle_grant now (rReservedBytes request) charged grant1))
         (\<lambda>x. merge_grant x (settle_grant now (rReservedBytes request) charged grant1)) (grants db),
       requests := update_where (\<lambda>r. rID r = rID request)
         (\<lambda>r. merge_request r (settle_request now intent request)) (requests db)\<rparr>"
  let ?b = "rReservedBytes request" and ?f = "\<lambda>r. merge_request r (settle_request now intent request)"
  have dist: "distinct (map rID (requests db))" and b: "0 \<le> ?b" and typed: "grant_typed grant"
    using assms(2,5,6) by (auto simp: ledger_def list_all_iff)
  note c = finalCharge_bounds [OF fc b]
  note G = settle_grant_ok [OF aud cs(1) typed b conjunct1 [OF c] conjunct2 [OF c]]
  have closed: "\<not> request_active (?f r)" for r
    using assms(9) by (auto simp: request_active_def merge_settled requestFinalizable_def)
  have rows: "usage_typed n \<and> (\<exists>u \<in> set (usages db). usage_key u = usage_key n
      \<and> uReservedBytes n = uReservedBytes u + - ?b \<and> uInFlight n = uInFlight u + - 1)"
    if n: "n \<in> set (map (settle_usage now ?b charged) scopes)" for n
  proof -
    obtain u where u: "u \<in> set scopes" "n = settle_usage now ?b charged u" using n by auto
    then have "usage_typed u" using assms(2,4) by (auto simp: ledger_def list_all_iff)
    with u cs(2) settle_usage_ok [OF _ this b conjunct1 [OF c] conjunct2 [OF c]] assms(4) show ?thesis
      by (intro conjI bexI [of _ u]) auto
  qed
  have shift: "totals_shift (requests db) (update_where (\<lambda>r. rID r = rID request) ?f (requests db)) (gID grant) (- ?b) (- 1)"
    using totals_shift_close [where f = ?f, OF dist assms(6,8) closed] assms(7) by simp
  have old: "rGrantID r = gID grant \<or> (\<exists>s \<in> set (requests db). request_active s \<and> rGrantID s = rGrantID r)"
    if "r \<in> set (update_where (\<lambda>r. rID r = rID request) ?f (requests db))" "request_active r" for r
    using that closed by (auto simp: set_update_where split: if_splits)
  have nonneg: "0 \<le> rReservedBytes r" if "r \<in> set (update_where (\<lambda>r. rID r = rID request) ?f (requests db))" for r
    using that assms(2) by (auto simp: set_update_where ledger_def merge_settled split: if_splits)
  have "map rID (update_where (\<lambda>r. rID r = rID request) ?f (requests db)) = map rID (requests db)"
    by (rule update_where_keys) (simp add: merge_settled)
  then show ?thesis unfolding db' using G assms(3) dist
    by (intro ledger_shift [OF assms(2,5) _ _ _ _ _ rows _ nonneg shift old]) (simp_all add: comp_def)
qed

end
