(* ===== verification/Budget_Service.thy ===== *)
theory Budget_Service
  imports Budget_Ledger
begin

text \<open>
  The calls of the content delivery budget, \<open>Reserve\<close>, \<open>RecordBlocked\<close> and \<open>Finalize\<close> of
  \<open>budget.go\<close>, with their retry loop and the faults of the database: every call keeps the ledger, a
  grant never exceeds its limits, a successful reservation is within all limits, a settlement
  charges within its reservation and is idempotent, errors and replays change nothing, and the first
  download of a grant is reported once.
\<close>

section \<open>The retry loop\<close>

lemma Transaction_ok:
  assumes "Transaction flt operation db = (db', Inr v)"
  shows "operation flt db = Inr (db', v)"
proof (cases "operation flt db")
  case (Inl e)
  with assms show ?thesis by (cases "run_stmt flt StmtBegin") (auto simp: Transaction_def)
next
  case (Inr r)
  with assms show ?thesis
    by (cases "run_stmt flt StmtBegin"; cases "run_stmt flt StmtCommit") (auto simp: Transaction_def split: prod.splits)
qed

lemma Transaction_error: "Transaction flt operation db = (db', Inl e) \<Longrightarrow> db' = db"
  by (auto simp: Transaction_def split: sum.splits prod.splits)

text \<open>
  What the loop guarantees of any operation: an invariant that the operation and the other
  transactions keep is kept, and a result is the result of one run of the operation.
\<close>

lemma retry_loop_sound:
  assumes "retry_loop env operation remaining attempt db = (db', result)" and "P db"
    and "\<And>k d. P d \<Longrightarrow> P (envOthers env k d)"
    and "\<And>flt d d' v. P d \<Longrightarrow> operation flt d = Inr (d', v) \<Longrightarrow> P d'"
  shows "P db' \<and> (\<forall>v. result = Inr v \<longrightarrow> (\<exists>flt d. P d \<and> operation flt d = Inr (db', v)))"
  using assms(1,2)
proof (induction remaining arbitrary: attempt db)
  case (0 attempt db)
  obtain d1 r where t: "Transaction (envTxFault env attempt) operation (envOthers env attempt db) = (d1, r)"
    by fastforce
  have P: "P (envOthers env attempt db)" by (rule assms(3) [OF 0(2)])
  show ?case
  proof (cases r)
    case (Inl e)
    with t P have "P d1" using Transaction_error by metis
    with 0(1) t Inl show ?thesis by (auto simp: retry_loop.simps [of _ _ 0] split: if_splits option.splits)
  next
    case (Inr v)
    with t have "operation (envTxFault env attempt) (envOthers env attempt db) = Inr (d1, v)"
      using Transaction_ok by metis
    with 0(1) t Inr P assms(4) show ?thesis by (auto simp: retry_loop.simps [of _ _ 0])
  qed
next
  case (Suc remaining attempt db)
  obtain d1 r where t: "Transaction (envTxFault env attempt) operation (envOthers env attempt db) = (d1, r)"
    by fastforce
  have P: "P (envOthers env attempt db)" by (rule assms(3) [OF Suc(3)])
  show ?case
  proof (cases r)
    case (Inl e)
    with t P have "P d1" using Transaction_error by metis
    with Suc.IH [of "Suc attempt" d1] Suc.prems(1) t Inl show ?thesis
      by (auto simp: retry_loop.simps [of _ _ "Suc remaining"] split: if_splits option.splits)
  next
    case (Inr v)
    with t have "operation (envTxFault env attempt) (envOthers env attempt db) = Inr (d1, v)"
      using Transaction_ok by metis
    with Suc.prems(1) t Inr P assms(4) show ?thesis by (auto simp: retry_loop.simps [of _ _ "Suc remaining"])
  qed
qed

lemma retry_loop_error:
  assumes "retry_loop env operation remaining attempt db = (db', Inl e)"
    and "\<And>k d. envOthers env k d = d"
  shows "db' = db"
  using assms(1)
proof (induction remaining arbitrary: attempt db)
  case 0
  then show ?case using Transaction_error assms(2)
    by (fastforce simp: retry_loop.simps [of _ _ 0] split: prod.splits sum.splits if_splits option.splits)
next
  case (Suc remaining)
  then show ?case using Transaction_error assms(2)
    by (fastforce simp: retry_loop.simps [of _ _ "Suc remaining"] split: prod.splits sum.splits if_splits option.splits)
qed

section \<open>The calls of the service\<close>

datatype budget_call =
    CallReserve ReservationIntent | CallBlocked BlockedRequest | CallFinalize FinalizeIntent

fun run_call :: "budget_env \<Rightarrow> budget_call \<Rightarrow> budget_db \<Rightarrow> budget_db" where
  "run_call env (CallReserve intent) db = fst (Reserve env intent db)"
| "run_call env (CallBlocked request) db = fst (RecordBlocked env request db)"
| "run_call env (CallFinalize intent) db = fst (Finalize env intent db)"

fun run_calls :: "(budget_env \<times> budget_call) list \<Rightarrow> budget_db \<Rightarrow> budget_db" where
  "run_calls [] db = db"
| "run_calls ((env, call) # calls) db = run_calls calls (run_call env call db)"

text \<open>The configured limits are \<open>int64\<close> values; the other writers of the tables keep \<open>P\<close>.\<close>

definition env_typed :: "budget_env \<Rightarrow> bool" where
  "env_typed env = (case envLimits env of None \<Rightarrow> True | Some limits \<Rightarrow> limits_typed limits)"

definition others_keep :: "(budget_db \<Rightarrow> bool) \<Rightarrow> budget_env \<Rightarrow> bool" where
  "others_keep P env \<longleftrightarrow> (\<forall>k db. P db \<longrightarrow> P (envOthers env k db))"

definition reserve_keeps :: "(budget_db \<Rightarrow> bool) \<Rightarrow> bool" where
  "reserve_keeps P \<longleftrightarrow> (\<forall>limits g now spec flt d d' v. limits_typed limits \<longrightarrow> P d \<longrightarrow>
     reserve_tx limits g now spec flt d = Inr (d', v) \<longrightarrow> P d')"

definition finalize_keeps :: "(budget_db \<Rightarrow> bool) \<Rightarrow> bool" where
  "finalize_keeps P \<longleftrightarrow> (\<forall>g gid now intent flt d d' v. requestFinalizable (fState intent) \<longrightarrow> P d \<longrightarrow>
     finalize_tx g gid now intent flt d = Inr (d', v) \<longrightarrow> P d')"

lemma others_keepD: "others_keep P env \<Longrightarrow> P d \<Longrightarrow> P (envOthers env k d)"
  by (simp add: others_keep_def)

lemma reserve_sound:
  assumes "reserve env spec db = (db', result)" and "P db" and "others_keep P env" and "reserve_keeps P"
    and "env_typed env"
  shows "P db' \<and> (\<forall>v. result = Inr v \<longrightarrow> (\<exists>limits g flt d. envLimits env = Some limits \<and> P d
    \<and> reserve_tx limits g (envNow env) spec flt d = Inr (db', v)))"
proof (cases "envLimits env")
  case None
  with assms(1,2) show ?thesis by (auto simp: reserve_def)
next
  case (Some limits)
  show ?thesis
  proof (cases "\<exists>g. transactionWithRetry env (reserve_tx limits g (envNow env) spec) db = (db', result)")
    case True
    then obtain g where loop: "retry_loop env (reserve_tx limits g (envNow env) spec) 15 0 db = (db', result)"
      by (auto simp: transactionWithRetry_def)
    have "P d'" if "P d" "reserve_tx limits g (envNow env) spec flt d = Inr (d', v)" for flt d d' v
      using assms(4,5) Some that by (simp add: reserve_keeps_def env_typed_def) blast
    with retry_loop_sound [OF loop assms(2) others_keepD [OF assms(3)]] Some show ?thesis by blast
  next
    case False
    with assms(1,2) Some show ?thesis
      by (auto simp: reserve_def split: if_splits sum.splits)
  qed
qed

lemma Finalize_sound:
  assumes "Finalize env intent db = (db', result)" and "P db" and "others_keep P env" and "finalize_keeps P"
  shows "P db' \<and> (\<forall>v. result = Inr v \<longrightarrow> validFinalizeIntent intent \<and> (\<exists>g gid flt d. P d
    \<and> validBudgetScopeKeys (orderedBudgetScopeKeys g)
    \<and> finalize_tx g gid (envNow env) intent flt d = Inr (db', v)))"
proof (cases "\<exists>g gid. validFinalizeIntent intent \<and> validBudgetScopeKeys (orderedBudgetScopeKeys g)
    \<and> transactionWithRetry env (finalize_tx g gid (envNow env) intent) db = (db', result)")
  case True
  then obtain g gid where v: "validFinalizeIntent intent" "validBudgetScopeKeys (orderedBudgetScopeKeys g)"
    and loop: "retry_loop env (finalize_tx g gid (envNow env) intent) 15 0 db = (db', result)"
    by (auto simp: transactionWithRetry_def)
  have "requestFinalizable (fState intent)" using v(1) by (auto simp: validFinalizeIntent_def split: if_splits)
  then have "P d'" if "P d" "finalize_tx g gid (envNow env) intent flt d = Inr (d', v)" for flt d d' v
    using assms(4) that by (simp add: finalize_keeps_def) blast
  with retry_loop_sound [OF loop assms(2) others_keepD [OF assms(3)]] v show ?thesis by blast
next
  case False
  with assms(1,2) show ?thesis by (auto simp: Finalize_def split: if_splits sum.splits prod.splits)
qed

lemma call_keeps:
  assumes "P db" and "others_keep P env" and "env_typed env" and "reserve_keeps P" and "finalize_keeps P"
  shows "P (run_call env call db)"
proof -
  have R: "P (fst (reserve env spec db))" for spec
    using reserve_sound [where P = P, OF prod.collapse [symmetric] assms(1,2,4,3)] by blast
  show ?thesis
  proof (cases call)
    case (CallReserve intent)
    then show ?thesis using R assms(1) by (simp add: Reserve_def)
  next
    case (CallBlocked request)
    then show ?thesis using R assms(1) 
      by (auto simp: RecordBlocked_def split: prod.split sum.split) (metis fst_conv)+
  next
    case (CallFinalize intent)
    then show ?thesis using Finalize_sound [where P = P, OF prod.collapse [symmetric] assms(1,2,5)] by simp
  qed
qed

lemma budget_calls_keep:
  assumes "P db" and "reserve_keeps P" and "finalize_keeps P"
    and "list_all (\<lambda>(env, call). others_keep P env \<and> env_typed env) calls"
  shows "P (run_calls calls db)"
  using assms(1,4)
proof (induction calls arbitrary: db)
  case (Cons c calls)
  then show ?case using call_keeps [OF _ _ _ assms(2,3), of db] by (cases c) auto
qed simp

lemma reserve_keeps_ledger: "reserve_keeps ledger"
  using reserve_tx_ledger by (auto simp: reserve_keeps_def)

lemma finalize_keeps_ledger: "finalize_keeps ledger"
  unfolding finalize_keeps_def
  by (auto elim!: finalize_tx_cases intro: finalize_active_ledger)

definition grants_within :: "budget_db \<Rightarrow> bool" where
  "grants_within db \<longleftrightarrow> ledger db \<and> list_all grant_within (grants db)"

lemma within_update:
  assumes "list_all grant_within gs" and "distinct (map gID gs)" and "g \<in> set gs" and "gID n = gID g"
    and "grant_within g \<Longrightarrow> grant_within (merge_grant g n)"
  shows "list_all grant_within (update_where (\<lambda>x. gID x = gID n) (\<lambda>x. merge_grant x n) gs)"
  using assms key_unique [OF assms(2) _ assms(3)] by (auto simp: list_all_iff ball_update_where)

lemma reserve_tx_within:
  assumes "reserve_tx limits g now spec flt d = Inr (d', v)" and "ledger d" and "list_all grant_within (grants d)"
  shows "list_all grant_within (grants d')"
  using assms(1,2)
proof (rule reserve_tx_cases)
  fix db1 scopes grant rows grant1 grant2
  assume "grants db1 = grants d" and g: "grant \<in> set (grants d)"
    and prep: "prepareGrantReservation grant now (sReservedBytes spec) (\<not> sBlocked spec) = Inr grant1"
      "(if sBlocked spec then applyGrantAuditSummary grant1 AuditOutcomeBlocked 0 (sRangeRequested spec)
        else Inr grant1) = Inr grant2"
    and d': "d' = db1\<lparr>usages := map (override rows) (usages db1),
     grants := update_where (\<lambda>x. gID x = gID grant2) (\<lambda>x. merge_grant x grant2) (grants db1),
     requests := requests db1 @ [buildReservationRow spec now]\<rparr>"
  moreover have "grant_typed grant" "distinct (map gID (grants d))"
    using assms(2) g by (auto simp: ledger_def list_all_iff)
  ultimately show ?thesis
    using within_update [OF assms(3) _ g] prepared_grant_ok [OF prep] by simp
qed

lemma finalize_active_within:
  assumes "finalize_active now intent flt d scopes grant request = Inr (d', v)" and "ledger d"
    and "map usage_key scopes = orderedBudgetScopeKeys grant"
    and "grant \<in> set (grants d)" and "request \<in> set (requests d)" and "list_all grant_within (grants d)"
  shows "list_all grant_within (grants d')"
  using assms(1-3)
proof (rule finalize_active_cases)
  fix charged valid first grant1
  assume fc: "finalCharge (rReservedBytes request) intent = (charged, valid)"
    and cs: "\<not> cannot_settle (gReservedBytes grant) (gInFlight grant) (gDeliveredBytes grant)
      (rReservedBytes request) charged"
    and aud: "applyGrantAuditSummary grant (if fState intent = RequestSucceeded then AuditOutcomeSuccess else AuditOutcomeFailure)
      (boundedEvidence (rReservedBytes request) (fResponseBytes intent)) (rRangeKind request \<noteq> HTTPRangeFull) = Inr grant1"
    and d': "d' = d\<lparr>usages := map (override (map (settle_usage now (rReservedBytes request) charged) scopes)) (usages d),
      grants := update_where (\<lambda>x. gID x = gID (settle_grant now (rReservedBytes request) charged grant1))
        (\<lambda>x. merge_grant x (settle_grant now (rReservedBytes request) charged grant1)) (grants d),
      requests := update_where (\<lambda>r. rID r = rID request)
        (\<lambda>r. merge_request r (settle_request now intent request)) (requests d)\<rparr>"
  have t: "grant_typed grant" "distinct (map gID (grants d))" "0 \<le> rReservedBytes request"
    using assms(2,4,5) by (auto simp: ledger_def list_all_iff)
  note c = finalCharge_bounds [OF fc t(3)]
  note G = settle_grant_ok [OF aud cs t(1,3) conjunct1 [OF c] conjunct2 [OF c]]
  have "list_all grant_within (update_where (\<lambda>x. gID x = gID (settle_grant now (rReservedBytes request) charged grant1))
        (\<lambda>x. merge_grant x (settle_grant now (rReservedBytes request) charged grant1)) (grants d))"
    using G by (intro within_update [OF assms(6) t(2) assms(4)]) blast+
  then show ?thesis unfolding d' by simp
qed

lemma reserve_keeps_within: "reserve_keeps grants_within"
  using reserve_tx_ledger reserve_tx_within by (auto simp: reserve_keeps_def grants_within_def)

lemma finalize_keeps_within: "finalize_keeps grants_within"
  unfolding finalize_keeps_def grants_within_def
  by (auto elim!: finalize_tx_cases intro: finalize_active_ledger finalize_active_within)

section \<open>Successful calls\<close>

lemma merge_grant_fixed [simp]:
  "gState (merge_grant g n) = gState g" "gAbsoluteExpiresAt (merge_grant g n) = gAbsoluteExpiresAt g"
  "gSessionExpiresAt (merge_grant g n) = gSessionExpiresAt g"
  "orderedBudgetScopeKeys (merge_grant g n) = orderedBudgetScopeKeys g"
  by (simp_all add: merge_grant_def orderedBudgetScopeKeys_def)

lemma reserve_tx_usages:
  assumes "reserve_tx limits scopeGrant now spec flt db = Inr (db', res)" and "ledger db" and "limits_typed limits"
    and "key \<in> set (orderedBudgetScopeKeys scopeGrant)"
  shows "\<exists>u \<in> set (usages db'). usage_key u = key
    \<and> uRequestCount u \<le> WindowRequests (limitsForScope limits (fst key))
    \<and> (\<not> sBlocked spec \<longrightarrow> uInFlight u \<le> MaxInFlight (limitsForScope limits (fst key))
        \<and> uDeliveredBytes u + uReservedBytes u \<le> WindowBytes (limitsForScope limits (fst key)))"
  using assms(1,2)
proof (rule reserve_tx_cases)
  fix db1 scopes grant rows grant1 grant2
  assume lock: "lockOrCreateScopes flt now limits (orderedBudgetScopeKeys scopeGrant) db = Inr (db1, scopes)"
    and led1: "ledger db1"
    and prep: "prepareScopes now (Window limits) (sReservedBytes spec) (\<not> sBlocked spec) scopes = Inr rows"
    and db': "db' = db1\<lparr>usages := map (override rows) (usages db1),
       grants := update_where (\<lambda>x. gID x = gID grant2) (\<lambda>x. merge_grant x grant2) (grants db1),
       requests := requests db1 @ [buildReservationRow spec now]\<rparr>"
  have "distinct (map usage_key (usages db))" using assms(2) by (simp add: ledger_def)
  note L = lockOrCreateScopes_ok [OF lock this]
  have keys: "map usage_key rows = orderedBudgetScopeKeys scopeGrant"
    using prepareScopes_keys [OF prep] L by simp
  then have "key \<in> usage_key ` set rows" using assms(4) by (metis set_map)
  then obtain n where n: "n \<in> set rows" "usage_key n = key" by auto
  obtain u l where u: "(u, l) \<in> set scopes" "l = limitsForScope limits (fst (usage_key u))" "usage_key n = usage_key u"
    and N: "uRequestCount n \<le> WindowRequests l" "\<not> sBlocked spec \<longrightarrow> uInFlight n \<le> MaxInFlight l
      \<and> uDeliveredBytes n + uReservedBytes n \<le> WindowBytes l"
    using prepared_usage_ok [OF prep led1 assms(3) _ _ n(1)] L by blast
  have "u \<in> set (usages db1)" using L u(1) by force
  moreover have "override rows u = n"
    using take_row_key [of usage_key rows n] keys scope_keys_distinct [of scopeGrant] n(1) u(3)
    by (simp add: override_def)
  ultimately have "n \<in> set (usages db')" by (auto simp: db')
  then show ?thesis using N u(2,3) n(2) by (intro bexI [of _ n]) auto
qed

lemma reserve_tx_rows:
  assumes "reserve_tx limits scopeGrant now spec flt db = Inr (db', res)" and "ledger db"
  shows "buildReservationRow spec now \<in> set (requests db') \<and> resRequestVersion res = 1
    \<and> resRequestID res = sRequestID spec
    \<and> set (requests db) \<subseteq> set (requests db') \<and> sRequestID spec \<notin> rID ` set (requests db)
    \<and> (\<exists>grant \<in> set (grants db'). gID grant = sGrantID spec \<and> gState grant = DeliveryActive
        \<and> now < gAbsoluteExpiresAt grant \<and> now < gSessionExpiresAt grant
        \<and> orderedBudgetScopeKeys grant = orderedBudgetScopeKeys scopeGrant
        \<and> gRequestCount grant \<le> gMaxRequests grant
        \<and> (\<not> sBlocked spec \<longrightarrow> sReservedBytes spec \<le> gMaxBytesPerRequest grant
            \<and> gDeliveredBytes grant + gReservedBytes grant \<le> gMaxCumulativeBytes grant
            \<and> gInFlight grant \<le> gMaxInFlight grant))"
  using assms
proof (rule reserve_tx_cases)
  fix db1 scopes grant rows grant1 grant2
  assume same: "grants db1 = grants db" "requests db1 = requests db"
    and g: "grant \<in> set (grants db)" "gID grant = sGrantID spec"
      "orderedBudgetScopeKeys grant = orderedBudgetScopeKeys scopeGrant" "grantAcceptsNewRequest grant now"
    and fresh: "sRequestID spec \<notin> rID ` set (requests db)"
    and prep: "prepareGrantReservation grant now (sReservedBytes spec) (\<not> sBlocked spec) = Inr grant1"
      "(if sBlocked spec then applyGrantAuditSummary grant1 AuditOutcomeBlocked 0 (sRangeRequested spec)
        else Inr grant1) = Inr grant2"
    and db': "db' = db1\<lparr>usages := map (override rows) (usages db1),
       grants := update_where (\<lambda>x. gID x = gID grant2) (\<lambda>x. merge_grant x grant2) (grants db1),
       requests := requests db1 @ [buildReservationRow spec now]\<rparr>"
    and res: "res = \<lparr>resRequestID = rID (buildReservationRow spec now), resGrantID = rGrantID (buildReservationRow spec now),
       resRequestVersion = rVersion (buildReservationRow spec now),
       resReservedBytes = rReservedBytes (buildReservationRow spec now)\<rparr>"
  have t: "grant_typed grant" using assms(2) g(1) by (simp add: ledger_def list_all_iff)
  note P = prepareGrant_ok [OF prep(1) t]
  have A: "gID grant2 = gID grant1 \<and> gReservedBytes grant2 = gReservedBytes grant1
    \<and> gInFlight grant2 = gInFlight grant1 \<and> gDeliveredBytes grant2 = gDeliveredBytes grant1
    \<and> gRequestCount grant2 = gRequestCount grant1"
    using prep(2) applyAudit_ok [of grant1] by (cases "sBlocked spec") auto
  have "merge_grant grant grant2 \<in> set (grants db')"
    using g(1) same P A by (force simp: db' set_update_where)
  moreover have "gState grant = DeliveryActive" "now < gAbsoluteExpiresAt grant" "now < gSessionExpiresAt grant"
    using g(4) by (auto simp: grantAcceptsNewRequest_def)
  moreover have "sReservedBytes spec \<le> gMaxBytesPerRequest grant"
    "gDeliveredBytes grant2 + gReservedBytes grant2 \<le> gMaxCumulativeBytes grant"
    "gInFlight grant2 \<le> gMaxInFlight grant" if "\<not> sBlocked spec"
    using that P A by auto
  moreover have "gRequestCount grant2 \<le> gMaxRequests grant" using P A by simp
  ultimately show ?thesis using g fresh by (intro conjI bexI) (auto simp: db' res same)
qed


lemma boundedEvidence_id: "0 \<le> x \<Longrightarrow> x \<le> reserved \<Longrightarrow> boundedEvidence reserved x = x"
  by (simp add: boundedEvidence_def)

text \<open>What a successful finalisation transaction leaves behind.\<close>

lemma finalize_tx_post:
  assumes "finalize_tx scopeGrant gid now intent flt d = Inr (d', fin)" and "ledger d"
    and "requestFinalizable (fState intent)"
  shows "map usage_key (usages d') = map usage_key (usages d)
    \<and> map grant_ident (grants d') = map grant_ident (grants d)
    \<and> (\<exists>grant \<in> set (grants d'). \<exists>r \<in> set (requests d').
        orderedBudgetScopeKeys grant = orderedBudgetScopeKeys scopeGrant
        \<and> set (orderedBudgetScopeKeys grant) \<subseteq> usage_key ` set (usages d')
        \<and> rID r = fRequestID intent \<and> finRequestID fin = fRequestID intent \<and> rGrantID r = gID grant
        \<and> requestTerminal (rState r) \<and> rState r = finState fin
        \<and> (finAlreadyFinalized fin \<and> fin = terminalFinalization r \<and> d' = d
           \<or> \<not> finAlreadyFinalized fin \<and> finState fin = fState intent
             \<and> rProviderBytes r = boundedEvidence (rReservedBytes r) (fProviderBytes intent)
             \<and> rResponseBytes r = boundedEvidence (rReservedBytes r) (fResponseBytes intent)
             \<and> (\<exists>valid. finalCharge (rReservedBytes r) intent = (finChargedBytes fin, valid)
                  \<and> (fState intent = RequestSucceeded \<longrightarrow> valid))))"
  using assms(1)
proof (rule finalize_tx_cases)
  fix scopes grant request
  assume g: "orderedBudgetScopeKeys grant = orderedBudgetScopeKeys scopeGrant"
    and keys: "map usage_key scopes = orderedBudgetScopeKeys grant" "set scopes \<subseteq> set (usages d)"
    and grant: "grant \<in> set (grants d)" and r: "request \<in> set (requests d)" "rID request = fRequestID intent"
      "rGrantID request = gID grant"
    and alt: "requestTerminal (rState request) \<and> d' = d \<and> fin = terminalFinalization request
     \<or> request_active request \<and> rVersion request = fExpectedRequestVersion intent
       \<and> finalize_active now intent flt d scopes grant request = Inr (d', fin)"
  have sub: "set (orderedBudgetScopeKeys grant) \<subseteq> usage_key ` set (usages d)"
    using keys by (metis image_mono set_map)
  show ?thesis
  proof (cases "requestTerminal (rState request)")
    case True
    then have "\<not> request_active request" by (auto simp: requestTerminal_def request_active_def)
    with alt have "d' = d" "fin = terminalFinalization request" by auto
    with True g grant r sub show ?thesis by (auto simp: terminalFinalization_def intro!: bexI [of _ grant] bexI [of _ request])
  next
    case False
    with alt have "finalize_active now intent flt d scopes grant request = Inr (d', fin)" by blast
    then show ?thesis using assms(2) keys(1)
    proof (rule finalize_active_cases)
      fix charged valid first grant1
      let ?n = "settle_grant now (rReservedBytes request) charged grant1"
      let ?r = "merge_request request (settle_request now intent request)"
      assume fc: "finalCharge (rReservedBytes request) intent = (charged, valid)"
          "valid \<or> fState intent \<noteq> RequestSucceeded"
        and d': "d' = d\<lparr>usages := map (override (map (settle_usage now (rReservedBytes request) charged) scopes)) (usages d),
          grants := update_where (\<lambda>x. gID x = gID ?n) (\<lambda>x. merge_grant x ?n) (grants d),
          requests := update_where (\<lambda>r. rID r = rID request)
            (\<lambda>r. merge_request r (settle_request now intent request)) (requests d)\<rparr>"
        and fin: "fin = \<lparr>finRequestID = rID request, finState = fState intent, finChargedBytes = charged,
           finAlreadyFinalized = False, finFirstSuccessfulGET = first\<rparr>"
      have "map grant_ident (grants d') = map grant_ident (grants d)" by (simp add: d' update_where_def)
      moreover have "map usage_key (usages d') = map usage_key (usages d)" by (simp add: d' comp_def)
      moreover have "?r \<in> set (requests d')" using r(1) by (force simp: d' set_update_where)
      moreover have "(if gID grant = gID ?n then merge_grant grant ?n else grant) \<in> set (grants d')"
        using grant by (auto simp: d' set_update_where)
      moreover have "usage_key ` set (usages d') = usage_key ` set (usages d)"
        using calculation(2) by (metis set_map)
      moreover have "requestTerminal (fState intent)"
        using assms(3) by (auto simp: requestTerminal_def requestFinalizable_def)
      ultimately show ?thesis using r fc sub g
        by (intro conjI bexI [of _ "if gID grant = gID ?n then merge_grant grant ?n else grant"] bexI [of _ ?r])
          (auto simp: fin merge_settled merge_request_def settle_request_def)
    qed
  qed
qed

lemma Finalize_post:
  assumes "Finalize env intent db = (db', Inr fin)" and "ledger db" and "others_keep ledger env"
  obtains grant r where "ledger db'" "grant \<in> set (grants db')"
    "validBudgetScopeKeys (orderedBudgetScopeKeys grant)"
    "set (orderedBudgetScopeKeys grant) \<subseteq> usage_key ` set (usages db')"
    "r \<in> set (requests db')" "rID r = fRequestID intent" "rGrantID r = gID grant"
    "requestTerminal (rState r)" "rState r = finState fin"
    "finAlreadyFinalized fin \<and> fin = terminalFinalization r
     \<or> \<not> finAlreadyFinalized fin \<and> finState fin = fState intent
       \<and> rProviderBytes r = boundedEvidence (rReservedBytes r) (fProviderBytes intent)
       \<and> rResponseBytes r = boundedEvidence (rReservedBytes r) (fResponseBytes intent)
       \<and> (\<exists>valid. finalCharge (rReservedBytes r) intent = (finChargedBytes fin, valid)
            \<and> (fState intent = RequestSucceeded \<longrightarrow> valid))"
proof -
  obtain g gid flt d where led: "ledger d" and v: "validFinalizeIntent intent"
    and keys: "validBudgetScopeKeys (orderedBudgetScopeKeys g)"
    and tx: "finalize_tx g gid (envNow env) intent flt d = Inr (db', fin)"
    using Finalize_sound [OF assms finalize_keeps_ledger] by blast
  have f: "requestFinalizable (fState intent)" using v by (auto simp: validFinalizeIntent_def split: if_splits)
  have "ledger db'" by (rule finalize_keeps_ledger [unfolded finalize_keeps_def, rule_format, OF f led tx])
  with finalize_tx_post [OF tx led f] keys that show thesis by metis
qed


text \<open>An environment without faults and without other writers.\<close>

definition quiet :: "budget_env \<Rightarrow> bool" where
  "quiet env \<longleftrightarrow> (\<forall>stmt. envFault env stmt = None) \<and> (\<forall>k stmt. envTxFault env k stmt = None)
     \<and> (\<forall>k d. envOthers env k d = d)"

lemma run_stmt_quiet: "flt stmt = None \<Longrightarrow> run_stmt flt stmt = Inr ()"
  by (simp add: run_stmt_def)

lemma transactionWithRetry_quiet:
  assumes "quiet env" and "operation (envTxFault env 0) db = Inr (db', v)"
  shows "transactionWithRetry env operation db = (db', Inr v)"
  using assms
  by (simp add: transactionWithRetry_def retry_loop.simps [of _ _ 15] Transaction_def run_stmt_quiet quiet_def)

lemma lockExistingScopes_quiet:
  assumes "\<And>stmt. flt stmt = None" and "set keys \<subseteq> usage_key ` set (usages db)"
  shows "\<exists>scopes. lockExistingScopes flt db keys = Inr scopes"
  using assms(2)
proof (induction keys)
  case (Cons key keys)
  then obtain scopes where "lockExistingScopes flt db keys = Inr scopes" by auto
  moreover have "take_row (\<lambda>u. usage_key u = key) (usages db) \<noteq> None"
    using Cons.prems by (auto simp: take_row_None)
  ultimately show ?case
    by (auto simp: lockExistingUsage_def lockUsage_def run_stmt_quiet [OF assms(1)])
qed simp

lemma Finalize_terminal:
  assumes "quiet env" and "validFinalizeIntent intent" and "ledger db"
    and "r \<in> set (requests db)" and "rID r = fRequestID intent" and "requestTerminal (rState r)"
    and "grant \<in> set (grants db)" and "rGrantID r = gID grant"
    and "validBudgetScopeKeys (orderedBudgetScopeKeys grant)"
    and "set (orderedBudgetScopeKeys grant) \<subseteq> usage_key ` set (usages db)"
  shows "Finalize env intent db = (db, Inr (terminalFinalization r))"
proof -
  have dist: "distinct (map gID (grants db))" "distinct (map rID (requests db))" using assms(3) by (auto simp: ledger_def)
  have q: "\<And>stmt. envFault env stmt = None" "\<And>k stmt. envTxFault env k stmt = None"
    using assms(1) by (auto simp: quiet_def)
  have take: "take_row (\<lambda>x. rID x = fRequestID intent) (requests db) = Some r"
    "take_row (\<lambda>x. gID x = rGrantID r) (grants db) = Some grant"
    using take_row_key [OF dist(2) assms(4,5)] take_row_key [OF dist(1) assms(7) assms(8) [symmetric]] by auto
  obtain scopes where "lockExistingScopes (envTxFault env 0) db (orderedBudgetScopeKeys grant) = Inr scopes"
    using lockExistingScopes_quiet [OF _ assms(10), of "envTxFault env 0"] q(2) by blast
  with take assms(6,8) q(2) have "finalize_tx grant (rGrantID r) (envNow env) intent (envTxFault env 0) db
      = Inr (db, terminalFinalization r)"
    by (simp add: finalize_tx_def lockGrant_def lockRequest_def run_stmt_quiet)
  then have "transactionWithRetry env (finalize_tx grant (rGrantID r) (envNow env) intent) db
      = (db, Inr (terminalFinalization r))"
    by (rule transactionWithRetry_quiet [OF assms(1)])
  with take q(1) assms(2,9) show ?thesis by (simp add: Finalize_def loadGrantScope_def run_stmt_quiet)
qed

text \<open>
  Settlement is idempotent. After \<open>Finalize\<close> succeeded, a second call for the same request, with
  any valid intent, changes no row and reports the stored state as already finalised; the charge it
  reports is the charge that was made when the request succeeded, or was reconciled without
  evidence, or when the first call was itself a repetition.
\<close>

theorem finalization_idempotent:
  assumes "Finalize env intent db = (db', Inr fin)" and "ledger db" and "others_keep ledger env"
    and "quiet env2" and "validFinalizeIntent again" and "fRequestID again = fRequestID intent"
  shows "\<exists>fin2. Finalize env2 again db' = (db', Inr fin2) \<and> finAlreadyFinalized fin2
    \<and> finState fin2 = finState fin \<and> \<not> finFirstSuccessfulGET fin2
    \<and> (finAlreadyFinalized fin \<or> fState intent = RequestSucceeded
        \<or> fState intent = RequestReconciled \<and> \<not> fEvidenceKnown intent \<longrightarrow> finChargedBytes fin2 = finChargedBytes fin)"
  using assms(1-3)
proof (rule Finalize_post)
  fix grant r
  assume led: "ledger db'" and grant: "grant \<in> set (grants db')"
      "validBudgetScopeKeys (orderedBudgetScopeKeys grant)"
      "set (orderedBudgetScopeKeys grant) \<subseteq> usage_key ` set (usages db')"
    and r: "r \<in> set (requests db')" "rID r = fRequestID intent" "rGrantID r = gID grant"
      "requestTerminal (rState r)" "rState r = finState fin"
    and alt: "finAlreadyFinalized fin \<and> fin = terminalFinalization r
     \<or> \<not> finAlreadyFinalized fin \<and> finState fin = fState intent
       \<and> rProviderBytes r = boundedEvidence (rReservedBytes r) (fProviderBytes intent)
       \<and> rResponseBytes r = boundedEvidence (rReservedBytes r) (fResponseBytes intent)
       \<and> (\<exists>valid. finalCharge (rReservedBytes r) intent = (finChargedBytes fin, valid)
            \<and> (fState intent = RequestSucceeded \<longrightarrow> valid))"
  have "Finalize env2 again db' = (db', Inr (terminalFinalization r))"
    using Finalize_terminal [OF assms(4,5) led r(1) _ r(4) grant(1) r(3) grant(2,3)] r(2) assms(6) by simp
  moreover have "finAlreadyFinalized fin \<or> fState intent = RequestSucceeded
        \<or> fState intent = RequestReconciled \<and> \<not> fEvidenceKnown intent
        \<longrightarrow> finChargedBytes (terminalFinalization r) = finChargedBytes fin"
    using alt r(5) by (elim disjE conjE exE)
      (auto simp: terminalFinalization_def finalCharge_def Let_def boundedEvidence_id split: if_splits)
  ultimately show ?thesis using r(5) by (intro exI [of _ "terminalFinalization r"]) (auto simp: terminalFinalization_def)
qed

section \<open>Histories of calls\<close>

text \<open>
  C1. The ledger is exact. After any sequence of \<open>Reserve\<close>, \<open>RecordBlocked\<close> and \<open>Finalize\<close> calls,
  with any database faults and retries, the reserved bytes and in-flight counts on every grant and
  on every usage scope equal the totals over the requests that are reserved or streaming, provided
  they did so before and the other writers of the tables keep this.
\<close>

theorem budget_ledger_exact:
  assumes "ledger db" and "list_all (\<lambda>(env, call). others_keep ledger env \<and> env_typed env) calls"
  shows "ledger (run_calls calls db)"
  by (rule budget_calls_keep [OF assms(1) reserve_keeps_ledger finalize_keeps_ledger assms(2)])

text \<open>
  C5. A grant is never overspent. Along every such sequence the delivered and reserved bytes of a
  grant together stay within its cumulative limit, its requests in flight within its concurrency limit
  and its requests within its request limit.
\<close>

theorem grant_never_overspent:
  assumes "grants_within db" and "list_all (\<lambda>(env, call). others_keep grants_within env \<and> env_typed env) calls"
    and "g \<in> set (grants (run_calls calls db))"
  shows "0 \<le> gDeliveredBytes g \<and> gDeliveredBytes g + gReservedBytes g \<le> gMaxCumulativeBytes g
    \<and> gInFlight g \<le> gMaxInFlight g \<and> gRequestCount g \<le> gMaxRequests g"
proof -
  have "grants_within (run_calls calls db)"
    by (rule budget_calls_keep [OF assms(1) reserve_keeps_within finalize_keeps_within assms(2)])
  with assms(3) show ?thesis by (auto simp: grants_within_def grant_within_def list_all_iff)
qed

text \<open>
  Errors have no effect. When a call fails, after whatever number of attempts, and no other
  transaction ran meanwhile, the tables are what they were.
\<close>

theorem budget_error_no_effect:
  assumes "\<forall>k d. envOthers env k d = d"
  shows "(Reserve env intent db = (db', Inl e1) \<longrightarrow> db' = db)
    \<and> (RecordBlocked env blocked db = (db', Inl e2) \<longrightarrow> db' = db)
    \<and> (Finalize env final db = (db', Inl e3) \<longrightarrow> db' = db)"
proof -
  have loop: "db' = db" if "transactionWithRetry env operation db = (db', Inl e)"
    for operation :: "faults \<Rightarrow> budget_db \<Rightarrow> (budget_error, budget_db \<times> 'a) result" and e
    using retry_loop_error [of env operation 15 0 db db' e] assms that by (simp add: transactionWithRetry_def)
  have loop2: "db' = db" if "transactionWithRetry env operation db = (db', Inl e)"
    for operation :: "faults \<Rightarrow> budget_db \<Rightarrow> (budget_error, budget_db \<times> Finalization) result" and e
    using retry_loop_error [of env operation 15 0 db db' e] assms that by (simp add: transactionWithRetry_def)
  have res: "db' = db" if "reserve env spec db = (db', Inl e)" for spec e
    using that retry_loop_error [where env = env and db = db and db' = db' and e = e and remaining = 15 and attempt = 0] assms
    by (auto simp: reserve_def transactionWithRetry_def split: option.splits if_splits sum.splits)
  then show ?thesis using loop2
    by (auto simp: Reserve_def RecordBlocked_def Finalize_def split: if_splits sum.splits prod.splits)
qed

text \<open>The identifiers in use and the succeeded downloads of a grant only grow.\<close>

definition id_used :: "string \<Rightarrow> budget_db \<Rightarrow> bool" where
  "id_used requestID db \<longleftrightarrow> ledger db \<and> requestID \<in> rID ` set (requests db)"

definition get_done :: "string \<Rightarrow> budget_db \<Rightarrow> bool" where
  "get_done grantID db \<longleftrightarrow> ledger db \<and> (\<exists>r \<in> set (requests db).
     rGrantID r = grantID \<and> rMethod r = MethodGet \<and> rState r = RequestSucceeded)"

lemma finalize_tx_requests:
  assumes "finalize_tx g gid now intent flt d = Inr (d', fin)" and "ledger d" and "r \<in> set (requests d)"
  shows "\<exists>r' \<in> set (requests d'). rID r' = rID r \<and> (request_active r \<or> r' = r)"
  using assms(1)
proof (rule finalize_tx_cases)
  fix scopes grant request
  assume keys: "map usage_key scopes = orderedBudgetScopeKeys grant" and q: "request \<in> set (requests d)"
    and alt: "requestTerminal (rState request) \<and> d' = d \<and> fin = terminalFinalization request
     \<or> request_active request \<and> rVersion request = fExpectedRequestVersion intent
       \<and> finalize_active now intent flt d scopes grant request = Inr (d', fin)"
  show ?thesis
  proof (cases "d' = d")
    case True
    with assms(3) show ?thesis by auto
  next
    case False
    with alt have act: "request_active request" "finalize_active now intent flt d scopes grant request = Inr (d', fin)"
      by auto
    have "distinct (map rID (requests d))" using assms(2) by (simp add: ledger_def)
    note uniq = key_unique [OF this assms(3) q]
    show ?thesis using act(2) assms(2) keys
    proof (rule finalize_active_cases)
      fix charged grant1
      assume d': "d' = d\<lparr>usages := map (override (map (settle_usage now (rReservedBytes request) charged) scopes)) (usages d),
       grants := update_where (\<lambda>x. gID x = gID (settle_grant now (rReservedBytes request) charged grant1))
         (\<lambda>x. merge_grant x (settle_grant now (rReservedBytes request) charged grant1)) (grants d),
       requests := update_where (\<lambda>r. rID r = rID request)
         (\<lambda>r. merge_request r (settle_request now intent request)) (requests d)\<rparr>"
      have "(if rID r = rID request then merge_request r (settle_request now intent request) else r)
        \<in> set (requests d')"
        using assms(3) by (auto simp: d' set_update_where)
      moreover have "rID (if rID r = rID request then merge_request r (settle_request now intent request) else r) = rID r"
        by (simp add: merge_settled)
      ultimately show ?thesis using act(1) uniq by (metis (full_types))
    qed
  qed
qed

lemma reserve_keeps_used: "reserve_keeps (id_used i)"
  unfolding reserve_keeps_def id_used_def using reserve_tx_ledger reserve_tx_rows by (blast intro: image_mono)

lemma finalize_keeps_used: "finalize_keeps (id_used i)"
  unfolding finalize_keeps_def id_used_def
proof (intro allI impI conjI; elim conjE)
  fix g gid now intent flt d d' v
  assume f: "requestFinalizable (fState intent)" and led: "ledger d" and i: "i \<in> rID ` set (requests d)"
    and tx: "finalize_tx g gid now intent flt d = Inr (d', v)"
  show "ledger d'" by (rule finalize_keeps_ledger [unfolded finalize_keeps_def, rule_format, OF f led tx])
  obtain r where r: "r \<in> set (requests d)" "rID r = i" using i by auto
  obtain r' where "r' \<in> set (requests d')" "rID r' = rID r" using finalize_tx_requests [OF tx led r(1)] by blast
  with r(2) show "i \<in> rID ` set (requests d')" by (metis imageI)
qed

lemma reserve_keeps_done: "reserve_keeps (get_done gid)"
  unfolding reserve_keeps_def get_done_def using reserve_tx_ledger reserve_tx_rows by blast

lemma finalize_keeps_done: "finalize_keeps (get_done gid)"
  unfolding finalize_keeps_def get_done_def
proof (intro allI impI conjI; elim conjE)
  fix g i now intent flt d d' v
  assume f: "requestFinalizable (fState intent)" and led: "ledger d"
    and ex: "\<exists>r \<in> set (requests d). rGrantID r = gid \<and> rMethod r = MethodGet \<and> rState r = RequestSucceeded"
    and tx: "finalize_tx g i now intent flt d = Inr (d', v)"
  show "ledger d'" by (rule finalize_keeps_ledger [unfolded finalize_keeps_def, rule_format, OF f led tx])
  obtain r where r: "r \<in> set (requests d)" "rGrantID r = gid \<and> rMethod r = MethodGet \<and> rState r = RequestSucceeded"
    using ex by auto
  then have "\<not> request_active r" by (simp add: request_active_def)
  with r finalize_tx_requests [OF tx led r(1)]
  show "\<exists>r \<in> set (requests d'). rGrantID r = gid \<and> rMethod r = MethodGet \<and> rState r = RequestSucceeded" by blast
qed

text \<open>
  A request identifier is used once. A reservation under an identifier that a stored request
  already has is refused, also after any number of further calls.
\<close>

theorem reservation_id_single_use:
  assumes "id_used (iRequestID intent) db"
    and "list_all (\<lambda>(env, call). others_keep (id_used (iRequestID intent)) env \<and> env_typed env) calls"
    and "others_keep (id_used (iRequestID intent)) env" and "env_typed env"
  shows "\<not> is_ok (snd (Reserve env intent (run_calls calls db)))"
proof
  let ?P = "id_used (iRequestID intent)" and ?db = "run_calls calls db"
  assume ok: "is_ok (snd (Reserve env intent ?db))"
  obtain db' res where run: "reserve env (intent_spec intent) ?db = (db', Inr res)"
    using ok by (cases "reserve env (intent_spec intent) ?db") (auto simp: Reserve_def is_ok_iff split: if_splits)
  have "?P ?db" by (rule budget_calls_keep [OF assms(1) reserve_keeps_used finalize_keeps_used assms(2)])
  from reserve_sound [OF run this assms(3) reserve_keeps_used assms(4)]
  obtain limits g flt d where "?P d" and tx: "reserve_tx limits g (envNow env) (intent_spec intent) flt d = Inr (db', res)"
    by blast
  with reserve_tx_rows [OF tx] show False by (auto simp: id_used_def intent_spec_def)
qed

lemma finalize_tx_first:
  assumes "finalize_tx g gid now intent flt d = Inr (d', fin)" and "ledger d" and "finFirstSuccessfulGET fin"
  shows "\<exists>r \<in> set (requests d'). rID r = fRequestID intent \<and> rMethod r = MethodGet \<and> rState r = RequestSucceeded
    \<and> (\<forall>s \<in> set (requests d). rGrantID s = rGrantID r \<longrightarrow> rMethod s = MethodGet \<longrightarrow> rState s \<noteq> RequestSucceeded)"
  using assms(1)
proof (rule finalize_tx_cases)
  fix scopes grant request
  assume keys: "map usage_key scopes = orderedBudgetScopeKeys grant" and q: "request \<in> set (requests d)"
      "rID request = fRequestID intent" "rGrantID request = gID grant"
    and alt: "requestTerminal (rState request) \<and> d' = d \<and> fin = terminalFinalization request
     \<or> request_active request \<and> rVersion request = fExpectedRequestVersion intent
       \<and> finalize_active now intent flt d scopes grant request = Inr (d', fin)"
  have "finalize_active now intent flt d scopes grant request = Inr (d', fin)"
    using alt assms(3) by (auto simp: terminalFinalization_def)
  then show ?thesis using assms(2) keys
  proof (rule finalize_active_cases)
    fix charged first grant1
    let ?r = "merge_request request (settle_request now intent request)"
    assume first: "firstSuccessfulGET flt d grant request intent = Inr first"
      and d': "d' = d\<lparr>usages := map (override (map (settle_usage now (rReservedBytes request) charged) scopes)) (usages d),
       grants := update_where (\<lambda>x. gID x = gID (settle_grant now (rReservedBytes request) charged grant1))
         (\<lambda>x. merge_grant x (settle_grant now (rReservedBytes request) charged grant1)) (grants d),
       requests := update_where (\<lambda>r. rID r = rID request)
         (\<lambda>r. merge_request r (settle_request now intent request)) (requests d)\<rparr>"
      and fin: "fin = \<lparr>finRequestID = rID request, finState = fState intent, finChargedBytes = charged,
         finAlreadyFinalized = False, finFirstSuccessfulGET = first\<rparr>"
    have "rMethod request = MethodGet" "fState intent = RequestSucceeded"
      and none: "\<forall>s \<in> set (requests d). \<not> (rGrantID s = gID grant \<and> rMethod s = MethodGet \<and> rState s = RequestSucceeded)"
      using first assms(3) fin by (auto simp: firstSuccessfulGET_def take_row_None result_simps split: if_splits)
    moreover have "?r \<in> set (requests d')" using q(1) by (force simp: d' set_update_where)
    ultimately show ?thesis using q
      by (intro bexI [of _ ?r]) (auto simp: merge_settled, auto simp: merge_request_def)
  qed
qed

text \<open>
  The first successful download of a grant is reported once. After a finalisation reported the
  first successful GET of a grant, no later finalisation of a request of that grant reports it again,
  whatever calls lie between.
\<close>

theorem first_download_reported_once:
  assumes "Finalize env intent db = (db1, Inr fin)" and "finFirstSuccessfulGET fin" and "ledger db"
    and "others_keep ledger env" and "r \<in> set (requests db1)" and "rID r = fRequestID intent"
    and "list_all (\<lambda>(env, call). others_keep (get_done (rGrantID r)) env \<and> env_typed env) calls"
    and "Finalize env2 later (run_calls calls db1) = (db2, Inr fin2)"
    and "others_keep (get_done (rGrantID r)) env2"
    and "r2 \<in> set (requests db2)" and "rID r2 = fRequestID later" and "rGrantID r2 = rGrantID r"
  shows "\<not> finFirstSuccessfulGET fin2"
proof
  assume second: "finFirstSuccessfulGET fin2"
  let ?P = "get_done (rGrantID r)"
  have led1: "ledger db1" using assms(1,3,4) by (rule Finalize_post)
  obtain g gid flt d where "ledger d" and tx: "finalize_tx g gid (envNow env) intent flt d = Inr (db1, fin)"
    using Finalize_sound [OF assms(1,3,4) finalize_keeps_ledger] by blast
  from finalize_tx_first [OF tx this(1) assms(2)] obtain r' where "r' \<in> set (requests db1)"
    "rID r' = fRequestID intent" "rMethod r' = MethodGet" "rState r' = RequestSucceeded" by blast
  moreover from this have "r' = r" using led1 assms(5,6) key_unique [of rID "requests db1" r' r] by (simp add: ledger_def)
  ultimately have "?P db1" using led1 by (auto simp: get_done_def)
  then have P: "?P (run_calls calls db1)"
    by (rule budget_calls_keep [OF _ reserve_keeps_done finalize_keeps_done assms(7)])
  obtain g2 gid2 flt2 d2 where d2: "?P d2" and tx2: "finalize_tx g2 gid2 (envNow env2) later flt2 d2 = Inr (db2, fin2)"
    and db2: "?P db2"
    using Finalize_sound [OF assms(8) P assms(9) finalize_keeps_done] by blast
  obtain r3 where "r3 \<in> set (requests db2)" "rID r3 = fRequestID later"
    "\<forall>s \<in> set (requests d2). rGrantID s = rGrantID r3 \<longrightarrow> rMethod s = MethodGet \<longrightarrow> rState s \<noteq> RequestSucceeded"
    using finalize_tx_first [OF tx2 _ second] d2 by (auto simp: get_done_def)
  moreover from this have "r3 = r2"
    using db2 assms(10,11) key_unique [of rID "requests db2" r3 r2] by (simp add: get_done_def ledger_def)
  ultimately show False using d2 assms(12) by (auto simp: get_done_def)
qed

text \<open>
  The retry loop. The first of the sixteen attempts that commits or fails with an error that is
  not retryable decides the call: its tables and result are returned, when the earlier attempts failed
  with retryable errors, the context is alive and no other transaction runs.
\<close>

theorem retry_first_decision:
  assumes "n < 16" and "\<forall>k d. envOthers env k d = d"
    and "\<forall>k < n. envCtxErr env k = None \<and> (\<exists>e. snd (Transaction (envTxFault env k) operation db) = Inl e
           \<and> retryableBudgetError (envUnicodeLower env) e)"
    and "Transaction (envTxFault env n) operation db = (db', result)"
    and "\<forall>e. result = Inl e \<longrightarrow> \<not> retryableBudgetError (envUnicodeLower env) e"
  shows "transactionWithRetry env operation db = (db', result)"
proof -
  have "retry_loop env operation (m + j) (n - j) db = (db', result)" if "j \<le> n" for m j
    using that
  proof (induction j)
    case 0
    show ?case using assms(2,4,5) by (subst retry_loop.simps) (auto split: sum.splits)
  next
    case (Suc j)
    then have k: "n - Suc j < n" "Suc (n - Suc j) = n - j" by auto
    obtain e where e: "Transaction (envTxFault env (n - Suc j)) operation db = (db, Inl e)"
      "retryableBudgetError (envUnicodeLower env) e" "envCtxErr env (n - Suc j) = None"
      using assms(3) k(1) Transaction_error by (metis prod.collapse)
    show ?case using Suc.IH Suc.prems e k(2) assms(2)
      by (subst retry_loop.simps) simp
  qed
  from this [of n "15 - n"] assms(1) show ?thesis by (simp add: transactionWithRetry_def)
qed

section \<open>A concrete run\<close>

definition sample_env :: budget_env where
  "sample_env =
     (let scope = \<lparr>WindowBytes = 100, WindowRequests = 10, MaxInFlight = 2\<rparr>
      in \<lparr>envNow = 10,
          envLimits = Some \<lparr>Window = Hour, LimitsGlobal = scope, LimitsProvider = scope, LimitsUser = scope\<rparr>,
          envFault = (\<lambda>_. None), envTxFault = (\<lambda>_ _. None), envCtxErr = (\<lambda>_. None),
          envOthers = (\<lambda>_ d. d), envUnicodeLower = id\<rparr>)"

definition sample_grant :: GrantRow where
  "sample_grant =
     \<lparr>gID = replicate 32 CHR ''a'', gResourceKind = DeliveryResourceBackupAsset, gOwnerUserID = 7,
      gProviderKind = ''restic'', gSessionExpiresAt = 1000, gState = DeliveryActive,
      gAbsoluteExpiresAt = 1000, gIdleExpiresAt = 1000, gIdleTTLSeconds = 1, gLastActivityAt = 0,
      gMaxBytesPerRequest = 60, gMaxCumulativeBytes = 80, gMaxRequests = 5, gMaxInFlight = 2,
      gReservedBytes = 0, gDeliveredBytes = 0, gRequestCount = 0, gInFlight = 0, gVersion = 1,
      gAuditState = AuditNone, gAuditRangeCount = 0, gAuditRangeBytes = 0, gAuditRequestCount = 0,
      gAuditSuccessCount = 0, gAuditBlockedCount = 0, gAuditFailureCount = 0, gAuditFailureCode = [],
      gAuditAttemptCount = 0, gAuditNextAttemptAt = None, gUpdatedAt = 0\<rparr>"

definition sample_db :: budget_db where
  "sample_db = \<lparr>usages = [], grants = [sample_grant], requests = []\<rparr>"

definition sample_intent :: "char \<Rightarrow> ReservationIntent" where
  "sample_intent c =
     \<lparr>iRequestID = replicate 32 c, iGrantID = replicate 32 CHR ''a'', iMethod = MethodGet,
      iRange = \<lparr>Kind = HTTPRangeFull, Start = None, EndExclusive = None, SuffixLength = None, Offset = 0, Length = 40\<rparr>,
      iReservedBytes = 40\<rparr>"

definition sample_final :: "char \<Rightarrow> RequestState \<Rightarrow> FinalizeIntent" where
  "sample_final c state =
     (if state = RequestSucceeded
      then \<lparr>fRequestID = replicate 32 c, fExpectedRequestVersion = 1, fState = state, fHTTPStatus = 200,
            fFailureCode = None, fProviderBytes = 40, fResponseBytes = 30, fEvidenceKnown = True\<rparr>
      else \<lparr>fRequestID = replicate 32 c, fExpectedRequestVersion = 1, fState = state, fHTTPStatus = 500,
            fFailureCode = Some RequestFailureInternal, fProviderBytes = 0, fResponseBytes = 0, fEvidenceKnown = False\<rparr>)"

definition sample_calls :: "(budget_env \<times> budget_call) list" where
  "sample_calls = [(sample_env, CallReserve (sample_intent CHR ''b'')),
     (sample_env, CallReserve (sample_intent CHR ''c'')),
     (sample_env, CallFinalize (sample_final CHR ''b'' RequestSucceeded))]"

lemma sample_env_ok: "others_keep P sample_env" "env_typed sample_env" "quiet sample_env"
  by (simp_all add: sample_env_def Let_def others_keep_def env_typed_def limits_typed_def quiet_def
      in_i64_def MinInt64_def MaxInt64_def)

lemma sample_db_ok: "ledger sample_db" "grants_within sample_db"
  by (simp_all add: sample_db_def sample_grant_def ledger_def grants_within_def grant_within_def grant_typed_def
      grant_settled_def scopes_present_def in_i64_def MinInt64_def MaxInt64_def)

lemma sample_calls_ok: "list_all (\<lambda>(env, call). others_keep P env \<and> env_typed env) sample_calls"
  by (simp add: sample_calls_def sample_env_ok)

definition sample_reserved :: budget_db where
  "sample_reserved = run_calls [(sample_env, CallReserve (sample_intent CHR ''b''))] sample_db"

definition sample_finalized :: budget_db where
  "sample_finalized = run_call sample_env (CallFinalize (sample_final CHR ''b'' RequestSucceeded)) sample_reserved"

lemma sample_reserve: "\<exists>res. Reserve sample_env (sample_intent CHR ''b'') sample_db = (sample_reserved, Inr res)"
proof -
  have "is_ok (snd (Reserve sample_env (sample_intent CHR ''b'') sample_db))" by code_simp
  then show ?thesis
    unfolding sample_reserved_def by (metis is_ok_iff prod.collapse run_call.simps(1) run_calls.simps)
qed

lemma sample_reserved_ok: "ledger sample_reserved"
  unfolding sample_reserved_def
  by (rule budget_calls_keep [OF sample_db_ok(1) reserve_keeps_ledger finalize_keeps_ledger]) (simp add: sample_env_ok)

lemma sample_finalize:
  "\<exists>fin. Finalize sample_env (sample_final CHR ''b'' RequestSucceeded) sample_reserved = (sample_finalized, Inr fin)
     \<and> finFirstSuccessfulGET fin \<and> \<not> finAlreadyFinalized fin \<and> finChargedBytes fin = 40"
proof -
  have "is_ok (snd (Finalize sample_env (sample_final CHR ''b'' RequestSucceeded) sample_reserved))
    \<and> (\<lambda>fin. (finFirstSuccessfulGET fin, finAlreadyFinalized fin, finChargedBytes fin))
        (projr (snd (Finalize sample_env (sample_final CHR ''b'' RequestSucceeded) sample_reserved))) = (True, False, 40)"
    by code_simp
  then show ?thesis
    unfolding sample_finalized_def by (auto simp: is_ok_iff) (metis prod.collapse sum.sel(2))
qed

theorem budget_ledger_exact_witness:
  "ledger (run_calls sample_calls sample_db)
   \<and> map (\<lambda>g. (gReservedBytes g, gDeliveredBytes g, gInFlight g)) (grants (run_calls sample_calls sample_db)) = [(40, 40, 1)]"
proof
  show "ledger (run_calls sample_calls sample_db)" by (rule budget_ledger_exact [OF sample_db_ok(1) sample_calls_ok])
  show "map (\<lambda>g. (gReservedBytes g, gDeliveredBytes g, gInFlight g)) (grants (run_calls sample_calls sample_db)) = [(40, 40, 1)]"
    by code_simp
qed

theorem grant_never_overspent_witness:
  "\<exists>g. g \<in> set (grants (run_calls sample_calls sample_db))
     \<and> gDeliveredBytes g + gReservedBytes g \<le> gMaxCumulativeBytes g \<and> gInFlight g \<le> gMaxInFlight g"
proof -
  have "length (grants (run_calls sample_calls sample_db)) = 1" by code_simp
  then have "hd (grants (run_calls sample_calls sample_db)) \<in> set (grants (run_calls sample_calls sample_db))"
    by (metis hd_in_set length_greater_0_conv less_one)
  with grant_never_overspent [OF sample_db_ok(2) sample_calls_ok this] show ?thesis by blast
qed



theorem finalization_idempotent_witness:
  "\<exists>fin2. Finalize sample_env (sample_final CHR ''b'' RequestCanceled) sample_finalized = (sample_finalized, Inr fin2)
     \<and> finAlreadyFinalized fin2 \<and> finChargedBytes fin2 = 40"
proof -
  obtain fin where "Finalize sample_env (sample_final CHR ''b'' RequestSucceeded) sample_reserved = (sample_finalized, Inr fin)"
    "finChargedBytes fin = 40" using sample_finalize by blast
  moreover have "validFinalizeIntent (sample_final CHR ''b'' RequestCanceled)" by code_simp
  ultimately show ?thesis
    using finalization_idempotent [of sample_env "sample_final CHR ''b'' RequestSucceeded" sample_reserved
        sample_finalized fin sample_env "sample_final CHR ''b'' RequestCanceled"]
      sample_reserved_ok sample_env_ok by (auto simp: sample_final_def)
qed

theorem budget_error_no_effect_witness:
  "Reserve sample_env (sample_intent CHR ''b'') sample_reserved = (sample_reserved, Inl ErrReservationReplay)"
proof -
  have "snd (Reserve sample_env (sample_intent CHR ''b'') sample_reserved) = Inl ErrReservationReplay" by code_simp
  moreover have "\<forall>k d. envOthers sample_env k d = d" using sample_env_ok(3) by (simp add: quiet_def)
  ultimately show ?thesis
    using budget_error_no_effect [of sample_env "sample_intent CHR ''b''" sample_reserved] by (metis prod.collapse)
qed

theorem reservation_id_single_use_witness:
  "\<not> is_ok (snd (Reserve sample_env (sample_intent CHR ''b'') (run_calls sample_calls sample_reserved)))"
proof -
  have "list_ex (\<lambda>r. rID r = iRequestID (sample_intent CHR ''b'')) (requests sample_reserved)" by code_simp
  then have "id_used (iRequestID (sample_intent CHR ''b'')) sample_reserved"
    using sample_reserved_ok by (simp add: id_used_def list_ex_iff image_iff) metis
  from reservation_id_single_use [OF this sample_calls_ok sample_env_ok(1,2)] show ?thesis .
qed

theorem first_download_reported_once_witness:
  "\<exists>fin2. snd (Finalize sample_env (sample_final CHR ''c'' RequestSucceeded)
      (run_calls [(sample_env, CallReserve (sample_intent CHR ''c''))] sample_finalized)) = Inr fin2
    \<and> finState fin2 = RequestSucceeded \<and> \<not> finFirstSuccessfulGET fin2"
proof -
  let ?calls = "[(sample_env, CallReserve (sample_intent CHR ''c''))]"
  obtain fin where one: "Finalize sample_env (sample_final CHR ''b'' RequestSucceeded) sample_reserved = (sample_finalized, Inr fin)"
    "finFirstSuccessfulGET fin" using sample_finalize by blast
  obtain db2 result where two: "Finalize sample_env (sample_final CHR ''c'' RequestSucceeded) (run_calls ?calls sample_finalized)
      = (db2, result)" by fastforce
  have "is_ok (snd (Finalize sample_env (sample_final CHR ''c'' RequestSucceeded) (run_calls ?calls sample_finalized)))
    \<and> finState (projr (snd (Finalize sample_env (sample_final CHR ''c'' RequestSucceeded) (run_calls ?calls sample_finalized)))) = RequestSucceeded"
    by code_simp
  with two obtain fin2 where fin2: "result = Inr fin2" "finState fin2 = RequestSucceeded" by (auto simp: is_ok_iff)
  have "list_ex (\<lambda>r. rID r = replicate 32 CHR ''b'' \<and> rGrantID r = gID sample_grant) (requests sample_finalized)"
    "list_ex (\<lambda>r. rID r = replicate 32 CHR ''c'' \<and> rGrantID r = gID sample_grant)
       (requests (fst (Finalize sample_env (sample_final CHR ''c'' RequestSucceeded) (run_calls ?calls sample_finalized))))"
    by code_simp+
  then obtain r r2 where r: "r \<in> set (requests sample_finalized)" "rID r = replicate 32 CHR ''b''" "rGrantID r = gID sample_grant"
    and r2: "r2 \<in> set (requests db2)" "rID r2 = replicate 32 CHR ''c''" "rGrantID r2 = gID sample_grant"
    using two by (auto simp: list_ex_iff)
  have "\<not> finFirstSuccessfulGET fin2"
    using first_download_reported_once [of sample_env "sample_final CHR ''b'' RequestSucceeded" sample_reserved
        sample_finalized fin r ?calls sample_env "sample_final CHR ''c'' RequestSucceeded" db2 fin2 r2]
      one two fin2 r r2 sample_reserved_ok sample_env_ok by (simp add: sample_final_def)
  with two fin2 show ?thesis by auto
qed

text \<open>A first attempt that finds the database locked, and a second that commits.\<close>

theorem retry_first_decision_witness:
  "\<exists>res. transactionWithRetry (sample_env\<lparr>envTxFault := (\<lambda>k stmt. if k = 0 \<and> stmt = StmtLockGrant
        then Some ''Database is locked'' else None)\<rparr>)
      (reserve_tx (the (envLimits sample_env)) sample_grant 10 (intent_spec (sample_intent CHR ''b''))) sample_db
    = (sample_reserved, Inr res)"
proof -
  let ?env = "sample_env\<lparr>envTxFault := (\<lambda>k stmt. if k = 0 \<and> stmt = StmtLockGrant
    then Some ''Database is locked'' else None)\<rparr>"
  let ?op = "reserve_tx (the (envLimits sample_env)) sample_grant 10 (intent_spec (sample_intent CHR ''b''))"
  have "(case snd (Transaction (envTxFault ?env 0) ?op sample_db) of Inl e \<Rightarrow> retryableBudgetError id e | Inr _ \<Rightarrow> False)
      \<and> is_ok (snd (Transaction (envTxFault ?env 1) ?op sample_db))
      \<and> fst (Transaction (envTxFault ?env 1) ?op sample_db) = sample_reserved"
    by code_simp
  then obtain e res where "snd (Transaction (envTxFault ?env 0) ?op sample_db) = Inl e" "retryableBudgetError id e"
    "Transaction (envTxFault ?env 1) ?op sample_db = (sample_reserved, Inr res)"
    by (auto simp: is_ok_iff split: sum.splits) (metis prod.collapse)
  with retry_first_decision [of 1 ?env ?op sample_db sample_reserved "Inr res"] show ?thesis
    by (auto simp: sample_env_def Let_def)
qed



end
