(* ===== verification/Point_Lease.thy ===== *)
theory Point_Lease
  imports Tables Asset_Domain
begin

text \<open>
  Leases on recovery points, \<open>backend/internal/backupasset/lease.go\<close>. A lease is a row of
  \<open>recovery_point_leases\<close> that protects a point for one holder and owner. It has a short expiry, which
  the owner renews, and an absolute deadline, which never moves; the pair of attempt id and fence
  token names the current user of the lease, and a takeover replaces it.

  State. \<open>lease_db\<close> holds the lease rows, and of the tables of recovery points and lifecycle attempts
  the columns these functions read. Environment. \<open>lease_env\<close> holds the clock, the configuration, the
  admission check that the retention coordinator installs, the random bytes, the statements that fail
  and the message of a violated unique constraint. Every function runs inside a transaction: an error
  rolls it back, so errors carry no tables. Error texts are kept, because the retry of \<open>Takeover\<close>
  looks into them.
\<close>

section \<open>Types\<close>

datatype LeaseStatus = LeaseActive | LeaseReleased | LeaseExpired | LeaseStatusOther string

datatype lease_error =
    LeaseError asset_error string
  | LeaseDBError string string
  | LeasePlain string

record LeaseConfig =
  cfgDuration :: duration
  cfgHeartbeat :: duration
  cfgAbsoluteDeadline :: duration

record AcquireLeaseRequest =
  aRecoveryPointID :: string
  aHolderType :: LeaseHolderType
  aOwnerID :: string
  aAbsoluteDeadline :: time

record TakeoverLeaseRequest =
  tLeaseID :: string
  tOwnerID :: string

record LeaseFence =
  fLeaseID :: string
  fRecoveryPointID :: string
  fHolderType :: LeaseHolderType
  fOwnerID :: string
  fAttemptID :: string
  fFenceToken :: string

record LeaseRow =
  lID :: string
  lRecoveryPointID :: string
  lHolderType :: LeaseHolderType
  lOwnerID :: string
  lAttemptID :: string
  lFenceToken :: string
  lStatus :: LeaseStatus
  lLeaseExpiresAt :: time
  lAbsoluteDeadline :: time
  lLastHeartbeatAt :: time
  lReleasedAt :: "time option"
  lCreatedAt :: time
  lUpdatedAt :: time

record Lease =
  leaseID :: string
  leaseRecoveryPointID :: string
  leaseHolderType :: LeaseHolderType
  leaseOwnerID :: string
  leaseStatus :: LeaseStatus
  leaseExpiresAt :: time
  leaseAbsoluteDeadline :: time
  leaseLastHeartbeatAt :: time
  leaseReleasedAt :: "time option"
  leaseFence :: LeaseFence

record PointRow =
  ptID :: string
  ptSemantics :: PointVersionSemantics
  ptState :: RecoveryPointState

record LifecycleAttemptRow =
  laID :: string
  laRecoveryPointID :: string
  laOperation :: LifecycleOperation
  laPhase :: LifecyclePhase
  laCompletedAt :: "time option"

record lease_db =
  leases :: "LeaseRow list"
  points :: "PointRow list"
  attempts :: "LifecycleAttemptRow list"

datatype lease_stmt =
    StmtLockPoint | StmtCountAttempts | StmtLockAttempt | StmtPriorDeadline | StmtExpireSlot
  | StmtCountActive | StmtCreateLease | StmtLoadLease | StmtUpdateLease | StmtCountFence
  | StmtClassifyFence | StmtBeginLease | StmtCommitLease

record lease_env =
  leNow :: time
  leConfig :: LeaseConfig
  leAdmission :: "(lease_db \<Rightarrow> AcquireLeaseRequest \<Rightarrow> lease_error option) option"
  leRandomID :: "nat list option"
  leRandomAttempt :: "nat list option"
  leRandomFence :: "nat list option"
  leFault :: "lease_stmt \<Rightarrow> string option"
  leDuplicate :: string
  leUnicodeLower :: "string \<Rightarrow> string"

definition lease_stmt_ok :: "lease_env \<Rightarrow> lease_stmt \<Rightarrow> string \<Rightarrow> (lease_error, unit) result" where
  "lease_stmt_ok env stmt context =
     (case leFault env stmt of Some message \<Rightarrow> Inl (LeaseDBError context message) | None \<Rightarrow> Inr ())"

definition asset_error_message :: "asset_error \<Rightarrow> string" where
  "asset_error_message err =
     (case err of
        ErrNotFound \<Rightarrow> ''backup asset not found''
      | ErrForbidden \<Rightarrow> ''backup asset operation forbidden''
      | ErrConflict \<Rightarrow> ''backup asset conflict''
      | ErrInvalidState \<Rightarrow> ''invalid backup asset state''
      | ErrInvalidAssetRef \<Rightarrow> ''invalid backup asset reference''
      | ErrProviderUnavailable \<Rightarrow> ''backup asset provider unavailable''
      | ErrCapabilityUnavailable \<Rightarrow> ''backup asset capability unavailable''
      | ErrKeyUnavailable \<Rightarrow> ''backup asset key unavailable''
      | ErrKeyLost \<Rightarrow> ''backup asset key lost''
      | ErrKeyRotationProhibited \<Rightarrow> ''backup asset key rotation prohibited''
      | ErrLeaseHeld \<Rightarrow> ''backup asset lease held''
      | ErrLeaseFenceLost \<Rightarrow> ''backup asset lease fence lost''
      | ErrLeaseDeadlineExceeded \<Rightarrow> ''backup asset lease deadline exceeded''
      | ErrPublicationInProgress \<Rightarrow> ''backup asset publication in progress''
      | ErrPublicationUnconfirmed \<Rightarrow> ''backup asset publication unconfirmed''
      | ErrPublicationSessionAbandoned \<Rightarrow> ''backup asset publication session abandoned'')"

definition lease_error_message :: "lease_error \<Rightarrow> string" where
  "lease_error_message err =
     (case err of
        LeaseError sentinel detail \<Rightarrow> asset_error_message sentinel @ '': '' @ detail
      | LeaseDBError context message \<Rightarrow> context @ '': '' @ message
      | LeasePlain message \<Rightarrow> message)"

section \<open>Validation\<close>

definition maxLeaseAbsoluteDeadline :: duration where
  "maxLeaseAbsoluteDeadline = 168 * Hour"

definition validLeaseHolderTypes :: "LeaseHolderType list" where
  "validLeaseHolderTypes =
     [LeaseHolderRsyncParent, LeaseHolderCatalogBuild, LeaseHolderContentSession,
      LeaseHolderProcessingJob, LeaseHolderExportJob, LeaseHolderRecoveryJob, LeaseHolderPointPublication,
      LeaseHolderSearchIndex, LeaseHolderRetentionWorker]"

definition validLeaseStatuses :: "LeaseStatus list" where
  "validLeaseStatuses = [LeaseActive, LeaseReleased, LeaseExpired]"

definition validLeaseOwnerID :: "string \<Rightarrow> bool" where
  "validLeaseOwnerID ownerID =
     (let trimmed = TrimSpace ownerID
      in trimmed \<noteq> [] \<and> trimmed = ownerID \<and> length ownerID \<le> 64
         \<and> \<not> ContainsAny ownerID [CHR 0x0D, CHR 0x0A, CHR 0x00])"

definition validateLeaseConfig :: "LeaseConfig \<Rightarrow> (lease_error, unit) result" where
  "validateLeaseConfig config =
     (if cfgDuration config \<le> 0 \<or> cfgHeartbeat config \<le> 0 \<or> cfgHeartbeat config \<ge> cfgDuration config
         \<or> cfgAbsoluteDeadline config < cfgDuration config
         \<or> cfgAbsoluteDeadline config > maxLeaseAbsoluteDeadline
      then Inl (LeaseError ErrInvalidState ''invalid lease configuration'') else Inr ())"

definition validateAcquireLeaseRequest :: "AcquireLeaseRequest \<Rightarrow> (lease_error, unit) result" where
  "validateAcquireLeaseRequest request =
     (if \<not> ValidateOpaqueID (aRecoveryPointID request) \<or> aHolderType request \<notin> set validLeaseHolderTypes
         \<or> \<not> validLeaseOwnerID (aOwnerID request)
      then Inl (LeaseError ErrInvalidState ''invalid acquire lease request'') else Inr ())"

definition validateLeaseFence :: "LeaseFence \<Rightarrow> (lease_error, unit) result" where
  "validateLeaseFence fence =
     (if \<not> ValidateOpaqueID (fLeaseID fence) \<or> \<not> ValidateOpaqueID (fRecoveryPointID fence)
         \<or> \<not> ValidateOpaqueID (fAttemptID fence) \<or> \<not> isLowerHex (fFenceToken fence) 64
         \<or> fHolderType fence \<notin> set validLeaseHolderTypes \<or> \<not> validLeaseOwnerID (fOwnerID fence)
      then Inl (LeaseError ErrLeaseFenceLost ''malformed lease fence'') else Inr ())"

definition leaseFromModel :: "LeaseRow \<Rightarrow> (lease_error, Lease) result" where
  "leaseFromModel row =
     (if \<not> ValidateOpaqueID (lID row) \<or> \<not> ValidateOpaqueID (lRecoveryPointID row)
         \<or> \<not> ValidateOpaqueID (lAttemptID row) \<or> \<not> isLowerHex (lFenceToken row) 64
         \<or> lHolderType row \<notin> set validLeaseHolderTypes \<or> lStatus row \<notin> set validLeaseStatuses
         \<or> \<not> validLeaseOwnerID (lOwnerID row)
      then Inl (LeaseError ErrInvalidState ''invalid persisted recovery point lease'')
      else Inr \<lparr>leaseID = lID row, leaseRecoveryPointID = lRecoveryPointID row,
                leaseHolderType = lHolderType row, leaseOwnerID = lOwnerID row, leaseStatus = lStatus row,
                leaseExpiresAt = lLeaseExpiresAt row, leaseAbsoluteDeadline = lAbsoluteDeadline row,
                leaseLastHeartbeatAt = lLastHeartbeatAt row, leaseReleasedAt = lReleasedAt row,
                leaseFence = \<lparr>fLeaseID = lID row, fRecoveryPointID = lRecoveryPointID row,
                  fHolderType = lHolderType row, fOwnerID = lOwnerID row,
                  fAttemptID = lAttemptID row, fFenceToken = lFenceToken row\<rparr>\<rparr>)"

definition newFenceToken :: "nat list option \<Rightarrow> (lease_error, string) result" where
  "newFenceToken source =
     (case source of
        None \<Rightarrow> Inl (LeasePlain ''generate lease fence'')
      | Some raw \<Rightarrow> Inr (EncodeToString raw))"

definition new_opaque_id :: "nat list option \<Rightarrow> (lease_error, string) result" where
  "new_opaque_id source =
     (case newOpaqueIDFrom source of Inl message \<Rightarrow> Inl (LeasePlain message) | Inr value \<Rightarrow> Inr value)"

definition isLeaseConstraintConflict :: "lease_env \<Rightarrow> string \<Rightarrow> bool" where
  "isLeaseConstraintConflict env err =
     (let message = ToLower (leUnicodeLower env) err
      in Contains message ''unique constraint'' \<or> Contains message ''duplicate key''
         \<or> Contains message ''sqlstate 23505'')"

definition retryableLeaseConflict :: "lease_env \<Rightarrow> lease_error \<Rightarrow> bool" where
  "retryableLeaseConflict env err =
     (let message = ToLower (leUnicodeLower env) (lease_error_message err)
      in Contains message ''locked'' \<or> Contains message ''busy'')"

section \<open>Admission\<close>

definition ValidateRecoveryPointWriteAdmissionTx ::
  "lease_env \<Rightarrow> lease_db \<Rightarrow> string \<Rightarrow> (lease_error, unit) result" where
  "ValidateRecoveryPointWriteAdmissionTx env db pointID =
     (if \<not> ValidateOpaqueID pointID
      then Inl (LeaseError ErrInvalidState ''invalid recovery point write admission'')
      else
        bind_result (lease_stmt_ok env StmtLockPoint ''lock recovery point write admission'') (\<lambda>_.
        case take_row (\<lambda>p. ptID p = pointID) (points db) of
          None \<Rightarrow> Inl (LeaseError ErrConflict ''recovery point write source is unavailable'')
        | Some point \<Rightarrow>
            let semantics = ptSemantics point; state = ptState point;
                is_immutable = (semantics = PointNativeSnapshot \<or> semantics = PointXirangManifest
                                \<or> semantics = PointImportedBaseline);
                readable = (semantics = PointMutableHead \<and> state = RecoveryPointObserved
                            \<or> is_immutable \<and> (state = RecoveryPointCommitted \<or> state = RecoveryPointDegraded))
            in if \<not> readable
               then Inl (LeaseError ErrConflict ''recovery point write source is not readable'')
               else
                 bind_result (lease_stmt_ok env StmtCountAttempts ''check recovery point write lifecycle'') (\<lambda>_.
                   if rows_affected (\<lambda>a. laRecoveryPointID a = pointID \<and> laPhase a \<noteq> LifecyclePhaseComplete)
                        (attempts db) \<noteq> 0
                   then Inl (LeaseError ErrConflict ''recovery point lifecycle is active'')
                   else Inr ())))"

definition ValidateSourceLifecycleAttemptTx ::
  "lease_env \<Rightarrow> lease_db \<Rightarrow> SourceLifecycleRequest \<Rightarrow> (lease_error, unit) result" where
  "ValidateSourceLifecycleAttemptTx env db request =
     bind_result (case ValidateSourceLifecycleRequest request of
                    Inl err \<Rightarrow> Inl (LeaseError err ''invalid source lifecycle request'') | Inr u \<Rightarrow> Inr u) (\<lambda>_.
     bind_result (lease_stmt_ok env StmtLockPoint ''lock source lifecycle point'') (\<lambda>_.
       if take_row (\<lambda>p. ptID p = slRecoveryPointID request) (points db) = None
       then Inl (LeaseError ErrConflict ''source lifecycle point is unavailable'')
       else
         let expectedPhase = (if slStage request = SourceLifecycleCleanup then LifecyclePhaseCleaning
                              else LifecyclePhaseRevoking) in
         bind_result (lease_stmt_ok env StmtLockAttempt ''lock source lifecycle attempt'') (\<lambda>_.
           case take_row (\<lambda>a. laID a = slLifecycleAttemptID request
                              \<and> laRecoveryPointID a = slRecoveryPointID request) (attempts db) of
             None \<Rightarrow> Inl (LeaseError ErrConflict ''source lifecycle attempt stage changed'')
           | Some attempt \<Rightarrow>
               if laOperation attempt \<noteq> slOperation request \<or> laPhase attempt \<noteq> expectedPhase
                  \<or> laCompletedAt attempt \<noteq> None
               then Inl (LeaseError ErrConflict ''source lifecycle attempt stage changed'')
               else Inr ())))"

section \<open>Deadlines and new rows\<close>

text \<open>\<open>ORDER BY created_at DESC, id DESC LIMIT 1\<close>; identifiers compare byte by byte.\<close>

fun str_less :: "string \<Rightarrow> string \<Rightarrow> bool" where
  "str_less s [] = False"
| "str_less [] (d # t) = True"
| "str_less (c # s) (d # t) =
     (if (of_char c :: nat) = of_char d then str_less s t else (of_char c :: nat) < of_char d)"

definition newer :: "LeaseRow \<Rightarrow> LeaseRow \<Rightarrow> bool" where
  "newer a b \<longleftrightarrow> lCreatedAt a > lCreatedAt b \<or> lCreatedAt a = lCreatedAt b \<and> str_less (lID b) (lID a)"

fun latest :: "LeaseRow list \<Rightarrow> LeaseRow option" where
  "latest [] = None"
| "latest (row # rows) =
     (case latest rows of None \<Rightarrow> Some row | Some best \<Rightarrow> Some (if newer best row then best else row))"

definition same_scope :: "AcquireLeaseRequest \<Rightarrow> LeaseRow \<Rightarrow> bool" where
  "same_scope request row \<longleftrightarrow>
     lRecoveryPointID row = aRecoveryPointID request \<and> lHolderType row = aHolderType request
     \<and> (aHolderType request \<noteq> LeaseHolderPointPublication \<longrightarrow> lOwnerID row = aOwnerID request)"

definition resolveAcquireDeadlineTx ::
  "lease_env \<Rightarrow> lease_db \<Rightarrow> AcquireLeaseRequest \<Rightarrow> time \<Rightarrow> (lease_error, time) result" where
  "resolveAcquireDeadlineTx env db request now =
     (if IsZero (aAbsoluteDeadline request) then Inr (now + cfgAbsoluteDeadline (leConfig env))
      else
        bind_result (lease_stmt_ok env StmtPriorDeadline ''load prior scoped lease deadline'') (\<lambda>_.
        case latest (filter (same_scope request) (leases db)) of
          Some previous \<Rightarrow>
            if aAbsoluteDeadline request \<noteq> lAbsoluteDeadline previous
            then Inl (LeaseError ErrConflict ''explicit lease deadline differs from prior scoped lease'')
            else if \<not> now < lAbsoluteDeadline previous
            then Inl (LeaseError ErrLeaseDeadlineExceeded ''absolute lease deadline reached'')
            else Inr (lAbsoluteDeadline previous)
        | None \<Rightarrow>
            if \<not> now < aAbsoluteDeadline request
            then Inl (LeaseError ErrLeaseDeadlineExceeded ''absolute lease deadline reached'')
            else if aAbsoluteDeadline request > now + maxLeaseAbsoluteDeadline
            then Inl (LeaseError ErrInvalidState ''supplied absolute deadline exceeds maximum'')
            else Inr (aAbsoluteDeadline request)))"

definition capped_expiry :: "lease_env \<Rightarrow> time \<Rightarrow> time \<Rightarrow> time" where
  "capped_expiry env now absoluteDeadline =
     (let next_expiry = now + cfgDuration (leConfig env)
      in if next_expiry > absoluteDeadline then absoluteDeadline else next_expiry)"

definition newLeaseRow ::
  "lease_env \<Rightarrow> AcquireLeaseRequest \<Rightarrow> time \<Rightarrow> time \<Rightarrow> (lease_error, LeaseRow) result" where
  "newLeaseRow env request now absoluteDeadline =
     bind_result (new_opaque_id (leRandomID env)) (\<lambda>identifier.
     bind_result (new_opaque_id (leRandomAttempt env)) (\<lambda>attemptID.
     bind_result (newFenceToken (leRandomFence env)) (\<lambda>fenceToken.
       Inr \<lparr>lID = identifier, lRecoveryPointID = aRecoveryPointID request, lHolderType = aHolderType request,
            lOwnerID = aOwnerID request, lAttemptID = attemptID, lFenceToken = fenceToken,
            lStatus = LeaseActive, lLeaseExpiresAt = capped_expiry env now absoluteDeadline,
            lAbsoluteDeadline = absoluteDeadline, lLastHeartbeatAt = now, lReleasedAt = None,
            lCreatedAt = now, lUpdatedAt = now\<rparr>)))"

definition fenceFailureTx :: "lease_env \<Rightarrow> lease_db \<Rightarrow> string \<Rightarrow> time \<Rightarrow> lease_error" where
  "fenceFailureTx env db identifier now =
     (case lease_stmt_ok env StmtClassifyFence ''classify recovery point lease fence'' of
        Inl err \<Rightarrow> err
      | Inr _ \<Rightarrow>
          (case take_row (\<lambda>r. lID r = identifier) (leases db) of
             Some row \<Rightarrow>
               if \<not> now < lAbsoluteDeadline row
               then LeaseError ErrLeaseDeadlineExceeded ''absolute lease deadline reached''
               else LeaseError ErrLeaseFenceLost ''lease fence no longer matches''
           | None \<Rightarrow> LeaseError ErrLeaseFenceLost ''lease fence no longer matches''))"

section \<open>Operations\<close>

definition owner_slot :: "AcquireLeaseRequest \<Rightarrow> LeaseRow \<Rightarrow> bool" where
  "owner_slot request row \<longleftrightarrow>
     lRecoveryPointID row = aRecoveryPointID request \<and> lHolderType row = aHolderType request
     \<and> lOwnerID row = aOwnerID request \<and> lStatus row = LeaseActive"

definition expire_slot :: "AcquireLeaseRequest \<Rightarrow> time \<Rightarrow> LeaseRow list \<Rightarrow> LeaseRow list" where
  "expire_slot request now rows =
     update_where (\<lambda>r. owner_slot request r \<and> (lLeaseExpiresAt r \<le> now \<or> lAbsoluteDeadline r \<le> now))
       (\<lambda>r. r\<lparr>lStatus := LeaseExpired, lUpdatedAt := now\<rparr>) rows"

text \<open>
  The insertion fails on a row with the same primary key, and on another active row of the owner slot
  (the unique index of the migrations).
\<close>

definition create_lease :: "lease_env \<Rightarrow> LeaseRow \<Rightarrow> LeaseRow list \<Rightarrow> (string, LeaseRow list) result" where
  "create_lease env row rows =
     (case leFault env StmtCreateLease of
        Some message \<Rightarrow> Inl message
      | None \<Rightarrow>
          if list_ex (\<lambda>r. lID r = lID row
               \<or> lStatus r = LeaseActive \<and> lStatus row = LeaseActive \<and> lRecoveryPointID r = lRecoveryPointID row
                  \<and> lHolderType r = lHolderType row \<and> lOwnerID r = lOwnerID row) rows
          then Inl (leDuplicate env) else Inr (rows @ [row]))"

definition AcquireTx ::
  "lease_env \<Rightarrow> AcquireLeaseRequest \<Rightarrow> lease_db \<Rightarrow> (lease_error, lease_db \<times> Lease) result" where
  "AcquireTx env request db =
     bind_result (validateAcquireLeaseRequest request) (\<lambda>_.
     bind_result (if aHolderType request \<noteq> LeaseHolderRetentionWorker
                  then (case leAdmission env of
                          Some admission \<Rightarrow> (case admission db request of Some err \<Rightarrow> Inl err | None \<Rightarrow> Inr ())
                        | None \<Rightarrow> Inr ())
                  else Inr ()) (\<lambda>_.
     let now = leNow env in
     bind_result (resolveAcquireDeadlineTx env db request now) (\<lambda>absoluteDeadline.
     bind_result (newLeaseRow env request now absoluteDeadline) (\<lambda>row.
     bind_result (if aHolderType request = LeaseHolderCatalogBuild \<or> aHolderType request = LeaseHolderSearchIndex
                  then bind_result (lease_stmt_ok env StmtExpireSlot ''expire abandoned index lease owner slot'')
                         (\<lambda>_. Inr (db\<lparr>leases := expire_slot request now (leases db)\<rparr>))
                  else Inr db) (\<lambda>db1.
     bind_result (lease_stmt_ok env StmtCountActive ''check active lease owner slot'') (\<lambda>_.
       if rows_affected (owner_slot request) (leases db1) > 0
       then Inl (LeaseError ErrLeaseHeld ''active owner slot exists'')
       else
     case create_lease env row (leases db1) of
       Inl message \<Rightarrow>
         if isLeaseConstraintConflict env message then Inl (LeaseError ErrLeaseHeld ''active owner slot exists'')
         else Inl (LeaseDBError ''create recovery point lease'' message)
     | Inr rows \<Rightarrow> bind_result (leaseFromModel row) (\<lambda>lease. Inr (db1\<lparr>leases := rows\<rparr>, lease))))))))"

text \<open>The row a fence names: the conditions of the guarded updates.\<close>

definition fence_matches :: "LeaseFence \<Rightarrow> LeaseRow \<Rightarrow> bool" where
  "fence_matches fence row \<longleftrightarrow>
     lID row = fLeaseID fence \<and> lRecoveryPointID row = fRecoveryPointID fence
     \<and> lHolderType row = fHolderType fence \<and> lOwnerID row = fOwnerID fence
     \<and> lAttemptID row = fAttemptID fence \<and> lFenceToken row = fFenceToken fence"

definition fence_live :: "LeaseFence \<Rightarrow> time \<Rightarrow> LeaseRow \<Rightarrow> bool" where
  "fence_live fence now row \<longleftrightarrow>
     fence_matches fence row \<and> lStatus row = LeaseActive \<and> lLeaseExpiresAt row > now \<and> lAbsoluteDeadline row > now"

definition RenewTx :: "lease_env \<Rightarrow> LeaseFence \<Rightarrow> lease_db \<Rightarrow> (lease_error, lease_db \<times> Lease) result" where
  "RenewTx env fence db =
     bind_result (validateLeaseFence fence) (\<lambda>_.
     let now = leNow env in
     bind_result (lease_stmt_ok env StmtLoadLease ''load lease for renewal'') (\<lambda>_.
     case take_row (\<lambda>r. lID r = fLeaseID fence) (leases db) of
       None \<Rightarrow> Inl (fenceFailureTx env db (fLeaseID fence) now)
     | Some current \<Rightarrow>
         if \<not> fence_matches fence current \<or> lStatus current \<noteq> LeaseActive
            \<or> \<not> now < lLeaseExpiresAt current \<or> \<not> now < lAbsoluteDeadline current
         then Inl (fenceFailureTx env db (fLeaseID fence) now)
         else
           let nextExpiry = capped_expiry env now (lAbsoluteDeadline current);
               write = (\<lambda>r. r\<lparr>lLeaseExpiresAt := nextExpiry, lLastHeartbeatAt := now, lUpdatedAt := now\<rparr>) in
           bind_result (lease_stmt_ok env StmtUpdateLease ''renew recovery point lease'') (\<lambda>_.
             if rows_affected (fence_live fence now) (leases db) \<noteq> 1
             then Inl (fenceFailureTx env db (fLeaseID fence) now)
             else
               let db1 = db\<lparr>leases := update_where (fence_live fence now) write (leases db)\<rparr>
               in bind_result (leaseFromModel (write current)) (\<lambda>lease. Inr (db1, lease)))))"

definition ReleaseTx :: "lease_env \<Rightarrow> LeaseFence \<Rightarrow> lease_db \<Rightarrow> (lease_error, lease_db) result" where
  "ReleaseTx env fence db =
     bind_result (validateLeaseFence fence) (\<lambda>_.
     let now = leNow env in
     bind_result (lease_stmt_ok env StmtUpdateLease ''release recovery point lease'') (\<lambda>_.
       if rows_affected (fence_live fence now) (leases db) \<noteq> 1
       then Inl (fenceFailureTx env db (fLeaseID fence) now)
       else Inr (db\<lparr>leases := update_where (fence_live fence now)
                   (\<lambda>r. r\<lparr>lStatus := LeaseReleased, lReleasedAt := Some now, lUpdatedAt := now\<rparr>) (leases db)\<rparr>)))"

definition ValidateFenceTx :: "lease_env \<Rightarrow> LeaseFence \<Rightarrow> lease_db \<Rightarrow> (lease_error, unit) result" where
  "ValidateFenceTx env fence db =
     bind_result (validateLeaseFence fence) (\<lambda>_.
     let now = leNow env in
     bind_result (lease_stmt_ok env StmtCountFence ''validate recovery point lease fence'') (\<lambda>_.
       if rows_affected (fence_live fence now) (leases db) \<noteq> 1
       then Inl (fenceFailureTx env db (fLeaseID fence) now)
       else Inr ()))"

definition ReconcileExpired :: "lease_env \<Rightarrow> lease_db \<Rightarrow> (lease_error, lease_db \<times> nat) result" where
  "ReconcileExpired env db =
     (let now = leNow env; due = (\<lambda>r. lStatus r = LeaseActive \<and> lAbsoluteDeadline r \<le> now) in
      bind_result (lease_stmt_ok env StmtUpdateLease ''reconcile expired recovery point leases'') (\<lambda>_.
        Inr (db\<lparr>leases := update_where due (\<lambda>r. r\<lparr>lStatus := LeaseExpired, lUpdatedAt := now\<rparr>) (leases db)\<rparr>,
             rows_affected due (leases db))))"

definition TakeoverTx ::
  "lease_env \<Rightarrow> TakeoverLeaseRequest \<Rightarrow> lease_db \<Rightarrow> (lease_error, lease_db \<times> Lease) result" where
  "TakeoverTx env request db =
     (if \<not> ValidateOpaqueID (tLeaseID request) \<or> \<not> validLeaseOwnerID (tOwnerID request)
      then Inl (LeaseError ErrInvalidState ''invalid takeover request'')
      else
        let now = leNow env in
        bind_result (lease_stmt_ok env StmtLoadLease ''load takeover lease'') (\<lambda>_.
        case take_row (\<lambda>r. lID r = tLeaseID request) (leases db) of
          None \<Rightarrow> Inl (LeaseError ErrLeaseFenceLost ''takeover lease identity changed'')
        | Some current \<Rightarrow>
            if lOwnerID current \<noteq> tOwnerID request \<or> lStatus current \<noteq> LeaseActive
            then Inl (LeaseError ErrLeaseFenceLost ''takeover lease identity changed'')
            else if \<not> now < lAbsoluteDeadline current
            then Inl (LeaseError ErrLeaseDeadlineExceeded ''absolute lease deadline reached'')
            else if now < lLeaseExpiresAt current
            then Inl (LeaseError ErrLeaseHeld ''short lease is still active'')
            else
              bind_result (new_opaque_id (leRandomAttempt env)) (\<lambda>attemptID.
              bind_result (newFenceToken (leRandomFence env)) (\<lambda>fenceToken.
              let nextExpiry = capped_expiry env now (lAbsoluteDeadline current);
                  hit = (\<lambda>r. lID r = lID current \<and> lOwnerID r = lOwnerID current
                          \<and> lAttemptID r = lAttemptID current \<and> lFenceToken r = lFenceToken current
                          \<and> lStatus r = LeaseActive \<and> lLeaseExpiresAt r \<le> now \<and> lAbsoluteDeadline r > now);
                  write = (\<lambda>r. r\<lparr>lAttemptID := attemptID, lFenceToken := fenceToken,
                             lLeaseExpiresAt := nextExpiry, lLastHeartbeatAt := now, lReleasedAt := None,
                             lUpdatedAt := now\<rparr>) in
              bind_result (lease_stmt_ok env StmtUpdateLease ''update takeover lease'') (\<lambda>_.
                if rows_affected hit (leases db) \<noteq> 1
                then Inl (LeaseError ErrConflict ''concurrent takeover won'')
                else
                  bind_result (leaseFromModel (write current)) (\<lambda>lease.
                    Inr (db\<lparr>leases := update_where hit write (leases db)\<rparr>, lease)))))))"

section \<open>The service\<close>

definition NewLeaseService :: "lease_env \<Rightarrow> (lease_error, lease_env) result" where
  "NewLeaseService env = bind_result (validateLeaseConfig (leConfig env)) (\<lambda>_. Inr env)"

definition plain_stmt_ok :: "lease_env \<Rightarrow> lease_stmt \<Rightarrow> (lease_error, unit) result" where
  "plain_stmt_ok env stmt =
     (case leFault env stmt of Some message \<Rightarrow> Inl (LeasePlain message) | None \<Rightarrow> Inr ())"

definition lease_transaction ::
  "lease_env \<Rightarrow> (lease_db \<Rightarrow> (lease_error, lease_db \<times> 'a) result) \<Rightarrow> lease_db
   \<Rightarrow> lease_db \<times> (lease_error, 'a) result" where
  "lease_transaction env body db =
     (case bind_result (plain_stmt_ok env StmtBeginLease) (\<lambda>_.
             bind_result (body db) (\<lambda>r. bind_result (plain_stmt_ok env StmtCommitLease) (\<lambda>_. Inr r))) of
        Inl err \<Rightarrow> (db, Inl err)
      | Inr (db1, value) \<Rightarrow> (db1, Inr value))"

definition Acquire :: "lease_env \<Rightarrow> AcquireLeaseRequest \<Rightarrow> lease_db \<Rightarrow> lease_db \<times> (lease_error, Lease) result" where
  "Acquire env request = lease_transaction env (AcquireTx env request)"

definition Renew :: "lease_env \<Rightarrow> LeaseFence \<Rightarrow> lease_db \<Rightarrow> lease_db \<times> (lease_error, Lease) result" where
  "Renew env fence = lease_transaction env (RenewTx env fence)"

definition Release :: "lease_env \<Rightarrow> LeaseFence \<Rightarrow> lease_db \<Rightarrow> lease_db \<times> (lease_error, unit) result" where
  "Release env fence =
     lease_transaction env (\<lambda>db. bind_result (ReleaseTx env fence db) (\<lambda>db1. Inr (db1, ())))"

definition ValidateFence :: "lease_env \<Rightarrow> LeaseFence \<Rightarrow> lease_db \<Rightarrow> (lease_error, unit) result" where
  "ValidateFence env fence db = ValidateFenceTx env fence db"

definition takeoverOnce ::
  "lease_env \<Rightarrow> TakeoverLeaseRequest \<Rightarrow> lease_db \<Rightarrow> lease_db \<times> (lease_error, Lease) result" where
  "takeoverOnce env request = lease_transaction env (TakeoverTx env request)"

text \<open>
  The loop of \<open>Takeover\<close>: \<open>envs k\<close> is the environment of attempt \<open>k\<close> (its clock, random bytes and
  faults), \<open>others k\<close> what other transactions did before it, and \<open>cancelled k\<close> the error of the
  context when it ends during the pause after it. \<open>remaining\<close> counts the attempts after this one.
\<close>

fun takeover_loop ::
  "(nat \<Rightarrow> lease_env) \<Rightarrow> (nat \<Rightarrow> lease_db \<Rightarrow> lease_db) \<Rightarrow> (nat \<Rightarrow> string option) \<Rightarrow> TakeoverLeaseRequest
   \<Rightarrow> nat \<Rightarrow> nat \<Rightarrow> lease_db \<Rightarrow> lease_db \<times> (lease_error, Lease) result" where
  "takeover_loop envs others cancelled request remaining attempt db =
     (case takeoverOnce (envs attempt) request (others attempt db) of
        (db1, Inr lease) \<Rightarrow> (db1, Inr lease)
      | (db1, Inl err) \<Rightarrow>
          if (case err of LeaseError sentinel _ \<Rightarrow>
                sentinel \<in> {ErrLeaseHeld, ErrLeaseFenceLost, ErrLeaseDeadlineExceeded} | _ \<Rightarrow> False)
          then (db1, Inl err)
          else if \<not> retryableLeaseConflict (envs attempt) err then (db1, Inl err)
          else case cancelled attempt of
            Some message \<Rightarrow> (db1, Inl (LeaseDBError ''take over recovery point lease'' message))
          | None \<Rightarrow> (case remaining of
              0 \<Rightarrow> (db1, Inl (LeaseDBError ''take over recovery point lease after retries'' (lease_error_message err)))
            | Suc n \<Rightarrow> takeover_loop envs others cancelled request n (Suc attempt) db1))"

declare takeover_loop.simps [simp del]

definition Takeover ::
  "(nat \<Rightarrow> lease_env) \<Rightarrow> (nat \<Rightarrow> lease_db \<Rightarrow> lease_db) \<Rightarrow> (nat \<Rightarrow> string option) \<Rightarrow> TakeoverLeaseRequest
   \<Rightarrow> lease_db \<Rightarrow> lease_db \<times> (lease_error, Lease) result" where
  "Takeover envs others cancelled request db =
     (if \<not> ValidateOpaqueID (tLeaseID request) \<or> \<not> validLeaseOwnerID (tOwnerID request)
      then (db, Inl (LeaseError ErrInvalidState ''invalid takeover request''))
      else takeover_loop envs others cancelled request 11 0 db)"

end
