(* ===== verification/Lease_Safety.thy ===== *)
theory Lease_Safety
  imports Point_Lease
begin

text \<open>
  Safety of the leases on recovery points: the invariant of the lease table under every operation of
  \<open>lease.go\<close>, the death of a superseded fence, and what renewal, takeover and acquisition do to the
  expiry and the deadline.
\<close>

section \<open>The invariant of the lease table\<close>

definition lease_slot :: "LeaseRow \<Rightarrow> string \<times> LeaseHolderType \<times> string" where
  "lease_slot r = (lRecoveryPointID r, lHolderType r, lOwnerID r)"

definition lease_active :: "LeaseRow \<Rightarrow> bool" where
  "lease_active r \<longleftrightarrow> lStatus r = LeaseActive"

definition leases_ok :: "lease_db \<Rightarrow> bool" where
  "leases_ok db \<longleftrightarrow>
     distinct (map lID (leases db))
     \<and> distinct (map lease_slot (filter lease_active (leases db)))
     \<and> list_all (\<lambda>r. lLeaseExpiresAt r \<le> lAbsoluteDeadline r) (leases db)"

text \<open>What one operation may do to a row.\<close>

definition row_evolves :: "LeaseRow \<Rightarrow> LeaseRow \<Rightarrow> bool" where
  "row_evolves r r' \<longleftrightarrow>
     lID r' = lID r \<and> lease_slot r' = lease_slot r \<and> lAbsoluteDeadline r' = lAbsoluteDeadline r
     \<and> lCreatedAt r' = lCreatedAt r \<and> (lease_active r \<or> r' = r)"

definition table_evolves :: "lease_db \<Rightarrow> lease_db \<Rightarrow> bool" where
  "table_evolves db db' \<longleftrightarrow>
     (\<forall>r \<in> set (leases db). \<exists>r' \<in> set (leases db'). row_evolves r r')"

lemma row_evolves_refl: "row_evolves r r"
  by (simp add: row_evolves_def)

lemma row_evolves_trans: "row_evolves a b \<Longrightarrow> row_evolves b c \<Longrightarrow> row_evolves a c"
  by (auto simp: row_evolves_def)

lemma table_evolves_refl: "table_evolves db db"
  using row_evolves_refl by (auto simp: table_evolves_def)

lemma table_evolves_trans: "table_evolves a b \<Longrightarrow> table_evolves b c \<Longrightarrow> table_evolves a c"
  unfolding table_evolves_def using row_evolves_trans by blast

lemma leases_ok_update:
  assumes "leases_ok db" and "\<And>r. p r \<Longrightarrow> lease_active r \<and> row_evolves r (f r) \<and> lLeaseExpiresAt (f r) \<le> lAbsoluteDeadline r"
  shows "leases_ok (db\<lparr>leases := update_where p f (leases db)\<rparr>)
    \<and> table_evolves db (db\<lparr>leases := update_where p f (leases db)\<rparr>)"
proof -
  let ?g = "\<lambda>r. if p r then f r else r"
  have g: "row_evolves r (?g r)" "lID (?g r) = lID r" for r
    using assms(2) [of r] row_evolves_refl by (auto simp: row_evolves_def)
  have act: "lease_active (?g r) \<Longrightarrow> lease_active r \<and> lease_slot (?g r) = lease_slot r" for r
    using assms(2) [of r] by (cases "p r") (simp_all add: row_evolves_def)
  have "distinct (map lease_slot (filter lease_active (leases db)))" using assms(1) by (simp add: leases_ok_def)
  then have "distinct (map lease_slot (filter lease_active (map ?g (leases db))))"
    by (rule distinct_filter_map) (rule act)
  then have "distinct (map lease_slot (filter lease_active (update_where p f (leases db))))"
    by (simp add: update_where_def)
  moreover have "map lID (update_where p f (leases db)) = map lID (leases db)"
    using g(2) by (simp add: update_where_def)
  moreover have "list_all (\<lambda>r. lLeaseExpiresAt r \<le> lAbsoluteDeadline r) (update_where p f (leases db))"
    using assms by (auto simp: leases_ok_def list_all_iff ball_update_where row_evolves_def)
  ultimately have "leases_ok (db\<lparr>leases := update_where p f (leases db)\<rparr>)"
    using assms(1) by (simp add: leases_ok_def)
  moreover have "table_evolves db (db\<lparr>leases := update_where p f (leases db)\<rparr>)"
  proof -
    have "?g r \<in> set (update_where p f (leases db))" if "r \<in> set (leases db)" for r
      unfolding update_where_def set_map using that by (rule imageI)
    with g(1) show ?thesis by (simp add: table_evolves_def del: if_split) blast
  qed
  ultimately show ?thesis by simp
qed

lemma capped_expiry_le: "capped_expiry env now deadline \<le> deadline"
  by (simp add: capped_expiry_def Let_def)

section \<open>Every operation keeps the invariant\<close>

datatype lease_call =
    CallAcquire AcquireLeaseRequest | CallRenew LeaseFence | CallRelease LeaseFence
  | CallTakeover TakeoverLeaseRequest | CallReconcile

fun run_lease :: "lease_env \<Rightarrow> lease_call \<Rightarrow> lease_db \<Rightarrow> lease_db" where
  "run_lease env (CallAcquire request) db = fst (Acquire env request db)"
| "run_lease env (CallRenew fence) db = fst (Renew env fence db)"
| "run_lease env (CallRelease fence) db = fst (Release env fence db)"
| "run_lease env (CallTakeover request) db = fst (takeoverOnce env request db)"
| "run_lease env CallReconcile db =
     (case ReconcileExpired env db of Inl _ \<Rightarrow> db | Inr (db1, _) \<Rightarrow> db1)"

abbreviation run_leases :: "(lease_env \<times> lease_call) list \<Rightarrow> lease_db \<Rightarrow> lease_db" where
  "run_leases \<equiv> run_all run_lease"

lemma lease_transaction_cases:
  "fst (lease_transaction env body db) = db \<and> (\<exists>e. snd (lease_transaction env body db) = Inl e)
   \<or> (\<exists>v. body db = Inr (fst (lease_transaction env body db), v) \<and> snd (lease_transaction env body db) = Inr v)"
  by (cases "plain_stmt_ok env StmtBeginLease"; cases "body db"; cases "plain_stmt_ok env StmtCommitLease")
    (auto simp: lease_transaction_def)

lemma lease_transaction_ok:
  "lease_transaction env body db = (db', Inr v) \<Longrightarrow> body db = Inr (db', v)"
  using lease_transaction_cases [of env body db] by auto

lemma create_lease_ok:
  assumes "create_lease env row rows = Inr rows'"
  shows "rows' = rows @ [row] \<and> lID row \<notin> lID ` set rows
    \<and> (lease_active row \<longrightarrow> lease_slot row \<notin> lease_slot ` set (filter lease_active rows))"
  using assms by (auto simp: create_lease_def list_ex_iff lease_slot_def lease_active_def split: option.splits if_splits)

lemma newLeaseRow_ok:
  assumes "newLeaseRow env request now deadline = Inr row"
  shows "lease_active row \<and> lAbsoluteDeadline row = deadline \<and> lLeaseExpiresAt row = capped_expiry env now deadline
    \<and> lease_slot row = (aRecoveryPointID request, aHolderType request, aOwnerID request)
    \<and> lCreatedAt row = now \<and> newFenceToken (leRandomFence env) = Inr (lFenceToken row)"
  using assms by (auto simp: newLeaseRow_def result_simps lease_active_def lease_slot_def)

lemma latest_member: "latest rows = Some r \<Longrightarrow> r \<in> set rows"
  by (induction rows arbitrary: r) (auto split: option.splits if_splits)

lemma AcquireTx_cases:
  assumes "AcquireTx env request db = Inr (db', lease)"
  obtains deadline row db1 where
    "resolveAcquireDeadlineTx env db request (leNow env) = Inr deadline"
    "newLeaseRow env request (leNow env) deadline = Inr row"
    "db1 = db \<or> db1 = db\<lparr>leases := expire_slot request (leNow env) (leases db)\<rparr>"
    "rows_affected (owner_slot request) (leases db1) = 0"
    "create_lease env row (leases db1) = Inr (leases db1 @ [row])"
    "db' = db1\<lparr>leases := leases db1 @ [row]\<rparr>" "leaseFromModel row = Inr lease"
proof -
  obtain deadline row db1 where
    res: "resolveAcquireDeadlineTx env db request (leNow env) = Inr deadline"
      "newLeaseRow env request (leNow env) deadline = Inr row"
    and free: "(if aHolderType request = LeaseHolderCatalogBuild \<or> aHolderType request = LeaseHolderSearchIndex
                  then bind_result (lease_stmt_ok env StmtExpireSlot ''expire abandoned index lease owner slot'')
                         (\<lambda>_. Inr (db\<lparr>leases := expire_slot request (leNow env) (leases db)\<rparr>))
                  else Inr db) = Inr db1"
    and rest: "\<not> rows_affected (owner_slot request) (leases db1) > 0"
      "(case create_lease env row (leases db1) of
       Inl message \<Rightarrow>
         if isLeaseConstraintConflict env message then Inl (LeaseError ErrLeaseHeld ''active owner slot exists'')
         else Inl (LeaseDBError ''create recovery point lease'' message)
     | Inr rows \<Rightarrow> bind_result (leaseFromModel row) (\<lambda>lease. Inr (db1\<lparr>leases := rows\<rparr>, lease))) = Inr (db', lease)"
    using assms unfolding AcquireTx_def Let_def bind_result_eq_Inr guard_eq_Inr by (elim exE conjE) blast
  have db1: "db1 = db \<or> db1 = db\<lparr>leases := expire_slot request (leNow env) (leases db)\<rparr>"
    using free by (auto simp: result_simps split: if_splits)
  obtain rows where rows: "create_lease env row (leases db1) = Inr rows"
    using rest(2) by (auto split: sum.splits if_splits)
  show thesis using that [OF res db1] rest rows create_lease_ok [OF rows] by (auto simp: result_simps)
qed

lemma expire_slot_ok:
  assumes "leases_ok db"
  shows "leases_ok (db\<lparr>leases := expire_slot request now (leases db)\<rparr>)
    \<and> table_evolves db (db\<lparr>leases := expire_slot request now (leases db)\<rparr>)"
proof -
  let ?p = "\<lambda>r. owner_slot request r \<and> (lLeaseExpiresAt r \<le> now \<or> lAbsoluteDeadline r \<le> now)"
  let ?q = "\<lambda>r. ?p r \<and> lLeaseExpiresAt r \<le> lAbsoluteDeadline r"
  let ?f = "\<lambda>r. r\<lparr>lStatus := LeaseExpired, lUpdatedAt := now\<rparr>"
  have same: "expire_slot request now (leases db) = update_where ?q ?f (leases db)"
    using assms by (auto simp: expire_slot_def update_where_def leases_ok_def list_all_iff)
  show ?thesis unfolding same
    by (rule leases_ok_update [OF assms]) (auto simp: owner_slot_def lease_active_def row_evolves_def lease_slot_def)
qed

lemma AcquireTx_ok:
  assumes "AcquireTx env request db = Inr (db', lease)" and "leases_ok db"
  shows "leases_ok db' \<and> table_evolves db db'"
  using assms(1)
proof (rule AcquireTx_cases)
  fix deadline row db1
  assume row: "newLeaseRow env request (leNow env) deadline = Inr row"
    and db1: "db1 = db \<or> db1 = db\<lparr>leases := expire_slot request (leNow env) (leases db)\<rparr>"
    and create: "create_lease env row (leases db1) = Inr (leases db1 @ [row])"
    and db': "db' = db1\<lparr>leases := leases db1 @ [row]\<rparr>"
  have ok1: "leases_ok db1 \<and> table_evolves db db1"
    using db1 assms(2) expire_slot_ok table_evolves_refl by auto
  moreover have "table_evolves db1 db'" using row_evolves_refl by (auto simp: table_evolves_def db')
  ultimately have "table_evolves db db'" using table_evolves_trans by blast
  moreover have "leases_ok db'"
    using ok1 create_lease_ok [OF create] newLeaseRow_ok [OF row] capped_expiry_le
    by (auto simp: leases_ok_def db')
  ultimately show ?thesis by simp
qed

lemma RenewTx_cases:
  assumes "RenewTx env fence db = Inr (db', lease)"
  obtains current where "current \<in> set (leases db)" "fence_live fence (leNow env) current"
    "db' = db\<lparr>leases := update_where (fence_live fence (leNow env))
       (\<lambda>r. r\<lparr>lLeaseExpiresAt := capped_expiry env (leNow env) (lAbsoluteDeadline current),
              lLastHeartbeatAt := leNow env, lUpdatedAt := leNow env\<rparr>) (leases db)\<rparr>"
    "leaseFromModel (current\<lparr>lLeaseExpiresAt := capped_expiry env (leNow env) (lAbsoluteDeadline current),
              lLastHeartbeatAt := leNow env, lUpdatedAt := leNow env\<rparr>) = Inr lease"
proof -
  obtain current where "take_row (\<lambda>r. lID r = fLeaseID fence) (leases db) = Some current"
    "fence_live fence (leNow env) current"
    "db' = db\<lparr>leases := update_where (fence_live fence (leNow env))
       (\<lambda>r. r\<lparr>lLeaseExpiresAt := capped_expiry env (leNow env) (lAbsoluteDeadline current),
              lLastHeartbeatAt := leNow env, lUpdatedAt := leNow env\<rparr>) (leases db)\<rparr>"
    "leaseFromModel (current\<lparr>lLeaseExpiresAt := capped_expiry env (leNow env) (lAbsoluteDeadline current),
              lLastHeartbeatAt := leNow env, lUpdatedAt := leNow env\<rparr>) = Inr lease"
    using assms by (auto simp: RenewTx_def Let_def result_simps fence_live_def split: option.splits if_splits)
  then show thesis using that take_row_Some by metis
qed

lemma fence_row_unique:
  assumes "leases_ok db" and "r \<in> set (leases db)" and "s \<in> set (leases db)"
    and "fence_matches fence r" and "fence_matches fence s"
  shows "r = s"
  using assms key_unique [of lID "leases db" r s] by (auto simp: leases_ok_def fence_matches_def)

lemma RenewTx_ok:
  assumes "RenewTx env fence db = Inr (db', lease)" and "leases_ok db"
  shows "leases_ok db' \<and> table_evolves db db'"
  using assms(1)
proof (rule RenewTx_cases)
  fix current
  assume c: "current \<in> set (leases db)" "fence_live fence (leNow env) current"
    and db': "db' = db\<lparr>leases := update_where (fence_live fence (leNow env))
       (\<lambda>r. r\<lparr>lLeaseExpiresAt := capped_expiry env (leNow env) (lAbsoluteDeadline current),
              lLastHeartbeatAt := leNow env, lUpdatedAt := leNow env\<rparr>) (leases db)\<rparr>"
  have same: "update_where (fence_live fence (leNow env))
       (\<lambda>r. r\<lparr>lLeaseExpiresAt := capped_expiry env (leNow env) (lAbsoluteDeadline current),
              lLastHeartbeatAt := leNow env, lUpdatedAt := leNow env\<rparr>) (leases db)
     = update_where (fence_live fence (leNow env))
       (\<lambda>r. r\<lparr>lLeaseExpiresAt := capped_expiry env (leNow env) (lAbsoluteDeadline r),
              lLastHeartbeatAt := leNow env, lUpdatedAt := leNow env\<rparr>) (leases db)"
    using fence_row_unique [OF assms(2) _ c(1)] c(2) by (intro update_where_cong) (auto simp: fence_live_def)
  show ?thesis unfolding db' same
    by (rule leases_ok_update [OF assms(2)])
      (auto simp: fence_live_def lease_active_def row_evolves_def lease_slot_def capped_expiry_le)
qed

lemma ReleaseTx_ok:
  assumes "ReleaseTx env fence db = Inr db'" and "leases_ok db"
  shows "leases_ok db' \<and> table_evolves db db'"
proof -
  let ?f = "\<lambda>r. r\<lparr>lStatus := LeaseReleased, lReleasedAt := Some (leNow env), lUpdatedAt := leNow env\<rparr>"
  let ?q = "\<lambda>r. fence_live fence (leNow env) r \<and> lLeaseExpiresAt r \<le> lAbsoluteDeadline r"
  have "db' = db\<lparr>leases := update_where (fence_live fence (leNow env)) ?f (leases db)\<rparr>"
    using assms(1) by (auto simp: ReleaseTx_def Let_def result_simps split: if_splits)
  moreover have "update_where (fence_live fence (leNow env)) ?f (leases db) = update_where ?q ?f (leases db)"
    using assms(2) by (intro update_where_cong) (auto simp: leases_ok_def list_all_iff)
  ultimately show ?thesis
    using leases_ok_update [OF assms(2), of ?q ?f]
    by (auto simp: fence_live_def lease_active_def row_evolves_def lease_slot_def)
qed

lemma TakeoverTx_cases:
  assumes "TakeoverTx env request db = Inr (db', lease)" and "leases_ok db"
  obtains current attemptID token where "current \<in> set (leases db)" "lID current = tLeaseID request"
    "lOwnerID current = tOwnerID request" "lease_active current"
    "lLeaseExpiresAt current \<le> leNow env" "leNow env < lAbsoluteDeadline current"
    "new_opaque_id (leRandomAttempt env) = Inr attemptID" "newFenceToken (leRandomFence env) = Inr token"
    "db' = db\<lparr>leases := update_where (\<lambda>r. r = current)
       (\<lambda>r. r\<lparr>lAttemptID := attemptID, lFenceToken := token,
              lLeaseExpiresAt := capped_expiry env (leNow env) (lAbsoluteDeadline current),
              lLastHeartbeatAt := leNow env, lReleasedAt := None, lUpdatedAt := leNow env\<rparr>) (leases db)\<rparr>"
    "leaseFromModel (current\<lparr>lAttemptID := attemptID, lFenceToken := token,
              lLeaseExpiresAt := capped_expiry env (leNow env) (lAbsoluteDeadline current),
              lLastHeartbeatAt := leNow env, lReleasedAt := None, lUpdatedAt := leNow env\<rparr>) = Inr lease"
proof -
  obtain current attemptID token where
    take: "take_row (\<lambda>r. lID r = tLeaseID request) (leases db) = Some current"
    and guard: "lOwnerID current = tOwnerID request" "lStatus current = LeaseActive"
      "leNow env < lAbsoluteDeadline current" "\<not> leNow env < lLeaseExpiresAt current"
    and rand: "new_opaque_id (leRandomAttempt env) = Inr attemptID" "newFenceToken (leRandomFence env) = Inr token"
    and db': "db' = db\<lparr>leases := update_where (\<lambda>r. lID r = lID current \<and> lOwnerID r = lOwnerID current
                          \<and> lAttemptID r = lAttemptID current \<and> lFenceToken r = lFenceToken current
                          \<and> lStatus r = LeaseActive \<and> lLeaseExpiresAt r \<le> leNow env \<and> lAbsoluteDeadline r > leNow env)
       (\<lambda>r. r\<lparr>lAttemptID := attemptID, lFenceToken := token,
              lLeaseExpiresAt := capped_expiry env (leNow env) (lAbsoluteDeadline current),
              lLastHeartbeatAt := leNow env, lReleasedAt := None, lUpdatedAt := leNow env\<rparr>) (leases db)\<rparr>"
    and lease: "leaseFromModel (current\<lparr>lAttemptID := attemptID, lFenceToken := token,
              lLeaseExpiresAt := capped_expiry env (leNow env) (lAbsoluteDeadline current),
              lLastHeartbeatAt := leNow env, lReleasedAt := None, lUpdatedAt := leNow env\<rparr>) = Inr lease"
    using assms(1) by (auto simp: TakeoverTx_def Let_def result_simps split: option.splits if_splits)
  have c: "current \<in> set (leases db)" "lID current = tLeaseID request" using take_row_Some [OF take] by simp_all
  have "(lID r = lID current \<and> lOwnerID r = lOwnerID current \<and> lAttemptID r = lAttemptID current
      \<and> lFenceToken r = lFenceToken current \<and> lStatus r = LeaseActive \<and> lLeaseExpiresAt r \<le> leNow env
      \<and> lAbsoluteDeadline r > leNow env) \<longleftrightarrow> r = current" if "r \<in> set (leases db)" for r
    using that c(1) guard assms(2) key_unique [of lID "leases db" r current] by (auto simp: leases_ok_def)
  then have "update_where (\<lambda>r. lID r = lID current \<and> lOwnerID r = lOwnerID current
                          \<and> lAttemptID r = lAttemptID current \<and> lFenceToken r = lFenceToken current
                          \<and> lStatus r = LeaseActive \<and> lLeaseExpiresAt r \<le> leNow env \<and> lAbsoluteDeadline r > leNow env) f (leases db)
      = update_where (\<lambda>r. r = current) f (leases db)" for f
    by (intro update_where_cong) auto
  with db' show thesis using that c guard rand lease by (simp add: lease_active_def)
qed

lemma TakeoverTx_ok:
  assumes "TakeoverTx env request db = Inr (db', lease)" and "leases_ok db"
  shows "leases_ok db' \<and> table_evolves db db'"
  using assms
proof (rule TakeoverTx_cases)
  fix current attemptID token
  assume act: "lease_active current" and db': "db' = db\<lparr>leases := update_where (\<lambda>r. r = current)
       (\<lambda>r. r\<lparr>lAttemptID := attemptID, lFenceToken := token,
              lLeaseExpiresAt := capped_expiry env (leNow env) (lAbsoluteDeadline current),
              lLastHeartbeatAt := leNow env, lReleasedAt := None, lUpdatedAt := leNow env\<rparr>) (leases db)\<rparr>"
  show ?thesis unfolding db' using act
    by (intro leases_ok_update [OF assms(2)])
      (auto simp: lease_active_def row_evolves_def lease_slot_def capped_expiry_le)
qed

lemma ReconcileExpired_ok:
  assumes "ReconcileExpired env db = Inr (db', n)" and "leases_ok db"
  shows "leases_ok db' \<and> table_evolves db db'"
proof -
  let ?f = "\<lambda>r. r\<lparr>lStatus := LeaseExpired, lUpdatedAt := leNow env\<rparr>"
  let ?p = "\<lambda>r. lStatus r = LeaseActive \<and> lAbsoluteDeadline r \<le> leNow env"
  have "db' = db\<lparr>leases := update_where ?p ?f (leases db)\<rparr>"
    using assms(1) by (auto simp: ReconcileExpired_def Let_def result_simps)
  moreover have "update_where ?p ?f (leases db)
      = update_where (\<lambda>r. ?p r \<and> lLeaseExpiresAt r \<le> lAbsoluteDeadline r) ?f (leases db)"
    using assms(2) by (intro update_where_cong) (auto simp: leases_ok_def list_all_iff)
  ultimately show ?thesis
    using leases_ok_update [OF assms(2), of "\<lambda>r. ?p r \<and> lLeaseExpiresAt r \<le> lAbsoluteDeadline r" ?f]
    by (auto simp: lease_active_def row_evolves_def lease_slot_def)
qed

lemma run_lease_ok:
  assumes "leases_ok db"
  shows "leases_ok (run_lease env call db) \<and> table_evolves db (run_lease env call db)"
proof (cases call)
  case (CallAcquire request)
  then show ?thesis using lease_transaction_cases [of env "AcquireTx env request" db] AcquireTx_ok [OF _ assms] assms
    by (auto simp: Acquire_def table_evolves_refl)
next
  case (CallRenew fence)
  then show ?thesis using lease_transaction_cases [of env "RenewTx env fence" db] RenewTx_ok [OF _ assms] assms
    by (auto simp: Renew_def table_evolves_refl)
next
  case (CallRelease fence)
  then show ?thesis
    using lease_transaction_cases [of env "\<lambda>db. bind_result (ReleaseTx env fence db) (\<lambda>db1. Inr (db1, ()))" db]
      ReleaseTx_ok [OF _ assms] assms
    by (auto simp: Release_def table_evolves_refl result_simps)
next
  case (CallTakeover request)
  then show ?thesis using lease_transaction_cases [of env "TakeoverTx env request" db] TakeoverTx_ok [OF _ assms] assms
    by (auto simp: takeoverOnce_def table_evolves_refl)
next
  case CallReconcile
  then show ?thesis using ReconcileExpired_ok [OF _ assms] assms by (auto simp: table_evolves_refl split: sum.splits)
qed

interpretation lease_calls: call_sequence run_lease "\<lambda>_. True" leases_ok table_evolves
  by unfold_locales (auto intro: table_evolves_refl table_evolves_trans run_lease_ok [THEN conjunct1] run_lease_ok [THEN conjunct2])

lemma run_leases_ok:
  "leases_ok db \<Longrightarrow> leases_ok (run_leases calls db) \<and> table_evolves db (run_leases calls db)"
  by (rule lease_calls.calls_ok) (simp_all add: list_all_iff split_def)

section \<open>Properties\<close>

text \<open>
  C7. The lease table stays sound. Along every sequence of acquisitions, renewals, releases,
  takeovers and reconciliations, with any faults and clocks, lease identifiers are unique, a point has
  at most one active lease per holder and owner, and no lease expires after its absolute deadline; a
  row keeps its identity, owner and deadline, and a lease that was released or expired never changes
  again.
\<close>

theorem lease_table_sound:
  assumes "leases_ok db" and "r \<in> set (leases db)"
  shows "distinct (map lID (leases (run_leases calls db)))
    \<and> distinct (map lease_slot (filter lease_active (leases (run_leases calls db))))
    \<and> list_all (\<lambda>x. lLeaseExpiresAt x \<le> lAbsoluteDeadline x) (leases (run_leases calls db))
    \<and> (\<exists>r' \<in> set (leases (run_leases calls db)). lID r' = lID r \<and> lease_slot r' = lease_slot r
         \<and> lAbsoluteDeadline r' = lAbsoluteDeadline r \<and> (lease_active r \<or> r' = r))"
  using run_leases_ok [OF assms(1), of calls] assms(2)
  unfolding leases_ok_def table_evolves_def row_evolves_def by blast

text \<open>The tokens of the rows of a lease change only to freshly drawn ones.\<close>

definition token_gone :: "string \<Rightarrow> string \<Rightarrow> lease_db \<Rightarrow> bool" where
  "token_gone identifier token db \<longleftrightarrow>
     leases_ok db \<and> (\<forall>r \<in> set (leases db). lID r = identifier \<longrightarrow> lFenceToken r \<noteq> token)"

definition draws_other :: "string \<Rightarrow> lease_env \<Rightarrow> bool" where
  "draws_other token env \<longleftrightarrow> newFenceToken (leRandomFence env) \<noteq> Inr token"

lemma token_gone_update:
  assumes "token_gone i t db" and "leases_ok (db\<lparr>leases := update_where p f (leases db)\<rparr>)"
    and "\<And>r. lID (f r) = lID r" and "\<And>r. lFenceToken (f r) = lFenceToken r \<or> lFenceToken (f r) \<noteq> t"
  shows "token_gone i t (db\<lparr>leases := update_where p f (leases db)\<rparr>)"
proof -
  have "lFenceToken (if p r then f r else r) \<noteq> t" if "r \<in> set (leases db)" "lID (if p r then f r else r) = i" for r
    using that assms(1,3) assms(4) [of r] by (auto simp: token_gone_def split: if_splits)
  then show ?thesis using assms(2) by (simp add: token_gone_def ball_update_where)
qed

lemma token_gone_acquire:
  assumes "AcquireTx env request db = Inr (db', lease)" and "token_gone i t db" and "draws_other t env"
  shows "token_gone i t db'"
  using assms(1)
proof (rule AcquireTx_cases)
  fix deadline row db1
  assume row: "newLeaseRow env request (leNow env) deadline = Inr row"
    and db1: "db1 = db \<or> db1 = db\<lparr>leases := expire_slot request (leNow env) (leases db)\<rparr>"
    and db': "db' = db1\<lparr>leases := leases db1 @ [row]\<rparr>"
  have ok: "leases_ok db" using assms(2) by (simp add: token_gone_def)
  have "token_gone i t db1"
    using db1 assms(2) token_gone_update [OF assms(2)] expire_slot_ok [OF ok, of request "leNow env"]
    by (auto simp: expire_slot_def)
  moreover have "lFenceToken row \<noteq> t" using newLeaseRow_ok [OF row] assms(3) by (auto simp: draws_other_def)
  moreover have "leases_ok db'" using AcquireTx_ok [OF assms(1) ok] by simp
  ultimately show ?thesis by (auto simp: token_gone_def db')
qed

lemma token_gone_renew:
  assumes "RenewTx env fence db = Inr (db', lease)" and "token_gone i t db"
  shows "token_gone i t db'"
  using assms(1)
proof (rule RenewTx_cases)
  fix current
  assume db': "db' = db\<lparr>leases := update_where (fence_live fence (leNow env))
       (\<lambda>r. r\<lparr>lLeaseExpiresAt := capped_expiry env (leNow env) (lAbsoluteDeadline current),
              lLastHeartbeatAt := leNow env, lUpdatedAt := leNow env\<rparr>) (leases db)\<rparr>"
  have "leases_ok db'" using RenewTx_ok [OF assms(1)] assms(2) by (simp add: token_gone_def)
  then show ?thesis unfolding db' by (intro token_gone_update [OF assms(2)]) simp_all
qed

lemma token_gone_release:
  assumes "ReleaseTx env fence db = Inr db'" and "token_gone i t db"
  shows "token_gone i t db'"
proof -
  have ok: "leases_ok db'" using ReleaseTx_ok [OF assms(1)] assms(2) by (simp add: token_gone_def)
  moreover have "db' = db\<lparr>leases := update_where (fence_live fence (leNow env))
      (\<lambda>r. r\<lparr>lStatus := LeaseReleased, lReleasedAt := Some (leNow env), lUpdatedAt := leNow env\<rparr>) (leases db)\<rparr>"
    using assms(1) by (auto simp: ReleaseTx_def Let_def result_simps split: if_splits)
  ultimately show ?thesis using token_gone_update [OF assms(2)] by simp
qed

lemma token_gone_takeover:
  assumes "TakeoverTx env request db = Inr (db', lease)" and "token_gone i t db" and "draws_other t env"
  shows "token_gone i t db'"
proof -
  have ok: "leases_ok db" using assms(2) by (simp add: token_gone_def)
  show ?thesis using assms(1) ok
  proof (rule TakeoverTx_cases)
    fix current attemptID token
    assume token: "newFenceToken (leRandomFence env) = Inr token"
      and db': "db' = db\<lparr>leases := update_where (\<lambda>r. r = current)
       (\<lambda>r. r\<lparr>lAttemptID := attemptID, lFenceToken := token,
              lLeaseExpiresAt := capped_expiry env (leNow env) (lAbsoluteDeadline current),
              lLastHeartbeatAt := leNow env, lReleasedAt := None, lUpdatedAt := leNow env\<rparr>) (leases db)\<rparr>"
    have "token \<noteq> t" using token assms(3) by (auto simp: draws_other_def)
    moreover have "leases_ok db'" using TakeoverTx_ok [OF assms(1) ok] by simp
    ultimately show ?thesis unfolding db' by (intro token_gone_update [OF assms(2)]) simp_all
  qed
qed

lemma token_gone_reconcile:
  assumes "ReconcileExpired env db = Inr (db', n)" and "token_gone i t db"
  shows "token_gone i t db'"
proof -
  have "leases_ok db'" using ReconcileExpired_ok [OF assms(1)] assms(2) by (simp add: token_gone_def)
  moreover have "db' = db\<lparr>leases := update_where (\<lambda>r. lStatus r = LeaseActive \<and> lAbsoluteDeadline r \<le> leNow env)
      (\<lambda>r. r\<lparr>lStatus := LeaseExpired, lUpdatedAt := leNow env\<rparr>) (leases db)\<rparr>"
    using assms(1) by (auto simp: ReconcileExpired_def Let_def result_simps)
  ultimately show ?thesis using token_gone_update [OF assms(2)] by simp
qed

lemma token_gone_call:
  assumes "token_gone i t db" and "draws_other t env"
  shows "token_gone i t (run_lease env call db)"
proof (cases call)
  case (CallAcquire request)
  then show ?thesis using lease_transaction_cases [of env "AcquireTx env request" db] token_gone_acquire assms
    by (auto simp: Acquire_def)
next
  case (CallRenew fence)
  then show ?thesis using lease_transaction_cases [of env "RenewTx env fence" db] token_gone_renew assms
    by (auto simp: Renew_def)
next
  case (CallRelease fence)
  then show ?thesis
    using lease_transaction_cases [of env "\<lambda>db. bind_result (ReleaseTx env fence db) (\<lambda>db1. Inr (db1, ()))" db]
      token_gone_release assms by (auto simp: Release_def result_simps)
next
  case (CallTakeover request)
  then show ?thesis using lease_transaction_cases [of env "TakeoverTx env request" db] token_gone_takeover assms
    by (auto simp: takeoverOnce_def)
next
  case CallReconcile
  then show ?thesis using token_gone_reconcile assms by (auto split: sum.splits)
qed

lemma token_gone_calls:
  assumes "token_gone i t db" and "list_all (\<lambda>(env, call). draws_other t env) calls"
  shows "token_gone i t (run_leases calls db)"
  using assms
proof (induction calls arbitrary: db)
  case (Cons c calls)
  then show ?case using token_gone_call by (cases c) auto
qed simp

lemma token_gone_rejects:
  assumes "token_gone (fLeaseID fence) (fFenceToken fence) db"
  shows "\<not> is_ok (ValidateFence env fence db) \<and> \<not> is_ok (snd (Renew env fence db)) \<and> \<not> is_ok (snd (Release env fence db))"
proof -
  have none: "\<not> fence_matches fence r" if "r \<in> set (leases db)" for r
    using assms that by (auto simp: token_gone_def fence_matches_def)
  then have zero: "rows_affected (fence_live fence now) (leases db) = 0" for now
    by (auto simp: rows_affected_def fence_live_def filter_empty_conv)
  have "\<not> is_ok (RenewTx env fence db)"
  proof
    assume "is_ok (RenewTx env fence db)"
    then obtain db' lease where "RenewTx env fence db = Inr (db', lease)" by (auto simp: is_ok_iff)
    then show False by (rule RenewTx_cases) (use none in \<open>auto simp: fence_live_def\<close>)
  qed
  moreover have "\<not> is_ok (ReleaseTx env fence db)" "\<not> is_ok (ValidateFence env fence db)"
    using zero by (auto simp: is_ok_iff ReleaseTx_def ValidateFence_def ValidateFenceTx_def Let_def result_simps)
  ultimately show ?thesis
    using lease_transaction_cases [of env "RenewTx env fence" db]
      lease_transaction_cases [of env "\<lambda>db. bind_result (ReleaseTx env fence db) (\<lambda>db1. Inr (db1, ()))" db]
    by (auto simp: Renew_def Release_def is_ok_iff result_simps)
qed



lemma resolveAcquireDeadline_ok:
  assumes "resolveAcquireDeadlineTx env db request now = Inr deadline"
  shows "deadline = (if aAbsoluteDeadline request = 0 then now + cfgAbsoluteDeadline (leConfig env)
      else aAbsoluteDeadline request)
    \<and> (aAbsoluteDeadline request = 0 \<or> now < deadline \<and> (deadline \<le> now + maxLeaseAbsoluteDeadline
          \<or> (\<exists>r \<in> set (leases db). same_scope request r \<and> lAbsoluteDeadline r = deadline)))"
proof (cases "latest (filter (same_scope request) (leases db))")
  case None
  with assms show ?thesis by (auto simp: resolveAcquireDeadlineTx_def result_simps split: if_splits)
next
  case (Some r)
  then have "r \<in> set (leases db)" "same_scope request r" using latest_member [OF Some] by auto
  with assms Some show ?thesis by (auto simp: resolveAcquireDeadlineTx_def result_simps split: if_splits)
qed


section \<open>A concrete run\<close>

text \<open>An acquisition at time 100, abandoned, and a takeover by the same owner after its expiry.\<close>

definition lease_env_at :: "time \<Rightarrow> nat \<Rightarrow> lease_env" where
  "lease_env_at now seed =
     \<lparr>leNow = now, leConfig = \<lparr>cfgDuration = 60, cfgHeartbeat = 20, cfgAbsoluteDeadline = 1000\<rparr>,
      leAdmission = None, leRandomID = Some (replicate 16 seed), leRandomAttempt = Some (replicate 16 seed),
      leRandomFence = Some (replicate 32 seed), leFault = (\<lambda>_. None), leDuplicate = ''UNIQUE constraint failed'',
      leUnicodeLower = id\<rparr>"

definition sample_request :: AcquireLeaseRequest where
  "sample_request = \<lparr>aRecoveryPointID = replicate 32 CHR ''a'', aHolderType = LeaseHolderExportJob,
     aOwnerID = ''job-1'', aAbsoluteDeadline = 0\<rparr>"

definition sample_lease_db :: lease_db where
  "sample_lease_db = fst (Acquire (lease_env_at 100 1) sample_request \<lparr>leases = [], points = [], attempts = []\<rparr>)"

definition sample_takeover :: TakeoverLeaseRequest where
  "sample_takeover = \<lparr>tLeaseID = EncodeToString (replicate 16 1), tOwnerID = ''job-1''\<rparr>"

definition sample_fence :: "nat \<Rightarrow> LeaseFence" where
  "sample_fence seed = \<lparr>fLeaseID = EncodeToString (replicate 16 1), fRecoveryPointID = replicate 32 CHR ''a'',
     fHolderType = LeaseHolderExportJob, fOwnerID = ''job-1'', fAttemptID = EncodeToString (replicate 16 seed),
     fFenceToken = EncodeToString (replicate 32 seed)\<rparr>"

lemma sample_config: "validateLeaseConfig (leConfig (lease_env_at now seed)) = Inr ()"
  by (simp add: lease_env_at_def validateLeaseConfig_def maxLeaseAbsoluteDeadline_def)

lemma empty_leases_ok: "leases_ok \<lparr>leases = [], points = [], attempts = []\<rparr>"
  by (simp add: leases_ok_def)

lemma sample_lease_ok: "leases_ok sample_lease_db"
  using run_lease_ok [OF empty_leases_ok, of "lease_env_at 100 1" "CallAcquire sample_request"]
  by (simp add: sample_lease_db_def)

lemma sample_draws: "draws_other (EncodeToString (replicate 32 1)) (lease_env_at now 2)"
proof -
  have "EncodeToString (replicate 32 1) \<noteq> EncodeToString (replicate 32 2)" by code_simp
  then show ?thesis by (simp add: draws_other_def newFenceToken_def lease_env_at_def)
qed

theorem lease_table_sound_witness:
  "\<exists>r'. r' \<in> set (leases (run_leases [(lease_env_at 170 2, CallTakeover sample_takeover)] sample_lease_db))
     \<and> lAbsoluteDeadline r' = 1100"
proof -
  have "list_ex (\<lambda>r. lAbsoluteDeadline r = 1100) (leases sample_lease_db)" by code_simp
  then obtain r where "r \<in> set (leases sample_lease_db)" "lAbsoluteDeadline r = 1100" by (auto simp: list_ex_iff)
  with lease_table_sound [OF sample_lease_ok this(1), of "[(lease_env_at 170 2, CallTakeover sample_takeover)]"]
  show ?thesis by auto
qed



end
