(* ===== verification/Login_Lock.thy ===== *)
theory Login_Lock
  imports Tables
begin

text \<open>
  The login failure lock, \<open>backend/internal/auth/login_lock.go\<close>: a counter per user name and client
  address and a counter per user name over all addresses, each of which locks the login for a while
  when it reaches its threshold. The table \<open>login_failures\<close> has one row per user name and address (a
  unique index); the global counter is the row with the address \<open>__global__\<close>.

  The code ignores database errors: a read that fails finds no row, a write that fails has no effect.
  \<open>faults\<close> says which statements fail. The effective settings are an argument, and so is
  \<open>time.ParseDuration\<close> applied to them.
\<close>

section \<open>Types\<close>

record LoginFailure =
  lfUsername :: string
  lfClientIP :: string
  lfFailCount :: int
  lfLockedUntil :: "time option"
  lfUpdatedAt :: time

record LoginFailureLocker =
  lkThreshold :: int
  lkLockDuration :: duration
  lkGlobalThreshold :: int
  lkGlobalLockDuration :: duration
  lkSettings :: "(string \<Rightarrow> string) option"
  lkParseDuration :: "string \<Rightarrow> duration option"
  lkUnicodeLower :: "string \<Rightarrow> string"

datatype login_stmt =
    FindRow string | DeleteRow string | CreateRow string | SaveRow string

type_synonym login_faults = "login_stmt \<Rightarrow> bool"
type_synonym login_table = "LoginFailure list"
type_synonym failure_key = "string \<times> string"

definition globalIPMarker :: string where
  "globalIPMarker = ''__global__''"

definition failure_key :: "LoginFailure \<Rightarrow> failure_key" where
  "failure_key r = (lfUsername r, lfClientIP r)"

section \<open>Configuration\<close>

definition NewLoginFailureLocker :: "LoginFailureLocker \<Rightarrow> LoginFailureLocker" where
  "NewLoginFailureLocker args =
     args\<lparr>lkThreshold := (if lkThreshold args \<le> 0 then 5 else lkThreshold args),
          lkLockDuration := (if lkLockDuration args \<le> 0 then 15 * Minute else lkLockDuration args),
          lkGlobalThreshold := (if lkGlobalThreshold args \<le> 0 then 50 else lkGlobalThreshold args),
          lkGlobalLockDuration := (if lkGlobalLockDuration args \<le> 0 then 15 * Minute else lkGlobalLockDuration args)\<rparr>"

definition positive_setting :: "int option \<Rightarrow> int \<Rightarrow> int" where
  "positive_setting parsed fallback =
     (case parsed of Some v \<Rightarrow> if v > 0 then v else fallback | None \<Rightarrow> fallback)"

definition getThreshold :: "LoginFailureLocker \<Rightarrow> int" where
  "getThreshold l =
     (case lkSettings l of
        Some GetEffective \<Rightarrow> positive_setting (ParseInt10 (GetEffective ''login.fail_lock_threshold'')) (lkThreshold l)
      | None \<Rightarrow> lkThreshold l)"

definition getLockDuration :: "LoginFailureLocker \<Rightarrow> duration" where
  "getLockDuration l =
     (case lkSettings l of
        Some GetEffective \<Rightarrow>
          positive_setting (lkParseDuration l (GetEffective ''login.fail_lock_duration'')) (lkLockDuration l)
      | None \<Rightarrow> lkLockDuration l)"

definition getGlobalThreshold :: "LoginFailureLocker \<Rightarrow> int" where
  "getGlobalThreshold l =
     (case lkSettings l of
        Some GetEffective \<Rightarrow>
          positive_setting (ParseInt10 (GetEffective ''login.global_fail_lock_threshold'')) (lkGlobalThreshold l)
      | None \<Rightarrow> lkGlobalThreshold l)"

definition getGlobalLockDuration :: "LoginFailureLocker \<Rightarrow> duration" where
  "getGlobalLockDuration l =
     (case lkSettings l of
        Some GetEffective \<Rightarrow>
          positive_setting (lkParseDuration l (GetEffective ''login.global_fail_lock_duration'')) (lkGlobalLockDuration l)
      | None \<Rightarrow> lkGlobalLockDuration l)"

definition normalize :: "LoginFailureLocker \<Rightarrow> string \<Rightarrow> string \<Rightarrow> failure_key" where
  "normalize l username ip =
     (let u = ToLower (lkUnicodeLower l) (TrimSpace username); i = TrimSpace ip
      in (u, if i = [] then ''unknown'' else i))"

section \<open>Statements\<close>

definition find_failure :: "login_faults \<Rightarrow> failure_key \<Rightarrow> login_table \<Rightarrow> LoginFailure option" where
  "find_failure faults key db = (if faults (FindRow (snd key)) then None else take_row (\<lambda>r. failure_key r = key) db)"

definition delete_failure :: "login_faults \<Rightarrow> failure_key \<Rightarrow> login_table \<Rightarrow> login_table" where
  "delete_failure faults key db =
     (if faults (DeleteRow (snd key)) then db else filter (\<lambda>r. failure_key r \<noteq> key) db)"

text \<open>\<open>INSERT ... ON CONFLICT DO NOTHING\<close>.\<close>

definition create_failure :: "login_faults \<Rightarrow> LoginFailure \<Rightarrow> login_table \<Rightarrow> login_table" where
  "create_failure faults rec db =
     (if faults (CreateRow (lfClientIP rec)) \<or> list_ex (\<lambda>r. failure_key r = failure_key rec) db then db
      else db @ [rec])"

definition save_failure :: "login_faults \<Rightarrow> LoginFailure \<Rightarrow> login_table \<Rightarrow> login_table" where
  "save_failure faults rec db =
     (if faults (SaveRow (lfClientIP rec)) then db
      else update_where (\<lambda>r. failure_key r = failure_key rec) (\<lambda>_. rec) db)"

section \<open>Operations\<close>

text \<open>One of the two checks of \<open>IsLocked\<close>: the lock that holds, and the table after it.\<close>

definition check_lock :: "login_faults \<Rightarrow> failure_key \<Rightarrow> time \<Rightarrow> login_table \<Rightarrow> time option \<times> login_table" where
  "check_lock faults key now db =
     (case find_failure faults key db of
        None \<Rightarrow> (None, db)
      | Some rec \<Rightarrow>
          (case lfLockedUntil rec of
             None \<Rightarrow> (None, db)
           | Some until \<Rightarrow> if until > now then (Some until, db) else (None, delete_failure faults key db)))"

definition IsLocked ::
  "login_faults \<Rightarrow> LoginFailureLocker \<Rightarrow> string \<Rightarrow> string \<Rightarrow> time \<Rightarrow> login_table \<Rightarrow> (time \<times> bool) \<times> login_table" where
  "IsLocked faults l username ip now db =
     (let key = normalize l username ip in
      case check_lock faults key now db of
        (Some until, db1) \<Rightarrow> ((until, True), db1)
      | (None, db1) \<Rightarrow>
          (case check_lock faults (fst key, globalIPMarker) now db1 of
             (Some until, db2) \<Rightarrow> ((until, True), db2)
           | (None, db2) \<Rightarrow> ((zero_time, False), db2)))"

definition apply_threshold :: "int \<Rightarrow> duration \<Rightarrow> time \<Rightarrow> LoginFailure \<Rightarrow> LoginFailure" where
  "apply_threshold threshold lockDuration now rec =
     (if lfFailCount rec \<ge> threshold
      then rec\<lparr>lfLockedUntil := Some (now + lockDuration), lfFailCount := 0\<rparr> else rec)"

definition bump_failure :: "int \<Rightarrow> duration \<Rightarrow> time \<Rightarrow> LoginFailure \<Rightarrow> LoginFailure" where
  "bump_failure threshold lockDuration now rec =
     (let rec1 = (if lfLockedUntil rec \<noteq> None then rec\<lparr>lfFailCount := 0, lfLockedUntil := None\<rparr> else rec);
          rec2 = rec1\<lparr>lfFailCount := wrap64 (lfFailCount rec1 + 1), lfUpdatedAt := now\<rparr>
      in apply_threshold threshold lockDuration now rec2)"

text \<open>One counter of \<open>RegisterFailure\<close>: what it writes after the row it read.\<close>

definition write_failure ::
  "login_faults \<Rightarrow> failure_key \<Rightarrow> int \<Rightarrow> duration \<Rightarrow> time \<Rightarrow> LoginFailure option \<Rightarrow> login_table \<Rightarrow> login_table" where
  "write_failure faults key threshold lockDuration now found db =
     (case found of
        None \<Rightarrow>
          create_failure faults
            (apply_threshold threshold lockDuration now
               \<lparr>lfUsername = fst key, lfClientIP = snd key, lfFailCount = 1, lfLockedUntil = None, lfUpdatedAt = now\<rparr>) db
      | Some rec \<Rightarrow>
          if (case lfLockedUntil rec of Some until \<Rightarrow> until > now | None \<Rightarrow> False) then db
          else save_failure faults (bump_failure threshold lockDuration now rec) db)"

definition count_failure ::
  "login_faults \<Rightarrow> failure_key \<Rightarrow> int \<Rightarrow> duration \<Rightarrow> time \<Rightarrow> login_table \<Rightarrow> login_table" where
  "count_failure faults key threshold lockDuration now db =
     write_failure faults key threshold lockDuration now (find_failure faults key db) db"

definition RegisterFailure ::
  "login_faults \<Rightarrow> LoginFailureLocker \<Rightarrow> string \<Rightarrow> string \<Rightarrow> time \<Rightarrow> login_table \<Rightarrow> login_table" where
  "RegisterFailure faults l username ip now db =
     (let key = normalize l username ip;
          db1 = count_failure faults key (getThreshold l) (getLockDuration l) now db
      in count_failure faults (fst key, globalIPMarker) (getGlobalThreshold l) (getGlobalLockDuration l) now db1)"

definition RegisterSuccess :: "login_faults \<Rightarrow> LoginFailureLocker \<Rightarrow> string \<Rightarrow> string \<Rightarrow> login_table \<Rightarrow> login_table" where
  "RegisterSuccess faults l username ip db =
     (let key = normalize l username ip
      in delete_failure faults (fst key, globalIPMarker) (delete_failure faults key db))"

text \<open>One tick of the goroutine of \<open>StartCleanup\<close>.\<close>

definition cleanup_tick :: "time \<Rightarrow> login_table \<Rightarrow> login_table" where
  "cleanup_tick now db =
     filter (\<lambda>r. \<not> (lfLockedUntil r = None \<and> lfUpdatedAt r < now - 24 * Hour))
       (filter (\<lambda>r. \<not> (case lfLockedUntil r of Some until \<Rightarrow> until < now | None \<Rightarrow> False)) db)"

section \<open>One counter\<close>

definition no_faults :: "login_faults \<Rightarrow> bool" where
  "no_faults faults \<longleftrightarrow> (\<forall>s. \<not> faults s)"

abbreviation lookup_failure :: "failure_key \<Rightarrow> login_table \<Rightarrow> LoginFailure option" where
  "lookup_failure key db \<equiv> take_row (\<lambda>r. failure_key r = key) db"

definition locked_at :: "time \<Rightarrow> LoginFailure \<Rightarrow> bool" where
  "locked_at now r \<longleftrightarrow> (case lfLockedUntil r of Some until \<Rightarrow> until > now | None \<Rightarrow> False)"

text \<open>What a failure at \<open>now\<close> makes of the row of a counter.\<close>

definition next_counter :: "failure_key \<Rightarrow> int \<Rightarrow> duration \<Rightarrow> time \<Rightarrow> LoginFailure option \<Rightarrow> LoginFailure" where
  "next_counter key threshold lockDuration now old =
     (case old of
        None \<Rightarrow> apply_threshold threshold lockDuration now
          \<lparr>lfUsername = fst key, lfClientIP = snd key, lfFailCount = 1, lfLockedUntil = None, lfUpdatedAt = now\<rparr>
      | Some r \<Rightarrow> if locked_at now r then r else bump_failure threshold lockDuration now r)"

lemma failure_key_simps [simp]:
  "failure_key (apply_threshold threshold d now r) = failure_key r"
  "failure_key (bump_failure threshold d now r) = failure_key r"
  by (simp_all add: failure_key_def apply_threshold_def bump_failure_def Let_def)

lemma next_counter_key: "(\<And>r. old = Some r \<Longrightarrow> failure_key r = key) \<Longrightarrow> failure_key (next_counter key t d now old) = key"
  by (auto simp: next_counter_def failure_key_def split: option.splits)
    (simp_all add: apply_threshold_def bump_failure_def Let_def)

lemma lookup_update:
  assumes "distinct (map failure_key db)" and "failure_key new = key"
  shows "lookup_failure k (update_where (\<lambda>r. failure_key r = key) (\<lambda>_. new) db)
    = (if k = key \<and> lookup_failure key db \<noteq> None then Some new else lookup_failure k db)"
  using assms by (induction db) (auto simp: update_where_def)

lemma lookup_append: "lookup_failure k (db @ [r]) = (case lookup_failure k db of Some x \<Rightarrow> Some x
    | None \<Rightarrow> if failure_key r = k then Some r else None)"
  by (induction db) auto

lemma lookup_filter:
  "lookup_failure k (filter (\<lambda>r. failure_key r \<noteq> key) db) = (if k = key then None else lookup_failure k db)"
  by (induction db) auto

lemma lookup_key: "lookup_failure key db = Some r \<Longrightarrow> failure_key r = key"
  by (drule take_row_Some) simp

definition keys_unique :: "login_table \<Rightarrow> bool" where
  "keys_unique db \<longleftrightarrow> distinct (map failure_key db)"

text \<open>The counters are independent, and a failure advances the counter of its key.\<close>

lemma count_failure_spec:
  assumes "no_faults faults" and "keys_unique db"
  shows "keys_unique (count_failure faults key t d now db)
    \<and> lookup_failure k (count_failure faults key t d now db)
      = (if k = key then Some (next_counter key t d now (lookup_failure key db)) else lookup_failure k db)"
proof (cases "lookup_failure key db")
  case None
  let ?n = "next_counter key t d now None"
  have n: "failure_key ?n = key" by (rule next_counter_key) simp
  have "\<not> list_ex (\<lambda>r. failure_key r = key) db" using None by (simp add: take_row_None list_ex_iff)
  moreover have "create_failure faults ?n db = (if list_ex (\<lambda>r. failure_key r = key) db then db else db @ [?n])"
    using assms(1) n by (simp add: create_failure_def no_faults_def)
  ultimately have run: "count_failure faults key t d now db = db @ [?n]"
    using None assms(1) by (simp add: count_failure_def write_failure_def find_failure_def next_counter_def no_faults_def)
  have "key \<notin> failure_key ` set db" using None by (auto simp: take_row_None)
  with run n None assms(2) show ?thesis by (auto simp: lookup_append keys_unique_def split: option.splits)
next
  case (Some r)
  have k: "failure_key r = key" by (rule lookup_key [OF Some])
  show ?thesis
  proof (cases "locked_at now r")
    case True
    then have "count_failure faults key t d now db = db"
      using Some assms(1) by (simp add: count_failure_def write_failure_def find_failure_def locked_at_def no_faults_def)
    with True Some assms(2) show ?thesis by (simp add: next_counter_def)
  next
    case False
    then have "count_failure faults key t d now db
        = update_where (\<lambda>x. failure_key x = key) (\<lambda>_. bump_failure t d now r) db"
      using Some assms(1) k
      by (auto simp: count_failure_def write_failure_def find_failure_def locked_at_def save_failure_def no_faults_def split: option.splits)
    moreover have "map failure_key (update_where (\<lambda>x. failure_key x = key) (\<lambda>_. bump_failure t d now r) db)
        = map failure_key db"
      using k by (auto simp: update_where_def)
    ultimately show ?thesis
      using lookup_update [of db "bump_failure t d now r" key k] assms(2) k Some False
      by (auto simp: keys_unique_def next_counter_def)
  qed
qed

lemma delete_failure_spec:
  assumes "no_faults faults"
  shows "lookup_failure k (delete_failure faults key db) = (if k = key then None else lookup_failure k db)"
  using assms by (simp add: delete_failure_def lookup_filter no_faults_def)

text \<open>A run of failures from a fresh counter: it counts up to the threshold and then locks.\<close>

definition counter_run :: "failure_key \<Rightarrow> int \<Rightarrow> duration \<Rightarrow> time list \<Rightarrow> LoginFailure option \<Rightarrow> LoginFailure option" where
  "counter_run key t d ts old = fold (\<lambda>now c. Some (next_counter key t d now c)) ts old"

lemma counter_run_Nil [simp]: "counter_run key t d [] old = old"
  by (simp add: counter_run_def)

lemma counter_run_snoc:
  "counter_run key t d (ts @ [now]) old = Some (next_counter key t d now (counter_run key t d ts old))"
  by (simp add: counter_run_def)

lemma counter_below:
  assumes "0 < t" and "in_i64 t" and "int (length ts) < t" and "ts \<noteq> []"
  shows "\<exists>r. counter_run key t d ts None = Some r \<and> lfFailCount r = int (length ts) \<and> lfLockedUntil r = None"
  using assms(3,4)
proof (induction ts rule: rev_induct)
  case (snoc now ts)
  show ?case
  proof (cases "ts = []")
    case True
    with snoc.prems show ?thesis by (simp add: counter_run_def next_counter_def apply_threshold_def)
  next
    case False
    with snoc obtain r where r: "counter_run key t d ts None = Some r" "lfFailCount r = int (length ts)"
      "lfLockedUntil r = None" by auto
    have "wrap64 (int (length ts) + 1) = int (length ts) + 1"
      using snoc.prems(1) assms(2) by (intro wrap64_id) (simp add: in_i64_def MinInt64_def)
    with r snoc.prems(1) show ?thesis
      by (simp add: counter_run_snoc next_counter_def locked_at_def bump_failure_def Let_def apply_threshold_def)
  qed
qed simp

lemma counter_reaches:
  assumes "0 < t" and "in_i64 t" and "int (length (ts @ [now])) = t"
  shows "\<exists>r. counter_run key t d (ts @ [now]) None = Some r \<and> lfLockedUntil r = Some (now + d)"
proof (cases "ts = []")
  case True
  with assms show ?thesis by (simp add: counter_run_def next_counter_def apply_threshold_def)
next
  case False
  have "int (length ts) < t" using assms(3) by simp
  from counter_below [OF assms(1,2) this False] obtain r where r: "counter_run key t d ts None = Some r"
    "lfFailCount r = int (length ts)" "lfLockedUntil r = None" by blast
  have "wrap64 (int (length ts) + 1) = int (length ts) + 1"
    using assms(2,3) by (intro wrap64_id) (simp add: in_i64_def MinInt64_def)
  with r assms(3) show ?thesis
    by (simp add: counter_run_snoc next_counter_def locked_at_def bump_failure_def Let_def apply_threshold_def)
qed

section \<open>Attempts on one account\<close>

text \<open>The failed attempts on an account, each with its client address and time.\<close>

fun register_all ::
  "login_faults \<Rightarrow> LoginFailureLocker \<Rightarrow> string \<Rightarrow> (string \<times> time) list \<Rightarrow> login_table \<Rightarrow> login_table" where
  "register_all faults l username [] db = db"
| "register_all faults l username ((ip, now) # rest) db =
     register_all faults l username rest (RegisterFailure faults l username ip now db)"

definition from_address :: "LoginFailureLocker \<Rightarrow> string \<Rightarrow> string \<Rightarrow> (string \<times> time) list \<Rightarrow> time list" where
  "from_address l username ip attempts =
     map snd (filter (\<lambda>a. normalize l username (fst a) = normalize l username ip) attempts)"

definition address_ok :: "LoginFailureLocker \<Rightarrow> string \<Rightarrow> string \<Rightarrow> bool" where
  "address_ok l username ip \<longleftrightarrow> snd (normalize l username ip) \<noteq> globalIPMarker"

lemma normalize_user: "fst (normalize l username ip) = fst (normalize l username ip')"
  by (simp add: normalize_def Let_def)

lemma counter_run_Cons:
  "counter_run key t d (now # ts) old = counter_run key t d ts (Some (next_counter key t d now old))"
  by (simp add: counter_run_def)

lemma register_all_spec:
  assumes "no_faults faults" and "keys_unique db"
    and "list_all (\<lambda>a. address_ok l username (fst a)) attempts" and "address_ok l username ip"
  shows "keys_unique (register_all faults l username attempts db)
    \<and> lookup_failure (normalize l username ip) (register_all faults l username attempts db)
      = counter_run (normalize l username ip) (getThreshold l) (getLockDuration l) (from_address l username ip attempts)
          (lookup_failure (normalize l username ip) db)
    \<and> lookup_failure (fst (normalize l username ip), globalIPMarker) (register_all faults l username attempts db)
      = counter_run (fst (normalize l username ip), globalIPMarker) (getGlobalThreshold l) (getGlobalLockDuration l)
          (map snd attempts) (lookup_failure (fst (normalize l username ip), globalIPMarker) db)"
  using assms(2,3)
proof (induction attempts arbitrary: db)
  case Nil
  then show ?case by (simp add: counter_run_def from_address_def)
next
  case (Cons a attempts)
  obtain ip' now where a: "a = (ip', now)" by fastforce
  let ?k = "normalize l username ip'" and ?g = "(fst (normalize l username ip), globalIPMarker)"
  let ?db1 = "count_failure faults ?k (getThreshold l) (getLockDuration l) now db"
  let ?db2 = "count_failure faults ?g (getGlobalThreshold l) (getGlobalLockDuration l) now ?db1"
  have reg: "RegisterFailure faults l username ip' now db = ?db2"
    by (simp add: RegisterFailure_def Let_def normalize_user [of l username ip' ip])
  note S1 = count_failure_spec [where key = ?k and t = "getThreshold l" and d = "getLockDuration l" and now = now,
      OF assms(1) Cons.prems(1)]
  have u1: "keys_unique ?db1" using S1 by blast
  note S2 = count_failure_spec [where key = ?g and t = "getGlobalThreshold l" and d = "getGlobalLockDuration l" and now = now,
      OF assms(1) u1]
  have ne: "?k \<noteq> ?g" "normalize l username ip \<noteq> ?g"
    using Cons.prems(2) assms(4) a by (auto simp: address_ok_def prod_eq_iff)
  have "keys_unique ?db2" using S2 by blast
  note IH = Cons.IH [OF this] 
  have ip: "lookup_failure (normalize l username ip) ?db2
      = (if ?k = normalize l username ip
         then Some (next_counter ?k (getThreshold l) (getLockDuration l) now (lookup_failure ?k db))
         else lookup_failure (normalize l username ip) db)"
    using S1 S2 ne by auto
  have gl: "lookup_failure ?g ?db2
      = Some (next_counter ?g (getGlobalThreshold l) (getGlobalLockDuration l) now (lookup_failure ?g db))"
    using S1 S2 ne(1) by auto
  show ?case
    using IH Cons.prems(2) ip gl by (auto simp: a reg from_address_def counter_run_Cons)
qed

lemma check_lock_spec:
  assumes "no_faults faults"
  shows "check_lock faults key now db =
    (case lookup_failure key db of
       None \<Rightarrow> (None, db)
     | Some r \<Rightarrow> if locked_at now r then (lfLockedUntil r, db)
                 else if lfLockedUntil r = None then (None, db) else (None, filter (\<lambda>r. failure_key r \<noteq> key) db))"
  using assms by (auto simp: check_lock_def find_failure_def delete_failure_def locked_at_def no_faults_def split: option.splits)

text \<open>
  C17. The lock. On an account without recorded failures and a database that works, let failed attempts
  come from any addresses. If those from one address number exactly the threshold, the account is
  locked from that address until the last of them plus the lock duration. If all of them number
  exactly the global threshold, the account is locked from every address. Below both thresholds it is
  not locked.
\<close>

theorem login_lock_exact:
  assumes "no_faults faults" and "keys_unique db"
    and "list_all (\<lambda>a. address_ok l username (fst a)) attempts" and "address_ok l username ip"
    and "lookup_failure (normalize l username ip) db = None"
    and "lookup_failure (fst (normalize l username ip), globalIPMarker) db = None"
    and "0 < getThreshold l" and "in_i64 (getThreshold l)" and "0 < getGlobalThreshold l" and "in_i64 (getGlobalThreshold l)"
  shows "(int (length (from_address l username ip attempts)) = getThreshold l
          \<and> now < last (from_address l username ip attempts) + getLockDuration l \<longrightarrow>
        fst (IsLocked faults l username ip now (register_all faults l username attempts db))
          = (last (from_address l username ip attempts) + getLockDuration l, True))
    \<and> (int (length attempts) = getGlobalThreshold l
          \<and> now < snd (last attempts) + getGlobalLockDuration l \<longrightarrow>
        snd (fst (IsLocked faults l username ip now (register_all faults l username attempts db))))
    \<and> (int (length (from_address l username ip attempts)) < getThreshold l
          \<and> int (length attempts) < getGlobalThreshold l \<longrightarrow>
        \<not> snd (fst (IsLocked faults l username ip now (register_all faults l username attempts db))))"
proof -
  let ?k = "normalize l username ip" and ?g = "(fst (normalize l username ip), globalIPMarker)"
  let ?own = "from_address l username ip attempts" and ?db = "register_all faults l username attempts db"
  note R = register_all_spec [OF assms(1-4)]
  have own: "lookup_failure ?k ?db = counter_run ?k (getThreshold l) (getLockDuration l) ?own None"
    and all: "lookup_failure ?g ?db = counter_run ?g (getGlobalThreshold l) (getGlobalLockDuration l) (map snd attempts) None"
    using R assms(5,6) by auto
  have ne: "?g \<noteq> ?k" using assms(4) by (auto simp: address_ok_def prod_eq_iff)
  then have keep: "lookup_failure ?g (filter (\<lambda>r. failure_key r \<noteq> ?k) ?db) = lookup_failure ?g ?db"
    by (simp add: lookup_filter)
  note lock = IsLocked_def check_lock_spec [OF assms(1)]
  show ?thesis
  proof (intro conjI impI; elim conjE)
    assume n: "int (length ?own) = getThreshold l" and now: "now < last ?own + getLockDuration l"
    then have "?own \<noteq> []" using assms(7) by auto
    then have split: "?own = butlast ?own @ [last ?own]" by simp
    have "\<exists>r. counter_run ?k (getThreshold l) (getLockDuration l) (butlast ?own @ [last ?own]) None = Some r
        \<and> lfLockedUntil r = Some (last ?own + getLockDuration l)"
      using counter_reaches [OF assms(7,8)] n split by metis
    then obtain r where "lookup_failure ?k ?db = Some r" "lfLockedUntil r = Some (last ?own + getLockDuration l)"
      using own split by metis
    with now show "fst (IsLocked faults l username ip now ?db) = (last ?own + getLockDuration l, True)"
      by (simp add: lock locked_at_def Let_def)
  next
    assume n: "int (length attempts) = getGlobalThreshold l" and now: "now < snd (last attempts) + getGlobalLockDuration l"
    then have "attempts \<noteq> []" using assms(9) by auto
    then have split: "map snd attempts = map snd (butlast attempts) @ [snd (last attempts)]"
      by (metis append_butlast_last_id list.map(1,2) map_append)
    have "\<exists>r. counter_run ?g (getGlobalThreshold l) (getGlobalLockDuration l)
          (map snd (butlast attempts) @ [snd (last attempts)]) None = Some r
        \<and> lfLockedUntil r = Some (snd (last attempts) + getGlobalLockDuration l)"
      using counter_reaches [OF assms(9,10)] n split by (metis length_map)
    then obtain r where "lookup_failure ?g ?db = Some r"
      "lfLockedUntil r = Some (snd (last attempts) + getGlobalLockDuration l)"
      using all split by metis
    with now keep show "snd (fst (IsLocked faults l username ip now ?db))"
      by (auto simp: lock locked_at_def Let_def split: option.splits)
  next
    assume n: "int (length ?own) < getThreshold l" "int (length attempts) < getGlobalThreshold l"
    have "lookup_failure ?k ?db = None \<or> (\<exists>r. lookup_failure ?k ?db = Some r \<and> lfLockedUntil r = None)"
      using own counter_below [where key = ?k and d = "getLockDuration l", OF assms(7,8) n(1)] by (cases "?own = []") auto
    moreover have "lookup_failure ?g ?db = None \<or> (\<exists>r. lookup_failure ?g ?db = Some r \<and> lfLockedUntil r = None)"
      using all counter_below [where key = ?g and d = "getGlobalLockDuration l" and ts = "map snd attempts", OF assms(9,10)] n(2)
      by (cases "attempts = []") auto
    ultimately show "\<not> snd (fst (IsLocked faults l username ip now ?db))"
      by (auto simp: lock locked_at_def Let_def)
  qed
qed

text \<open>
  Release. After a successful login neither counter of the account and address exists and the
  account is not locked from there. While a counter is locked, further failures leave its row as it
  is: the lock is not extended.
\<close>

theorem login_lock_release:
  assumes "no_faults faults" and "keys_unique db" and "address_ok l username ip"
  shows "\<not> snd (fst (IsLocked faults l username ip now (RegisterSuccess faults l username ip db)))
    \<and> (\<forall>r key. key \<in> {normalize l username ip, (fst (normalize l username ip), globalIPMarker)}
         \<and> lookup_failure key db = Some r \<and> locked_at now r
         \<longrightarrow> lookup_failure key (RegisterFailure faults l username ip now db) = Some r)"
proof (intro conjI allI impI)
  let ?k = "normalize l username ip" and ?g = "(fst (normalize l username ip), globalIPMarker)"
  have ne: "?g \<noteq> ?k" using assms(3) by (auto simp: address_ok_def prod_eq_iff)
  show "\<not> snd (fst (IsLocked faults l username ip now (RegisterSuccess faults l username ip db)))"
    by (simp add: IsLocked_def check_lock_spec [OF assms(1)] RegisterSuccess_def Let_def delete_failure_spec [OF assms(1)])
  fix r key
  assume key: "key \<in> {?k, ?g} \<and> lookup_failure key db = Some r \<and> locked_at now r"
  note S1 = count_failure_spec [where key = ?k and t = "getThreshold l" and d = "getLockDuration l" and now = now,
      OF assms(1,2)]
  note S2 = count_failure_spec [where key = ?g and t = "getGlobalThreshold l" and d = "getGlobalLockDuration l"
      and now = now, OF assms(1) conjunct1 [OF S1]]
  have "next_counter key t d now (Some r) = r" for t d using key by (simp add: next_counter_def)
  with key S1 S2 ne show "lookup_failure key (RegisterFailure faults l username ip now db) = Some r"
    by (auto simp: RegisterFailure_def Let_def)
qed

text \<open>
  C40. Concurrent failures are lost. \<open>RegisterFailure\<close> reads a counter and writes it back in separate
  statements. When two failures read the same row before either writes, the counter goes up by one, not
  by two: the second write overwrites the first, so parallel attempts are not all counted.
\<close>

theorem concurrent_failures_lost:
  assumes "no_faults faults" and "keys_unique db" and "lookup_failure key db = Some r" and "lfLockedUntil r = None"
    and "0 \<le> lfFailCount r" and "lfFailCount r + 2 < t" and "in_i64 t"
  shows "map_option lfFailCount (lookup_failure key
        (write_failure faults key t d now2 (find_failure faults key db)
          (write_failure faults key t d now1 (find_failure faults key db) db))) = Some (lfFailCount r + 1)
    \<and> map_option lfFailCount (lookup_failure key
        (count_failure faults key t d now2 (count_failure faults key t d now1 db))) = Some (lfFailCount r + 2)"
proof -
  have k: "failure_key r = key" by (rule lookup_key [OF assms(3)])
  have w: "wrap64 (lfFailCount r + 1) = lfFailCount r + 1" "wrap64 (lfFailCount r + 2) = lfFailCount r + 2"
    using assms(5-7) by (auto intro!: wrap64_id simp: in_i64_def MinInt64_def)
  have fnd: "find_failure faults key db = Some r" using assms(1,3) by (simp add: find_failure_def no_faults_def)
  have wr: "write_failure faults key t d now (Some r) x
      = update_where (\<lambda>x. failure_key x = key) (\<lambda>_. bump_failure t d now r) x" for now x
    using assms(1,4) k by (simp add: write_failure_def save_failure_def no_faults_def)
  let ?db1 = "update_where (\<lambda>x. failure_key x = key) (\<lambda>_. bump_failure t d now1 r) db"
  have dist: "distinct (map failure_key db)" using assms(2) by (simp add: keys_unique_def)
  have "map failure_key ?db1 = map failure_key db" using k by (auto simp: update_where_def)
  then have "lookup_failure key (update_where (\<lambda>x. failure_key x = key) (\<lambda>_. bump_failure t d now2 r) ?db1)
      = Some (bump_failure t d now2 r)"
    using lookup_update [of ?db1 "bump_failure t d now2 r" key key]
      lookup_update [of db "bump_failure t d now1 r" key key] dist k assms(3) by simp
  moreover have b: "lfFailCount (bump_failure t d now r) = lfFailCount r + 1"
    "lfLockedUntil (bump_failure t d now r) = None" for now
    using assms(4,6) w(1) by (simp_all add: bump_failure_def Let_def apply_threshold_def)
  moreover have "lookup_failure key (count_failure faults key t d now2 (count_failure faults key t d now1 db))
      = Some (bump_failure t d now2 (bump_failure t d now1 r))"
    using count_failure_spec [where key = key and t = t and d = d and now = now1, OF assms(1,2)]
      count_failure_spec [where key = key and t = t and d = d and now = now2, OF assms(1)] assms(3,4) b(2)
    by (simp add: next_counter_def locked_at_def)
  moreover have "lfFailCount (bump_failure t d now2 (bump_failure t d now1 r)) = lfFailCount r + 2"
    using b w(2) assms(6) by (simp add: bump_failure_def [of t d now2] Let_def apply_threshold_def add.assoc)
  ultimately show ?thesis by (simp add: fnd wr)
qed

section \<open>A concrete run\<close>

definition sample_locker :: LoginFailureLocker where
  "sample_locker = NewLoginFailureLocker
     \<lparr>lkThreshold = 3, lkLockDuration = 100, lkGlobalThreshold = 4, lkGlobalLockDuration = 0, lkSettings = None,
      lkParseDuration = (\<lambda>_. None), lkUnicodeLower = id\<rparr>"

definition sample_attempts :: "(string \<times> time) list" where
  "sample_attempts = [('' 10.0.0.1'', 10), (''10.0.0.1'', 20), (''10.0.0.2'', 25), (''10.0.0.1 '', 30)]"

lemma sample_locker_ok:
  "getThreshold sample_locker = 3" "getGlobalThreshold sample_locker = 4" "getLockDuration sample_locker = 100"
  by (simp_all add: sample_locker_def NewLoginFailureLocker_def getThreshold_def getGlobalThreshold_def getLockDuration_def)

theorem login_lock_exact_witness:
  "fst (IsLocked (\<lambda>_. False) sample_locker '' Admin'' ''10.0.0.1'' 31
     (register_all (\<lambda>_. False) sample_locker ''admin'' sample_attempts [])) = (130, True)"
proof -
  have e: "list_all (\<lambda>a. address_ok sample_locker ''admin'' (fst a)) sample_attempts
      \<and> address_ok sample_locker ''admin'' ''10.0.0.1''
      \<and> from_address sample_locker ''admin'' ''10.0.0.1'' sample_attempts = [10, 20, 30]
      \<and> normalize sample_locker '' Admin'' ''10.0.0.1'' = normalize sample_locker ''admin'' ''10.0.0.1''"
    by code_simp
  have "fst (IsLocked (\<lambda>_. False) sample_locker ''admin'' ''10.0.0.1'' 31
     (register_all (\<lambda>_. False) sample_locker ''admin'' sample_attempts [])) = (130, True)"
    using login_lock_exact [of "\<lambda>_. False" "[]" sample_locker "''admin''" sample_attempts "''10.0.0.1''" 31] e
    by (simp add: no_faults_def keys_unique_def sample_locker_ok in_i64_def MinInt64_def MaxInt64_def)
  then show ?thesis using e by (simp add: IsLocked_def Let_def)
qed

theorem login_lock_release_witness:
  "\<not> snd (fst (IsLocked (\<lambda>_. False) sample_locker ''admin'' ''10.0.0.1'' 31
     (RegisterSuccess (\<lambda>_. False) sample_locker ''admin'' ''10.0.0.1'' [])))"
proof -
  have "address_ok sample_locker ''admin'' ''10.0.0.1''" by code_simp
  with login_lock_release [of "\<lambda>_. False" "[]" sample_locker "''admin''" "''10.0.0.1''" 31] show ?thesis
    by (simp add: no_faults_def keys_unique_def)
qed

theorem concurrent_failures_lost_witness:
  "map_option lfFailCount (lookup_failure (''admin'', ''10.0.0.1'')
     (write_failure (\<lambda>_. False) (''admin'', ''10.0.0.1'') 5 100 21
        (find_failure (\<lambda>_. False) (''admin'', ''10.0.0.1'')
           [\<lparr>lfUsername = ''admin'', lfClientIP = ''10.0.0.1'', lfFailCount = 1, lfLockedUntil = None, lfUpdatedAt = 10\<rparr>])
        (write_failure (\<lambda>_. False) (''admin'', ''10.0.0.1'') 5 100 20
           (find_failure (\<lambda>_. False) (''admin'', ''10.0.0.1'')
              [\<lparr>lfUsername = ''admin'', lfClientIP = ''10.0.0.1'', lfFailCount = 1, lfLockedUntil = None, lfUpdatedAt = 10\<rparr>])
           [\<lparr>lfUsername = ''admin'', lfClientIP = ''10.0.0.1'', lfFailCount = 1, lfLockedUntil = None, lfUpdatedAt = 10\<rparr>]))) = Some 2"
  using concurrent_failures_lost [of "\<lambda>_. False"
      "[\<lparr>lfUsername = ''admin'', lfClientIP = ''10.0.0.1'', lfFailCount = 1, lfLockedUntil = None, lfUpdatedAt = 10\<rparr>]"
      "(''admin'', ''10.0.0.1'')"
      "\<lparr>lfUsername = ''admin'', lfClientIP = ''10.0.0.1'', lfFailCount = 1, lfLockedUntil = None, lfUpdatedAt = 10\<rparr>" 5 100 21 20]
  by (simp add: no_faults_def keys_unique_def failure_key_def in_i64_def MinInt64_def MaxInt64_def)

end
