(* ===== verification/Retention_Rules.thy ===== *)
theory Retention_Rules
  imports Asset_Domain
begin

text \<open>
  The rules of a retention policy and what they keep: \<open>backend/internal/backupasset/retention/contracts.go\<close>
  and the keep state of \<open>policy.go\<close>. A policy keeps a recovery point when it is young enough, when it is
  among the newest, or when it is the newest of a calendar bucket and the rule still has buckets left.
  The state of that decision is carried from point to point, newest first, and from page to page
  through the selection cursor.

  The calendar follows package \<open>time\<close>: an instant counts nanoseconds from 1 January of year 1, a
  Monday, in the proleptic Gregorian calendar. Encoding a rule set as JSON is written out; decoding
  arbitrary JSON is an argument of \<open>ParsePolicyRules\<close>, which accepts a text only when it is the
  encoding of what was decoded. The digest function is an argument as well.
\<close>

section \<open>Rules\<close>

datatype CalendarUnit = CalendarDay | CalendarWeek | CalendarMonth | CalendarYear | CalendarUnitOther string

record CalendarRule =
  ruleUnit :: CalendarUnit
  ruleKeep :: int

record PolicyRules =
  rulesVersion :: int
  rulesAge :: "int option"
  rulesCount :: "int option"
  rulesCalendar :: "CalendarRule list"

definition PolicyRulesVersion1 :: int where "PolicyRulesVersion1 = 1"

definition calendarUnitRank :: "CalendarUnit \<Rightarrow> int" where
  "calendarUnitRank unit =
     (case unit of
        CalendarDay \<Rightarrow> 1
      | CalendarWeek \<Rightarrow> 2
      | CalendarMonth \<Rightarrow> 3
      | CalendarYear \<Rightarrow> 4
      | CalendarUnitOther _ \<Rightarrow> 0)"

fun validate_calendar :: "CalendarUnit list \<Rightarrow> CalendarRule list \<Rightarrow> bool" where
  "validate_calendar seen [] = True"
| "validate_calendar seen (rule # rules) =
     (if calendarUnitRank (ruleUnit rule) = 0 \<or> ruleKeep rule < 1 \<or> ruleKeep rule > 10000
         \<or> ruleUnit rule \<in> set seen then False
      else validate_calendar (ruleUnit rule # seen) rules)"

definition validatePolicyRules :: "PolicyRules \<Rightarrow> (asset_error, unit) result" where
  "validatePolicyRules rules =
     (if rulesVersion rules \<noteq> PolicyRulesVersion1
         \<or> rulesAge rules = None \<and> rulesCount rules = None \<and> rulesCalendar rules = []
      then Inl ErrInvalidState
      else if (case rulesAge rules of Some days \<Rightarrow> days < 1 \<or> days > 36500 | None \<Rightarrow> False)
      then Inl ErrInvalidState
      else if (case rulesCount rules of Some latest \<Rightarrow> latest < 1 \<or> latest > 1000000 | None \<Rightarrow> False)
      then Inl ErrInvalidState
      else if length (rulesCalendar rules) > 4 then Inl ErrInvalidState
      else if \<not> validate_calendar [] (rulesCalendar rules) then Inl ErrInvalidState
      else Inr ())"

section \<open>Canonical form\<close>

text \<open>
  \<open>json.Marshal\<close> of the rule structures: the fields in the order of the declaration, absent selectors
  left out. The unit names of valid rules contain nothing that JSON escapes.
\<close>

definition unit_name :: "CalendarUnit \<Rightarrow> string" where
  "unit_name unit =
     (case unit of
        CalendarDay \<Rightarrow> ''day''
      | CalendarWeek \<Rightarrow> ''week''
      | CalendarMonth \<Rightarrow> ''month''
      | CalendarYear \<Rightarrow> ''year''
      | CalendarUnitOther name \<Rightarrow> name)"

definition json_quote :: "string \<Rightarrow> string" where
  "json_quote s = CHR 0x22 # s @ [CHR 0x22]"

definition json_field :: "string \<Rightarrow> string \<Rightarrow> string" where
  "json_field name value = json_quote name @ '':'' @ value"

definition json_rule :: "CalendarRule \<Rightarrow> string" where
  "json_rule rule =
     ''{'' @ json_field ''unit'' (json_quote (unit_name (ruleUnit rule))) @ '',''
       @ json_field ''keep'' (FormatInt (ruleKeep rule)) @ ''}''"

fun json_rules :: "CalendarRule list \<Rightarrow> string" where
  "json_rules [] = []"
| "json_rules [rule] = json_rule rule"
| "json_rules (rule # rules) = json_rule rule @ '','' @ json_rules rules"

definition json_policy :: "PolicyRules \<Rightarrow> string" where
  "json_policy rules =
     ''{'' @ json_field ''version'' (FormatInt (rulesVersion rules))
       @ (case rulesAge rules of None \<Rightarrow> [] | Some days \<Rightarrow>
            '','' @ json_field ''age'' (''{'' @ json_field ''keep_days'' (FormatInt days) @ ''}''))
       @ (case rulesCount rules of None \<Rightarrow> [] | Some latest \<Rightarrow>
            '','' @ json_field ''count'' (''{'' @ json_field ''keep_latest'' (FormatInt latest) @ ''}''))
       @ (if rulesCalendar rules = [] then []
          else '','' @ json_field ''calendar'' (''['' @ json_rules (rulesCalendar rules) @ '']''))
       @ ''}''"

text \<open>
  The ranks of the valid rules are distinct, so \<open>sort.Slice\<close> has one result. \<open>digest\<close> is
  \<open>sha256.Sum256\<close>.
\<close>

definition canonical_rules :: "PolicyRules \<Rightarrow> PolicyRules" where
  "canonical_rules rules = rules\<lparr>rulesCalendar := sort_key (\<lambda>rule. calendarUnitRank (ruleUnit rule)) (rulesCalendar rules)\<rparr>"

definition CanonicalizePolicyRules ::
  "(string \<Rightarrow> nat list) \<Rightarrow> PolicyRules \<Rightarrow> (asset_error, string \<times> string) result" where
  "CanonicalizePolicyRules digest rules =
     bind_result (validatePolicyRules rules) (\<lambda>_.
       let payload = json_policy (canonical_rules rules)
       in Inr (payload, EncodeToString (digest payload)))"

text \<open>
  \<open>decode\<close> is the strict JSON decoder: the value of the first document, and whether nothing but white
  space follows it.
\<close>

definition ParsePolicyRules ::
  "(string \<Rightarrow> (PolicyRules \<times> bool) option) \<Rightarrow> (string \<Rightarrow> nat list) \<Rightarrow> string \<Rightarrow> (asset_error, PolicyRules) result" where
  "ParsePolicyRules decode digest payload =
     (case decode payload of
        None \<Rightarrow> Inl ErrInvalidState
      | Some (rules, at_end) \<Rightarrow>
          if \<not> at_end then Inl ErrInvalidState
          else
            bind_result (CanonicalizePolicyRules digest rules) (\<lambda>(canonical, _).
              if TrimSpace payload \<noteq> canonical then Inl ErrInvalidState else Inr rules))"

section \<open>The calendar\<close>

text \<open>
  The date of a day number, as package \<open>time\<close> computes it: cycles of 400, 100, 4 and 1 years, the
  fourth century and the fourth year of a cycle taking up its extra day.
\<close>

definition year_day :: "int \<Rightarrow> int \<times> int" where
  "year_day day =
     (let n400 = day div 146097; d = day mod 146097;
          n100 = d div 36524 - d div 36524 div 4; d = d - 36524 * n100;
          n4 = d div 1461; d = d - 1461 * n4;
          n1 = d div 365 - d div 365 div 4; d = d - 365 * n1
      in (400 * n400 + 100 * n100 + 4 * n4 + n1 + 1, d))"

definition isLeap :: "int \<Rightarrow> bool" where
  "isLeap year \<longleftrightarrow> year mod 4 = 0 \<and> (year mod 100 \<noteq> 0 \<or> year mod 400 = 0)"

fun month_day :: "int list \<Rightarrow> int \<Rightarrow> int \<Rightarrow> int \<times> int" where
  "month_day [] month yday = (month, yday + 1)"
| "month_day (len # lens) month yday =
     (if yday < len then (month, yday + 1) else month_day lens (month + 1) (yday - len))"

definition month_lengths :: "int \<Rightarrow> int list" where
  "month_lengths year = [31, if isLeap year then 29 else 28, 31, 30, 31, 30, 31, 31, 30, 31, 30, 31]"

definition civil_date :: "int \<Rightarrow> int \<times> int \<times> int" where
  "civil_date day =
     (let (year, yday) = year_day day; (month, mday) = month_day (month_lengths year) 1 yday
      in (year, month, mday))"

text \<open>\<open>ISOWeek\<close>: the week belongs to the year of its Thursday.\<close>

definition iso_week :: "int \<Rightarrow> int \<times> int" where
  "iso_week day = (let (year, yday) = year_day (day - day mod 7 + 3) in (year, yday div 7 + 1))"

definition pad :: "nat \<Rightarrow> int \<Rightarrow> string" where
  "pad width n = (let s = FormatInt n in replicate (width - length s) CHR ''0'' @ s)"

definition day_number :: "time \<Rightarrow> int" where
  "day_number t = t div (24 * Hour)"

definition calendarBucket :: "time \<Rightarrow> CalendarUnit \<Rightarrow> string" where
  "calendarBucket value unit =
     (case unit of
        CalendarDay \<Rightarrow> (case civil_date (day_number value) of (year, month, mday) \<Rightarrow>
          pad 4 year @ ''-'' @ pad 2 month @ ''-'' @ pad 2 mday)
      | CalendarWeek \<Rightarrow> (case iso_week (day_number value) of (year, week) \<Rightarrow>
          pad 4 year @ ''-W'' @ pad 2 week)
      | CalendarMonth \<Rightarrow> (case civil_date (day_number value) of (year, month, _) \<Rightarrow>
          pad 4 year @ ''-'' @ pad 2 month)
      | CalendarYear \<Rightarrow> (case civil_date (day_number value) of (year, _, _) \<Rightarrow> pad 4 year)
      | CalendarUnitOther _ \<Rightarrow> [])"

section \<open>The keep state\<close>

text \<open>
  A bucket map of Go is the list of the buckets that are present, without repetition. The map of a
  cursor may also hold buckets marked absent; they are dropped when the state is built.
\<close>

record calendarKeepState =
  keepUnit :: CalendarUnit
  keepLimit :: int
  keepBuckets :: "string list"

record selectionKeepState =
  keepSeen :: int
  keepCutoff :: "time option"
  keepLatest :: int
  keepCalendar :: "calendarKeepState list"

type_synonym bucket_map = "(string \<times> bool) list"

record selectionResume =
  resumeCapturedAt :: "time option"
  resumeID :: string
  resumeSeen :: int
  resumeCalendar :: "bucket_map list"
  resumePolicyID :: string
  resumeRevision :: int
  resumeDigest :: string
  resumeEvaluatedAt :: time

definition present_buckets :: "bucket_map \<Rightarrow> string list" where
  "present_buckets m = remdups (map fst (filter snd m))"

definition rule_state :: "bucket_map list \<Rightarrow> nat \<Rightarrow> CalendarRule \<Rightarrow> calendarKeepState" where
  "rule_state maps index rule =
     \<lparr>keepUnit = ruleUnit rule, keepLimit = ruleKeep rule,
      keepBuckets = (if index < length maps then present_buckets (maps ! index) else [])\<rparr>"

definition newSelectionKeepState :: "PolicyRules \<Rightarrow> time \<Rightarrow> selectionResume \<Rightarrow> selectionKeepState" where
  "newSelectionKeepState rules evaluatedAt resume =
     \<lparr>keepSeen = resumeSeen resume,
      keepCutoff = map_option (\<lambda>days. evaluatedAt - days * (24 * Hour)) (rulesAge rules),
      keepLatest = (case rulesCount rules of Some latest \<Rightarrow> latest | None \<Rightarrow> 0),
      keepCalendar = map (\<lambda>(index, rule). rule_state (resumeCalendar resume) index rule)
        (zip [0..<length (rulesCalendar rules)] (rulesCalendar rules))\<rparr>"

definition keep_bucket :: "time \<Rightarrow> calendarKeepState \<Rightarrow> calendarKeepState \<times> bool" where
  "keep_bucket capturedAt c =
     (let bucket = calendarBucket capturedAt (keepUnit c) in
      if bucket \<in> set (keepBuckets c) then (c, False)
      else if int (length (keepBuckets c)) \<ge> keepLimit c then (c, False)
      else (c\<lparr>keepBuckets := keepBuckets c @ [bucket]\<rparr>, True))"

definition keep :: "time \<Rightarrow> selectionKeepState \<Rightarrow> selectionKeepState \<times> bool" where
  "keep capturedAt state =
     (let young = (case keepCutoff state of Some cutoff \<Rightarrow> \<not> capturedAt < cutoff | None \<Rightarrow> False);
          latest = (keepLatest state > 0 \<and> keepSeen state < keepLatest state);
          rules = map (keep_bucket capturedAt) (keepCalendar state)
      in (state\<lparr>keepCalendar := map fst rules, keepSeen := wrap64 (keepSeen state + 1)\<rparr>,
          young \<or> latest \<or> list_ex snd rules))"

definition snapshotCalendar :: "selectionKeepState \<Rightarrow> bucket_map list" where
  "snapshotCalendar state = map (\<lambda>c. map (\<lambda>b. (b, True)) (keepBuckets c)) (keepCalendar state)"

end
