(* ===== verification/Secure_Crypto.thy ===== *)
theory Secure_Crypto
  imports Asset_Domain
begin

text \<open>
  Package \<open>secure\<close> (\<open>backend/internal/secure/crypto.go\<close> and \<open>keyring.go\<close>): the encryption of
  sensitive text fields under the data key, and the wrapping of domain keys under it.

  Byte slices are strings, as in the conversions the code makes. The primitives of the Go library and
  of \<open>x/crypto\<close> (AES-GCM, SHA-256, Argon2id, base64 and the decoding of a JSON envelope) are the
  fields of \<open>crypto_lib\<close>; what the code relies on is \<open>crypto_laws\<close>. The environment holds the
  variables the process reads, its random bytes and the library. The keys are derived from variables
  that do not change while the process runs, so \<open>sync.Once\<close> leaves no trace in the model.
\<close>

section \<open>Primitives and environment\<close>

record domainKeyEnvelope =
  envVersion :: string
  envAlgorithm :: string
  envNonce :: string
  envCiphertext :: string
  envKEKFingerprint :: string

record crypto_lib =
  clB64Encode :: "string \<Rightarrow> string"
  clB64Decode :: "string \<Rightarrow> string option"
  clRawEncode :: "string \<Rightarrow> string"
  clRawDecode :: "string \<Rightarrow> string option"
  clArgon2 :: "string \<Rightarrow> string"
  clSha256 :: "string \<Rightarrow> string"
  clSeal :: "string \<Rightarrow> string \<Rightarrow> string \<Rightarrow> string \<Rightarrow> string"
  clOpen :: "string \<Rightarrow> string \<Rightarrow> string \<Rightarrow> string \<Rightarrow> string option"
  clDecodeEnvelope :: "string \<Rightarrow> (domainKeyEnvelope \<times> bool) option"

record crypto_env =
  cvDataKey :: string
  cvLegacyKey :: string
  cvDevelopment :: bool
  cvRandomKey :: "string option"
  cvNonce :: "string option"
  cvLib :: crypto_lib

datatype crypto_error =
    CryptoKeyMissing | CryptoRandomKey | CryptoLegacyBlank | CryptoInvalidKey | CryptoCipher | CryptoNonce
  | CryptoFormat | CryptoShort | CryptoOpen
  | DomainRequired | DomainVersionInvalid | DomainKeyLength | WrappedInputInvalid | WrappedMetadataInvalid
  | EnvelopeInvalid | EnvelopeMetadataInvalid | EnvelopeNonceInvalid | EnvelopeCiphertextInvalid | WrappedUnavailable

section \<open>Data keys\<close>

definition decoded_key :: "crypto_lib \<Rightarrow> string \<Rightarrow> string option" where
  "decoded_key lib raw =
     (case clB64Decode lib raw of
        Some decoded \<Rightarrow> if 32 \<le> length decoded then Some (take 32 decoded) else None
      | None \<Rightarrow> None)"

definition deriveLegacyKey :: "crypto_lib \<Rightarrow> string \<Rightarrow> (crypto_error, string) result" where
  "deriveLegacyKey lib raw =
     (if TrimSpace raw = [] then Inl CryptoLegacyBlank
      else case decoded_key lib raw of Some key \<Rightarrow> Inr key | None \<Rightarrow> Inr (clSha256 lib raw))"

definition deriveKeyPair :: "crypto_lib \<Rightarrow> string \<Rightarrow> (crypto_error, string \<times> string) result" where
  "deriveKeyPair lib raw =
     (case decoded_key lib raw of
        Some key \<Rightarrow> Inr (key, key)
      | None \<Rightarrow> bind_result (deriveLegacyKey lib raw) (\<lambda>legacy. Inr (clArgon2 lib raw, legacy)))"

definition loadKey :: "crypto_env \<Rightarrow> (crypto_error, string \<times> string) result" where
  "loadKey env =
     (let raw = TrimSpace (cvDataKey env); lib = cvLib env in
      bind_result
        (if raw = [] then
           if \<not> cvDevelopment env then Inl CryptoKeyMissing
           else case cvRandomKey env of None \<Rightarrow> Inl CryptoRandomKey | Some buf \<Rightarrow> Inr (clB64Encode lib buf)
         else Inr raw) (\<lambda>raw.
      bind_result (deriveKeyPair lib raw) (\<lambda>(primary, legacy).
        let legacyRaw = TrimSpace (cvLegacyKey env) in
        if legacyRaw = [] then Inr (primary, legacy)
        else bind_result (deriveLegacyKey lib legacyRaw) (\<lambda>legacy. Inr (primary, legacy)))))"

definition getPrimaryKey :: "crypto_env \<Rightarrow> (crypto_error, string) result" where
  "getPrimaryKey env =
     bind_result (loadKey env) (\<lambda>(primary, legacy).
       if length primary \<noteq> 32 then Inl CryptoInvalidKey else Inr primary)"

definition getLegacyKey :: "crypto_env \<Rightarrow> (crypto_error, string) result" where
  "getLegacyKey env =
     bind_result (loadKey env) (\<lambda>(primary, legacy).
       if length legacy \<noteq> 32 then Inl CryptoInvalidKey else Inr legacy)"

section \<open>Sensitive fields\<close>

definition encryptedPrefixV1 :: string where
  "encryptedPrefixV1 = ''enc:v1:''"

definition encryptedPrefixV2 :: string where
  "encryptedPrefixV2 = ''enc:v2:''"

definition IsEncrypted :: "string \<Rightarrow> bool" where
  "IsEncrypted raw \<longleftrightarrow> HasPrefix raw encryptedPrefixV1 \<or> HasPrefix raw encryptedPrefixV2"

definition IsV1Encrypted :: "string \<Rightarrow> bool" where
  "IsV1Encrypted raw \<longleftrightarrow> HasPrefix raw encryptedPrefixV1"

text \<open>\<open>aes.NewCipher\<close> accepts keys of 16, 24 and 32 bytes; the nonce of GCM has 12.\<close>

definition cipher_key :: "string \<Rightarrow> bool" where
  "cipher_key key \<longleftrightarrow> length key = 16 \<or> length key = 24 \<or> length key = 32"

definition nonceSize :: nat where
  "nonceSize = 12"

definition encryptWithKey :: "crypto_env \<Rightarrow> string \<Rightarrow> string \<Rightarrow> string \<Rightarrow> (crypto_error, string) result" where
  "encryptWithKey env raw prefix key =
     (if \<not> cipher_key key then Inl CryptoCipher
      else case cvNonce env of
        None \<Rightarrow> Inl CryptoNonce
      | Some nonce \<Rightarrow> Inr (prefix @ clB64Encode (cvLib env) (nonce @ clSeal (cvLib env) key nonce raw [])))"

definition decryptWithKey :: "crypto_env \<Rightarrow> string \<Rightarrow> string \<Rightarrow> string \<Rightarrow> (crypto_error, string) result" where
  "decryptWithKey env raw prefix key =
     (case clB64Decode (cvLib env) (TrimPrefix raw prefix) of
        None \<Rightarrow> Inl CryptoFormat
      | Some packed \<Rightarrow>
          if \<not> cipher_key key then Inl CryptoCipher
          else if length packed < nonceSize then Inl CryptoShort
          else case clOpen (cvLib env) key (take nonceSize packed) (drop nonceSize packed) [] of
            None \<Rightarrow> Inl CryptoOpen
          | Some plain \<Rightarrow> Inr plain)"

definition EncryptString :: "crypto_env \<Rightarrow> string \<Rightarrow> (crypto_error, string) result" where
  "EncryptString env raw = bind_result (getPrimaryKey env) (encryptWithKey env raw encryptedPrefixV2)"

definition DecryptString :: "crypto_env \<Rightarrow> string \<Rightarrow> (crypto_error, string) result" where
  "DecryptString env raw =
     (if HasPrefix raw encryptedPrefixV2 then
        bind_result (getPrimaryKey env) (decryptWithKey env raw encryptedPrefixV2)
      else if HasPrefix raw encryptedPrefixV1 then
        bind_result (getLegacyKey env) (decryptWithKey env raw encryptedPrefixV1)
      else Inr raw)"

definition EncryptIfNeeded :: "crypto_env \<Rightarrow> string \<Rightarrow> (crypto_error, string) result" where
  "EncryptIfNeeded env raw =
     (if TrimSpace raw = [] then Inr raw
      else if IsEncrypted raw then Inr raw
      else EncryptString env raw)"

definition DecryptIfNeeded :: "crypto_env \<Rightarrow> string \<Rightarrow> (crypto_error, string) result" where
  "DecryptIfNeeded env raw =
     (if TrimSpace raw = [] then Inr raw
      else if \<not> IsEncrypted raw then Inr raw
      else DecryptString env raw)"

definition ReEncryptV1Value :: "crypto_env \<Rightarrow> string \<Rightarrow> (crypto_error, string \<times> bool) result" where
  "ReEncryptV1Value env raw =
     (if \<not> IsV1Encrypted raw then Inr (raw, False)
      else
        bind_result (DecryptString env raw) (\<lambda>plain.
        bind_result (EncryptString env plain) (\<lambda>encrypted. Inr (encrypted, True))))"

definition encryptBackupAssetField :: "crypto_env \<Rightarrow> string \<Rightarrow> (crypto_error, string) result" where
  "encryptBackupAssetField env value =
     (if TrimSpace value = [] then Inr value else EncryptIfNeeded env value)"

definition decryptBackupAssetField :: "crypto_env \<Rightarrow> string \<Rightarrow> (crypto_error, string) result" where
  "decryptBackupAssetField env value =
     (if TrimSpace value = [] then Inr value else DecryptIfNeeded env value)"

section \<open>Domain keys\<close>

record WrappedDomainKey =
  wkEnvelope :: string
  wkAlgorithm :: string
  wkKEKFingerprint :: string

definition DomainKeySize :: nat where
  "DomainKeySize = 32"

definition DomainKeyWrapAlgorithm :: string where
  "DomainKeyWrapAlgorithm = ''aes-256-gcm''"

definition domainKeyEnvelopeV1 :: string where
  "domainKeyEnvelopeV1 = ''xirang-wrapped-key-v1''"

definition validateDomainKeyInput :: "string \<Rightarrow> int \<Rightarrow> string \<Rightarrow> (crypto_error, unit) result" where
  "validateDomainKeyInput domain version plaintext =
     (if TrimSpace domain = [] \<or> CHR 0x00 \<in> set domain then Inl DomainRequired
      else if version \<le> 0 then Inl DomainVersionInvalid
      else if length plaintext \<noteq> DomainKeySize then Inl DomainKeyLength
      else Inr ())"

definition domainKeyAAD :: "string \<Rightarrow> int \<Rightarrow> string \<Rightarrow> string" where
  "domainKeyAAD domain version algorithm = domain @ [CHR 0x00] @ FormatInt version @ [CHR 0x00] @ algorithm"

definition kekFingerprint :: "crypto_lib \<Rightarrow> string \<Rightarrow> string" where
  "kekFingerprint lib kek = EncodeToString (map of_char (clSha256 lib kek))"

text \<open>
  \<open>json.Marshal\<close> of the envelope: its texts are constants, base64 and hexadecimal digits, which need no
  escapes.
\<close>

definition json_text :: "string \<Rightarrow> string \<Rightarrow> string" where
  "json_text name value = CHR 0x22 # name @ [CHR 0x22, CHR '':'', CHR 0x22] @ value @ [CHR 0x22]"

definition json_envelope :: "domainKeyEnvelope \<Rightarrow> string" where
  "json_envelope e =
     ''{'' @ json_text ''version'' (envVersion e) @ '','' @ json_text ''algorithm'' (envAlgorithm e)
       @ '','' @ json_text ''nonce'' (envNonce e) @ '','' @ json_text ''ciphertext'' (envCiphertext e)
       @ '','' @ json_text ''kek_fingerprint'' (envKEKFingerprint e) @ ''}''"

definition wrapDomainKeyWithKEK ::
  "crypto_env \<Rightarrow> string \<Rightarrow> int \<Rightarrow> string \<Rightarrow> string \<Rightarrow> (crypto_error, WrappedDomainKey) result" where
  "wrapDomainKeyWithKEK env domain version plaintext kek =
     (if \<not> cipher_key kek then Inl CryptoCipher
      else case cvNonce env of
        None \<Rightarrow> Inl CryptoNonce
      | Some nonce \<Rightarrow>
          let lib = cvLib env;
              fingerprint = kekFingerprint lib kek;
              envelope = \<lparr>envVersion = domainKeyEnvelopeV1, envAlgorithm = DomainKeyWrapAlgorithm,
                envNonce = clRawEncode lib nonce,
                envCiphertext = clRawEncode lib (clSeal lib kek nonce plaintext (domainKeyAAD domain version DomainKeyWrapAlgorithm)),
                envKEKFingerprint = fingerprint\<rparr>
          in Inr \<lparr>wkEnvelope = json_envelope envelope, wkAlgorithm = DomainKeyWrapAlgorithm, wkKEKFingerprint = fingerprint\<rparr>)"

definition WrapDomainKey :: "crypto_env \<Rightarrow> string \<Rightarrow> int \<Rightarrow> string \<Rightarrow> (crypto_error, WrappedDomainKey) result" where
  "WrapDomainKey env domain version plaintext =
     bind_result (validateDomainKeyInput domain version plaintext) (\<lambda>_.
     bind_result (getPrimaryKey env) (wrapDomainKeyWithKEK env domain version plaintext))"

definition openDomainKey :: "crypto_lib \<Rightarrow> string \<Rightarrow> string \<Rightarrow> string \<Rightarrow> string \<Rightarrow> string option" where
  "openDomainKey lib kek nonce ciphertext aad =
     (if \<not> cipher_key kek then None
      else if length nonce \<noteq> nonceSize then None
      else clOpen lib kek nonce ciphertext aad)"

definition domainWrappingKEKs :: "crypto_env \<Rightarrow> (crypto_error, string list) result" where
  "domainWrappingKEKs env =
     bind_result (getPrimaryKey env) (\<lambda>current.
       let legacyRaw = TrimSpace (cvLegacyKey env) in
       if legacyRaw = [] then Inr [current]
       else bind_result (deriveKeyPair (cvLib env) legacyRaw) (\<lambda>(legacyV2, _).
         Inr (if current \<noteq> legacyV2 then [current, legacyV2] else [current])))"

fun open_with :: "crypto_lib \<Rightarrow> string \<Rightarrow> string \<Rightarrow> string \<Rightarrow> string \<Rightarrow> string list \<Rightarrow> string option" where
  "open_with lib fingerprint nonce ciphertext aad [] = None"
| "open_with lib fingerprint nonce ciphertext aad (candidate # candidates) =
     (if kekFingerprint lib candidate \<noteq> fingerprint then open_with lib fingerprint nonce ciphertext aad candidates
      else case openDomainKey lib candidate nonce ciphertext aad of
        Some plaintext \<Rightarrow>
          if length plaintext = DomainKeySize then Some plaintext
          else open_with lib fingerprint nonce ciphertext aad candidates
      | None \<Rightarrow> open_with lib fingerprint nonce ciphertext aad candidates)"

definition UnwrapDomainKey :: "crypto_env \<Rightarrow> string \<Rightarrow> int \<Rightarrow> WrappedDomainKey \<Rightarrow> (crypto_error, string) result" where
  "UnwrapDomainKey env domain version wrapped =
     (let lib = cvLib env in
      if TrimSpace domain = [] \<or> version \<le> 0 \<or> TrimSpace (wkEnvelope wrapped) = [] then Inl WrappedInputInvalid
      else if wkAlgorithm wrapped \<noteq> DomainKeyWrapAlgorithm \<or> length (wkKEKFingerprint wrapped) \<noteq> 64
      then Inl WrappedMetadataInvalid
      else case clDecodeEnvelope lib (wkEnvelope wrapped) of
        None \<Rightarrow> Inl EnvelopeInvalid
      | Some (envelope, at_end) \<Rightarrow>
          if \<not> at_end then Inl EnvelopeInvalid
          else if envVersion envelope \<noteq> domainKeyEnvelopeV1 \<or> envAlgorithm envelope \<noteq> wkAlgorithm wrapped
             \<or> envKEKFingerprint envelope \<noteq> wkKEKFingerprint wrapped
          then Inl EnvelopeMetadataInvalid
          else case clRawDecode lib (envNonce envelope) of
            None \<Rightarrow> Inl EnvelopeNonceInvalid
          | Some nonce \<Rightarrow>
              (case clRawDecode lib (envCiphertext envelope) of
                 None \<Rightarrow> Inl EnvelopeCiphertextInvalid
               | Some ciphertext \<Rightarrow>
                   bind_result (domainWrappingKEKs env) (\<lambda>candidates.
                     case open_with lib (wkKEKFingerprint wrapped) nonce ciphertext
                            (domainKeyAAD domain version (wkAlgorithm wrapped)) candidates of
                       Some plaintext \<Rightarrow> Inr plaintext
                     | None \<Rightarrow> Inl WrappedUnavailable)))"

section \<open>What the primitives promise\<close>

text \<open>
  Decoding inverts encoding, and opening inverts sealing under the same key, nonce and additional data
  for keys and nonces of the lengths in use; a SHA-256 sum has 32 bytes; base64 has no character JSON
  escapes (it is printable ASCII, of bytes 32 to 126), and an envelope of such texts decodes to itself.
\<close>

definition json_char :: "char \<Rightarrow> bool" where
  "json_char c \<longleftrightarrow> \<not> digit7 c \<and> (digit6 c \<or> digit5 c) \<and> c \<noteq> CHR 0x7F
     \<and> c \<noteq> CHR 0x22 \<and> c \<noteq> CHR 0x5C \<and> c \<noteq> CHR ''<'' \<and> c \<noteq> CHR ''>'' \<and> c \<noteq> CHR ''&''"

definition json_plain :: "string \<Rightarrow> bool" where
  "json_plain s \<longleftrightarrow> list_all json_char s"

definition plain_envelope :: "domainKeyEnvelope \<Rightarrow> bool" where
  "plain_envelope e \<longleftrightarrow> json_plain (envVersion e) \<and> json_plain (envAlgorithm e) \<and> json_plain (envNonce e)
     \<and> json_plain (envCiphertext e) \<and> json_plain (envKEKFingerprint e)"

definition crypto_laws :: "crypto_lib \<Rightarrow> bool" where
  "crypto_laws lib \<longleftrightarrow>
     (\<forall>s. clB64Decode lib (clB64Encode lib s) = Some s)
   \<and> (\<forall>s. clRawDecode lib (clRawEncode lib s) = Some s \<and> json_plain (clRawEncode lib s))
   \<and> (\<forall>s. length (clSha256 lib s) = 32)
   \<and> (\<forall>key nonce plain aad. cipher_key key \<longrightarrow> length nonce = nonceSize \<longrightarrow>
        clOpen lib key nonce (clSeal lib key nonce plain aad) aad = Some plain)
   \<and> (\<forall>e. plain_envelope e \<longrightarrow> clDecodeEnvelope lib (json_envelope e) = Some (e, True))"

section \<open>Round trips of fields\<close>

lemma space_heads: "CHR ''e'' \<notin> hd ` set space_seqs" "CHR ''{'' \<notin> hd ` set space_seqs"
  by (simp_all add: space_seqs_def)

lemma IsEncrypted_nonblank: "IsEncrypted s \<Longrightarrow> TrimSpace s \<noteq> []"
proof -
  assume "IsEncrypted s"
  then obtain p where p: "p = encryptedPrefixV1 \<or> p = encryptedPrefixV2" "take (length p) s = p"
    by (auto simp: IsEncrypted_def HasPrefix_def)
  then have "s = p @ drop (length p) s" by (metis append_take_drop_id)
  moreover have "p \<noteq> [] \<and> hd p = CHR ''e''" using p(1) by (auto simp: encryptedPrefixV1_def encryptedPrefixV2_def)
  ultimately have "s \<noteq> []" "hd s = CHR ''e''" by (metis append_is_Nil_conv, metis hd_append2)
  then show ?thesis using space_heads by (intro TrimSpace_nonblank) auto
qed

lemma getPrimaryKey_length: "getPrimaryKey env = Inr key \<Longrightarrow> cipher_key key \<and> length key = 32"
  by (auto simp: getPrimaryKey_def cipher_key_def result_simps)

lemma encrypted_field:
  assumes "EncryptString env raw = Inr stored"
  obtains key nonce where "getPrimaryKey env = Inr key" and "cvNonce env = Some nonce"
    and "stored = encryptedPrefixV2 @ clB64Encode (cvLib env) (nonce @ clSeal (cvLib env) key nonce raw [])"
  using assms by (auto simp: EncryptString_def encryptWithKey_def result_simps split: option.splits)

lemma prefix_v2: "IsEncrypted (encryptedPrefixV2 @ s)" "\<not> IsV1Encrypted (encryptedPrefixV2 @ s)"
    "TrimSpace (encryptedPrefixV2 @ s) \<noteq> []"
  by (simp_all add: IsEncrypted_def IsV1Encrypted_def HasPrefix_def encryptedPrefixV1_def encryptedPrefixV2_def
      TrimSpace_nonblank space_heads)

lemma DecryptString_EncryptString:
  assumes "EncryptString env raw = Inr stored" and "crypto_laws (cvLib env)" and "cvLib env' = cvLib env"
    and "getPrimaryKey env' = getPrimaryKey env" and "\<And>nonce. cvNonce env = Some nonce \<Longrightarrow> length nonce = nonceSize"
  shows "DecryptString env' stored = Inr raw \<and> IsEncrypted stored \<and> \<not> IsV1Encrypted stored \<and> TrimSpace stored \<noteq> []"
proof -
  obtain key nonce where key: "getPrimaryKey env = Inr key" and nonce: "cvNonce env = Some nonce"
    and stored: "stored = encryptedPrefixV2 @ clB64Encode (cvLib env) (nonce @ clSeal (cvLib env) key nonce raw [])"
    using assms(1) by (rule encrypted_field)
  have laws: "clB64Decode (cvLib env) (clB64Encode (cvLib env) s) = Some s"
    "clOpen (cvLib env) key nonce (clSeal (cvLib env) key nonce raw []) [] = Some raw" for s
    using assms(2) assms(5) [OF nonce] getPrimaryKey_length [OF key] by (simp_all add: crypto_laws_def)
  show ?thesis using laws key assms(3-5) nonce getPrimaryKey_length [OF key] prefix_v2
    by (simp add: DecryptString_def decryptWithKey_def stored)
qed


section \<open>Round trips of domain keys\<close>

lemma count_nul_FormatInt: "CHR 0x00 \<notin> set (FormatInt v)"
proof -
  have "CHR 0x00 \<notin> set (format_nat n)" for n
  proof
    assume "CHR 0x00 \<in> set (format_nat n)"
    then have "is_digit (CHR 0x00)" using format_nat_digits [of n] by (auto simp: list_all_iff)
    then show False by (simp add: is_digit_def)
  qed
  then show ?thesis by (simp add: FormatInt_def)
qed

lemma domainKeyAAD_inj:
  assumes "domainKeyAAD d v DomainKeyWrapAlgorithm = domainKeyAAD d' v' DomainKeyWrapAlgorithm"
    and "CHR 0x00 \<notin> set d" and "1 \<le> v" and "1 \<le> v'"
  shows "d' = d \<and> v' = v"
proof -
  have "count_list (domainKeyAAD d' v' DomainKeyWrapAlgorithm) (CHR 0x00) = count_list d' (CHR 0x00) + 2" for d' v'
    using count_nul_FormatInt [of v'] by (simp add: domainKeyAAD_def DomainKeyWrapAlgorithm_def count_list_0_iff)
  then have "count_list d' (CHR 0x00) = count_list d (CHR 0x00)" using assms(1) by (metis add_right_cancel)
  then have "CHR 0x00 \<notin> set d'" using assms(2) by (simp add: count_list_0_iff)
  then show ?thesis using assms FormatInt_inj [of v v'] count_nul_FormatInt [of v] count_nul_FormatInt [of v']
    by (simp add: domainKeyAAD_def append_sep_eq)
qed

lemma kekFingerprint_length: "crypto_laws lib \<Longrightarrow> length (kekFingerprint lib kek) = 64"
  by (simp add: kekFingerprint_def crypto_laws_def)

lemma open_with_matching:
  assumes "kek \<in> set candidates" and "\<And>c. c \<in> set candidates \<Longrightarrow> kekFingerprint lib c = kekFingerprint lib kek \<Longrightarrow> c = kek"
    and "openDomainKey lib kek nonce ciphertext aad = Some plaintext" and "length plaintext = DomainKeySize"
  shows "open_with lib (kekFingerprint lib kek) nonce ciphertext aad candidates = Some plaintext"
  using assms(1,2)
proof (induction candidates)
  case (Cons c candidates)
  show ?case
  proof (cases "kekFingerprint lib c = kekFingerprint lib kek")
    case True
    then show ?thesis using Cons.prems(2) [of c] assms(3,4) by simp
  next
    case False
    then show ?thesis using Cons by auto
  qed
qed simp

lemma open_with_foreign:
  assumes "\<And>c. c \<in> set candidates \<Longrightarrow> kekFingerprint lib c = fingerprint \<Longrightarrow> openDomainKey lib c nonce ciphertext aad = None"
  shows "open_with lib fingerprint nonce ciphertext aad candidates = None"
  using assms by (induction candidates) auto

definition wrapped_envelope :: "crypto_lib \<Rightarrow> string \<Rightarrow> string \<Rightarrow> string \<Rightarrow> domainKeyEnvelope" where
  "wrapped_envelope lib kek nonce ciphertext =
     \<lparr>envVersion = domainKeyEnvelopeV1, envAlgorithm = DomainKeyWrapAlgorithm, envNonce = clRawEncode lib nonce,
      envCiphertext = clRawEncode lib ciphertext, envKEKFingerprint = kekFingerprint lib kek\<rparr>"

lemma hex_plain: "list_all (\<lambda>b. b < 256) raw \<Longrightarrow> json_plain (EncodeToString raw)"
proof (induction raw)
  case (Cons b raw)
  have digit: "n < 16 \<Longrightarrow> json_char (hex_digit n)" for n
  proof -
    have "list_all json_char ''0123456789abcdef''" by code_simp
    then show "n < 16 \<Longrightarrow> json_char (hex_digit n)" by (simp add: hex_digit_def list_all_length)
  qed
  have "b div 16 < 16" using Cons.prems by (simp add: less_mult_imp_div_less)
  then show ?case using digit [of "b div 16"] digit [of "b mod 16"] Cons by (simp add: json_plain_def)
qed (simp add: json_plain_def)

lemma wrapped_envelope_plain: "crypto_laws lib \<Longrightarrow> plain_envelope (wrapped_envelope lib kek nonce ciphertext)"
proof -
  assume "crypto_laws lib"
  moreover have "json_plain (kekFingerprint lib kek)"
    unfolding kekFingerprint_def by (intro hex_plain) (simp add: list_all_iff)
  moreover have "json_plain domainKeyEnvelopeV1" "json_plain DomainKeyWrapAlgorithm" by code_simp+
  ultimately show ?thesis by (simp add: plain_envelope_def wrapped_envelope_def crypto_laws_def)
qed

lemma json_envelope_nonblank: "TrimSpace (json_envelope e) \<noteq> []"
  by (intro TrimSpace_nonblank) (simp_all add: json_envelope_def space_heads)

lemma WrapDomainKey_ok:
  assumes "WrapDomainKey env domain version plaintext = Inr wrapped"
  obtains kek nonce where "getPrimaryKey env = Inr kek" and "cvNonce env = Some nonce"
    and "TrimSpace domain \<noteq> []" and "CHR 0x00 \<notin> set domain" and "1 \<le> version" and "length plaintext = DomainKeySize"
    and "wrapped = \<lparr>wkEnvelope = json_envelope (wrapped_envelope (cvLib env) kek nonce
            (clSeal (cvLib env) kek nonce plaintext (domainKeyAAD domain version DomainKeyWrapAlgorithm))),
          wkAlgorithm = DomainKeyWrapAlgorithm, wkKEKFingerprint = kekFingerprint (cvLib env) kek\<rparr>"
  using assms
  by (auto simp: WrapDomainKey_def validateDomainKeyInput_def wrapDomainKeyWithKEK_def wrapped_envelope_def Let_def result_simps
      split: option.splits if_splits)

lemma UnwrapDomainKey_wrapped:
  assumes "crypto_laws (cvLib env)" and "TrimSpace domain \<noteq> []" and "1 \<le> version"
  shows "UnwrapDomainKey env domain version
      \<lparr>wkEnvelope = json_envelope (wrapped_envelope (cvLib env) kek nonce ciphertext),
       wkAlgorithm = DomainKeyWrapAlgorithm, wkKEKFingerprint = kekFingerprint (cvLib env) kek\<rparr> =
    bind_result (domainWrappingKEKs env) (\<lambda>candidates.
      case open_with (cvLib env) (kekFingerprint (cvLib env) kek) nonce ciphertext (domainKeyAAD domain version DomainKeyWrapAlgorithm) candidates of
        Some plaintext \<Rightarrow> Inr plaintext
      | None \<Rightarrow> Inl WrappedUnavailable)"
proof -
  have "clDecodeEnvelope (cvLib env) (json_envelope (wrapped_envelope (cvLib env) kek nonce ciphertext))
      = Some (wrapped_envelope (cvLib env) kek nonce ciphertext, True)"
    "\<And>s. clRawDecode (cvLib env) (clRawEncode (cvLib env) s) = Some s"
    using assms(1) wrapped_envelope_plain [OF assms(1)] by (simp_all add: crypto_laws_def)
  then show ?thesis
    using assms kekFingerprint_length [OF assms(1)] json_envelope_nonblank
    by (simp add: UnwrapDomainKey_def Let_def wrapped_envelope_def)
qed

text \<open>
  The keys a process tries: its own, and the one the former data key gives, so that the data key can be
  rotated.
\<close>

definition can_unwrap :: "crypto_env \<Rightarrow> crypto_env \<Rightarrow> bool" where
  "can_unwrap old new \<longleftrightarrow>
     TrimSpace (cvDataKey old) \<noteq> []
     \<and> (TrimSpace (cvDataKey new) = TrimSpace (cvDataKey old) \<or> TrimSpace (cvLegacyKey new) = TrimSpace (cvDataKey old))"

lemma former_key_candidate:
  assumes "can_unwrap old new" and "cvLib new = cvLib old" and "getPrimaryKey old = Inr kek"
    and "domainWrappingKEKs new = Inr candidates"
  shows "kek \<in> set candidates"
proof -
  obtain legacy where pair: "deriveKeyPair (cvLib old) (TrimSpace (cvDataKey old)) = Inr (kek, legacy)"
    using assms(1,3) by (auto simp: can_unwrap_def getPrimaryKey_def loadKey_def Let_def result_simps split: if_splits)
  show ?thesis
  proof (cases "TrimSpace (cvLegacyKey new) = TrimSpace (cvDataKey old)")
    case True
    then show ?thesis using assms(1,2,4) pair
      by (auto simp: can_unwrap_def domainWrappingKEKs_def Let_def result_simps split: if_splits)
  next
    case False
    then have same: "TrimSpace (cvDataKey new) = TrimSpace (cvDataKey old)" using assms(1) by (simp add: can_unwrap_def)
    have "getPrimaryKey new = Inr p \<Longrightarrow> p = kek" for p
      using assms(1,2) same pair by (auto simp: can_unwrap_def getPrimaryKey_def loadKey_def Let_def result_simps split: if_splits)
    then show ?thesis using assms(4)
      by (auto simp: domainWrappingKEKs_def Let_def result_simps split: if_splits)
  qed
qed

text \<open>Authenticated data: what was sealed with some data does not open with other data.\<close>

definition aead_authentic :: "crypto_lib \<Rightarrow> bool" where
  "aead_authentic lib \<longleftrightarrow>
     (\<forall>key nonce plain aad aad'. aad' \<noteq> aad \<longrightarrow> clOpen lib key nonce (clSeal lib key nonce plain aad) aad' = None)"

lemma unwrap_wrapped_iff:
  assumes "crypto_laws (cvLib env)" and "aead_authentic (cvLib env)" and "cvLib env' = cvLib env" and "can_unwrap env env'"
    and "\<And>nonce. cvNonce env = Some nonce \<Longrightarrow> length nonce = nonceSize"
    and "WrapDomainKey env domain version plaintext = Inr wrapped"
    and "domainWrappingKEKs env' = Inr candidates" and "inj_on (kekFingerprint (cvLib env)) (set candidates)"
  shows "UnwrapDomainKey env' domain' version' wrapped = Inr key \<longleftrightarrow> domain' = domain \<and> version' = version \<and> key = plaintext"
proof (cases "TrimSpace domain' = [] \<or> version' \<le> 0")
  case True
  have "TrimSpace domain \<noteq> []" "1 \<le> version" using WrapDomainKey_ok [OF assms(6)] by metis+
  then show ?thesis using True by (auto simp: UnwrapDomainKey_def Let_def)
next
  case False
  obtain kek nonce where kek: "getPrimaryKey env = Inr kek" and nonce: "cvNonce env = Some nonce"
    and input: "CHR 0x00 \<notin> set domain" "1 \<le> version" "length plaintext = DomainKeySize"
    and wrapped: "wrapped = \<lparr>wkEnvelope = json_envelope (wrapped_envelope (cvLib env) kek nonce
            (clSeal (cvLib env) kek nonce plaintext (domainKeyAAD domain version DomainKeyWrapAlgorithm))),
          wkAlgorithm = DomainKeyWrapAlgorithm, wkKEKFingerprint = kekFingerprint (cvLib env) kek\<rparr>"
    using WrapDomainKey_ok [OF assms(6)] by metis
  let ?aad = "\<lambda>d v. domainKeyAAD d v DomainKeyWrapAlgorithm"
  let ?open = "\<lambda>d v. open_with (cvLib env) (kekFingerprint (cvLib env) kek) nonce (clSeal (cvLib env) kek nonce plaintext (?aad domain version))
      (?aad d v) candidates"
  have cand: "kek \<in> set candidates" by (rule former_key_candidate [OF assms(4,3) kek assms(7)])
  have same: "c = kek" if "c \<in> set candidates" "kekFingerprint (cvLib env) c = kekFingerprint (cvLib env) kek" for c
    using assms(8) cand that by (simp add: inj_on_def)
  have opens: "openDomainKey (cvLib env) kek nonce (clSeal (cvLib env) kek nonce plaintext (?aad domain version)) (?aad domain version) = Some plaintext"
    using assms(1) assms(5) [OF nonce] getPrimaryKey_length [OF kek] by (simp add: openDomainKey_def crypto_laws_def)
  have unwrap: "UnwrapDomainKey env' domain' version' wrapped = (case ?open domain' version' of Some p \<Rightarrow> Inr p | None \<Rightarrow> Inl WrappedUnavailable)"
    using UnwrapDomainKey_wrapped [of env' domain' version' kek nonce] assms(1,3,7) False by (simp add: wrapped)
  show ?thesis
  proof (cases "domain' = domain \<and> version' = version")
    case True
    then show ?thesis using unwrap open_with_matching [OF cand same opens input(3)] by auto
  next
    case foreign: False
    then have "?aad domain' version' \<noteq> ?aad domain version"
      using domainKeyAAD_inj [of domain version domain' version'] input False by force
    then have "openDomainKey (cvLib env) kek nonce (clSeal (cvLib env) kek nonce plaintext (?aad domain version)) (?aad domain' version') = None"
      using assms(2) by (simp add: openDomainKey_def aead_authentic_def)
    then have "?open domain' version' = None" by (intro open_with_foreign) (metis same)
    then show ?thesis using unwrap foreign by auto
  qed
qed

text \<open>
  C18. A wrapped domain key opens to the key that was wrapped, and only for the domain and the version it
  was wrapped for: in the same process, after a restart, and after the data key was rotated with the
  former one kept as the legacy key.
\<close>

theorem domain_key_roundtrip:
  assumes "crypto_laws (cvLib env)" and "aead_authentic (cvLib env)" and "cvLib env' = cvLib env" and "can_unwrap env env'"
    and "\<And>nonce. cvNonce env = Some nonce \<Longrightarrow> length nonce = nonceSize"
    and "WrapDomainKey env domain version plaintext = Inr wrapped"
    and "domainWrappingKEKs env' = Inr candidates" and "inj_on (kekFingerprint (cvLib env)) (set candidates)"
  shows "UnwrapDomainKey env' domain' version' wrapped = Inr key \<longleftrightarrow> domain' = domain \<and> version' = version \<and> key = plaintext"
  using assms by (rule unwrap_wrapped_iff)

section \<open>An example of the primitives\<close>

definition hex_value :: "char \<Rightarrow> nat option" where
  "hex_value c = List.find (\<lambda>n. hex_digit n = c) [0..<16]"

text \<open>An encoding into plain characters that escapes the others by their hexadecimal code.\<close>

definition escape :: "char \<Rightarrow> string" where
  "escape c = (if c \<noteq> CHR ''~'' \<and> json_char c then [c] else CHR ''~'' # EncodeToString [of_char c])"

definition raw_encode :: "string \<Rightarrow> string" where
  "raw_encode s = concat (map escape s)"

fun raw_decode :: "string \<Rightarrow> string option" where
  "raw_decode [] = Some []"
| "raw_decode (c # s) =
     (if c \<noteq> CHR ''~'' then map_option (Cons c) (raw_decode s)
      else case s of
        a # b # t \<Rightarrow>
          (case (hex_value a, hex_value b) of
             (Some m, Some n) \<Rightarrow> map_option (Cons (char_of (16 * m + n))) (raw_decode t)
           | _ \<Rightarrow> None)
      | _ \<Rightarrow> None)"

definition sample_decode :: "string \<Rightarrow> (domainKeyEnvelope \<times> bool) option" where
  "sample_decode s =
     (case split_on (CHR 0x22) s of
        [_, _, _, v, _, _, _, a, _, _, _, n, _, _, _, c, _, _, _, k, _] \<Rightarrow>
          Some (\<lparr>envVersion = v, envAlgorithm = a, envNonce = n, envCiphertext = c, envKEKFingerprint = k\<rparr>, True)
      | _ \<Rightarrow> None)"

definition sample_head :: "string \<Rightarrow> string \<Rightarrow> string \<Rightarrow> string" where
  "sample_head key nonce aad = key @ nonce @ replicate (length aad) (CHR ''a'') @ CHR ''b'' # aad"

definition sample_lib :: crypto_lib where
  "sample_lib =
     \<lparr>clB64Encode = (\<lambda>s. s), clB64Decode = Some,
      clRawEncode = raw_encode, clRawDecode = raw_decode,
      clArgon2 = (\<lambda>s. take 32 (s @ replicate 32 (CHR ''k''))), clSha256 = (\<lambda>s. take 32 (s @ replicate 32 (CHR ''s''))),
      clSeal = (\<lambda>key nonce plain aad. sample_head key nonce aad @ plain),
      clOpen = (\<lambda>key nonce c aad. if HasPrefix c (sample_head key nonce aad) then Some (drop (length (sample_head key nonce aad)) c) else None),
      clDecodeEnvelope = sample_decode\<rparr>"

lemma hex_value_digit: "n < 16 \<Longrightarrow> hex_value (hex_digit n) = Some n"
proof -
  have "list_all (\<lambda>n. hex_value (hex_digit n) = Some n) [0..<16]" by code_simp
  then show "n < 16 \<Longrightarrow> hex_value (hex_digit n) = Some n" by (simp add: list_all_iff)
qed

lemma raw_decode_escape: "raw_decode (escape c @ t) = map_option (Cons c) (raw_decode t)"
proof (cases "c \<noteq> CHR ''~'' \<and> json_char c")
  case True
  then show ?thesis by (simp add: escape_def)
next
  case False
  have "(of_char c :: nat) div 16 < 16" by (simp add: less_mult_imp_div_less)
  then show ?thesis using False by (simp add: escape_def hex_value_digit)
qed

lemma raw_roundtrip: "raw_decode (raw_encode s) = Some s"
  by (induction s) (simp_all add: raw_encode_def raw_decode_escape)

lemma raw_plain: "json_plain (raw_encode s)"
proof -
  have "json_plain (escape c)" for c
  proof (cases "c \<noteq> CHR ''~'' \<and> json_char c")
    case True
    then show ?thesis by (simp add: escape_def json_plain_def)
  next
    case False
    have "json_plain (EncodeToString [of_char c])" by (intro hex_plain) simp
    moreover have "json_char (CHR ''~'')" by code_simp
    moreover have "escape c = CHR ''~'' # EncodeToString [of_char c]" using False by (simp only: escape_def if_False)
    ultimately show ?thesis by (simp only: json_plain_def list.pred_inject simp_thms)
  qed
  then show ?thesis by (induction s) (auto simp: raw_encode_def json_plain_def)
qed

lemma plain_no_quote: "json_plain s \<Longrightarrow> CHR 0x22 \<notin> set s"
  by (auto simp: json_plain_def json_char_def list_all_iff)

lemma sample_decode_envelope: "plain_envelope e \<Longrightarrow> sample_decode (json_envelope e) = Some (e, True)"
proof -
  assume "plain_envelope e"
  then have "CHR 0x22 \<notin> set (envVersion e)" "CHR 0x22 \<notin> set (envAlgorithm e)" "CHR 0x22 \<notin> set (envNonce e)"
    "CHR 0x22 \<notin> set (envCiphertext e)" "CHR 0x22 \<notin> set (envKEKFingerprint e)"
    by (auto simp: plain_envelope_def dest: plain_no_quote)
  then show ?thesis by (simp add: sample_decode_def json_envelope_def json_text_def split_on_sep)
qed

lemma sample_lib_laws: "crypto_laws sample_lib" "aead_authentic sample_lib"
proof -
  show "crypto_laws sample_lib"
    by (simp add: crypto_laws_def sample_lib_def raw_roundtrip raw_plain sample_decode_envelope min_def)
  have "\<not> HasPrefix (sample_head key nonce aad @ plain) (sample_head key nonce aad')" if "aad' \<noteq> aad" for key nonce aad aad' plain
  proof
    assume "HasPrefix (sample_head key nonce aad @ plain) (sample_head key nonce aad')"
    then obtain t where "sample_head key nonce aad @ plain = sample_head key nonce aad' @ t"
      by (metis HasPrefix_def append_take_drop_id)
    then have "replicate (length aad) (CHR ''a'') = replicate (length aad') (CHR ''a'') \<and> aad @ plain = aad' @ t"
      by (simp add: sample_head_def append_sep_eq)
    then show False using that by (auto simp: replicate_eq_replicate)
  qed
  then show "aead_authentic sample_lib" by (simp add: aead_authentic_def sample_lib_def)
qed

text \<open>A process with its first data key, and one with a second that keeps the first as the legacy key.\<close>

definition sample_crypto :: "string \<Rightarrow> string \<Rightarrow> crypto_env" where
  "sample_crypto data legacy = \<lparr>cvDataKey = data, cvLegacyKey = legacy, cvDevelopment = False, cvRandomKey = None,
     cvNonce = Some (replicate 12 (CHR ''n'')), cvLib = sample_lib\<rparr>"

lemma sample_crypto_simps [simp]:
  "cvLib (sample_crypto data legacy) = sample_lib" "cvNonce (sample_crypto data legacy) = Some nonce \<longleftrightarrow> nonce = replicate 12 (CHR ''n'')"
  by (auto simp: sample_crypto_def)

definition sample_sealed :: "string \<Rightarrow> string \<Rightarrow> string" where
  "sample_sealed key plain =
     replicate 12 (CHR ''n'') @ sample_head key (replicate 12 (CHR ''n'')) [] @ plain"


theorem domain_key_roundtrip_witness:
  "\<exists>wrapped. WrapDomainKey (sample_crypto ''first'' []) ''entry_identity'' 1 (replicate 32 (CHR ''p'')) = Inr wrapped
    \<and> UnwrapDomainKey (sample_crypto ''second'' ''first'') ''entry_identity'' 1 wrapped = Inr (replicate 32 (CHR ''p''))
    \<and> \<not> is_ok (UnwrapDomainKey (sample_crypto ''second'' ''first'') ''cursor_signing'' 1 wrapped)"
proof -
  let ?env = "sample_crypto ''first'' []" and ?env' = "sample_crypto ''second'' ''first''"
  let ?keys = "[clArgon2 sample_lib ''second'', clArgon2 sample_lib ''first'']"
  have "is_ok (WrapDomainKey ?env ''entry_identity'' 1 (replicate 32 (CHR ''p'')))" by code_simp
  then obtain wrapped where wrapped: "WrapDomainKey ?env ''entry_identity'' 1 (replicate 32 (CHR ''p'')) = Inr wrapped"
    by (auto simp: is_ok_iff)
  have keys: "domainWrappingKEKs ?env' = Inr ?keys" "can_unwrap ?env ?env'"
    "distinct (map (kekFingerprint sample_lib) ?keys)" by code_simp+
  have "inj_on (kekFingerprint sample_lib) (set ?keys)" using keys(3) by (simp only: distinct_map)
  then have "UnwrapDomainKey ?env' d v wrapped = Inr key \<longleftrightarrow> d = ''entry_identity'' \<and> v = 1 \<and> key = replicate 32 (CHR ''p'')" for d v key
    using domain_key_roundtrip [OF _ _ _ keys(2) _ wrapped keys(1)] sample_lib_laws
    by (simp only: sample_crypto_simps) (simp add: nonceSize_def)
  then show ?thesis using wrapped by (auto simp: is_ok_iff)
qed

end
