(* ===== verification/Retention_Store.thy ===== *)
theory Retention_Store
  imports Tables Retention_Rules Point_Lease Secure_Crypto "HOL-Library.List_Lexorder" "HOL-Library.Char_ord"
    "HOL-Library.Product_Lexorder"
begin

text \<open>
  The tables and the environment of the retention services \<open>PolicyService\<close> and \<open>HoldService\<close>
  (\<open>backend/internal/backupasset/retention\<close>): policies, holds, and of recovery points, repositories,
  task links, leases and lifecycle attempts the columns these services read or write. The environment
  holds the clock, the identifier source, the JSON decoder and digest of the rules, the encryption of
  hold reasons, the auditor, whether the admission check of the lifecycle coordinator is installed, and
  the statements that fail.

  The error values keep the sentinel error that is wrapped, since callers test for it; the texts are
  dropped. A failure of the database or of the auditor is \<open>RetentionFault\<close> with its message, one of the
  encryption \<open>RetentionCrypto\<close>.
\<close>

section \<open>Rows\<close>

record AuditActor =
  actorUserID :: nat
  actorUsername :: string
  actorRole :: string

record PolicyRow =
  plID :: string
  plScopeKind :: RetentionPolicyScopeKind
  plScopeID :: string
  plRevision :: int
  plRulesJSON :: string
  plStatus :: RetentionPolicyStatus
  plCreatedBy :: nat
  plUpdatedBy :: nat
  plCreatedAt :: time
  plUpdatedAt :: time
  plDeletedAt :: "time option"

record HoldRow =
  hdID :: string
  hdPointID :: string
  hdType :: RecoveryPointHoldType
  hdState :: HoldState
  hdReason :: string
  hdCreatedBy :: nat
  hdExpiresAt :: "time option"
  hdReleasedBy :: "nat option"
  hdReleasedAt :: "time option"
  hdReleaseReason :: string
  hdCreatedAt :: time
  hdUpdatedAt :: time

record RecoveryPointRow =
  rpID :: string
  rpRepositoryID :: string
  rpProducingTaskID :: "nat option"
  rpSemantics :: PointVersionSemantics
  rpState :: RecoveryPointState
  rpCapturedAt :: "time option"
  rpPointRevision :: int
  rpCapabilityRevision :: int
  rpImmutability :: ImmutabilityLevel
  rpAvailability :: PhysicalAvailability
  rpHoldState :: HoldState
  rpHoldUntil :: "time option"
  rpUpdatedAt :: time

record TaskLinkRow =
  lkID :: string
  lkTaskID :: "nat option"
  lkRepositoryID :: string
  lkUnlinkedAt :: "time option"

record AttemptRow =
  ltPointID :: string
  ltPhase :: LifecyclePhase

section \<open>Audit events\<close>

datatype AuditAction =
    AuditActionRetentionPolicyCreate | AuditActionRetentionPolicyUpdate | AuditActionRetentionPolicyDelete
  | AuditActionHoldCreate | AuditActionHoldRelease | AuditActionRepositoryPurge | AuditActionOther string

record AuditEventInput =
  aeActor :: AuditActor
  aeAction :: AuditAction
  aeRepositoryID :: string
  aeRecoveryPointID :: string
  aeItemCount :: int
  aeStatus :: string
  aeCorrelationID :: "string option"
  aePolicyID :: "string option"

section \<open>State and environment\<close>

record retention_db =
  rdPolicies :: "PolicyRow list"
  rdHolds :: "HoldRow list"
  rdPoints :: "RecoveryPointRow list"
  rdRepositories :: "string list"
  rdLinks :: "TaskLinkRow list"
  rdLeases :: "LeaseRow list"
  rdAttempts :: "AttemptRow list"
  rdAudit :: "AuditEventInput list"

datatype retention_error =
    RetentionError asset_error
  | RetentionFault string
  | RetentionCrypto crypto_error

datatype retention_stmt =
    StmtBeginRetention | StmtCommitRetention
  | StmtLockScope | StmtCountPolicies | StmtCreatePolicy | StmtRecountPolicies | StmtLoadPolicy
  | StmtUpdatePolicy | StmtListPolicies | StmtLoadPoints | StmtCountHolds | StmtCountLeases | StmtCountWorm
  | StmtLockAdmission | StmtCountAttempts | StmtCountActiveHolds | StmtRecountHolds
  | StmtLockPoint | StmtCreateHold | StmtLoadHold | StmtUpdateHold | StmtListHolds | StmtProjectHolds
  | StmtUpdatePoint | StmtExpiredHolds

record retention_env =
  rvNow :: time
  rvNewID :: "string option"
  rvFault :: "retention_stmt \<Rightarrow> string option"
  rvDuplicate :: string
  rvCheckFailed :: string
  rvPgError :: "string \<Rightarrow> (string \<times> string) option"
  rvNullsFirst :: bool
  rvDecode :: "string \<Rightarrow> (PolicyRules \<times> bool) option"
  rvDigest :: "string \<Rightarrow> nat list"
  rvCrypto :: crypto_env
  rvAuditor :: "(AuditEventInput \<Rightarrow> string option) option"
  rvAdmission :: bool
  rvCorrelationID :: string
  rvPageSize :: int

definition retention_stmt_ok :: "retention_env \<Rightarrow> retention_stmt \<Rightarrow> (retention_error, unit) result" where
  "retention_stmt_ok env stmt =
     (case rvFault env stmt of Some message \<Rightarrow> Inl (RetentionFault message) | None \<Rightarrow> Inr ())"

definition lift_asset :: "(asset_error, 'a) result \<Rightarrow> (retention_error, 'a) result" where
  "lift_asset r = (case r of Inl e \<Rightarrow> Inl (RetentionError e) | Inr a \<Rightarrow> Inr a)"

lemma lift_asset_eq_Inr [simp, result_simps]: "lift_asset r = Inr a \<longleftrightarrow> r = Inr a"
  by (cases r) (simp_all add: lift_asset_def)

lemma lift_asset_Inr [simp]: "lift_asset (Inr a) = Inr a"
  by (simp add: lift_asset_def)

lemma retention_stmt_ok_eq_Inr [result_simps]: "retention_stmt_ok env stmt = Inr u \<longleftrightarrow> rvFault env stmt = None"
  by (cases "rvFault env stmt") (simp_all add: retention_stmt_ok_def)

text \<open>
  \<open>db.Transaction\<close>: an error of the body or of the commit leaves the tables as they were.
\<close>

definition retention_transaction ::
  "retention_env \<Rightarrow> (retention_db \<Rightarrow> (retention_error, retention_db \<times> 'a) result) \<Rightarrow> retention_db
   \<Rightarrow> retention_db \<times> (retention_error, 'a) result" where
  "retention_transaction env body db =
     (case bind_result (retention_stmt_ok env StmtBeginRetention) (\<lambda>_.
             bind_result (body db) (\<lambda>r. bind_result (retention_stmt_ok env StmtCommitRetention) (\<lambda>_. Inr r))) of
        Inl err \<Rightarrow> (db, Inl err)
      | Inr (db1, value) \<Rightarrow> (db1, Inr value))"

lemma retention_transaction_ok:
  "retention_transaction env body db = (db', Inr v) \<Longrightarrow> body db = Inr (db', v)"
  by (auto simp: retention_transaction_def result_simps split: sum.splits prod.splits)

lemma retention_transaction_error:
  "retention_transaction env body db = (db', Inl e) \<Longrightarrow> db' = db"
  by (auto simp: retention_transaction_def split: sum.splits prod.splits)

lemma transaction_cases:
  assumes "retention_transaction env body db = (db', r)"
  obtains "db' = db" | v where "r = Inr v" and "body db = Inr (db', v)"
proof (cases r)
  case (Inl e)
  then show thesis using assms retention_transaction_error that(1) by metis
next
  case (Inr v)
  then show thesis using assms retention_transaction_ok that(2) by metis
qed

lemma transaction_stale:
  assumes "\<not> is_ok (body db)"
  shows "\<exists>e. retention_transaction env body db = (db, Inl e)"
  using assms by (cases "body db") (auto simp: retention_transaction_def is_ok_def bind_result_def split: sum.splits)

section \<open>Mutation audit\<close>

definition mutationAuditInput ::
  "retention_env \<Rightarrow> AuditActor \<Rightarrow> AuditAction \<Rightarrow> string \<Rightarrow> string \<Rightarrow> int \<Rightarrow> string \<Rightarrow> AuditEventInput" where
  "mutationAuditInput env actor action repositoryID recoveryPointID itemCount policyID =
     \<lparr>aeActor = actor, aeAction = action, aeRepositoryID = repositoryID, aeRecoveryPointID = recoveryPointID,
      aeItemCount = itemCount,
      aeStatus = (if action = AuditActionRepositoryPurge then ''claimed'' else ''success''),
      aeCorrelationID = (if rvCorrelationID env \<noteq> [] then Some (rvCorrelationID env) else None),
      aePolicyID = (if ValidateOpaqueID policyID then Some policyID else None)\<rparr>"

text \<open>The events an installed auditor accepted are kept in \<open>rdAudit\<close>.\<close>

definition writeMutationAuditTx ::
  "retention_env \<Rightarrow> AuditEventInput \<Rightarrow> retention_db \<Rightarrow> (retention_error, retention_db) result" where
  "writeMutationAuditTx env input db =
     (case rvAuditor env of
        None \<Rightarrow> Inr db
      | Some auditor \<Rightarrow>
          (case auditor input of
             Some message \<Rightarrow> Inl (RetentionFault message)
           | None \<Rightarrow> Inr (db\<lparr>rdAudit := rdAudit db @ [input]\<rparr>)))"

lemma writeMutationAuditTx_ok:
  "writeMutationAuditTx env input db = Inr db' \<Longrightarrow>
     db' = db\<lparr>rdAudit := rdAudit db @ (if rvAuditor env = None then [] else [input])\<rparr>"
  by (auto simp: writeMutationAuditTx_def split: option.splits)

definition validateAdminActor :: "AuditActor \<Rightarrow> (retention_error, unit) result" where
  "validateAdminActor actor =
     (if actorUserID actor = 0 \<or> actorRole actor \<noteq> ''admin'' then Inl (RetentionError ErrForbidden) else Inr ())"

end
