(* ===== verification/Retention_Policy.thy ===== *)
theory Retention_Policy
  imports Retention_Store
begin

text \<open>
  The retention policies, \<open>PolicyService\<close> of \<open>backend/internal/backupasset/retention/policy.go\<close>:
  creating, updating and deleting a policy under an expected revision, listing, and selecting the
  recovery points a policy no longer keeps, page by page.

  A selection cursor is modelled by what its text decodes to: nothing for a blank text, garbage, or a
  payload with its schema version (base64 and JSON are the identity on payloads). Encoding fails for an
  instant outside the years JSON can express.
\<close>

section \<open>Requests and records\<close>

record CreatePolicyRequest =
  cpActor :: AuditActor
  cpScopeKind :: RetentionPolicyScopeKind
  cpScopeID :: string
  cpRules :: PolicyRules

record UpdatePolicyRequest =
  upActor :: AuditActor
  upPolicyID :: string
  upExpectedRevision :: int
  upRules :: PolicyRules

record DeletePolicyRequest =
  dpActor :: AuditActor
  dpPolicyID :: string
  dpExpectedRevision :: int

record PolicyRecord =
  prPolicy :: PolicyRow
  prRules :: PolicyRules
  prRuleDigest :: string

datatype selection_cursor = CursorBlank | CursorUndecodable | CursorPayload int selectionResume

record SelectionRequest =
  srPolicyID :: string
  srExpectedRevision :: int
  srEvaluatedAt :: time
  srEvaluatedUTC :: bool
  srLimit :: int
  srInspectedLimit :: int
  srCursor :: selection_cursor

record SelectedPoint =
  spRecoveryPointID :: string
  spPointRevision :: int
  spCapabilityRevision :: int

record Selection =
  slPolicyID :: string
  slPolicyRevision :: int
  slScopeKind :: RetentionPolicyScopeKind
  slScopeID :: string
  slRulesJSON :: string
  slRuleDigest :: string
  slEvaluatedAt :: time
  slPoints :: "SelectedPoint list"
  slNextCursor :: selection_cursor
  slInspected :: int

definition policyRecordFromModel :: "PolicyRow \<Rightarrow> PolicyRules \<Rightarrow> string \<Rightarrow> PolicyRecord" where
  "policyRecordFromModel policy rules digest = \<lparr>prPolicy = policy, prRules = rules, prRuleDigest = digest\<rparr>"

section \<open>Scopes\<close>

definition lockPolicyScope ::
  "retention_env \<Rightarrow> retention_db \<Rightarrow> RetentionPolicyScopeKind \<Rightarrow> string \<Rightarrow> (retention_error, string) result" where
  "lockPolicyScope env db scopeKind scopeID =
     (case scopeKind of
        RetentionPolicyScopeRepository \<Rightarrow>
          bind_result (retention_stmt_ok env StmtLockScope) (\<lambda>_.
            if scopeID \<notin> set (rdRepositories db) then Inl (RetentionError ErrNotFound) else Inr scopeID)
      | RetentionPolicyScopeTaskLink \<Rightarrow>
          bind_result (retention_stmt_ok env StmtLockScope) (\<lambda>_.
            case take_row (\<lambda>l. lkID l = scopeID \<and> lkUnlinkedAt l = None) (rdLinks db) of
              None \<Rightarrow> Inl (RetentionError ErrNotFound)
            | Some link \<Rightarrow>
                if lkTaskID link = None then Inl (RetentionError ErrNotFound) else Inr (lkRepositoryID link))
      | _ \<Rightarrow> Inl (RetentionError ErrInvalidState))"

definition resolveSelectionScope ::
  "retention_env \<Rightarrow> retention_db \<Rightarrow> PolicyRow \<Rightarrow> (retention_error, string \<times> nat option) result" where
  "resolveSelectionScope env db policy =
     (case plScopeKind policy of
        RetentionPolicyScopeRepository \<Rightarrow>
          bind_result (retention_stmt_ok env StmtLockScope) (\<lambda>_.
            if plScopeID policy \<notin> set (rdRepositories db) then Inl (RetentionError ErrConflict)
            else Inr (plScopeID policy, None))
      | RetentionPolicyScopeTaskLink \<Rightarrow>
          bind_result (retention_stmt_ok env StmtLockScope) (\<lambda>_.
            case take_row (\<lambda>l. lkID l = plScopeID policy \<and> lkUnlinkedAt l = None) (rdLinks db) of
              None \<Rightarrow> Inl (RetentionError ErrConflict)
            | Some link \<Rightarrow>
                (case lkTaskID link of
                   None \<Rightarrow> Inl (RetentionError ErrConflict)
                 | Some taskID \<Rightarrow>
                     if \<not> ValidateOpaqueID (lkRepositoryID link) then Inl (RetentionError ErrConflict)
                     else Inr (lkRepositoryID link, Some taskID)))
      | _ \<Rightarrow> Inl (RetentionError ErrInvalidState))"

section \<open>Mutations\<close>

definition active_in_scope :: "RetentionPolicyScopeKind \<Rightarrow> string \<Rightarrow> PolicyRow \<Rightarrow> bool" where
  "active_in_scope scopeKind scopeID p \<longleftrightarrow>
     plScopeKind p = scopeKind \<and> plScopeID p = scopeID \<and> plStatus p = RetentionPolicyActive"

definition activePolicyScopeIndex :: string where
  "activePolicyScopeIndex = ''idx_backup_retention_policies_active_scope''"

definition mapPolicyCreateError ::
  "retention_env \<Rightarrow> retention_db \<Rightarrow> RetentionPolicyScopeKind \<Rightarrow> string \<Rightarrow> string \<Rightarrow> retention_error" where
  "mapPolicyCreateError env db scopeKind scopeID createErr =
     (case rvPgError env createErr of
        Some (code, constraint) \<Rightarrow>
          if code = ''23505'' \<and> constraint = activePolicyScopeIndex then RetentionError ErrConflict
          else RetentionFault createErr
      | None \<Rightarrow>
          if rvFault env StmtRecountPolicies = None
             \<and> rows_affected (active_in_scope scopeKind scopeID) (rdPolicies db) \<noteq> 0
          then RetentionError ErrConflict else RetentionFault createErr)"

text \<open>The insert fails when the database fails it or the identifier is taken.\<close>

definition create_policy :: "retention_env \<Rightarrow> PolicyRow \<Rightarrow> PolicyRow list \<Rightarrow> (string, PolicyRow list) result" where
  "create_policy env row rows =
     (case rvFault env StmtCreatePolicy of
        Some message \<Rightarrow> Inl message
      | None \<Rightarrow> if plID row \<in> set (map plID rows) then Inl (rvDuplicate env) else Inr (rows @ [row]))"

definition CreatePolicyTx ::
  "retention_env \<Rightarrow> CreatePolicyRequest \<Rightarrow> string \<Rightarrow> retention_db \<Rightarrow> (retention_error, retention_db \<times> PolicyRow) result" where
  "CreatePolicyTx env request canonical db =
     bind_result (lockPolicyScope env db (cpScopeKind request) (cpScopeID request)) (\<lambda>repositoryID.
     bind_result (retention_stmt_ok env StmtCountPolicies) (\<lambda>_.
       if rows_affected (active_in_scope (cpScopeKind request) (cpScopeID request)) (rdPolicies db) \<noteq> 0
       then Inl (RetentionError ErrConflict)
       else
         case rvNewID env of
           None \<Rightarrow> Inl (RetentionError ErrInvalidState)
         | Some identifier \<Rightarrow>
             if \<not> ValidateOpaqueID identifier then Inl (RetentionError ErrInvalidState)
             else
               let row = \<lparr>plID = identifier, plScopeKind = cpScopeKind request, plScopeID = cpScopeID request,
                          plRevision = 1, plRulesJSON = canonical, plStatus = RetentionPolicyActive,
                          plCreatedBy = actorUserID (cpActor request), plUpdatedBy = actorUserID (cpActor request),
                          plCreatedAt = rvNow env, plUpdatedAt = rvNow env, plDeletedAt = None\<rparr> in
               (case create_policy env row (rdPolicies db) of
                  Inl createErr \<Rightarrow>
                    Inl (mapPolicyCreateError env db (cpScopeKind request) (cpScopeID request) createErr)
                | Inr rows \<Rightarrow>
                    bind_result (writeMutationAuditTx env
                      (mutationAuditInput env (cpActor request) AuditActionRetentionPolicyCreate repositoryID [] 1 identifier)
                      (db\<lparr>rdPolicies := rows\<rparr>)) (\<lambda>db1. Inr (db1, row)))))"

definition CreatePolicy ::
  "retention_env \<Rightarrow> CreatePolicyRequest \<Rightarrow> retention_db \<Rightarrow> retention_db \<times> (retention_error, PolicyRecord) result" where
  "CreatePolicy env request db =
     (case bind_result (validateAdminActor (cpActor request)) (\<lambda>_.
             bind_result (lift_asset (ValidateRetentionPolicyScope (cpScopeKind request) (cpScopeID request))) (\<lambda>_.
               lift_asset (CanonicalizePolicyRules (rvDigest env) (cpRules request)))) of
        Inl err \<Rightarrow> (db, Inl err)
      | Inr (canonical, digest) \<Rightarrow>
          (case retention_transaction env (CreatePolicyTx env request canonical) db of
             (db1, Inl err) \<Rightarrow> (db1, Inl err)
           | (db1, Inr row) \<Rightarrow> (db1, Inr (policyRecordFromModel row (cpRules request) digest))))"

definition validatePolicyMutation :: "AuditActor \<Rightarrow> string \<Rightarrow> int \<Rightarrow> (retention_error, unit) result" where
  "validatePolicyMutation actor policyID expectedRevision =
     bind_result (validateAdminActor actor) (\<lambda>_.
       if \<not> ValidateOpaqueID policyID \<or> expectedRevision < 1 then Inl (RetentionError ErrInvalidState) else Inr ())"

definition first_policy :: "retention_env \<Rightarrow> string \<Rightarrow> retention_db \<Rightarrow> (retention_error, PolicyRow) result" where
  "first_policy env policyID db =
     bind_result (retention_stmt_ok env StmtLoadPolicy) (\<lambda>_.
       case take_row (\<lambda>p. plID p = policyID) (rdPolicies db) of
         None \<Rightarrow> Inl (RetentionError ErrNotFound)
       | Some policy \<Rightarrow> Inr policy)"

text \<open>
  \<open>mutate_policy\<close> is what \<open>Update\<close> and \<open>Delete\<close> share: lock the policy, compare the revision, lock the
  scope, write the columns where identifier, revision and status still match, and audit. \<open>write\<close> sets
  the columns in the row and in the returned value alike.
\<close>

definition mutate_policy ::
  "retention_env \<Rightarrow> AuditActor \<Rightarrow> AuditAction \<Rightarrow> string \<Rightarrow> int \<Rightarrow> (PolicyRow \<Rightarrow> PolicyRow)
   \<Rightarrow> retention_db \<Rightarrow> (retention_error, retention_db \<times> PolicyRow) result" where
  "mutate_policy env actor action policyID expectedRevision write db =
     bind_result (first_policy env policyID db) (\<lambda>policy.
       if plStatus policy \<noteq> RetentionPolicyActive \<or> plRevision policy \<noteq> expectedRevision
       then Inl (RetentionError ErrConflict)
       else
         bind_result (lockPolicyScope env db (plScopeKind policy) (plScopeID policy)) (\<lambda>repositoryID.
         bind_result (retention_stmt_ok env StmtUpdatePolicy) (\<lambda>_.
           let hit = (\<lambda>p. plID p = policyID \<and> plRevision p = expectedRevision \<and> plStatus p = RetentionPolicyActive) in
           if rows_affected hit (rdPolicies db) \<noteq> 1 then Inl (RetentionError ErrConflict)
           else
             bind_result (writeMutationAuditTx env
               (mutationAuditInput env actor action repositoryID [] 1 (plID policy))
               (db\<lparr>rdPolicies := update_where hit write (rdPolicies db)\<rparr>)) (\<lambda>db1.
               Inr (db1, write policy)))))"

definition UpdatePolicy ::
  "retention_env \<Rightarrow> UpdatePolicyRequest \<Rightarrow> retention_db \<Rightarrow> retention_db \<times> (retention_error, PolicyRecord) result" where
  "UpdatePolicy env request db =
     (case bind_result (validatePolicyMutation (upActor request) (upPolicyID request) (upExpectedRevision request)) (\<lambda>_.
             lift_asset (CanonicalizePolicyRules (rvDigest env) (upRules request))) of
        Inl err \<Rightarrow> (db, Inl err)
      | Inr (canonical, digest) \<Rightarrow>
          (case retention_transaction env
                  (mutate_policy env (upActor request) AuditActionRetentionPolicyUpdate (upPolicyID request)
                     (upExpectedRevision request)
                     (\<lambda>p. p\<lparr>plRevision := wrap64 (upExpectedRevision request + 1), plRulesJSON := canonical,
                            plUpdatedBy := actorUserID (upActor request), plUpdatedAt := rvNow env\<rparr>)) db of
             (db1, Inl err) \<Rightarrow> (db1, Inl err)
           | (db1, Inr policy) \<Rightarrow> (db1, Inr (policyRecordFromModel policy (upRules request) digest))))"

definition parse_record :: "retention_env \<Rightarrow> PolicyRow \<Rightarrow> (retention_error, PolicyRecord) result" where
  "parse_record env policy =
     bind_result (lift_asset (ParsePolicyRules (rvDecode env) (rvDigest env) (plRulesJSON policy))) (\<lambda>rules.
     bind_result (lift_asset (CanonicalizePolicyRules (rvDigest env) rules)) (\<lambda>(_, digest).
       Inr (policyRecordFromModel policy rules digest)))"

definition DeletePolicy ::
  "retention_env \<Rightarrow> DeletePolicyRequest \<Rightarrow> retention_db \<Rightarrow> retention_db \<times> (retention_error, PolicyRecord) result" where
  "DeletePolicy env request db =
     (case validatePolicyMutation (dpActor request) (dpPolicyID request) (dpExpectedRevision request) of
        Inl err \<Rightarrow> (db, Inl err)
      | Inr _ \<Rightarrow>
          (case retention_transaction env
                  (mutate_policy env (dpActor request) AuditActionRetentionPolicyDelete (dpPolicyID request)
                     (dpExpectedRevision request)
                     (\<lambda>p. p\<lparr>plRevision := wrap64 (dpExpectedRevision request + 1), plStatus := RetentionPolicyDeleted,
                            plUpdatedBy := actorUserID (dpActor request), plUpdatedAt := rvNow env,
                            plDeletedAt := Some (rvNow env)\<rparr>)) db of
             (db1, Inl err) \<Rightarrow> (db1, Inl err)
           | (db1, Inr policy) \<Rightarrow> (db1, parse_record env policy)))"

section \<open>Listing\<close>

fun parse_records :: "retention_env \<Rightarrow> PolicyRow list \<Rightarrow> (retention_error, PolicyRecord list) result" where
  "parse_records env [] = Inr []"
| "parse_records env (policy # policies) =
     bind_result (parse_record env policy) (\<lambda>r. bind_result (parse_records env policies) (\<lambda>rs. Inr (r # rs)))"

definition ListActiveAfter ::
  "retention_env \<Rightarrow> retention_db \<Rightarrow> int \<Rightarrow> string \<Rightarrow> (retention_error, PolicyRecord list) result" where
  "ListActiveAfter env db limit afterID =
     (if limit < 1 \<or> limit > 1000 then Inl (RetentionError ErrInvalidState)
      else if afterID \<noteq> [] \<and> \<not> ValidateOpaqueID afterID then Inl (RetentionError ErrInvalidState)
      else
        bind_result (retention_stmt_ok env StmtListPolicies) (\<lambda>_.
          parse_records env (take (nat limit) (sort_key plID
            (filter (\<lambda>p. plStatus p = RetentionPolicyActive \<and> (afterID \<noteq> [] \<longrightarrow> plID p > afterID)) (rdPolicies db))))))"

definition ListActive :: "retention_env \<Rightarrow> retention_db \<Rightarrow> int \<Rightarrow> (retention_error, PolicyRecord list) result" where
  "ListActive env db limit = ListActiveAfter env db limit []"

section \<open>The selection cursor\<close>

definition selectionCursorSchemaVersion :: int where "selectionCursorSchemaVersion = 2"

definition empty_resume :: selectionResume where
  "empty_resume = \<lparr>resumeCapturedAt = None, resumeID = [], resumeSeen = 0, resumeCalendar = [],
     resumePolicyID = [], resumeRevision = 0, resumeDigest = [], resumeEvaluatedAt = zero_time\<rparr>"

definition parseSelectionCursor :: "selection_cursor \<Rightarrow> (retention_error, selectionResume) result" where
  "parseSelectionCursor raw =
     (case raw of
        CursorBlank \<Rightarrow> Inr empty_resume
      | CursorUndecodable \<Rightarrow> Inl (RetentionError ErrInvalidState)
      | CursorPayload version payload \<Rightarrow>
          if version \<noteq> selectionCursorSchemaVersion then Inl (RetentionError ErrInvalidState)
          else if resumeID payload \<noteq> [] \<and> \<not> ValidateOpaqueID (resumeID payload) then Inl (RetentionError ErrInvalidState)
          else if \<not> ValidateOpaqueID (resumePolicyID payload) \<or> resumeRevision payload < 1
                  \<or> resumeDigest payload = [] \<or> IsZero (resumeEvaluatedAt payload)
          then Inl (RetentionError ErrInvalidState)
          else Inr payload)"

definition json_time_ok :: "time \<Rightarrow> bool" where
  "json_time_ok t \<longleftrightarrow> (let year = fst (year_day (day_number t)) in 0 \<le> year \<and> year \<le> 9999)"

definition encodeSelectionCursor :: "selectionResume \<Rightarrow> (retention_error, selection_cursor) result" where
  "encodeSelectionCursor resume =
     (if json_time_ok (resumeEvaluatedAt resume)
         \<and> (case resumeCapturedAt resume of Some t \<Rightarrow> json_time_ok t | None \<Rightarrow> True)
      then Inr (CursorPayload selectionCursorSchemaVersion resume)
      else Inl (RetentionError ErrInvalidState))"

definition bindSelectionSnapshot ::
  "SelectionRequest \<Rightarrow> selectionResume \<Rightarrow> string \<Rightarrow> int \<Rightarrow> string \<Rightarrow> (retention_error, time) result" where
  "bindSelectionSnapshot request resume policyID revision digest =
     (if srCursor request = CursorBlank
      then (if IsZero (srEvaluatedAt request) \<or> \<not> srEvaluatedUTC request
            then Inl (RetentionError ErrInvalidState) else Inr (srEvaluatedAt request))
      else
        let given = IsZero (srEvaluatedAt request) = False;
            evaluatedAt = (if given then srEvaluatedAt request else resumeEvaluatedAt resume) in
        if IsZero evaluatedAt \<or> given \<and> \<not> srEvaluatedUTC request then Inl (RetentionError ErrInvalidState)
        else if resumePolicyID resume \<noteq> policyID \<or> resumeRevision resume \<noteq> revision
                \<or> resumeDigest resume \<noteq> digest \<or> resumeEvaluatedAt resume \<noteq> evaluatedAt
        then Inl (RetentionError ErrConflict)
        else Inr evaluatedAt)"

section \<open>Selection\<close>

definition eligible_point :: "retention_db \<Rightarrow> string \<Rightarrow> nat option \<Rightarrow> RecoveryPointRow \<Rightarrow> bool" where
  "eligible_point db repositoryID taskID p \<longleftrightarrow>
     rpRepositoryID p = repositoryID
     \<and> rpSemantics p \<in> {PointNativeSnapshot, PointXirangManifest, PointImportedBaseline}
     \<and> rpState p \<in> {RecoveryPointCommitted, RecoveryPointDegraded}
     \<and> rpAvailability p = PhysicalOnline
     \<and> rpHoldState p \<in> {HoldNone, HoldReleased}
     \<and> \<not> list_ex (\<lambda>h. hdPointID h = rpID p \<and> hdState h = HoldActive) (rdHolds db)
     \<and> (case taskID of Some task \<Rightarrow> rpProducingTaskID p = Some task | None \<Rightarrow> True)"

text \<open>\<open>ORDER BY captured_at DESC, id DESC\<close>; where absent instants go depends on the database.\<close>

definition point_order :: "bool \<Rightarrow> RecoveryPointRow \<Rightarrow> int \<times> int \<times> string" where
  "point_order nulls_first p =
     (case rpCapturedAt p of
        None \<Rightarrow> (if nulls_first then 1 else - 1, 0, rpID p)
      | Some t \<Rightarrow> (0, t, rpID p))"

definition newest_first :: "bool \<Rightarrow> RecoveryPointRow list \<Rightarrow> RecoveryPointRow list" where
  "newest_first nulls_first ps = rev (sort_key (point_order nulls_first) ps)"

definition after_cursor :: "time option \<Rightarrow> string \<Rightarrow> RecoveryPointRow \<Rightarrow> bool" where
  "after_cursor afterCapturedAt afterID p =
     (case afterCapturedAt of
        None \<Rightarrow> True
      | Some t \<Rightarrow>
          if afterID = [] then True
          else (case rpCapturedAt p of None \<Rightarrow> False | Some c \<Rightarrow> c < t \<or> c = t \<and> rpID p < afterID))"

definition load_page ::
  "retention_env \<Rightarrow> retention_db \<Rightarrow> string \<Rightarrow> nat option \<Rightarrow> int \<Rightarrow> time option \<Rightarrow> string
   \<Rightarrow> (retention_error, RecoveryPointRow list) result" where
  "load_page env db repositoryID taskID queryLimit afterCapturedAt afterID =
     bind_result (retention_stmt_ok env StmtLoadPoints) (\<lambda>_.
       Inr (take (nat queryLimit) (newest_first (rvNullsFirst env)
         (filter (\<lambda>p. eligible_point db repositoryID taskID p \<and> after_cursor afterCapturedAt afterID p) (rdPoints db)))))"

record selection_scan =
  scState :: selectionKeepState
  scSelected :: "SelectedPoint list"
  scInspected :: int
  scCapturedAt :: "time option"
  scID :: string
  scCursor :: selection_cursor

definition incomplete_point :: "RecoveryPointRow \<Rightarrow> bool" where
  "incomplete_point p \<longleftrightarrow>
     \<not> ValidateOpaqueID (rpID p) \<or> rpPointRevision p < 1 \<or> rpCapabilityRevision p < 1
     \<or> (case rpCapturedAt p of None \<Rightarrow> True | Some t \<Rightarrow> IsZero t)"

definition selected_point :: "RecoveryPointRow \<Rightarrow> SelectedPoint" where
  "selected_point p = \<lparr>spRecoveryPointID = rpID p, spPointRevision = rpPointRevision p,
     spCapabilityRevision = rpCapabilityRevision p\<rparr>"

text \<open>One point of the inner loop: the keep decision, the cursor position and the selected points.\<close>

definition scan_point :: "RecoveryPointRow \<Rightarrow> selection_scan \<Rightarrow> selection_scan" where
  "scan_point p sc =
     (let capturedAt = the (rpCapturedAt p); (state, kept) = keep capturedAt (scState sc) in
      sc\<lparr>scState := state, scInspected := scInspected sc + 1, scCapturedAt := Some capturedAt, scID := rpID p,
         scSelected := (if kept then scSelected sc else scSelected sc @ [selected_point p])\<rparr>)"

text \<open>The cursor after a point: \<open>base\<close> carries the policy, its revision and digest and the instant.\<close>

definition scan_resume :: "selectionResume \<Rightarrow> selection_scan \<Rightarrow> selectionResume" where
  "scan_resume base sc =
     base\<lparr>resumeCapturedAt := scCapturedAt sc, resumeID := scID sc, resumeSeen := keepSeen (scState sc),
          resumeCalendar := snapshotCalendar (scState sc)\<rparr>"

fun scan_page ::
  "selectionResume \<Rightarrow> int \<Rightarrow> int \<Rightarrow> RecoveryPointRow list \<Rightarrow> selection_scan \<Rightarrow> (retention_error, selection_scan) result" where
  "scan_page base limit inspectedLimit [] sc = Inr sc"
| "scan_page base limit inspectedLimit (p # ps) sc =
     (if incomplete_point p then Inl (RetentionError ErrInvalidState)
      else
        let sc1 = scan_point p sc in
        if int (length (scSelected sc1)) = limit \<or> scInspected sc1 = inspectedLimit
        then bind_result (encodeSelectionCursor (scan_resume base sc1)) (\<lambda>cursor. Inr (sc1\<lparr>scCursor := cursor\<rparr>))
        else scan_page base limit inspectedLimit ps sc1)"

text \<open>
  The outer loop loads pages of points until a cursor is set or a page is short. Every round that does
  not end inspects at least one point, so \<open>inspectedLimit\<close> rounds are enough; \<open>fuel\<close> counts them.
\<close>

fun select_loop ::
  "(int \<Rightarrow> time option \<Rightarrow> string \<Rightarrow> (retention_error, RecoveryPointRow list) result) \<Rightarrow> selectionResume \<Rightarrow> int
   \<Rightarrow> int \<Rightarrow> int \<Rightarrow> nat \<Rightarrow> selection_scan \<Rightarrow> (retention_error, selection_scan) result" where
  "select_loop load base pageSize limit inspectedLimit 0 sc = Inr sc"
| "select_loop load base pageSize limit inspectedLimit (Suc fuel) sc =
     (if \<not> scInspected sc < inspectedLimit then Inr sc
      else
        let remaining = inspectedLimit - scInspected sc;
            queryLimit = (if remaining < pageSize then remaining else pageSize) in
        bind_result (load queryLimit (scCapturedAt sc) (scID sc)) (\<lambda>page.
        bind_result (scan_page base limit inspectedLimit page sc) (\<lambda>sc1.
          if scCursor sc1 \<noteq> CursorBlank \<or> int (length page) < queryLimit then Inr sc1
          else select_loop load base pageSize limit inspectedLimit fuel sc1)))"

definition clamp_limit :: "int \<Rightarrow> int \<Rightarrow> int \<Rightarrow> int" where
  "clamp_limit given standard maximum =
     (let limit = (if given < 1 then standard else given) in if limit > maximum then maximum else limit)"

definition start_scan :: "selectionKeepState \<Rightarrow> selectionResume \<Rightarrow> selection_scan" where
  "start_scan state resume =
     \<lparr>scState = state, scSelected = [], scInspected = 0, scCapturedAt = resumeCapturedAt resume,
      scID = resumeID resume, scCursor = CursorBlank\<rparr>"

definition SelectWithTx ::
  "retention_env \<Rightarrow> SelectionRequest \<Rightarrow> retention_db \<Rightarrow> (retention_error, Selection) result" where
  "SelectWithTx env request db =
     (if \<not> ValidateOpaqueID (srPolicyID request) \<or> srExpectedRevision request < 1
      then Inl (RetentionError ErrInvalidState)
      else if srCursor request = CursorBlank \<and> (IsZero (srEvaluatedAt request) \<or> \<not> srEvaluatedUTC request)
      then Inl (RetentionError ErrInvalidState)
      else if \<not> IsZero (srEvaluatedAt request) \<and> \<not> srEvaluatedUTC request
      then Inl (RetentionError ErrInvalidState)
      else
        bind_result (first_policy env (srPolicyID request) db) (\<lambda>policy.
        if plStatus policy \<noteq> RetentionPolicyActive \<or> plRevision policy \<noteq> srExpectedRevision request
        then Inl (RetentionError ErrConflict)
        else
          bind_result (lift_asset (ParsePolicyRules (rvDecode env) (rvDigest env) (plRulesJSON policy))) (\<lambda>rules.
          bind_result (lift_asset (CanonicalizePolicyRules (rvDigest env) rules)) (\<lambda>(canonical, digest).
          bind_result (resolveSelectionScope env db policy) (\<lambda>(repositoryID, taskID).
          let pageSize = (if rvPageSize env < 1 then 200 else rvPageSize env);
              limit = clamp_limit (srLimit request) 50 200;
              inspectedLimit = clamp_limit (srInspectedLimit request) 200 1000 in
          bind_result (parseSelectionCursor (srCursor request)) (\<lambda>resume.
          bind_result (bindSelectionSnapshot request resume (plID policy) (plRevision policy) digest) (\<lambda>evaluatedAt.
          let base = empty_resume\<lparr>resumePolicyID := plID policy, resumeRevision := plRevision policy,
                       resumeDigest := digest, resumeEvaluatedAt := evaluatedAt\<rparr> in
          bind_result (select_loop (load_page env db repositoryID taskID) base pageSize limit inspectedLimit
              (nat inspectedLimit) (start_scan (newSelectionKeepState rules evaluatedAt resume) resume)) (\<lambda>sc.
            Inr \<lparr>slPolicyID = plID policy, slPolicyRevision = plRevision policy, slScopeKind = plScopeKind policy,
                 slScopeID = plScopeID policy, slRulesJSON = canonical, slRuleDigest = digest,
                 slEvaluatedAt = evaluatedAt, slPoints = scSelected sc, slNextCursor = scCursor sc,
                 slInspected = scInspected sc\<rparr>))))))))"

definition SelectPoints ::
  "retention_env \<Rightarrow> SelectionRequest \<Rightarrow> retention_db \<Rightarrow> (retention_error, Selection) result" where
  "SelectPoints env request db =
     snd (retention_transaction env (\<lambda>tx. bind_result (SelectWithTx env request tx) (\<lambda>s. Inr (tx, s))) db)"

section \<open>Impact preview\<close>

record lifecycleImpactCounts =
  icHoldCount :: nat
  icLeaseCount :: nat
  icWORMCount :: nat

definition selectedPointIDs :: "Selection \<Rightarrow> string list" where
  "selectedPointIDs selection = map spRecoveryPointID (slPoints selection)"

definition countLifecycleImpact ::
  "retention_env \<Rightarrow> retention_db \<Rightarrow> string list \<Rightarrow> time \<Rightarrow> (retention_error, lifecycleImpactCounts) result" where
  "countLifecycleImpact env db pointIDs now =
     (if pointIDs = [] then Inr \<lparr>icHoldCount = 0, icLeaseCount = 0, icWORMCount = 0\<rparr>
      else
        bind_result (retention_stmt_ok env StmtCountHolds) (\<lambda>_.
        bind_result (retention_stmt_ok env StmtCountLeases) (\<lambda>_.
        bind_result (retention_stmt_ok env StmtCountWorm) (\<lambda>_.
          Inr \<lparr>icHoldCount = rows_affected (\<lambda>h. hdPointID h \<in> set pointIDs \<and> hdState h = HoldActive) (rdHolds db),
               icLeaseCount = rows_affected (\<lambda>l. lRecoveryPointID l \<in> set pointIDs \<and> lStatus l = LeaseActive
                 \<and> lReleasedAt l = None \<and> lLeaseExpiresAt l > now \<and> lAbsoluteDeadline l > now) (rdLeases db),
               icWORMCount = rows_affected (\<lambda>p. rpID p \<in> set pointIDs \<and> rpImmutability p = ImmutabilityStorageWORM)
                 (rdPoints db)\<rparr>))))"

record ImpactPreview =
  ipSelection :: Selection
  ipImpactRevision :: int
  ipCounts :: lifecycleImpactCounts

definition PreviewImpact ::
  "retention_env \<Rightarrow> AuditActor \<Rightarrow> SelectionRequest \<Rightarrow> retention_db \<Rightarrow> (retention_error, ImpactPreview) result" where
  "PreviewImpact env actor request db =
     bind_result (validateAdminActor actor) (\<lambda>_.
       let request1 = (if IsZero (srEvaluatedAt request) \<and> srCursor request = CursorBlank
                       then request\<lparr>srEvaluatedAt := rvNow env, srEvaluatedUTC := True\<rparr> else request) in
       bind_result (SelectPoints env request1 db) (\<lambda>selection.
       bind_result (countLifecycleImpact env db (selectedPointIDs selection) (rvNow env)) (\<lambda>counts.
         Inr \<lparr>ipSelection = selection, ipImpactRevision = slPolicyRevision selection, ipCounts = counts\<rparr>)))"

end
