(* ===== verification/Retention_Hold.thy ===== *)
theory Retention_Hold
  imports Retention_Policy
begin

text \<open>
  The holds on recovery points, \<open>HoldService\<close> of \<open>backend/internal/backupasset/retention/hold.go\<close>:
  creating, listing and releasing a hold, the expiry of operational holds, and the projection of the
  active holds onto the point. With them the admission check of the lifecycle coordinator
  (\<open>Coordinator.ValidateHoldAdmissionTx\<close>, \<open>coordinator.go\<close>) and the hooks of
  \<open>model.RecoveryPointHold\<close> that encrypt and decrypt the reasons.

  An update of a hold is checked against the constraint of the table (migration
  \<open>000070_backup_asset_lifecycle\<close>, \<open>hold_check\<close> below), and fails as a statement when a row would violate
  it. The expiry of a batch runs one transaction per candidate; \<open>per\<close> gives the environment of each, by
  the identifier of the hold.
\<close>

section \<open>Requests and records\<close>

record CreateHoldRequest =
  chActor :: AuditActor
  chPointID :: string
  chType :: RecoveryPointHoldType
  chReason :: string
  chExpiresAt :: "time option"

record ReleaseHoldRequest =
  rhActor :: AuditActor
  rhPointID :: string
  rhHoldID :: string
  rhReason :: string

record HoldRecord =
  hrID :: string
  hrPointID :: string
  hrType :: RecoveryPointHoldType
  hrState :: HoldState
  hrCreatedBy :: nat
  hrExpiresAt :: "time option"
  hrReleasedBy :: "nat option"
  hrReleasedAt :: "time option"
  hrCreatedAt :: time
  hrUpdatedAt :: time

definition maxHoldReasonBytes :: nat where
  "maxHoldReasonBytes = 4096"

definition maxOperationalHoldExpiryBatch :: int where
  "maxOperationalHoldExpiryBatch = 1000"

definition operationalExpiryReason :: string where
  "operationalExpiryReason = ''operational hold expired''"

definition holdRecordFromModel :: "HoldRow \<Rightarrow> HoldRecord" where
  "holdRecordFromModel hold =
     \<lparr>hrID = hdID hold, hrPointID = hdPointID hold, hrType = hdType hold, hrState = hdState hold,
      hrCreatedBy = hdCreatedBy hold, hrExpiresAt = hdExpiresAt hold, hrReleasedBy = hdReleasedBy hold,
      hrReleasedAt = hdReleasedAt hold, hrCreatedAt = hdCreatedAt hold, hrUpdatedAt = hdUpdatedAt hold\<rparr>"

section \<open>Hooks of the model and constraint of the table\<close>

definition crypto_result :: "(crypto_error, 'a) result \<Rightarrow> (retention_error, 'a) result" where
  "crypto_result r = (case r of Inl e \<Rightarrow> Inl (RetentionCrypto e) | Inr a \<Rightarrow> Inr a)"

definition hold_BeforeSave :: "crypto_env \<Rightarrow> HoldRow \<Rightarrow> (crypto_error, HoldRow) result" where
  "hold_BeforeSave env hold =
     bind_result (encryptBackupAssetField env (hdReason hold)) (\<lambda>reason.
     bind_result (encryptBackupAssetField env (hdReleaseReason hold)) (\<lambda>release.
       Inr (hold\<lparr>hdReason := reason, hdReleaseReason := release\<rparr>)))"

definition hold_AfterFind :: "crypto_env \<Rightarrow> HoldRow \<Rightarrow> (crypto_error, HoldRow) result" where
  "hold_AfterFind env hold =
     bind_result (decryptBackupAssetField env (hdReason hold)) (\<lambda>reason.
     bind_result (decryptBackupAssetField env (hdReleaseReason hold)) (\<lambda>release.
       Inr (hold\<lparr>hdReason := reason, hdReleaseReason := release\<rparr>)))"

fun find_all :: "crypto_env \<Rightarrow> HoldRow list \<Rightarrow> (crypto_error, HoldRow list) result" where
  "find_all env [] = Inr []"
| "find_all env (hold # holds) =
     bind_result (hold_AfterFind env hold) (\<lambda>found. bind_result (find_all env holds) (\<lambda>rest. Inr (found # rest)))"

definition hold_check :: "HoldRow \<Rightarrow> bool" where
  "hold_check hold \<longleftrightarrow>
     hdState hold = HoldActive \<and> hdReleasedBy hold = None \<and> hdReleasedAt hold = None \<and> hdReleaseReason hold = []
     \<or> hdState hold = HoldReleased \<and> hdReleasedBy hold \<noteq> None \<and> hdReleaseReason hold \<noteq> []
       \<and> (case hdReleasedAt hold of None \<Rightarrow> False | Some released \<Rightarrow> hdCreatedAt hold \<le> released)"

text \<open>\<open>Updates\<close> on the holds that match: fails, or gives the number of rows and the table.\<close>

definition update_holds ::
  "retention_env \<Rightarrow> (HoldRow \<Rightarrow> bool) \<Rightarrow> (HoldRow \<Rightarrow> HoldRow) \<Rightarrow> HoldRow list \<Rightarrow> (retention_error, nat \<times> HoldRow list) result" where
  "update_holds env hit set_columns holds =
     bind_result (retention_stmt_ok env StmtUpdateHold) (\<lambda>_.
       if \<not> list_all (\<lambda>h. hold_check (set_columns h)) (filter hit holds)
       then Inl (RetentionFault (rvCheckFailed env))
       else Inr (rows_affected hit holds, update_where hit set_columns holds))"

section \<open>Validation\<close>

definition validateHoldReason :: "string \<Rightarrow> (retention_error, string) result" where
  "validateHoldReason value =
     (let value = TrimSpace value in
      if value = [] \<or> maxHoldReasonBytes < length value \<or> CHR 0x00 \<in> set value
      then Inl (RetentionError ErrInvalidState) else Inr value)"

definition validateCreateHoldRequest ::
  "CreateHoldRequest \<Rightarrow> time \<Rightarrow> (retention_error, string \<times> time option) result" where
  "validateCreateHoldRequest request now =
     (if \<not> ValidateOpaqueID (chPointID request) then Inl (RetentionError ErrInvalidState)
      else
        bind_result (lift_asset (ValidateRecoveryPointHoldType (chType request))) (\<lambda>_.
        bind_result (validateHoldReason (chReason request)) (\<lambda>reason.
          case chType request of
            RecoveryPointHoldOperational \<Rightarrow>
              (case chExpiresAt request of
                 None \<Rightarrow> Inl (RetentionError ErrInvalidState)
               | Some expiresAt \<Rightarrow>
                   if \<not> now < expiresAt then Inl (RetentionError ErrInvalidState) else Inr (reason, Some expiresAt))
          | RecoveryPointHoldLegal \<Rightarrow>
              if chExpiresAt request \<noteq> None then Inl (RetentionError ErrInvalidState) else Inr (reason, None)
          | RecoveryPointHoldTypeOther _ \<Rightarrow> Inl (RetentionError ErrInvalidState))))"

definition lockHoldPoint :: "retention_env \<Rightarrow> retention_db \<Rightarrow> string \<Rightarrow> (retention_error, RecoveryPointRow) result" where
  "lockHoldPoint env db pointID =
     bind_result (retention_stmt_ok env StmtLockPoint) (\<lambda>_.
       case take_row (\<lambda>p. rpID p = pointID) (rdPoints db) of
         None \<Rightarrow> Inl (RetentionError ErrNotFound)
       | Some point \<Rightarrow> Inr point)"

definition holdEligibleRecoveryPoint :: "RecoveryPointRow \<Rightarrow> bool" where
  "holdEligibleRecoveryPoint point \<longleftrightarrow>
     rpSemantics point \<noteq> PointMutableHead
     \<and> (rpSemantics point = PointNativeSnapshot \<or> rpSemantics point = PointXirangManifest
        \<or> rpSemantics point = PointImportedBaseline)
     \<and> (rpState point = RecoveryPointCommitted \<or> rpState point = RecoveryPointDegraded
        \<or> rpState point = RecoveryPointPurgeBlocked)"

definition ValidateHoldAdmissionTx :: "retention_env \<Rightarrow> retention_db \<Rightarrow> string \<Rightarrow> (retention_error, unit) result" where
  "ValidateHoldAdmissionTx env db pointID =
     (if \<not> ValidateOpaqueID pointID then Inl (RetentionError ErrInvalidState)
      else
        bind_result (retention_stmt_ok env StmtLockAdmission) (\<lambda>_.
          case take_row (\<lambda>p. rpID p = pointID) (rdPoints db) of
            None \<Rightarrow> Inl (RetentionError ErrNotFound)
          | Some point \<Rightarrow>
              bind_result (retention_stmt_ok env StmtCountAttempts) (\<lambda>_.
                if rows_affected (\<lambda>a. ltPointID a = pointID \<and> ltPhase a \<noteq> LifecyclePhaseComplete) (rdAttempts db) \<noteq> 0
                   \<or> rpState point = RecoveryPointExpiring \<or> rpState point = RecoveryPointExpired
                   \<or> rpState point = RecoveryPointPurgeBlocked \<or> rpState point = RecoveryPointRetired
                then Inl (RetentionError ErrConflict) else Inr ())))"

section \<open>Projection onto the point\<close>

definition hold_type_name :: "RecoveryPointHoldType \<Rightarrow> string" where
  "hold_type_name holdType =
     (case holdType of
        RecoveryPointHoldOperational \<Rightarrow> ''operational''
      | RecoveryPointHoldLegal \<Rightarrow> ''legal''
      | RecoveryPointHoldTypeOther name \<Rightarrow> name)"

definition active_holds :: "string \<Rightarrow> HoldRow list \<Rightarrow> HoldRow list" where
  "active_holds pointID holds = filter (\<lambda>h. hdPointID h = pointID \<and> hdState h = HoldActive) holds"

fun hold_until :: "time option \<Rightarrow> HoldRow list \<Rightarrow> time option" where
  "hold_until holdUntil [] = holdUntil"
| "hold_until holdUntil (hold # holds) =
     (if hdType hold = RecoveryPointHoldLegal then None
      else case hdExpiresAt hold of
        None \<Rightarrow> hold_until holdUntil holds
      | Some expires \<Rightarrow>
          if (case holdUntil of None \<Rightarrow> True | Some t \<Rightarrow> t < expires)
          then hold_until (Some expires) holds else hold_until holdUntil holds)"

definition projected :: "HoldRow list \<Rightarrow> time \<Rightarrow> RecoveryPointRow \<Rightarrow> RecoveryPointRow" where
  "projected active now point =
     point\<lparr>rpHoldState := (if active \<noteq> [] then HoldActive else HoldReleased),
           rpHoldUntil := hold_until None active, rpUpdatedAt := now,
           rpPointRevision := rpPointRevision point + 1\<rparr>"

definition updatePointHoldProjection :: "retention_env \<Rightarrow> string \<Rightarrow> time \<Rightarrow> retention_db \<Rightarrow> (retention_error, retention_db) result" where
  "updatePointHoldProjection env pointID now db =
     bind_result (retention_stmt_ok env StmtProjectHolds) (\<lambda>_.
       let active = sort_key (\<lambda>h. hold_type_name (hdType h)) (active_holds pointID (rdHolds db)) in
       bind_result (retention_stmt_ok env StmtUpdatePoint) (\<lambda>_.
         if rows_affected (\<lambda>p. rpID p = pointID) (rdPoints db) \<noteq> 1 then Inl (RetentionError ErrConflict)
         else Inr (db\<lparr>rdPoints := update_where (\<lambda>p. rpID p = pointID) (projected active now) (rdPoints db)\<rparr>)))"

section \<open>Creation\<close>

definition active_of_type :: "string \<Rightarrow> RecoveryPointHoldType \<Rightarrow> HoldRow \<Rightarrow> bool" where
  "active_of_type pointID holdType h \<longleftrightarrow> hdPointID h = pointID \<and> hdType h = holdType \<and> hdState h = HoldActive"

definition mapHoldCreateError ::
  "retention_env \<Rightarrow> retention_db \<Rightarrow> string \<Rightarrow> RecoveryPointHoldType \<Rightarrow> retention_error \<Rightarrow> retention_error" where
  "mapHoldCreateError env db pointID holdType createErr =
     (if rvFault env StmtRecountHolds = None \<and> rows_affected (active_of_type pointID holdType) (rdHolds db) \<noteq> 0
      then RetentionError ErrConflict else createErr)"

text \<open>The insert runs the hook, and fails when the database fails it or the identifier is taken.\<close>

definition create_hold :: "retention_env \<Rightarrow> HoldRow \<Rightarrow> HoldRow list \<Rightarrow> (retention_error, HoldRow \<times> HoldRow list) result" where
  "create_hold env hold holds =
     bind_result (crypto_result (hold_BeforeSave (rvCrypto env) hold)) (\<lambda>row.
     bind_result (retention_stmt_ok env StmtCreateHold) (\<lambda>_.
       if hdID row \<in> set (map hdID holds) then Inl (RetentionFault (rvDuplicate env)) else Inr (row, holds @ [row])))"

definition CreateHoldTx ::
  "retention_env \<Rightarrow> CreateHoldRequest \<Rightarrow> string \<Rightarrow> time option \<Rightarrow> retention_db \<Rightarrow> (retention_error, retention_db \<times> HoldRow) result" where
  "CreateHoldTx env request reason expiresAt db =
     bind_result (lockHoldPoint env db (chPointID request)) (\<lambda>point.
     bind_result (if rvAdmission env then ValidateHoldAdmissionTx env db (chPointID request) else Inr ()) (\<lambda>_.
       if \<not> holdEligibleRecoveryPoint point then Inl (RetentionError ErrConflict)
       else
         bind_result (retention_stmt_ok env StmtCountActiveHolds) (\<lambda>_.
           if rows_affected (active_of_type (chPointID request) (chType request)) (rdHolds db) \<noteq> 0
           then Inl (RetentionError ErrConflict)
           else
             case rvNewID env of
               None \<Rightarrow> Inl (RetentionError ErrInvalidState)
             | Some identifier \<Rightarrow>
                 if \<not> ValidateOpaqueID identifier then Inl (RetentionError ErrInvalidState)
                 else
                   (case create_hold env \<lparr>hdID = identifier, hdPointID = chPointID request, hdType = chType request,
                            hdState = HoldActive, hdReason = reason, hdCreatedBy = actorUserID (chActor request),
                            hdExpiresAt = expiresAt, hdReleasedBy = None, hdReleasedAt = None, hdReleaseReason = [],
                            hdCreatedAt = rvNow env, hdUpdatedAt = rvNow env\<rparr> (rdHolds db) of
                      Inl createErr \<Rightarrow> Inl (mapHoldCreateError env db (chPointID request) (chType request) createErr)
                    | Inr (row, holds) \<Rightarrow>
                        bind_result (updatePointHoldProjection env (chPointID request) (rvNow env) (db\<lparr>rdHolds := holds\<rparr>)) (\<lambda>db1.
                        bind_result (writeMutationAuditTx env
                          (mutationAuditInput env (chActor request) AuditActionHoldCreate [] (chPointID request) 1 []) db1) (\<lambda>db2.
                          Inr (db2, row)))))))"

definition CreateHold ::
  "retention_env \<Rightarrow> CreateHoldRequest \<Rightarrow> retention_db \<Rightarrow> retention_db \<times> (retention_error, HoldRecord) result" where
  "CreateHold env request db =
     (case bind_result (validateAdminActor (chActor request)) (\<lambda>_. validateCreateHoldRequest request (rvNow env)) of
        Inl err \<Rightarrow> (db, Inl err)
      | Inr (reason, expiresAt) \<Rightarrow>
          (case retention_transaction env (CreateHoldTx env request reason expiresAt) db of
             (db1, Inl err) \<Rightarrow> (db1, Inl err)
           | (db1, Inr row) \<Rightarrow> (db1, Inr (holdRecordFromModel row))))"

section \<open>Listing and release\<close>

definition ListHolds ::
  "retention_env \<Rightarrow> AuditActor \<Rightarrow> string \<Rightarrow> retention_db \<Rightarrow> retention_db \<times> (retention_error, HoldRecord list) result" where
  "ListHolds env actor pointID db =
     (case bind_result (validateAdminActor actor) (\<lambda>_.
             if \<not> ValidateOpaqueID pointID then Inl (RetentionError ErrInvalidState) else Inr ()) of
        Inl err \<Rightarrow> (db, Inl err)
      | Inr _ \<Rightarrow>
          retention_transaction env (\<lambda>db.
            bind_result (lockHoldPoint env db pointID) (\<lambda>_.
            bind_result (retention_stmt_ok env StmtListHolds) (\<lambda>_.
            bind_result (crypto_result (find_all (rvCrypto env)
              (sort_key (\<lambda>h. (hold_type_name (hdType h), hdID h)) (active_holds pointID (rdHolds db))))) (\<lambda>rows.
              Inr (db, map holdRecordFromModel rows))))) db)"

definition ReleaseHoldTx ::
  "retention_env \<Rightarrow> ReleaseHoldRequest \<Rightarrow> string \<Rightarrow> retention_db \<Rightarrow> (retention_error, retention_db \<times> HoldRow) result" where
  "ReleaseHoldTx env request reason db =
     bind_result (lockHoldPoint env db (rhPointID request)) (\<lambda>_.
     bind_result (retention_stmt_ok env StmtLoadHold) (\<lambda>_.
       case take_row (\<lambda>h. hdID h = rhHoldID request \<and> hdPointID h = rhPointID request) (rdHolds db) of
         None \<Rightarrow> Inl (RetentionError ErrNotFound)
       | Some row \<Rightarrow>
           bind_result (crypto_result (hold_AfterFind (rvCrypto env) row)) (\<lambda>hold.
             if hdState hold \<noteq> HoldActive then Inl (RetentionError ErrConflict)
             else
               bind_result (crypto_result (encryptBackupAssetField (rvCrypto env) reason)) (\<lambda>sealed.
               bind_result (update_holds env
                   (\<lambda>h. hdID h = rhHoldID request \<and> hdPointID h = rhPointID request \<and> hdState h = HoldActive)
                   (\<lambda>h. h\<lparr>hdState := HoldReleased, hdReleasedBy := Some (actorUserID (rhActor request)),
                          hdReleasedAt := Some (rvNow env), hdReleaseReason := sealed, hdUpdatedAt := rvNow env\<rparr>)
                   (rdHolds db)) (\<lambda>(affected, holds).
                 if affected \<noteq> 1 then Inl (RetentionError ErrConflict)
                 else
                   bind_result (updatePointHoldProjection env (rhPointID request) (rvNow env) (db\<lparr>rdHolds := holds\<rparr>)) (\<lambda>db1.
                   bind_result (writeMutationAuditTx env
                     (mutationAuditInput env (rhActor request) AuditActionHoldRelease [] (rhPointID request) 1 []) db1) (\<lambda>db2.
                     Inr (db2, hold\<lparr>hdState := HoldReleased, hdReleasedBy := Some (actorUserID (rhActor request)),
                                    hdReleasedAt := Some (rvNow env), hdUpdatedAt := rvNow env\<rparr>))))))))"

definition ReleaseHold ::
  "retention_env \<Rightarrow> ReleaseHoldRequest \<Rightarrow> retention_db \<Rightarrow> retention_db \<times> (retention_error, HoldRecord) result" where
  "ReleaseHold env request db =
     (case bind_result (validateAdminActor (rhActor request)) (\<lambda>_.
             if \<not> ValidateOpaqueID (rhPointID request) \<or> \<not> ValidateOpaqueID (rhHoldID request)
             then Inl (RetentionError ErrInvalidState) else validateHoldReason (rhReason request)) of
        Inl err \<Rightarrow> (db, Inl err)
      | Inr reason \<Rightarrow>
          (case retention_transaction env (ReleaseHoldTx env request reason) db of
             (db1, Inl err) \<Rightarrow> (db1, Inl err)
           | (db1, Inr hold) \<Rightarrow> (db1, Inr (holdRecordFromModel hold))))"

section \<open>Expiry\<close>

definition due_hold :: "time \<Rightarrow> HoldRow \<Rightarrow> bool" where
  "due_hold now h \<longleftrightarrow> hdType h = RecoveryPointHoldOperational \<and> hdState h = HoldActive
     \<and> (case hdExpiresAt h of None \<Rightarrow> False | Some expires \<Rightarrow> expires \<le> now)"

definition expireOperationalTx ::
  "retention_env \<Rightarrow> AuditActor \<Rightarrow> nat option \<Rightarrow> string \<times> string \<Rightarrow> time \<Rightarrow> retention_db
   \<Rightarrow> (retention_error, retention_db \<times> HoldRecord option) result" where
  "expireOperationalTx env actor releasedBy candidate now db =
     bind_result (lockHoldPoint env db (snd candidate)) (\<lambda>_.
     bind_result (retention_stmt_ok env StmtLoadHold) (\<lambda>_.
       case take_row (\<lambda>h. hdID h = fst candidate \<and> hdPointID h = snd candidate) (rdHolds db) of
         None \<Rightarrow> Inr (db, None)
       | Some hold \<Rightarrow>
           if \<not> due_hold now hold then Inr (db, None)
           else
             bind_result (crypto_result (encryptBackupAssetField (rvCrypto env) operationalExpiryReason)) (\<lambda>sealed.
             bind_result (update_holds env
                 (\<lambda>h. hdID h = hdID hold \<and> hdPointID h = hdPointID hold \<and> due_hold now h)
                 (\<lambda>h. h\<lparr>hdState := HoldReleased, hdReleasedBy := releasedBy, hdReleasedAt := Some now,
                        hdReleaseReason := sealed, hdUpdatedAt := now\<rparr>)
                 (rdHolds db)) (\<lambda>(affected, holds).
               if affected \<noteq> 1 then Inr (db\<lparr>rdHolds := holds\<rparr>, None)
               else
                 bind_result (updatePointHoldProjection env (hdPointID hold) now (db\<lparr>rdHolds := holds\<rparr>)) (\<lambda>db1.
                 bind_result (writeMutationAuditTx env
                   (mutationAuditInput env actor AuditActionHoldRelease [] (hdPointID hold) 1 []) db1) (\<lambda>db2.
                   Inr (db2, Some (holdRecordFromModel (hold\<lparr>hdState := HoldReleased, hdReleasedBy := releasedBy,
                     hdReleasedAt := Some now, hdUpdatedAt := now\<rparr>)))))))))"

definition expireOperationalHold ::
  "retention_env \<Rightarrow> AuditActor \<Rightarrow> nat option \<Rightarrow> string \<times> string \<Rightarrow> time \<Rightarrow> retention_db
   \<Rightarrow> retention_db \<times> (retention_error, HoldRecord option) result" where
  "expireOperationalHold env actor releasedBy candidate now db =
     retention_transaction env (expireOperationalTx env actor releasedBy candidate now) db"

fun expire_candidates ::
  "(string \<Rightarrow> retention_env) \<Rightarrow> AuditActor \<Rightarrow> nat option \<Rightarrow> time \<Rightarrow> (string \<times> string) list \<Rightarrow> retention_db
   \<Rightarrow> retention_db \<times> (retention_error, HoldRecord list) result" where
  "expire_candidates per actor releasedBy now [] db = (db, Inr [])"
| "expire_candidates per actor releasedBy now (candidate # candidates) db =
     (case expireOperationalHold (per (fst candidate)) actor releasedBy candidate now db of
        (db1, Inl err) \<Rightarrow> (db1, Inl err)
      | (db1, Inr released) \<Rightarrow>
          (case expire_candidates per actor releasedBy now candidates db1 of
             (db2, Inl err) \<Rightarrow> (db2, Inl err)
           | (db2, Inr rest) \<Rightarrow> (db2, Inr ((case released of None \<Rightarrow> [] | Some record \<Rightarrow> [record]) @ rest))))"

definition expireOperationalBatch ::
  "retention_env \<Rightarrow> (string \<Rightarrow> retention_env) \<Rightarrow> AuditActor \<Rightarrow> nat option \<Rightarrow> int \<Rightarrow> retention_db
   \<Rightarrow> retention_db \<times> (retention_error, HoldRecord list) result" where
  "expireOperationalBatch env per actor releasedBy limit db =
     (if limit < 1 \<or> maxOperationalHoldExpiryBatch < limit then (db, Inl (RetentionError ErrInvalidState))
      else case retention_stmt_ok env StmtExpiredHolds of
        Inl err \<Rightarrow> (db, Inl err)
      | Inr _ \<Rightarrow>
          expire_candidates per actor releasedBy (rvNow env)
            (map (\<lambda>h. (hdID h, hdPointID h))
              (take (nat limit) (sort_key (\<lambda>h. (the (hdExpiresAt h), hdID h)) (filter (due_hold (rvNow env)) (rdHolds db))))) db)"

definition ExpireOperational ::
  "retention_env \<Rightarrow> (string \<Rightarrow> retention_env) \<Rightarrow> AuditActor \<Rightarrow> int \<Rightarrow> retention_db
   \<Rightarrow> retention_db \<times> (retention_error, HoldRecord list) result" where
  "ExpireOperational env per actor limit db =
     (case validateAdminActor actor of
        Inl err \<Rightarrow> (db, Inl err)
      | Inr _ \<Rightarrow> expireOperationalBatch env per actor (Some (actorUserID actor)) limit db)"

definition ExpireOperationalMaintenance ::
  "retention_env \<Rightarrow> (string \<Rightarrow> retention_env) \<Rightarrow> int \<Rightarrow> retention_db
   \<Rightarrow> retention_db \<times> (retention_error, HoldRecord list) result" where
  "ExpireOperationalMaintenance env per limit db =
     expireOperationalBatch env per \<lparr>actorUserID = 0, actorUsername = ''system'', actorRole = ''system''\<rparr> None limit db"

end
