(* ===== verification/Retention_Selection.thy ===== *)
theory Retention_Selection
  imports Retention_Policy
begin

text \<open>
  What a retention policy selects. The keep state that \<open>SelectWithTx\<close> carries from point to point, and
  through the cursor from page to page, is shown to follow a declarative reading of the rules
  (\<open>kept_at\<close>); the pages of points that the loop loads are consecutive pieces of one list, the eligible
  points newest first, whatever the page sizes; and points already inspected may change between two
  calls. Two properties follow: following the cursor to the end yields exactly the points the rules do
  not keep, and no held point is ever selected.
\<close>


section \<open>The rules as a predicate on the list of points\<close>

text \<open>
  The rules read declaratively. Among the instants \<open>ts\<close>, newest first, the one at position \<open>i\<close> is kept
  when it is not older than the age limit, when it is among the newest, or when some calendar rule has
  it as the newest of its bucket while fewer buckets than the rule keeps are newer.
\<close>

definition newest_of_bucket :: "CalendarRule \<Rightarrow> time list \<Rightarrow> nat \<Rightarrow> bool" where
  "newest_of_bucket rule ts i \<longleftrightarrow>
     (let bucket = (\<lambda>j. calendarBucket (ts ! j) (ruleUnit rule))
      in bucket i \<notin> bucket ` {..<i} \<and> int (card (bucket ` {..<i})) < ruleKeep rule)"

definition kept_at :: "PolicyRules \<Rightarrow> time \<Rightarrow> time list \<Rightarrow> nat \<Rightarrow> bool" where
  "kept_at rules evaluatedAt ts i \<longleftrightarrow>
     (\<exists>days. rulesAge rules = Some days \<and> evaluatedAt - days * (24 * Hour) \<le> ts ! i)
     \<or> (\<exists>n. rulesCount rules = Some n \<and> int i < n)
     \<or> (\<exists>rule \<in> set (rulesCalendar rules). newest_of_bucket rule ts i)"

section \<open>The keep state follows the predicate\<close>

definition rule_seen :: "time list \<Rightarrow> CalendarRule \<Rightarrow> calendarKeepState" where
  "rule_seen ts rule = \<lparr>keepUnit = ruleUnit rule, keepLimit = ruleKeep rule,
     keepBuckets = take (nat (ruleKeep rule)) (nub (map (\<lambda>t. calendarBucket t (ruleUnit rule)) ts))\<rparr>"

definition seen_state :: "PolicyRules \<Rightarrow> time \<Rightarrow> time list \<Rightarrow> selectionKeepState" where
  "seen_state rules evaluatedAt ts =
     \<lparr>keepSeen = int (length ts),
      keepCutoff = map_option (\<lambda>days. evaluatedAt - days * (24 * Hour)) (rulesAge rules),
      keepLatest = (case rulesCount rules of Some n \<Rightarrow> n | None \<Rightarrow> 0),
      keepCalendar = map (rule_seen ts) (rulesCalendar rules)\<rparr>"

lemma take_nub_snoc:
  "take k (nub (xs @ [x])) =
     (if x \<in> set (take k (nub xs)) \<or> k \<le> length (take k (nub xs)) then take k (nub xs) else take k (nub xs) @ [x])"
proof (cases "k \<le> length (nub xs)")
  case True
  then show ?thesis by (auto simp: nub_snoc)
next
  case False
  then show ?thesis by (auto simp: nub_snoc)
qed

lemma keep_bucket_seen:
  assumes "1 \<le> ruleKeep rule"
  shows "keep_bucket t (rule_seen ts rule) =
    (rule_seen (ts @ [t]) rule,
     calendarBucket t (ruleUnit rule) \<notin> (\<lambda>t. calendarBucket t (ruleUnit rule)) ` set ts
     \<and> int (card ((\<lambda>t. calendarBucket t (ruleUnit rule)) ` set ts)) < ruleKeep rule)"
proof -
  let ?b = "\<lambda>t. calendarBucket t (ruleUnit rule)" let ?k = "nat (ruleKeep rule)"
  let ?seen = "nub (map ?b ts)"
  have len: "length ?seen = card (?b ` set ts)" by (simp add: length_nub)
  have lim: "int (length (take ?k ?seen)) \<ge> ruleKeep rule \<longleftrightarrow> ?k \<le> length ?seen"
    using assms by auto
  show ?thesis
  proof (cases "?k \<le> length ?seen")
    case True
    then show ?thesis using lim len assms take_nub_snoc [of ?k "map ?b ts" "?b t"]
      by (auto simp: keep_bucket_def rule_seen_def Let_def)
  next
    case False
    then have "take ?k ?seen = ?seen" by simp
    then show ?thesis using False lim len assms take_nub_snoc [of ?k "map ?b ts" "?b t"]
      by (auto simp: keep_bucket_def rule_seen_def Let_def)
  qed
qed

lemma bucket_prefix: "i < length ts \<Longrightarrow> f ` set (take i ts) = (\<lambda>j. f (ts ! j)) ` {..<i}"
  by (simp add: nth_image [symmetric] image_image lessThan_atLeast0)

lemma validate_calendar_keep: "validate_calendar seen rules \<Longrightarrow> rule \<in> set rules \<Longrightarrow> 1 \<le> ruleKeep rule"
  by (induction rules arbitrary: seen) (auto split: if_splits)

lemma valid_rule_keep: "validatePolicyRules rules = Inr () \<Longrightarrow> rule \<in> set (rulesCalendar rules) \<Longrightarrow> 1 \<le> ruleKeep rule"
  by (auto simp: validatePolicyRules_def intro: validate_calendar_keep split: if_splits)

lemma valid_count: "validatePolicyRules rules = Inr () \<Longrightarrow> rulesCount rules = Some n \<Longrightarrow> 0 < n"
  by (auto simp: validatePolicyRules_def split: if_splits)

lemma keep_seen:
  assumes "validatePolicyRules rules = Inr ()" and "i < length ts" and "int (length ts) \<le> MaxInt64"
  shows "keep (ts ! i) (seen_state rules at (take i ts)) =
    (seen_state rules at (take (Suc i) ts), kept_at rules at ts i)"
proof -
  have snoc: "take (Suc i) ts = take i ts @ [ts ! i]" using assms(2) by (rule take_Suc_conv_app_nth)
  have step: "keep_bucket (ts ! i) (rule_seen (take i ts) rule) =
      (rule_seen (take (Suc i) ts) rule, newest_of_bucket rule ts i)" if "rule \<in> set (rulesCalendar rules)" for rule
    using keep_bucket_seen [OF valid_rule_keep [OF assms(1) that]]
      bucket_prefix [OF assms(2), of "\<lambda>t. calendarBucket t (ruleUnit rule)"]
    by (simp add: snoc newest_of_bucket_def Let_def)
  then have cal: "map (keep_bucket (ts ! i)) (keepCalendar (seen_state rules at (take i ts))) =
      map (\<lambda>rule. (rule_seen (take (Suc i) ts) rule, newest_of_bucket rule ts i)) (rulesCalendar rules)"
    by (simp add: seen_state_def comp_def)
  have w: "wrap64 (int i + 1) = int i + 1" using assms(2,3) by (auto intro!: wrap64_id in_i64_nonneg)
  have len: "length (take i ts) = i" "length (take (Suc i) ts) = Suc i" using assms(2) by auto
  show ?thesis
    using w len cal assms(1)
    by (auto simp: keep_def Let_def comp_def list_ex_iff kept_at_def seen_state_def
        dest: valid_count split: option.splits)
qed

lemma resume_seen:
  "newSelectionKeepState rules at (r\<lparr>resumeSeen := int (length ts),
     resumeCalendar := snapshotCalendar (seen_state rules at ts)\<rparr>) = seen_state rules at ts"
proof -
  have "rule_state (snapshotCalendar (seen_state rules at ts)) i (rulesCalendar rules ! i) = rule_seen ts (rulesCalendar rules ! i)"
    if "i < length (rulesCalendar rules)" for i
    using that by (simp add: rule_state_def snapshotCalendar_def seen_state_def rule_seen_def
        present_buckets_def comp_def distinct_remdups_id)
  then show ?thesis
    by (auto simp: newSelectionKeepState_def seen_state_def intro!: nth_equalityI)
qed


section \<open>The order of the points\<close>

definition point_key :: "RecoveryPointRow \<Rightarrow> time \<times> string" where
  "point_key p = (the (rpCapturedAt p), rpID p)"

lemma newest_first_filter: "newest_first nf (filter P ps) = filter P (newest_first nf ps)"
  by (simp only: newest_first_def filter_sort [symmetric] rev_filter)

lemma set_newest_first [simp]: "set (newest_first nf ps) = set ps"
  by (simp add: newest_first_def)

lemma newest_first_ids: "distinct (map rpID ps) \<Longrightarrow> distinct (map rpID (newest_first nf ps))"
  by (auto simp: distinct_map newest_first_def)

text \<open>Points with an instant come out in strictly falling order of instant and identifier.\<close>

lemma newest_first_sorted:
  assumes "distinct (map rpID ps)" and "\<And>p. p \<in> set ps \<Longrightarrow> rpCapturedAt p \<noteq> None"
  shows "sorted_wrt (\<lambda>p q. point_key q < point_key p) (newest_first nf ps)"
proof -
  have "sorted_wrt (\<lambda>p q. point_order nf q \<le> point_order nf p) (newest_first nf ps)"
    using sorted_sort_key [of "point_order nf" ps]
    by (simp add: newest_first_def sorted_wrt_rev sorted_wrt_map)
  moreover have "distinct (map rpID (newest_first nf ps))" using newest_first_ids [OF assms(1)] .
  ultimately have "sorted_wrt (\<lambda>p q. point_order nf q \<le> point_order nf p \<and> rpID p \<noteq> rpID q) (newest_first nf ps)"
    by (simp add: sorted_wrt_iff_nth_less distinct_conv_nth)
  then show ?thesis
  proof (rule sorted_wrt_mono_rel [rotated])
    fix p q assume "p \<in> set (newest_first nf ps)" "q \<in> set (newest_first nf ps)"
      and le: "point_order nf q \<le> point_order nf p \<and> rpID p \<noteq> rpID q"
    then have "rpCapturedAt p \<noteq> None" "rpCapturedAt q \<noteq> None" using assms(2) by auto
    with le show "point_key q < point_key p"
      by (auto simp: point_order_def point_key_def less_eq_prod_def less_prod_def)
  qed
qed

lemma after_cursor_key:
  assumes "rpCapturedAt p = Some t" and "i \<noteq> []"
  shows "after_cursor (Some c) i p \<longleftrightarrow> point_key p < (c, i)"
  using assms by (auto simp: after_cursor_def point_key_def less_prod_def)

text \<open>Filtering by the key of a point of a strictly falling list drops it and everything before it.\<close>

lemma filter_after:
  assumes "sorted_wrt (\<lambda>p q. f q < f p) xs" and "k < length xs"
  shows "filter (\<lambda>p. f p < (f (xs ! k) :: 'a :: linorder)) xs = drop (Suc k) xs"
proof -
  have "\<not> f p < f (xs ! k)" if "p \<in> set (take (Suc k) xs)" for p
  proof -
    obtain j where j: "j < Suc k" "p = xs ! j" using \<open>p \<in> set (take (Suc k) xs)\<close> assms(2) by (auto simp: in_set_conv_nth)
    then show ?thesis using assms sorted_wrt_nth_less [OF assms(1), of j k] by (cases "j = k") auto
  qed
  then have front: "filter (\<lambda>p. f p < f (xs ! k)) (take (Suc k) xs) = []"
    by (simp add: filter_empty_conv)
  have "f p < f (xs ! k)" if "p \<in> set (drop (Suc k) xs)" for p
  proof -
    obtain j where "j < length xs - Suc k" "p = xs ! (Suc k + j)" using \<open>p \<in> set (drop (Suc k) xs)\<close>
      by (auto simp: in_set_conv_nth)
    then show ?thesis using sorted_wrt_nth_less [OF assms(1), of k "Suc k + j"] by auto
  qed
  then have rest: "filter (\<lambda>p. f p < f (xs ! k)) (drop (Suc k) xs) = drop (Suc k) xs"
    by (simp add: filter_True)
  have "filter (\<lambda>p. f p < f (xs ! k)) (take (Suc k) xs @ drop (Suc k) xs) = drop (Suc k) xs"
    unfolding filter_append front rest by simp
  then show ?thesis by simp
qed


section \<open>Loading a page\<close>

definition scope_points :: "bool \<Rightarrow> retention_db \<Rightarrow> string \<Rightarrow> nat option \<Rightarrow> RecoveryPointRow list" where
  "scope_points nf db repositoryID taskID = newest_first nf (filter (eligible_point db repositoryID taskID) (rdPoints db))"

abbreviation captures :: "RecoveryPointRow list \<Rightarrow> time list" where
  "captures ps \<equiv> map (\<lambda>p. the (rpCapturedAt p)) ps"

definition cursor_time :: "RecoveryPointRow list \<Rightarrow> nat \<Rightarrow> time option" where
  "cursor_time ps k = (if k = 0 then None else Some (the (rpCapturedAt (ps ! (k - 1)))))"

definition cursor_id :: "RecoveryPointRow list \<Rightarrow> nat \<Rightarrow> string" where
  "cursor_id ps k = (if k = 0 then [] else rpID (ps ! (k - 1)))"

definition complete_points :: "RecoveryPointRow list \<Rightarrow> bool" where
  "complete_points ps \<longleftrightarrow> list_all (\<lambda>p. \<not> incomplete_point p \<and> json_time_ok (the (rpCapturedAt p))) ps
     \<and> int (length ps) \<le> MaxInt64"

text \<open>
  \<open>only_before k ps db db'\<close>: between two pages only the points already inspected, the first \<open>k\<close>, may have
  changed, and not in identifier or instant.
\<close>

definition only_before :: "nat \<Rightarrow> RecoveryPointRow list \<Rightarrow> retention_db \<Rightarrow> retention_db \<Rightarrow> bool" where
  "only_before k ps db db' \<longleftrightarrow>
     rdPolicies db' = rdPolicies db \<and> rdHolds db' = rdHolds db \<and> rdRepositories db' = rdRepositories db
     \<and> rdLinks db' = rdLinks db
     \<and> (\<exists>g. rdPoints db' = map g (rdPoints db)
          \<and> (\<forall>p \<in> set (rdPoints db).
               rpID (g p) = rpID p \<and> rpCapturedAt (g p) = rpCapturedAt p \<and> (p \<in> set (take k ps) \<or> g p = p)))"

lemma complete_point: "complete_points ps \<Longrightarrow> p \<in> set ps \<Longrightarrow>
    ValidateOpaqueID (rpID p) \<and> rpCapturedAt p \<noteq> None \<and> json_time_ok (the (rpCapturedAt p)) \<and> \<not> incomplete_point p"
  by (auto simp: complete_points_def list_all_iff incomplete_point_def split: option.splits)

lemma opaque_nonempty: "ValidateOpaqueID s \<Longrightarrow> s \<noteq> []"
  by (auto simp: ValidateOpaqueID_def isLowerHex_def)

lemma eligible_holds: "rdHolds db' = rdHolds db \<Longrightarrow> eligible_point db' = eligible_point db"
  by (simp add: eligible_point_def fun_eq_iff)

lemma filter_map_unchanged:
  assumes "\<And>p. p \<in> set xs \<Longrightarrow> P (g p) = P p" and "\<And>p. p \<in> set xs \<Longrightarrow> P p \<Longrightarrow> g p = p"
  shows "filter P (map g xs) = filter P xs"
  using assms by (induction xs) auto

lemma scope_sorted:
  assumes "distinct (map rpID (rdPoints db))" and "complete_points (scope_points nf db repositoryID taskID)"
  shows "sorted_wrt (\<lambda>p q. point_key q < point_key p) (scope_points nf db repositoryID taskID)"
  unfolding scope_points_def
proof (rule newest_first_sorted)
  show "distinct (map rpID (filter (eligible_point db repositoryID taskID) (rdPoints db)))"
    using assms(1) by (rule distinct_map_filter)
  show "rpCapturedAt p \<noteq> None" if "p \<in> set (filter (eligible_point db repositoryID taskID) (rdPoints db))" for p
    using complete_point [OF assms(2), of p] that by (simp add: scope_points_def)
qed

lemma scope_tail:
  assumes ids: "distinct (map rpID (rdPoints db))" and ps: "ps = scope_points nf db repositoryID taskID"
    and complete: "complete_points ps" and j: "j \<le> length ps"
  shows "newest_first nf (filter (\<lambda>p. eligible_point db repositoryID taskID p
      \<and> after_cursor (cursor_time ps j) (cursor_id ps j) p) (rdPoints db)) = drop j ps"
proof (cases j)
  case 0
  then show ?thesis by (simp add: cursor_time_def after_cursor_def ps scope_points_def)
next
  case (Suc k)
  then have k: "k < length ps" using j by simp
  have key: "after_cursor (cursor_time ps j) (cursor_id ps j) p \<longleftrightarrow> point_key p < point_key (ps ! k)"
    if "p \<in> set ps" for p
    using complete_point [OF complete that] complete_point [OF complete, of "ps ! k"] k opaque_nonempty Suc
    by (auto simp: cursor_time_def cursor_id_def after_cursor_key point_key_def)
  have "newest_first nf (filter (\<lambda>p. eligible_point db repositoryID taskID p
      \<and> after_cursor (cursor_time ps j) (cursor_id ps j) p) (rdPoints db))
      = filter (after_cursor (cursor_time ps j) (cursor_id ps j)) ps"
    by (simp add: ps scope_points_def newest_first_filter filter_filter conj_commute)
  also have "\<dots> = filter (\<lambda>p. point_key p < point_key (ps ! k)) ps"
    using key by (rule filter_cong [OF refl])
  also have "\<dots> = drop j ps"
    using filter_after [OF scope_sorted [OF ids] k [unfolded ps]] complete Suc by (simp add: ps)
  finally show ?thesis .
qed


definition tail_loads ::
  "(int \<Rightarrow> time option \<Rightarrow> string \<Rightarrow> (retention_error, RecoveryPointRow list) result) \<Rightarrow> RecoveryPointRow list \<Rightarrow> nat \<Rightarrow> bool" where
  "tail_loads load ps k \<longleftrightarrow>
     (\<forall>j q. k \<le> j \<and> j \<le> length ps \<longrightarrow> load q (cursor_time ps j) (cursor_id ps j) = Inr (take (nat q) (drop j ps)))"

lemma load_page_tail:
  assumes ids: "distinct (map rpID (rdPoints db))" and ps: "ps = scope_points (rvNullsFirst env) db repositoryID taskID"
    and complete: "complete_points ps" and change: "only_before k ps db db'" and quiet: "rvFault env StmtLoadPoints = None"
  shows "tail_loads (load_page env db' repositoryID taskID) ps k"
  unfolding tail_loads_def
proof (intro allI impI)
  fix j q assume j: "k \<le> j \<and> j \<le> length ps"
  let ?P = "\<lambda>p. eligible_point db repositoryID taskID p \<and> after_cursor (cursor_time ps j) (cursor_id ps j) p"
  obtain g where g: "rdPoints db' = map g (rdPoints db)"
      "\<And>p. p \<in> set (rdPoints db) \<Longrightarrow> rpID (g p) = rpID p" "\<And>p. p \<in> set (rdPoints db) \<Longrightarrow> rpCapturedAt (g p) = rpCapturedAt p"
      "\<And>p. p \<in> set (rdPoints db) \<Longrightarrow> p \<in> set (take k ps) \<or> g p = p"
    using change by (auto simp: only_before_def)
  have before: "\<not> after_cursor (cursor_time ps j) (cursor_id ps j) p" if "p \<in> set (take k ps)" for p
  proof -
    obtain i where i: "i < k" "i < length ps" "p = ps ! i" using \<open>p \<in> set (take k ps)\<close> by (auto simp: in_set_conv_nth)
    have sorted: "sorted_wrt (\<lambda>p q. point_key q < point_key p) ps"
      using scope_sorted [OF ids] complete by (simp add: ps)
    have "i = j - 1 \<or> i < j - 1" "j - 1 < length ps" using i j by linarith+
    then have "point_key (ps ! (j - 1)) \<le> point_key p"
      using sorted_wrt_nth_less [OF sorted, of i "j - 1"] i j by auto
    moreover have "p \<in> set ps" "ps ! (j - 1) \<in> set ps" using i j by auto
    ultimately show ?thesis
      using complete_point [OF complete, of p] complete_point [OF complete, of "ps ! (j - 1)"] opaque_nonempty i j
      by (auto simp: cursor_time_def cursor_id_def after_cursor_key point_key_def)
  qed
  have same: "after_cursor c i (g p) = after_cursor c i p" if "p \<in> set (rdPoints db)" for c i p
    using that by (cases c; cases "rpCapturedAt p") (simp_all add: after_cursor_def g(2,3))
  have "filter ?P (map g (rdPoints db)) = filter ?P (rdPoints db)"
    using before g(4) by (intro filter_map_unchanged) (metis same)+
  moreover have "eligible_point db' = eligible_point db" using change by (auto simp: only_before_def intro: eligible_holds)
  ultimately show "load_page env db' repositoryID taskID q (cursor_time ps j) (cursor_id ps j) = Inr (take (nat q) (drop j ps))"
    using scope_tail [OF ids ps complete] j quiet by (simp add: load_page_def retention_stmt_ok_def g(1))
qed

section \<open>Scanning\<close>

definition expired_between :: "PolicyRules \<Rightarrow> time \<Rightarrow> RecoveryPointRow list \<Rightarrow> nat \<Rightarrow> nat \<Rightarrow> SelectedPoint list" where
  "expired_between rules evaluatedAt ps i j =
     map (\<lambda>m. selected_point (ps ! m)) (filter (\<lambda>m. \<not> kept_at rules evaluatedAt (captures ps) m) [i..<j])"

definition scan_at :: "PolicyRules \<Rightarrow> time \<Rightarrow> RecoveryPointRow list \<Rightarrow> nat \<Rightarrow> nat \<Rightarrow> selection_scan" where
  "scan_at rules evaluatedAt ps i k =
     \<lparr>scState = seen_state rules evaluatedAt (take k (captures ps)), scSelected = expired_between rules evaluatedAt ps i k,
      scInspected = int k - int i, scCapturedAt = cursor_time ps k, scID = cursor_id ps k, scCursor = CursorBlank\<rparr>"

definition resume_at :: "selectionResume \<Rightarrow> PolicyRules \<Rightarrow> time \<Rightarrow> RecoveryPointRow list \<Rightarrow> nat \<Rightarrow> selectionResume" where
  "resume_at base rules evaluatedAt ps k =
     base\<lparr>resumeCapturedAt := cursor_time ps k, resumeID := cursor_id ps k, resumeSeen := int k,
          resumeCalendar := snapshotCalendar (seen_state rules evaluatedAt (take k (captures ps)))\<rparr>"

definition cursor_at :: "selectionResume \<Rightarrow> PolicyRules \<Rightarrow> time \<Rightarrow> RecoveryPointRow list \<Rightarrow> nat \<Rightarrow> selection_cursor" where
  "cursor_at base rules evaluatedAt ps k = CursorPayload selectionCursorSchemaVersion (resume_at base rules evaluatedAt ps k)"

lemma expired_between_Suc:
  "i \<le> k \<Longrightarrow> expired_between rules at ps i (Suc k) =
     expired_between rules at ps i k @ (if kept_at rules at (captures ps) k then [] else [selected_point (ps ! k)])"
  by (simp add: expired_between_def)

lemma expired_between_append:
  "i \<le> j \<Longrightarrow> j \<le> k \<Longrightarrow> expired_between rules at ps i j @ expired_between rules at ps j k = expired_between rules at ps i k"
  by (metis (no_types, lifting) expired_between_def filter_append le_Suc_ex map_append upt_add_eq_append)

lemma scan_point_at:
  assumes "validatePolicyRules rules = Inr ()" and "complete_points ps" and "i \<le> k" and "k < length ps"
  shows "scan_point (ps ! k) (scan_at rules at ps i k) = scan_at rules at ps i (Suc k)"
proof -
  have "keep (the (rpCapturedAt (ps ! k))) (seen_state rules at (take k (captures ps))) =
      (seen_state rules at (take (Suc k) (captures ps)), kept_at rules at (captures ps) k)"
    using keep_seen [OF assms(1), of k "captures ps" at] assms(2,4) by (simp add: complete_points_def)
  then show ?thesis using assms(3)
    by (simp add: scan_point_def scan_at_def cursor_time_def cursor_id_def expired_between_Suc del: take_map)
qed

lemma scan_resume_at:
  "k \<le> length ps \<Longrightarrow> scan_resume base (scan_at rules at ps i k) = resume_at base rules at ps k"
  by (simp add: scan_resume_def scan_at_def resume_at_def seen_state_def)

lemma encode_at:
  assumes "complete_points ps" and "k \<le> length ps" and "json_time_ok (resumeEvaluatedAt base)"
  shows "encodeSelectionCursor (resume_at base rules at ps k) = Inr (cursor_at base rules at ps k)"
  using assms complete_point [OF assms(1), of "ps ! (k - 1)"]
  by (cases k) (auto simp: encodeSelectionCursor_def resume_at_def cursor_at_def cursor_time_def)

text \<open>How a scan that began at \<open>i\<close> and stands at \<open>k\<close> ends: at \<open>m\<close>, with a cursor or without.\<close>

definition scan_stops ::
  "selectionResume \<Rightarrow> PolicyRules \<Rightarrow> time \<Rightarrow> RecoveryPointRow list \<Rightarrow> int \<Rightarrow> int \<Rightarrow> nat \<Rightarrow> nat
   \<Rightarrow> (retention_error, selection_scan) result \<Rightarrow> bool" where
  "scan_stops base rules evaluatedAt ps limit inspectedLimit i k r \<longleftrightarrow>
     (\<exists>m. k < m \<and> m \<le> length ps \<and> int m - int i \<le> inspectedLimit
        \<and> int (length (expired_between rules evaluatedAt ps i m)) \<le> limit
        \<and> r = Inr ((scan_at rules evaluatedAt ps i m)\<lparr>scCursor := cursor_at base rules evaluatedAt ps m\<rparr>))"

definition scan_open :: "PolicyRules \<Rightarrow> time \<Rightarrow> RecoveryPointRow list \<Rightarrow> int \<Rightarrow> int \<Rightarrow> nat \<Rightarrow> nat \<Rightarrow> bool" where
  "scan_open rules evaluatedAt ps limit inspectedLimit i k \<longleftrightarrow>
     i \<le> k \<and> k \<le> length ps \<and> int k - int i < inspectedLimit
     \<and> int (length (expired_between rules evaluatedAt ps i k)) < limit"

lemma scan_page_at:
  assumes "validatePolicyRules rules = Inr ()" and "complete_points ps" and "json_time_ok (resumeEvaluatedAt base)"
    and "scan_open rules at ps limit il i k"
  shows "scan_stops base rules at ps limit il i k (scan_page base limit il (take q (drop k ps)) (scan_at rules at ps i k))
    \<or> scan_page base limit il (take q (drop k ps)) (scan_at rules at ps i k) = Inr (scan_at rules at ps i (min (k + q) (length ps)))
      \<and> scan_open rules at ps limit il i (min (k + q) (length ps))"
  using assms(4)
proof (induction q arbitrary: k)
  case 0
  then show ?case by (simp add: scan_open_def)
next
  case (Suc q)
  show ?case
  proof (cases "k < length ps")
    case False
    then show ?thesis using Suc.prems by (auto simp: scan_open_def)
  next
    case True
    let ?sc = "scan_at rules at ps i (Suc k)"
    have page: "take (Suc q) (drop k ps) = ps ! k # take q (drop (Suc k) ps)"
      using True by (simp add: Cons_nth_drop_Suc [symmetric])
    have point: "\<not> incomplete_point (ps ! k)" using complete_point [OF assms(2)] True by simp
    have step: "scan_point (ps ! k) (scan_at rules at ps i k) = ?sc"
      using scan_point_at [OF assms(1,2) _ True] Suc.prems by (simp add: scan_open_def)
    have enc: "encodeSelectionCursor (scan_resume base ?sc) = Inr (cursor_at base rules at ps (Suc k))"
      using encode_at [OF assms(2) _ assms(3)] True by (simp add: scan_resume_at)
    have bounds: "int (Suc k) - int i \<le> il" "int (length (expired_between rules at ps i (Suc k))) \<le> limit"
      using Suc.prems by (auto simp: scan_open_def expired_between_Suc)
    show ?thesis
    proof (cases "int (length (scSelected ?sc)) = limit \<or> scInspected ?sc = il")
      case full: True
      have "scan_page base limit il (take (Suc q) (drop k ps)) (scan_at rules at ps i k)
          = Inr (?sc\<lparr>scCursor := cursor_at base rules at ps (Suc k)\<rparr>)"
        using full by (simp add: page point step enc)
      then show ?thesis using bounds True unfolding scan_stops_def by (intro disjI1 exI [of _ "Suc k"]) simp
    next
      case more: False
      then have "scan_open rules at ps limit il i (Suc k)"
        using bounds True Suc.prems by (auto simp: scan_open_def scan_at_def)
      moreover have "scan_page base limit il (take (Suc q) (drop k ps)) (scan_at rules at ps i k)
          = scan_page base limit il (take q (drop (Suc k) ps)) ?sc"
        using more by (simp add: page point step)
      ultimately show ?thesis using Suc.IH [of "Suc k"] by (auto simp: scan_stops_def intro: Suc_lessD)
    qed
  qed
qed


lemma scan_stops_mono: "scan_stops base rules at ps limit il i k' r \<Longrightarrow> k \<le> k' \<Longrightarrow> scan_stops base rules at ps limit il i k r"
  unfolding scan_stops_def by (auto intro: order.strict_trans1)

lemma select_loop_at:
  assumes "validatePolicyRules rules = Inr ()" and "complete_points ps" and "json_time_ok (resumeEvaluatedAt base)"
    and "tail_loads load ps i" and "1 \<le> pageSize"
    and "scan_open rules at ps limit il i k" and "il - (int k - int i) \<le> int fuel"
  shows "scan_stops base rules at ps limit il i k (select_loop load base pageSize limit il fuel (scan_at rules at ps i k))
    \<or> select_loop load base pageSize limit il fuel (scan_at rules at ps i k) = Inr (scan_at rules at ps i (length ps))
      \<and> scan_open rules at ps limit il i (length ps)"
  using assms(6,7)
proof (induction fuel arbitrary: k)
  case 0
  then show ?case by (simp add: scan_open_def)
next
  case (Suc fuel)
  let ?sc = "scan_at rules at ps i k"
  let ?q = "if il - scInspected ?sc < pageSize then il - scInspected ?sc else pageSize"
  have k: "i \<le> k" "k \<le> length ps" "scInspected ?sc < il" using Suc.prems(1) by (auto simp: scan_open_def scan_at_def)
  have q: "1 \<le> ?q" using k(3) assms(5) by auto
  have "load ?q (scCapturedAt ?sc) (scID ?sc) = Inr (take (nat ?q) (drop k ps))"
    using assms(4) k by (simp add: tail_loads_def scan_at_def)
  then have loop: "select_loop load base pageSize limit il (Suc fuel) ?sc =
      bind_result (scan_page base limit il (take (nat ?q) (drop k ps)) ?sc) (\<lambda>sc1.
        if scCursor sc1 \<noteq> CursorBlank \<or> int (length (take (nat ?q) (drop k ps))) < ?q then Inr sc1
        else select_loop load base pageSize limit il fuel sc1)"
    using k(3) by (simp add: Let_def)
  let ?m = "min (k + nat ?q) (length ps)"
  from scan_page_at [OF assms(1-3) Suc.prems(1), of "nat ?q"] show ?case
  proof (elim disjE conjE)
    assume "scan_stops base rules at ps limit il i k (scan_page base limit il (take (nat ?q) (drop k ps)) ?sc)"
    then obtain m where m: "k < m" "m \<le> length ps" "int m - int i \<le> il"
        "int (length (expired_between rules at ps i m)) \<le> limit"
        "scan_page base limit il (take (nat ?q) (drop k ps)) ?sc
          = Inr ((scan_at rules at ps i m)\<lparr>scCursor := cursor_at base rules at ps m\<rparr>)"
      unfolding scan_stops_def by auto
    then have "select_loop load base pageSize limit il (Suc fuel) ?sc
        = Inr ((scan_at rules at ps i m)\<lparr>scCursor := cursor_at base rules at ps m\<rparr>)"
      unfolding loop by (simp add: cursor_at_def)
    with m show ?thesis unfolding scan_stops_def by blast
  next
    assume page: "scan_page base limit il (take (nat ?q) (drop k ps)) ?sc = Inr (scan_at rules at ps i ?m)"
      and opn: "scan_open rules at ps limit il i ?m"
    show ?thesis
    proof (cases "k + nat ?q \<le> length ps")
      case True
      then have len: "int (length (take (nat ?q) (drop k ps))) = ?q" using q by (simp add: min_absorb2)
      have eq: "select_loop load base pageSize limit il (Suc fuel) ?sc
          = select_loop load base pageSize limit il fuel (scan_at rules at ps i ?m)"
        unfolding loop page bind_result_Inr len by (simp add: scan_at_def)
      have "il - (int ?m - int i) \<le> int fuel" using Suc.prems(2) q True by auto
      from Suc.IH [OF opn this] show ?thesis unfolding eq using k(2) by (auto intro: scan_stops_mono)
    next
      case False
      then have short: "int (length (take (nat ?q) (drop k ps))) < ?q" using q k(2) by (auto simp: min_def)
      have "select_loop load base pageSize limit il (Suc fuel) ?sc = Inr (scan_at rules at ps i ?m)"
        unfolding loop page bind_result_Inr by (rule if_P [OF disjI2 [OF short]])
      moreover have "?m = length ps" using False by simp
      ultimately show ?thesis using opn by simp
    qed
  qed
qed

section \<open>One call of Select\<close>

definition quiet_db :: "retention_env \<Rightarrow> bool" where
  "quiet_db env \<longleftrightarrow> (\<forall>stmt. rvFault env stmt = None)"

text \<open>The policy a request names is active, of the expected revision and readable.\<close>

definition policy_ready ::
  "retention_env \<Rightarrow> retention_db \<Rightarrow> SelectionRequest \<Rightarrow> PolicyRow \<Rightarrow> PolicyRules \<Rightarrow> string \<Rightarrow> nat option \<Rightarrow> bool" where
  "policy_ready env db request policy rules repositoryID taskID \<longleftrightarrow>
     ValidateOpaqueID (srPolicyID request) \<and> 1 \<le> srExpectedRevision request
     \<and> take_row (\<lambda>p. plID p = srPolicyID request) (rdPolicies db) = Some policy
     \<and> plStatus policy = RetentionPolicyActive \<and> plRevision policy = srExpectedRevision request
     \<and> ParsePolicyRules (rvDecode env) (rvDigest env) (plRulesJSON policy) = Inr rules
     \<and> resolveSelectionScope env db policy = Inr (repositoryID, taskID)"

definition selection_base :: "retention_env \<Rightarrow> PolicyRow \<Rightarrow> PolicyRules \<Rightarrow> time \<Rightarrow> selectionResume" where
  "selection_base env policy rules evaluatedAt =
     empty_resume\<lparr>resumePolicyID := plID policy, resumeRevision := plRevision policy,
       resumeDigest := EncodeToString (rvDigest env (json_policy (canonical_rules rules))),
       resumeEvaluatedAt := evaluatedAt\<rparr>"

lemma parse_valid: "ParsePolicyRules decode digest payload = Inr rules \<Longrightarrow> validatePolicyRules rules = Inr ()"
  by (auto simp: ParsePolicyRules_def CanonicalizePolicyRules_def result_simps split: option.splits prod.splits)

lemma canonicalize_valid:
  "validatePolicyRules rules = Inr () \<Longrightarrow> CanonicalizePolicyRules digest rules =
     Inr (json_policy (canonical_rules rules), EncodeToString (digest (json_policy (canonical_rules rules))))"
  by (simp add: CanonicalizePolicyRules_def Let_def)

text \<open>The cursor a request carries when \<open>k\<close> points were inspected before.\<close>

definition request_at :: "selectionResume \<Rightarrow> PolicyRules \<Rightarrow> time \<Rightarrow> RecoveryPointRow list \<Rightarrow> nat \<Rightarrow> SelectionRequest \<Rightarrow> bool" where
  "request_at base rules evaluatedAt ps k request \<longleftrightarrow>
     srEvaluatedAt request = evaluatedAt \<and> srEvaluatedUTC request \<and> evaluatedAt \<noteq> 0
     \<and> srCursor request = (if k = 0 then CursorBlank else cursor_at base rules evaluatedAt ps k)"

lemma SelectWithTx_loop:
  assumes ready: "policy_ready env db request policy rules repositoryID taskID" and quiet: "quiet_db env"
    and base: "base = selection_base env policy rules at" and digest: "rvDigest env (json_policy (canonical_rules rules)) \<noteq> []"
    and req: "request_at base rules at ps k request" and complete: "complete_points ps" and k: "k \<le> length ps"
  shows "SelectWithTx env request db =
    bind_result (select_loop (load_page env db repositoryID taskID) base
      (if rvPageSize env < 1 then 200 else rvPageSize env) (clamp_limit (srLimit request) 50 200)
      (clamp_limit (srInspectedLimit request) 200 1000) (nat (clamp_limit (srInspectedLimit request) 200 1000))
      (scan_at rules at ps k k)) (\<lambda>sc.
        Inr \<lparr>slPolicyID = plID policy, slPolicyRevision = plRevision policy, slScopeKind = plScopeKind policy,
             slScopeID = plScopeID policy, slRulesJSON = json_policy (canonical_rules rules),
             slRuleDigest = resumeDigest base, slEvaluatedAt = at, slPoints = scSelected sc,
             slNextCursor = scCursor sc, slInspected = scInspected sc\<rparr>)"
proof -
  have valid: "validatePolicyRules rules = Inr ()" using ready by (auto simp: policy_ready_def intro: parse_valid)
  have policy: "plID policy = srPolicyID request" using ready take_row_Some by (fastforce simp: policy_ready_def)
  define resume where "resume = (if k = 0 then empty_resume else resume_at base rules at ps k)"
  have hex: "EncodeToString raw \<noteq> []" if "raw \<noteq> []" for raw using that by (cases raw) auto
  have "parseSelectionCursor (srCursor request) = Inr resume"
    using req ready complete_point [OF complete, of "ps ! (k - 1)"] k policy hex [OF digest]
    by (auto simp: parseSelectionCursor_def request_at_def resume_def cursor_at_def resume_at_def cursor_id_def base
        selection_base_def policy_ready_def)
  moreover have "bindSelectionSnapshot request resume (plID policy) (plRevision policy) (resumeDigest base) = Inr at"
    using req by (auto simp: bindSelectionSnapshot_def request_at_def resume_def cursor_at_def resume_at_def base selection_base_def)
  moreover have "start_scan (newSelectionKeepState rules at resume) resume = scan_at rules at ps k k"
  proof (cases "k = 0")
    case True
    then show ?thesis using resume_seen [where ts = "[]" and r = empty_resume and rules = rules and at = at]
      by (simp add: start_scan_def scan_at_def resume_def cursor_time_def cursor_id_def expired_between_def
          newSelectionKeepState_def seen_state_def rule_state_def empty_resume_def snapshotCalendar_def)
        (auto simp: rule_seen_def intro!: nth_equalityI)
  next
    case False
    then show ?thesis
      using resume_seen [where r = "base\<lparr>resumeCapturedAt := cursor_time ps k, resumeID := cursor_id ps k\<rparr>"
          and ts = "take k (captures ps)" and rules = rules and at = at] k
      by (simp add: start_scan_def scan_at_def resume_def resume_at_def expired_between_def)
  qed
  ultimately show ?thesis
    using ready req quiet valid
    by (simp add: SelectWithTx_def policy_ready_def request_at_def first_policy_def retention_stmt_ok_def quiet_db_def
        canonicalize_valid base selection_base_def Let_def cursor_at_def)
qed


text \<open>One page: it ends at some \<open>m\<close> further on with a cursor for \<open>m\<close>, or at the end without one.\<close>

lemma clamp_limit_pos: "1 \<le> standard \<Longrightarrow> 1 \<le> maximum \<Longrightarrow> 1 \<le> clamp_limit given standard maximum"
  by (simp add: clamp_limit_def Let_def)

lemma SelectWithTx_page:
  assumes ready: "policy_ready env db' request policy rules repositoryID taskID" and quiet: "quiet_db env"
    and base: "base = selection_base env policy rules at" and digest: "rvDigest env (json_policy (canonical_rules rules)) \<noteq> []"
    and req: "request_at base rules at ps k request" and complete: "complete_points ps" and k: "k \<le> length ps"
    and ids: "distinct (map rpID (rdPoints db))" and ps: "ps = scope_points (rvNullsFirst env) db repositoryID taskID"
    and change: "only_before k ps db db'" and year: "json_time_ok at"
  obtains m sel where "SelectWithTx env request db' = Inr sel" and "slPoints sel = expired_between rules at ps k m"
    and "k \<le> m" and "m \<le> length ps" and "slInspected sel = int m - int k"
    and "slInspected sel \<le> clamp_limit (srInspectedLimit request) 200 1000"
    and "int (length (slPoints sel)) \<le> clamp_limit (srLimit request) 50 200"
    and "slNextCursor sel = CursorBlank \<and> m = length ps \<or> slNextCursor sel = cursor_at base rules at ps m \<and> k < m"
proof -
  let ?il = "clamp_limit (srInspectedLimit request) 200 1000" let ?limit = "clamp_limit (srLimit request) 50 200"
  let ?size = "if rvPageSize env < 1 then 200 else rvPageSize env"
  have valid: "validatePolicyRules rules = Inr ()" using ready by (auto simp: policy_ready_def intro: parse_valid)
  have loads: "tail_loads (load_page env db' repositoryID taskID) ps k"
    using load_page_tail [OF ids ps complete change] quiet by (simp add: quiet_db_def)
  have opn: "scan_open rules at ps ?limit ?il k k"
    using k clamp_limit_pos by (simp add: scan_open_def expired_between_def zle_add1_eq_le [symmetric])
  have year': "json_time_ok (resumeEvaluatedAt base)" using year by (simp add: base selection_base_def)
  have size: "1 \<le> ?size" by simp
  have fuel: "?il - (int k - int k) \<le> int (nat ?il)" by simp
  note run = SelectWithTx_loop [OF ready quiet base digest req complete k]
  from select_loop_at [OF valid complete year' loads size opn fuel] show thesis
  proof (elim disjE conjE)
    assume "scan_stops base rules at ps ?limit ?il k k
      (select_loop (load_page env db' repositoryID taskID) base ?size ?limit ?il (nat ?il) (scan_at rules at ps k k))"
    then obtain m where m: "k < m" "m \<le> length ps" "int m - int k \<le> ?il"
        "int (length (expired_between rules at ps k m)) \<le> ?limit"
        "select_loop (load_page env db' repositoryID taskID) base ?size ?limit ?il (nat ?il) (scan_at rules at ps k k)
          = Inr ((scan_at rules at ps k m)\<lparr>scCursor := cursor_at base rules at ps m\<rparr>)"
      unfolding scan_stops_def by auto
    show thesis
      by (rule that [where m = m, OF run [unfolded m(5) bind_result_Inr]]) (use m(1-4) in \<open>auto simp: scan_at_def\<close>)
  next
    assume stop: "select_loop (load_page env db' repositoryID taskID) base ?size ?limit ?il (nat ?il) (scan_at rules at ps k k)
        = Inr (scan_at rules at ps k (length ps))" and opn: "scan_open rules at ps ?limit ?il k (length ps)"
    show thesis
      by (rule that [where m = "length ps", OF run [unfolded stop bind_result_Inr]])
        (use opn k in \<open>auto simp: scan_at_def scan_open_def\<close>)
  qed
qed

section \<open>All pages\<close>

text \<open>
  A client that follows the cursor to the end and does something with every page (\<open>claim\<close>; the worker
  claims the selected points for expiry), and what it may do between two pages: change the selected
  points, not their identifier and instant.
\<close>

fun select_pages ::
  "(SelectedPoint list \<Rightarrow> retention_db \<Rightarrow> retention_db) \<Rightarrow> retention_env \<Rightarrow> nat \<Rightarrow> SelectionRequest \<Rightarrow> retention_db
   \<Rightarrow> (retention_error, SelectedPoint list) result" where
  "select_pages claim env 0 request db = Inl (RetentionFault ''more pages'')"
| "select_pages claim env (Suc fuel) request db =
     bind_result (SelectPoints env request db) (\<lambda>sel.
       if slNextCursor sel = CursorBlank then Inr (slPoints sel)
       else bind_result (select_pages claim env fuel (request\<lparr>srCursor := slNextCursor sel\<rparr>) (claim (slPoints sel) db))
              (\<lambda>rest. Inr (slPoints sel @ rest)))"

definition claims_selected :: "(SelectedPoint list \<Rightarrow> retention_db \<Rightarrow> retention_db) \<Rightarrow> bool" where
  "claims_selected claim \<longleftrightarrow> (\<forall>sel db. \<exists>g.
     rdPolicies (claim sel db) = rdPolicies db \<and> rdHolds (claim sel db) = rdHolds db
     \<and> rdRepositories (claim sel db) = rdRepositories db \<and> rdLinks (claim sel db) = rdLinks db
     \<and> rdPoints (claim sel db) = map g (rdPoints db)
     \<and> (\<forall>p. rpID (g p) = rpID p \<and> rpCapturedAt (g p) = rpCapturedAt p
          \<and> (rpID p \<in> set (map spRecoveryPointID sel) \<or> g p = p)))"

lemma SelectPoints_quiet: "quiet_db env \<Longrightarrow> SelectPoints env request db = SelectWithTx env request db"
  by (cases "SelectWithTx env request db")
    (simp_all add: SelectPoints_def retention_transaction_def quiet_db_def retention_stmt_ok_def)

lemma nth_in_take: "m < j \<Longrightarrow> j \<le> length ps \<Longrightarrow> ps ! m \<in> set (take j ps)"
  by (auto simp: in_set_conv_nth intro!: exI [of _ m])

lemma expired_ids:
  assumes "j \<le> length ps" and "x \<in> set (map spRecoveryPointID (expired_between rules at ps i j))"
  shows "\<exists>q \<in> set (take j ps). x = rpID q"
  using assms nth_in_take [of _ j ps] by (auto simp: expired_between_def selected_point_def)

lemma claim_only_before:
  assumes "claims_selected claim" and "only_before k ps db db'" and "k \<le> m" and "m \<le> length ps"
    and "sel = expired_between rules at ps k m" and "set ps \<subseteq> set (rdPoints db)" and "distinct (map rpID (rdPoints db))"
  shows "only_before m ps db (claim sel db')"
proof -
  obtain g where g: "rdPoints db' = map g (rdPoints db)"
      "\<And>p. p \<in> set (rdPoints db) \<Longrightarrow> rpID (g p) = rpID p" "\<And>p. p \<in> set (rdPoints db) \<Longrightarrow> rpCapturedAt (g p) = rpCapturedAt p"
      "\<And>p. p \<in> set (rdPoints db) \<Longrightarrow> p \<in> set (take k ps) \<or> g p = p"
    using assms(2) by (auto simp: only_before_def)
  obtain h where h: "rdPoints (claim sel db') = map h (rdPoints db')"
      "\<And>p. rpID (h p) = rpID p" "\<And>p. rpCapturedAt (h p) = rpCapturedAt p"
      "\<And>p. rpID p \<in> set (map spRecoveryPointID sel) \<or> h p = p"
    and rest: "rdPolicies (claim sel db') = rdPolicies db' \<and> rdHolds (claim sel db') = rdHolds db'
      \<and> rdRepositories (claim sel db') = rdRepositories db' \<and> rdLinks (claim sel db') = rdLinks db'"
    using assms(1) unfolding claims_selected_def by metis
  have new: "p \<in> set (take m ps) \<or> (h \<circ> g) p = p" if p: "p \<in> set (rdPoints db)" for p
  proof (rule disjCI)
    assume moved: "(h \<circ> g) p \<noteq> p"
    show "p \<in> set (take m ps)"
    proof (cases "p \<in> set (take k ps)")
      case True
      then show ?thesis using set_take_subset_set_take [OF assms(3), of ps] by auto
    next
      case False
      then have "g p = p" using g(4) [OF p] by simp
      with moved h(4) [of p] obtain q where q: "q \<in> set (take m ps)" "rpID p = rpID q"
        using expired_ids [OF assms(4)] assms(5) by force
      moreover have "q \<in> set (rdPoints db)" using q(1) assms(6) by (meson in_set_takeD subsetD)
      ultimately show ?thesis using key_unique [OF assms(7) p] by metis
    qed
  qed
  have "rdPoints (claim sel db') = map (h \<circ> g) (rdPoints db)" by (simp add: g(1) h(1))
  moreover have "rdPolicies db' = rdPolicies db \<and> rdHolds db' = rdHolds db \<and> rdRepositories db' = rdRepositories db
      \<and> rdLinks db' = rdLinks db"
    using assms(2) by (simp add: only_before_def)
  moreover have "\<forall>p \<in> set (rdPoints db). rpID ((h \<circ> g) p) = rpID p \<and> rpCapturedAt ((h \<circ> g) p) = rpCapturedAt p
      \<and> (p \<in> set (take m ps) \<or> (h \<circ> g) p = p)"
    using new g(2,3) h(2,3) by simp
  ultimately show ?thesis using rest unfolding only_before_def by metis
qed

lemma resolveSelectionScope_change:
  assumes "rdRepositories db' = rdRepositories db" and "rdLinks db' = rdLinks db"
  shows "resolveSelectionScope env db' policy = resolveSelectionScope env db policy"
  unfolding resolveSelectionScope_def assms ..

lemma policy_ready_change:
  "policy_ready env db request policy rules repositoryID taskID \<Longrightarrow> only_before k ps db db' \<Longrightarrow>
     policy_ready env db' (request\<lparr>srCursor := c\<rparr>) policy rules repositoryID taskID"
  using resolveSelectionScope_change [of db' db] by (simp add: policy_ready_def only_before_def)

lemma select_pages_from:
  assumes claim: "claims_selected claim" and quiet: "quiet_db env"
    and base: "base = selection_base env policy rules at" and digest: "rvDigest env (json_policy (canonical_rules rules)) \<noteq> []"
    and complete: "complete_points ps" and ids: "distinct (map rpID (rdPoints db))"
    and ps: "ps = scope_points (rvNullsFirst env) db repositoryID taskID" and year: "json_time_ok at"
    and "policy_ready env db request policy rules repositoryID taskID"
    and "only_before k ps db db'" and "k \<le> length ps" and "length ps - k < fuel"
    and "request_at base rules at ps k request"
  shows "select_pages claim env fuel request db' = Inr (expired_between rules at ps k (length ps))"
  using assms(9-)
proof (induction fuel arbitrary: k db' request)
  case 0
  then show ?case by simp
next
  case (Suc fuel)
  have ready: "policy_ready env db' request policy rules repositoryID taskID"
    using policy_ready_change [OF Suc.prems(1,2), of "srCursor request"] by simp
  obtain m sel where run: "SelectWithTx env request db' = Inr sel" and pts: "slPoints sel = expired_between rules at ps k m"
    and m: "k \<le> m" "m \<le> length ps"
    and nxt: "slNextCursor sel = CursorBlank \<and> m = length ps \<or> slNextCursor sel = cursor_at base rules at ps m \<and> k < m"
    by (rule SelectWithTx_page [OF ready quiet base digest Suc.prems(5) complete Suc.prems(3) ids ps Suc.prems(2) year])
  show ?case
  proof (cases "slNextCursor sel = CursorBlank")
    case True
    with nxt have "m = length ps" by (auto simp: cursor_at_def)
    then show ?thesis using True run pts quiet by (simp add: SelectPoints_quiet)
  next
    case False
    with nxt have cur: "slNextCursor sel = cursor_at base rules at ps m" and less: "k < m" by auto
    let ?request = "request\<lparr>srCursor := slNextCursor sel\<rparr>"
    have "set ps \<subseteq> set (rdPoints db)" by (auto simp: ps scope_points_def)
    then have "only_before m ps db (claim (slPoints sel) db')"
      using claim_only_before [OF claim Suc.prems(2) m pts _ ids] by simp
    moreover have "policy_ready env db ?request policy rules repositoryID taskID"
      using Suc.prems(1) by (simp add: policy_ready_def)
    moreover have "request_at base rules at ps m ?request"
      using Suc.prems(5) less cur by (simp add: request_at_def)
    ultimately have "select_pages claim env fuel ?request (claim (slPoints sel) db')
        = Inr (expired_between rules at ps m (length ps))"
      using Suc.IH [of ?request m "claim (slPoints sel) db'"] m less Suc.prems(4) by auto
    then show ?thesis using False run pts quiet expired_between_append [OF m]
      by (simp add: SelectPoints_quiet)
  qed
qed


lemma only_before_refl: "only_before 0 ps db db"
  by (auto simp: only_before_def intro!: exI [of _ id])

text \<open>
  C4. Retention selects exactly what the rules do not keep. A client that follows the cursor to the
  last page, in pages of any size, and may claim the selected points between pages, collects in the
  end exactly the eligible points of the policy's scope that the rules do not keep, newest first, each
  once: not younger than the age limit, not among the newest, and for no calendar rule the newest of
  one of its buckets.
\<close>

theorem selection_pages_exact:
  assumes "quiet_db env" and "rvDigest env (json_policy (canonical_rules rules)) \<noteq> []" and "claims_selected claim"
    and "policy_ready env db request policy rules repositoryID taskID"
    and "srCursor request = CursorBlank" and "srEvaluatedAt request \<noteq> 0" and "srEvaluatedUTC request"
    and "json_time_ok (srEvaluatedAt request)" and "distinct (map rpID (rdPoints db))"
    and "complete_points (scope_points (rvNullsFirst env) db repositoryID taskID)"
    and "length (scope_points (rvNullsFirst env) db repositoryID taskID) < fuel"
  shows "select_pages claim env fuel request db =
    (let ps = scope_points (rvNullsFirst env) db repositoryID taskID in
     Inr (map (\<lambda>i. selected_point (ps ! i))
       (filter (\<lambda>i. \<not> kept_at rules (srEvaluatedAt request) (map (\<lambda>p. the (rpCapturedAt p)) ps) i) [0..<length ps])))"
proof -
  let ?base = "selection_base env policy rules (srEvaluatedAt request)"
  have "request_at ?base rules (srEvaluatedAt request) (scope_points (rvNullsFirst env) db repositoryID taskID) 0 request"
    using assms(5-7) by (simp add: request_at_def)
  from select_pages_from [OF assms(3,1) refl assms(2,10,9) refl assms(8,4) only_before_refl _ _ this] assms(11)
  show ?thesis by (simp add: expired_between_def Let_def)
qed

section \<open>Held points are not selected\<close>

lemma scan_page_selected:
  assumes "scan_page base limit il page sc = Inr sc'"
  shows "set (scSelected sc') \<subseteq> set (scSelected sc) \<union> selected_point ` set page"
  using assms
  by (induction page arbitrary: sc)
    (fastforce simp: scan_point_def Let_def result_simps split: if_splits prod.splits)+

lemma select_loop_selected:
  assumes "select_loop load base pageSize limit il fuel sc = Inr sc'"
    and "\<And>q t i page p. load q t i = Inr page \<Longrightarrow> p \<in> set page \<Longrightarrow> P p"
  shows "set (scSelected sc') \<subseteq> set (scSelected sc) \<union> selected_point ` Collect P"
  using assms(1)
proof (induction fuel arbitrary: sc)
  case 0
  then show ?case by simp
next
  case (Suc fuel)
  show ?case
  proof (cases "scInspected sc < il")
    case False
    then show ?thesis using Suc.prems by simp
  next
    case True
    then obtain q page sc1 where page: "load q (scCapturedAt sc) (scID sc) = Inr page"
      and sc1: "scan_page base limit il page sc = Inr sc1"
      and rest: "sc' = sc1 \<or> select_loop load base pageSize limit il fuel sc1 = Inr sc'"
      using Suc.prems by (auto simp: Let_def result_simps split: if_splits)
    have "set (scSelected sc1) \<subseteq> set (scSelected sc) \<union> selected_point ` Collect P"
      using scan_page_selected [OF sc1] assms(2) [OF page] by blast
    then show ?thesis using rest Suc.IH by blast
  qed
qed

lemma selected_eligible:
  assumes "SelectPoints env request db = Inr sel" and "x \<in> set (slPoints sel)"
  obtains p repositoryID taskID where "p \<in> set (rdPoints db)" and "eligible_point db repositoryID taskID p" and "x = selected_point p"
proof -
  obtain repositoryID taskID base pageSize limit il fuel state resume sc where
    loop: "select_loop (load_page env db repositoryID taskID) base pageSize limit il fuel (start_scan state resume) = Inr sc"
    and sel: "slPoints sel = scSelected sc"
  proof -
    have "SelectWithTx env request db = Inr sel"
      using assms(1) by (auto simp: SelectPoints_def retention_transaction_def result_simps split: sum.splits prod.splits)
    then show thesis using that unfolding SelectWithTx_def Let_def bind_result_eq_Inr guard_eq_Inr
      by (auto simp: bind_result_eq_Inr split: prod.splits)
  qed
  have "set (scSelected sc) \<subseteq> set (scSelected (start_scan state resume))
      \<union> selected_point ` {p. p \<in> set (rdPoints db) \<and> eligible_point db repositoryID taskID p}"
    by (rule select_loop_selected [OF loop])
      (auto simp: load_page_def result_simps dest!: in_set_takeD)
  then show thesis using assms(2) sel that by (auto simp: start_scan_def)
qed

text \<open>
  A held point is never selected for expiry, nor one that is unreadable, offline or outside the
  scope: every point a selection returns is at that moment a committed or degraded immutable point
  that is online and has no active hold.
\<close>

theorem held_points_not_selected:
  assumes "SelectPoints env request db = Inr sel" and "x \<in> set (slPoints sel)"
  shows "\<exists>p \<in> set (rdPoints db). x = selected_point p
    \<and> rpState p \<in> {RecoveryPointCommitted, RecoveryPointDegraded} \<and> rpSemantics p \<noteq> PointMutableHead
    \<and> rpAvailability p = PhysicalOnline \<and> rpHoldState p \<noteq> HoldActive
    \<and> (\<forall>h \<in> set (rdHolds db). hdPointID h = rpID p \<longrightarrow> hdState h \<noteq> HoldActive)"
  using assms by (rule selected_eligible) (force simp: eligible_point_def list_ex_iff)

section \<open>A concrete selection\<close>

text \<open>Three daily points under a policy that keeps the newest one; the pages hold one point each.\<close>

definition sample_id :: "char \<Rightarrow> string" where
  "sample_id c = replicate 32 c"

definition sample_rules :: PolicyRules where
  "sample_rules = \<lparr>rulesVersion = 1, rulesAge = None, rulesCount = Some 1, rulesCalendar = []\<rparr>"

definition sample_payload :: string where
  "sample_payload = json_policy sample_rules"

definition sample_retention_env :: retention_env where
  "sample_retention_env = \<lparr>rvNow = 900, rvNewID = Some (sample_id CHR ''e''), rvFault = (\<lambda>_. None), rvDuplicate = ''UNIQUE'',
     rvCheckFailed = ''CHECK'', rvPgError = (\<lambda>_. None), rvNullsFirst = False,
     rvDecode = (\<lambda>s. if s = sample_payload then Some (sample_rules, True) else None),
     rvDigest = (\<lambda>_. [7]), rvCrypto = sample_crypto ''first'' [], rvAuditor = None, rvAdmission = True,
     rvCorrelationID = [], rvPageSize = 0\<rparr>"

definition sample_point :: "char \<Rightarrow> time \<Rightarrow> RecoveryPointRow" where
  "sample_point c t = \<lparr>rpID = sample_id c, rpRepositoryID = sample_id CHR ''9'', rpProducingTaskID = None,
     rpSemantics = PointNativeSnapshot, rpState = RecoveryPointCommitted, rpCapturedAt = Some t, rpPointRevision = 1,
     rpCapabilityRevision = 1, rpImmutability = ImmutabilityXirangManaged, rpAvailability = PhysicalOnline,
     rpHoldState = HoldNone, rpHoldUntil = None, rpUpdatedAt = t\<rparr>"

definition sample_policy :: PolicyRow where
  "sample_policy = \<lparr>plID = sample_id CHR ''1'', plScopeKind = RetentionPolicyScopeRepository, plScopeID = sample_id CHR ''9'',
     plRevision = 3, plRulesJSON = sample_payload, plStatus = RetentionPolicyActive, plCreatedBy = 1, plUpdatedBy = 1,
     plCreatedAt = 10, plUpdatedAt = 10, plDeletedAt = None\<rparr>"

definition sample_retention_db :: retention_db where
  "sample_retention_db = \<lparr>rdPolicies = [sample_policy], rdHolds = [],
     rdPoints = [sample_point CHR ''a'' 100, sample_point CHR ''c'' 300, sample_point CHR ''b'' 200],
     rdRepositories = [sample_id CHR ''9''], rdLinks = [], rdLeases = [], rdAttempts = [], rdAudit = []\<rparr>"

definition sample_selection :: SelectionRequest where
  "sample_selection = \<lparr>srPolicyID = sample_id CHR ''1'', srExpectedRevision = 3, srEvaluatedAt = 800, srEvaluatedUTC = True,
     srLimit = 1, srInspectedLimit = 1, srCursor = CursorBlank\<rparr>"

lemma sample_scope: "scope_points False sample_retention_db (sample_id CHR ''9'') None =
    [sample_point CHR ''c'' 300, sample_point CHR ''b'' 200, sample_point CHR ''a'' 100]"
  by code_simp

lemma sample_ready: "policy_ready sample_retention_env sample_retention_db sample_selection sample_policy sample_rules (sample_id CHR ''9'') None"
  by code_simp

lemma sample_kept: "kept_at sample_rules t ts i \<longleftrightarrow> i = 0"
  by (simp add: kept_at_def sample_rules_def)

theorem selection_pages_exact_witness:
  "select_pages (\<lambda>_ db. db) sample_retention_env 4 sample_selection sample_retention_db =
     Inr [selected_point (sample_point CHR ''b'' 200), selected_point (sample_point CHR ''a'' 100)]"
proof -
  have claim: "claims_selected (\<lambda>_ db. db)" by (auto simp: claims_selected_def intro!: exI [of _ id])
  have facts: "distinct (map rpID (rdPoints sample_retention_db))" "json_time_ok 800"
    "complete_points [sample_point CHR ''c'' 300, sample_point CHR ''b'' 200, sample_point CHR ''a'' 100]"
    by code_simp+
  have env: "quiet_db sample_retention_env" "rvNullsFirst sample_retention_env = False"
    "rvDigest sample_retention_env = (\<lambda>_. [7])"
    by (simp_all add: quiet_db_def sample_retention_env_def)
  have req: "srCursor sample_selection = CursorBlank" "srEvaluatedAt sample_selection = 800" "srEvaluatedUTC sample_selection"
    by (simp_all add: sample_selection_def)
  have "[0..<3] = [0, 1, 2 :: nat]" by (simp add: upt_conv_Cons)
  then show ?thesis
    using selection_pages_exact [OF env(1) _ claim sample_ready req(1) _ req(3), of 4] facts
    by (simp add: env req sample_scope sample_kept)
qed

theorem held_points_not_selected_witness:
  "\<exists>sel. SelectPoints sample_retention_env sample_selection
      (sample_retention_db\<lparr>rdHolds := [\<lparr>hdID = sample_id CHR ''f'', hdPointID = sample_id CHR ''b'', hdType = RecoveryPointHoldLegal,
        hdState = HoldActive, hdReason = ''x'', hdCreatedBy = 1, hdExpiresAt = None, hdReleasedBy = None, hdReleasedAt = None,
        hdReleaseReason = [], hdCreatedAt = 5, hdUpdatedAt = 5\<rparr>]\<rparr>) = Inr sel
    \<and> selected_point (sample_point CHR ''b'' 200) \<notin> set (slPoints sel)"
  (is "\<exists>sel. SelectPoints _ _ ?db = Inr sel \<and> _")
proof -
  have "is_ok (SelectPoints sample_retention_env sample_selection ?db)" by code_simp
  then obtain sel where run: "SelectPoints sample_retention_env sample_selection ?db = Inr sel" by (auto simp: is_ok_iff)
  have "selected_point (sample_point CHR ''b'' 200) \<notin> set (slPoints sel)"
    using held_points_not_selected [OF run, of "selected_point (sample_point CHR ''b'' 200)"]
    by (auto simp: selected_point_def sample_point_def sample_retention_db_def sample_id_def)
  with run show ?thesis by blast
qed

end
