(* ===== verification/Retention_Policy_Table.thy ===== *)
theory Retention_Policy_Table
  imports Retention_Selection
begin

text \<open>
  The policy table under the mutations of \<open>PolicyService\<close>: what every creation, update and deletion
  keeps of the table, along sequences of calls, and that the revision serialises the writers of one
  policy. The proofs rest on one step relation, \<open>policy_step\<close>, which each call refines.
\<close>

section \<open>The policy table\<close>

definition policy_active :: "PolicyRow \<Rightarrow> bool" where
  "policy_active p \<longleftrightarrow> plStatus p = RetentionPolicyActive"

definition policy_scope :: "PolicyRow \<Rightarrow> RetentionPolicyScopeKind \<times> string" where
  "policy_scope p = (plScopeKind p, plScopeID p)"

definition policies_ok :: "retention_db \<Rightarrow> bool" where
  "policies_ok db \<longleftrightarrow> exclusive plID policy_scope policy_active (rdPolicies db)"

datatype policy_call =
    CallCreatePolicy CreatePolicyRequest
  | CallUpdatePolicy UpdatePolicyRequest
  | CallDeletePolicy DeletePolicyRequest

fun run_policy :: "retention_env \<Rightarrow> policy_call \<Rightarrow> retention_db \<Rightarrow> retention_db" where
  "run_policy env (CallCreatePolicy request) db = fst (CreatePolicy env request db)"
| "run_policy env (CallUpdatePolicy request) db = fst (UpdatePolicy env request db)"
| "run_policy env (CallDeletePolicy request) db = fst (DeletePolicy env request db)"

abbreviation run_policies :: "(retention_env \<times> policy_call) list \<Rightarrow> retention_db \<Rightarrow> retention_db" where
  "run_policies \<equiv> run_all run_policy"

text \<open>The three changes a call can make to the table: none, a new active policy, a new version of one.\<close>

definition policy_step :: "retention_db \<Rightarrow> retention_db \<Rightarrow> bool" where
  "policy_step db db' \<longleftrightarrow>
     rdPolicies db' = rdPolicies db
     \<or> (\<exists>row. rdPolicies db' = rdPolicies db @ [row] \<and> plID row \<notin> set (map plID (rdPolicies db))
          \<and> plRevision row = 1 \<and> (\<forall>p \<in> set (rdPolicies db). policy_active p \<longrightarrow> policy_scope p \<noteq> policy_scope row))
     \<or> (\<exists>p new. p \<in> set (rdPolicies db) \<and> policy_active p \<and> plID new = plID p \<and> policy_scope new = policy_scope p
          \<and> plRevision new = wrap64 (plRevision p + 1)
          \<and> rdPolicies db' = update_where (\<lambda>x. x = p) (\<lambda>_. new) (rdPolicies db))"

lemma mutate_policy_ok:
  assumes "mutate_policy env actor action policyID expected write db = Inr (db', row)"
    and "distinct (map plID (rdPolicies db))"
  obtains p where "p \<in> set (rdPolicies db)" and "plID p = policyID" and "policy_active p" and "plRevision p = expected"
    and "rdPolicies db' = update_where (\<lambda>x. x = p) (\<lambda>_. write p) (rdPolicies db)" and "row = write p"
proof -
  obtain p repositoryID where p: "take_row (\<lambda>p. plID p = policyID) (rdPolicies db) = Some p"
      "plStatus p = RetentionPolicyActive" "plRevision p = expected" "row = write p"
    and audit: "writeMutationAuditTx env (mutationAuditInput env actor action repositoryID [] 1 (plID p))
        (db\<lparr>rdPolicies := update_where (\<lambda>p. plID p = policyID \<and> plRevision p = expected \<and> plStatus p = RetentionPolicyActive)
              write (rdPolicies db)\<rparr>) = Inr db'"
    using assms(1) unfolding mutate_policy_def first_policy_def Let_def
    by (auto simp: bind_result_eq_Inr guard_eq_Inr split: option.splits)
  note q = take_row_Some [OF p(1)]
  have "(plID x = policyID \<and> plRevision x = expected \<and> plStatus x = RetentionPolicyActive) = (x = p)"
    if "x \<in> set (rdPolicies db)" for x
    using key_unique [OF assms(2) that, of p] q p(2,3) by auto
  then have "update_where (\<lambda>p. plID p = policyID \<and> plRevision p = expected \<and> plStatus p = RetentionPolicyActive) write (rdPolicies db)
      = update_where (\<lambda>x. x = p) (\<lambda>_. write p) (rdPolicies db)"
    by (intro update_where_cong) auto
  with writeMutationAuditTx_ok [OF audit] show thesis
    using that [of p] q p by (simp add: policy_active_def)
qed

lemma create_policy_step:
  assumes "CreatePolicyTx env request canonical db = Inr (db', row)"
  shows "policy_step db db'"
proof -
  obtain rows repositoryID where rows: "create_policy env row (rdPolicies db) = Inr rows"
    and row: "plRevision row = 1" "policy_scope row = (cpScopeKind request, cpScopeID request)"
    and free: "rows_affected (active_in_scope (cpScopeKind request) (cpScopeID request)) (rdPolicies db) = 0"
    and audit: "writeMutationAuditTx env (mutationAuditInput env (cpActor request) AuditActionRetentionPolicyCreate repositoryID [] 1 (plID row))
        (db\<lparr>rdPolicies := rows\<rparr>) = Inr db'"
    using assms unfolding CreatePolicyTx_def Let_def bind_result_eq_Inr guard_eq_Inr option_case_eq_Inr sum_case_eq_Inr
    by (auto simp: policy_scope_def)
  have "rdPolicies db' = rdPolicies db @ [row]" "plID row \<notin> set (map plID (rdPolicies db))"
    using rows writeMutationAuditTx_ok [OF audit] by (auto simp: create_policy_def split: option.splits if_splits)
  moreover have "\<forall>p \<in> set (rdPolicies db). policy_active p \<longrightarrow> policy_scope p \<noteq> policy_scope row"
    using free row(2) by (auto simp: rows_affected_def filter_empty_conv active_in_scope_def policy_active_def policy_scope_def)
  ultimately show ?thesis using row(1) by (auto simp: policy_step_def)
qed

lemma mutate_policy_step:
  assumes "mutate_policy env actor action policyID expected write db = Inr (db', row)" and "policies_ok db"
    and "\<And>p. plID (write p) = plID p \<and> policy_scope (write p) = policy_scope p \<and> plRevision (write p) = wrap64 (expected + 1)"
  shows "policy_step db db'"
proof -
  have ids: "distinct (map plID (rdPolicies db))" using assms(2) by (simp add: policies_ok_def exclusive_def)
  from mutate_policy_ok [OF assms(1) ids] obtain p where
    "p \<in> set (rdPolicies db)" "policy_active p" "plRevision p = expected"
    "rdPolicies db' = update_where (\<lambda>x. x = p) (\<lambda>_. write p) (rdPolicies db)" by metis
  with assms(3) [of p] show ?thesis unfolding policy_step_def by blast
qed

lemma run_policy_step:
  assumes "policies_ok db"
  shows "policy_step db (run_policy env call db)"
proof (cases call)
  case (CallCreatePolicy request)
  then show ?thesis
    by (auto simp: CreatePolicy_def policy_step_def [of db db] split: sum.splits prod.splits
        elim!: transaction_cases intro: create_policy_step)
next
  case (CallUpdatePolicy request)
  then show ?thesis
    by (auto simp: UpdatePolicy_def policy_step_def [of db db] policy_scope_def split: sum.splits prod.splits
        elim!: transaction_cases mutate_policy_step [OF _ assms])
next
  case (CallDeletePolicy request)
  then show ?thesis
    by (auto simp: DeletePolicy_def policy_step_def [of db db] policy_scope_def split: sum.splits prod.splits
        elim!: transaction_cases mutate_policy_step [OF _ assms])
qed

lemma policy_step_ok:
  assumes "policies_ok db" and "policy_step db db'"
  shows "policies_ok db' \<and> rows_follow plID policy_scope policy_active (rdPolicies db) (rdPolicies db')"
  using assms(2) unfolding policy_step_def
proof (elim disjE exE conjE)
  assume "rdPolicies db' = rdPolicies db"
  then show ?thesis using assms(1) rows_follow_refl by (simp add: policies_ok_def)
next
  fix row assume "rdPolicies db' = rdPolicies db @ [row]" "plID row \<notin> set (map plID (rdPolicies db))"
    "\<forall>p \<in> set (rdPolicies db). policy_active p \<longrightarrow> policy_scope p \<noteq> policy_scope row"
  then show ?thesis using exclusive_append [of plID policy_scope policy_active "rdPolicies db" row] assms(1)
    by (auto simp: policies_ok_def)
next
  fix p new assume "p \<in> set (rdPolicies db)" "policy_active p" "plID new = plID p" "policy_scope new = policy_scope p"
    "rdPolicies db' = update_where (\<lambda>x. x = p) (\<lambda>_. new) (rdPolicies db)"
  then show ?thesis
    using exclusive_update [of plID policy_scope policy_active "rdPolicies db" "\<lambda>x. x = p" "\<lambda>_. new"] assms(1)
    by (auto simp: policies_ok_def)
qed

interpretation policy_calls: call_sequence run_policy "\<lambda>_. True" policies_ok
  "\<lambda>db db'. rows_follow plID policy_scope policy_active (rdPolicies db) (rdPolicies db')"
  using policy_step_ok [OF _ run_policy_step]
  by unfold_locales (auto intro: rows_follow_refl rows_follow_trans)

lemma run_policies_ok:
  "policies_ok db \<Longrightarrow> policies_ok (run_policies calls db)
    \<and> rows_follow plID policy_scope policy_active (rdPolicies db) (rdPolicies (run_policies calls db))"
  by (rule policy_calls.calls_ok) (simp_all add: list_all_iff split_def)

text \<open>
  C24. The policy table stays sound. Along every sequence of creations, updates and deletions of
  retention policies, with any faults, identifiers are unique and a repository or task link has at most
  one active policy; a policy keeps its identity and scope, and a deleted policy never changes again.
\<close>

theorem policy_table_sound:
  assumes "policies_ok db" and "p \<in> set (rdPolicies db)"
  shows "distinct (map plID (rdPolicies (run_policies calls db)))
    \<and> distinct (map (\<lambda>q. (plScopeKind q, plScopeID q))
         (filter (\<lambda>q. plStatus q = RetentionPolicyActive) (rdPolicies (run_policies calls db))))
    \<and> (\<exists>q \<in> set (rdPolicies (run_policies calls db)). plID q = plID p
         \<and> plScopeKind q = plScopeKind p \<and> plScopeID q = plScopeID p
         \<and> (plStatus p = RetentionPolicyActive \<or> q = p))"
proof -
  note ok = run_policies_ok [OF assms(1), of calls]
  have eqs: "policy_active = (\<lambda>q. plStatus q = RetentionPolicyActive)" "policy_scope = (\<lambda>q. (plScopeKind q, plScopeID q))"
    by (auto simp: policy_active_def policy_scope_def)
  from ok assms(2) show ?thesis unfolding policies_ok_def exclusive_def rows_follow_def eqs by simp
qed

section \<open>Revisions\<close>

text \<open>The revision of one policy never falls, and grows by at most one per call.\<close>

definition revision_within :: "string \<Rightarrow> int \<Rightarrow> int \<Rightarrow> retention_db \<Rightarrow> bool" where
  "revision_within policyID low high db \<longleftrightarrow>
     (\<exists>p \<in> set (rdPolicies db). plID p = policyID \<and> low \<le> plRevision p \<and> plRevision p \<le> high)"

lemma policy_step_revision:
  assumes "policies_ok db" and "policy_step db db'" and "revision_within policyID low high db" and "0 \<le> low" and "high < MaxInt64"
  shows "revision_within policyID low (high + 1) db'"
  using assms(2) unfolding policy_step_def
proof (elim disjE exE conjE)
  assume "rdPolicies db' = rdPolicies db"
  then show ?thesis using assms(3) by (force simp: revision_within_def)
next
  fix row assume "rdPolicies db' = rdPolicies db @ [row]"
  then show ?thesis using assms(3) by (force simp: revision_within_def)
next
  fix p new assume p: "p \<in> set (rdPolicies db)" "plID new = plID p" "plRevision new = wrap64 (plRevision p + 1)"
    and db': "rdPolicies db' = update_where (\<lambda>x. x = p) (\<lambda>_. new) (rdPolicies db)"
  obtain q where q: "q \<in> set (rdPolicies db)" "plID q = policyID" "low \<le> plRevision q" "plRevision q \<le> high"
    using assms(3) by (auto simp: revision_within_def)
  show ?thesis
  proof (cases "q = p")
    case True
    then have "wrap64 (plRevision p + 1) = plRevision p + 1"
      using q assms(4,5) by (intro wrap64_id in_i64_nonneg) auto
    then show ?thesis using True p q unfolding revision_within_def db' set_update_where by force
  next
    case False
    then have "q \<in> set (rdPolicies db')" using q(1) by (auto simp: db' set_update_where image_iff)
    then show ?thesis using q by (force simp: revision_within_def)
  qed
qed

lemma run_policies_revision:
  assumes "policies_ok db" and "revision_within policyID low high db" and "0 \<le> low" and "high + int (length calls) \<le> MaxInt64"
  shows "revision_within policyID low (high + int (length calls)) (run_policies calls db)"
  using assms
proof (induction calls arbitrary: db high)
  case Nil
  then show ?case by simp
next
  case (Cons c calls)
  obtain env call where c: "c = (env, call)" by (cases c)
  note step = run_policy_step [OF Cons.prems(1), of env call]
  have "policies_ok (run_policy env call db)" using policy_step_ok [OF Cons.prems(1) step] by simp
  moreover have "revision_within policyID low (high + 1) (run_policy env call db)"
    using policy_step_revision [OF Cons.prems(1) step Cons.prems(2,3)] Cons.prems(4) by simp
  ultimately show ?case using Cons.IH [of "run_policy env call db" "high + 1"] Cons.prems(3,4)
    by (simp add: c add.assoc)
qed

lemma mutate_policy_stale:
  assumes "policies_ok db" and "revision_within policyID low high db" and "expected < low"
  shows "\<not> is_ok (mutate_policy env actor action policyID expected write db)"
proof
  assume "is_ok (mutate_policy env actor action policyID expected write db)"
  then obtain db' row where run: "mutate_policy env actor action policyID expected write db = Inr (db', row)"
    by (auto simp: is_ok_iff)
  have ids: "distinct (map plID (rdPolicies db))" using assms(1) by (simp add: policies_ok_def exclusive_def)
  from mutate_policy_ok [OF run ids] obtain p where "p \<in> set (rdPolicies db)" "plID p = policyID" "plRevision p = expected"
    by metis
  with assms(2,3) key_unique [OF ids] show False by (fastforce simp: revision_within_def)
qed

text \<open>
  Policy changes are serialised by the revision. After an update under a revision succeeded, an
  update or deletion that expects the same revision, or an older one, fails and changes nothing,
  whatever calls lie between.
\<close>

theorem policy_update_serialised:
  assumes "UpdatePolicy env request db = (db1, Inr record)" and "policies_ok db"
    and "upExpectedRevision request + 1 + int (length calls) \<le> MaxInt64"
    and "upPolicyID again = upPolicyID request" and "upExpectedRevision again \<le> upExpectedRevision request"
    and "dpPolicyID del = upPolicyID request" and "dpExpectedRevision del \<le> upExpectedRevision request"
  shows "(\<exists>e. UpdatePolicy env2 again (run_policies calls db1) = (run_policies calls db1, Inl e))
    \<and> (\<exists>e. DeletePolicy env2 del (run_policies calls db1) = (run_policies calls db1, Inl e))"
proof -
  let ?db = "run_policies calls db1"
  obtain canonical row where tx: "mutate_policy env (upActor request) AuditActionRetentionPolicyUpdate (upPolicyID request)
      (upExpectedRevision request) (\<lambda>p. p\<lparr>plRevision := wrap64 (upExpectedRevision request + 1), plRulesJSON := canonical,
         plUpdatedBy := actorUserID (upActor request), plUpdatedAt := rvNow env\<rparr>) db = Inr (db1, row)"
    and valid: "1 \<le> upExpectedRevision request"
    using assms(1) by (auto simp: UpdatePolicy_def validatePolicyMutation_def result_simps
        split: sum.splits prod.splits dest!: retention_transaction_ok)
  have ids: "distinct (map plID (rdPolicies db))" using assms(2) by (simp add: policies_ok_def exclusive_def)
  obtain p where p: "p \<in> set (rdPolicies db)" "plID p = upPolicyID request"
    "rdPolicies db1 = update_where (\<lambda>x. x = p) (\<lambda>_. p\<lparr>plRevision := wrap64 (upExpectedRevision request + 1),
       plRulesJSON := canonical, plUpdatedBy := actorUserID (upActor request), plUpdatedAt := rvNow env\<rparr>) (rdPolicies db)"
    using mutate_policy_ok [OF tx ids] by metis
  have "wrap64 (upExpectedRevision request + 1) = upExpectedRevision request + 1"
    using valid assms(3) by (intro wrap64_id in_i64_nonneg) auto
  then have "revision_within (upPolicyID request) (upExpectedRevision request + 1) (upExpectedRevision request + 1) db1"
    using p by (force simp: revision_within_def set_update_where)
  moreover have ok1: "policies_ok db1"
    using policy_step_ok [OF assms(2) mutate_policy_step [OF tx assms(2)]] by (simp add: policy_scope_def)
  ultimately have "revision_within (upPolicyID request) (upExpectedRevision request + 1)
      (upExpectedRevision request + 1 + int (length calls)) ?db"
    using run_policies_revision assms(3) valid by simp
  then have stale: "\<not> is_ok (mutate_policy env2 actor action (upPolicyID request) expected wr ?db)"
    if "expected \<le> upExpectedRevision request" for actor action expected wr
    using mutate_policy_stale run_policies_ok [OF ok1] that by simp
  have "a = ?db \<and> (\<exists>e. r = Inl e)"
    if "retention_transaction env2 (mutate_policy env2 actor action (upPolicyID request) expected wr) ?db = (a, r)"
      and "expected \<le> upExpectedRevision request" for actor action expected wr a r
    using transaction_stale [where env = env2 and db = ?db and body = "mutate_policy env2 actor action (upPolicyID request) expected wr"]
      stale that by auto
  then show ?thesis using assms(4-7)
    by (fastforce simp: UpdatePolicy_def DeletePolicy_def split: sum.splits prod.splits)
qed

section \<open>An example\<close>

definition sample_admin :: AuditActor where
  "sample_admin = \<lparr>actorUserID = 1, actorUsername = ''root'', actorRole = ''admin''\<rparr>"

definition sample_update :: "int \<Rightarrow> UpdatePolicyRequest" where
  "sample_update revision = \<lparr>upActor = sample_admin, upPolicyID = sample_id CHR ''1'', upExpectedRevision = revision, upRules = sample_rules\<rparr>"

definition sample_delete :: "int \<Rightarrow> DeletePolicyRequest" where
  "sample_delete revision = \<lparr>dpActor = sample_admin, dpPolicyID = sample_id CHR ''1'', dpExpectedRevision = revision\<rparr>"

definition sample_create :: CreatePolicyRequest where
  "sample_create = \<lparr>cpActor = sample_admin, cpScopeKind = RetentionPolicyScopeRepository, cpScopeID = sample_id CHR ''9'', cpRules = sample_rules\<rparr>"

definition sample_policy_calls :: "(retention_env \<times> policy_call) list" where
  "sample_policy_calls = [(sample_retention_env, CallDeletePolicy (sample_delete 4)), (sample_retention_env, CallCreatePolicy sample_create)]"

lemma sample_policies_ok: "policies_ok sample_retention_db"
  by (simp add: policies_ok_def exclusive_def sample_retention_db_def)

theorem policy_table_sound_witness:
  "map plStatus (rdPolicies (run_policies ((sample_retention_env, CallUpdatePolicy (sample_update 3)) # sample_policy_calls) sample_retention_db))
     = [RetentionPolicyDeleted, RetentionPolicyActive]
   \<and> distinct (map plID (rdPolicies (run_policies ((sample_retention_env, CallUpdatePolicy (sample_update 3)) # sample_policy_calls) sample_retention_db)))"
proof (rule conjI)
  show "map plStatus (rdPolicies (run_policies ((sample_retention_env, CallUpdatePolicy (sample_update 3)) # sample_policy_calls) sample_retention_db))
     = [RetentionPolicyDeleted, RetentionPolicyActive]"
    by code_simp
  have "sample_policy \<in> set (rdPolicies sample_retention_db)" by (simp add: sample_retention_db_def)
  then show "distinct (map plID (rdPolicies (run_policies ((sample_retention_env, CallUpdatePolicy (sample_update 3)) # sample_policy_calls) sample_retention_db)))"
    using policy_table_sound [OF sample_policies_ok, of sample_policy] by blast
qed

theorem policy_update_serialised_witness:
  "\<exists>e. UpdatePolicy sample_retention_env (sample_update 3)
        (run_policies sample_policy_calls (fst (UpdatePolicy sample_retention_env (sample_update 3) sample_retention_db)))
      = (run_policies sample_policy_calls (fst (UpdatePolicy sample_retention_env (sample_update 3) sample_retention_db)), Inl e)"
proof -
  have "is_ok (snd (UpdatePolicy sample_retention_env (sample_update 3) sample_retention_db))" by code_simp
  then obtain answer where "snd (UpdatePolicy sample_retention_env (sample_update 3) sample_retention_db) = Inr answer"
    by (auto simp: is_ok_iff)
  then have run: "UpdatePolicy sample_retention_env (sample_update 3) sample_retention_db =
      (fst (UpdatePolicy sample_retention_env (sample_update 3) sample_retention_db), Inr answer)"
    by (metis prod.collapse)
  show ?thesis
    using policy_update_serialised [OF run sample_policies_ok, of sample_policy_calls "sample_update 3" "sample_delete 3" sample_retention_env]
    by (simp add: sample_update_def sample_delete_def sample_policy_calls_def MaxInt64_def)
qed

end
