(* ===== verification/Retention_Hold_Safety.thy ===== *)
theory Retention_Hold_Safety
  imports Retention_Hold Retention_Policy_Table
begin

text \<open>
  What the holds guarantee: the invariant that ties the hold table to the hold columns of the points,
  shown for a step relation that every operation of \<open>HoldService\<close> refines, and lifted to sequences of
  policy and hold calls; that a legal hold keeps its point out of every selection until it is released;
  and two situations in which a hold cannot be released at all.
\<close>

section \<open>The hold table and its projection\<close>

definition hold_active :: "HoldRow \<Rightarrow> bool" where
  "hold_active h \<longleftrightarrow> hdState h = HoldActive"

definition hold_slot :: "HoldRow \<Rightarrow> string \<times> RecoveryPointHoldType" where
  "hold_slot h = (hdPointID h, hdType h)"

definition hold_row_ok :: "HoldRow \<Rightarrow> bool" where
  "hold_row_ok h \<longleftrightarrow> hold_check h
     \<and> (hdType h = RecoveryPointHoldOperational \<and> hdExpiresAt h \<noteq> None \<or> hdType h = RecoveryPointHoldLegal \<and> hdExpiresAt h = None)"

definition projection_ok :: "HoldRow list \<Rightarrow> RecoveryPointRow \<Rightarrow> bool" where
  "projection_ok holds p \<longleftrightarrow>
     (rpHoldState p = HoldActive \<longleftrightarrow> active_holds (rpID p) holds \<noteq> [])
     \<and> rpHoldUntil p = hold_until None (sort_key (\<lambda>h. hold_type_name (hdType h)) (active_holds (rpID p) holds))"

definition holds_ok :: "retention_db \<Rightarrow> bool" where
  "holds_ok db \<longleftrightarrow> exclusive hdID hold_slot hold_active (rdHolds db) \<and> list_all hold_row_ok (rdHolds db)
     \<and> distinct (map rpID (rdPoints db)) \<and> list_all (projection_ok (rdHolds db)) (rdPoints db)"

definition project :: "string \<Rightarrow> time \<Rightarrow> HoldRow list \<Rightarrow> RecoveryPointRow list \<Rightarrow> RecoveryPointRow list" where
  "project pointID now holds =
     update_where (\<lambda>p. rpID p = pointID)
       (projected (sort_key (\<lambda>h. hold_type_name (hdType h)) (active_holds pointID holds)) now)"

text \<open>
  What a committed transaction does to holds and points: nothing, a new hold, or the release of an
  active hold that \<open>may\<close> be released. Both change the projection of the point concerned.
\<close>

inductive hold_step :: "(HoldRow \<Rightarrow> bool) \<Rightarrow> retention_db \<Rightarrow> retention_db \<Rightarrow> bool" for may where
  idle: "rdHolds db' = rdHolds db \<Longrightarrow> rdPoints db' = rdPoints db \<Longrightarrow> hold_step may db db'"
| place: "hdID row \<notin> set (map hdID (rdHolds db)) \<Longrightarrow> hold_row_ok row \<Longrightarrow>
    \<forall>h \<in> set (rdHolds db). hold_active h \<longrightarrow> hold_slot h \<noteq> hold_slot row \<Longrightarrow>
    rdHolds db' = rdHolds db @ [row] \<Longrightarrow> rdPoints db' = project (hdPointID row) now (rdHolds db') (rdPoints db) \<Longrightarrow>
    hold_step may db db'"
| release: "h \<in> set (rdHolds db) \<Longrightarrow> hold_active h \<Longrightarrow> may h \<Longrightarrow> hdID new = hdID h \<Longrightarrow> hold_slot new = hold_slot h \<Longrightarrow>
    hdExpiresAt new = hdExpiresAt h \<Longrightarrow> hdState new = HoldReleased \<Longrightarrow> hold_check new \<Longrightarrow>
    rdHolds db' = update_where (\<lambda>x. x = h) (\<lambda>_. new) (rdHolds db) \<Longrightarrow>
    rdPoints db' = project (hdPointID h) now (rdHolds db') (rdPoints db) \<Longrightarrow>
    hold_step may db db'"

lemma projection_ok_project:
  assumes "\<And>p. p \<in> set ps \<Longrightarrow> rpID p \<noteq> pointID \<Longrightarrow> projection_ok holds p"
  shows "list_all (projection_ok holds) (project pointID now holds ps)"
  using assms by (auto simp: project_def list_all_iff set_update_where projected_def projection_ok_def sort_key_empty)

lemma project_ids: "map rpID (project pointID now holds ps) = map rpID ps"
  unfolding project_def by (intro update_where_keys) (simp add: projected_def)

lemma projection_ok_cong:
  "active_holds (rpID p) holds' = active_holds (rpID p) holds \<Longrightarrow> projection_ok holds' p = projection_ok holds p"
  by (simp add: projection_ok_def)

lemma active_holds_append:
  "hdPointID row \<noteq> pointID \<Longrightarrow> active_holds pointID (holds @ [row]) = active_holds pointID holds"
  by (simp add: active_holds_def)

lemma active_holds_update:
  assumes "hdPointID h \<noteq> pointID" and "hold_slot new = hold_slot h"
  shows "active_holds pointID (update_where (\<lambda>x. x = h) (\<lambda>_. new) holds) = active_holds pointID holds"
  using assms by (induction holds) (auto simp: active_holds_def update_where_def hold_slot_def)

lemma hold_step_ok:
  assumes "hold_step may db db'" and "holds_ok db"
  shows "holds_ok db' \<and> rows_follow hdID hold_slot hold_active (rdHolds db) (rdHolds db')"
  using assms
proof (induction rule: hold_step.induct)
  case (idle db' db)
  then show ?case by (simp add: holds_ok_def rows_follow_refl)
next
  case (place row db db' now)
  have ex: "exclusive hdID hold_slot hold_active (rdHolds db') \<and> rows_follow hdID hold_slot hold_active (rdHolds db) (rdHolds db')"
    using place unfolding place(4) by (intro exclusive_append) (auto simp: holds_ok_def)
  have "list_all (projection_ok (rdHolds db')) (rdPoints db')"
    unfolding place(5)
  proof (rule projection_ok_project)
    fix p assume "p \<in> set (rdPoints db)" "rpID p \<noteq> hdPointID row"
    moreover from this have "projection_ok (rdHolds db') p = projection_ok (rdHolds db) p"
      unfolding place(4) by (intro projection_ok_cong active_holds_append) simp
    ultimately show "projection_ok (rdHolds db') p"
      using place(6) by (simp add: holds_ok_def list_all_iff)
  qed
  with ex place show ?case by (simp add: holds_ok_def project_ids)
next
  case (release h db new db' now)
  have only: "\<And>x. x = h \<Longrightarrow> x \<in> set (rdHolds db) \<Longrightarrow> hold_active x \<and> hdID new = hdID x \<and> hold_slot new = hold_slot x"
    using release by simp
  have ex: "exclusive hdID hold_slot hold_active (rdHolds db') \<and> rows_follow hdID hold_slot hold_active (rdHolds db) (rdHolds db')"
    unfolding release(9) using release(11) only by (intro exclusive_update) (auto simp: holds_ok_def)
  have "list_all (projection_ok (rdHolds db')) (rdPoints db')"
    unfolding release(10)
  proof (rule projection_ok_project)
    fix p assume "p \<in> set (rdPoints db)" "rpID p \<noteq> hdPointID h"
    moreover from this have "projection_ok (rdHolds db') p = projection_ok (rdHolds db) p"
      unfolding release(9) using release(5) by (intro projection_ok_cong active_holds_update) simp_all
    ultimately show "projection_ok (rdHolds db') p"
      using release(11) by (simp add: holds_ok_def list_all_iff)
  qed
  moreover have "list_all hold_row_ok (rdHolds db')"
    using release by (auto simp: holds_ok_def list_all_iff set_update_where hold_row_ok_def hold_slot_def)
  ultimately show ?case using ex release(11) by (simp add: holds_ok_def release(10) project_ids)
qed

text \<open>A hold that may not be released is still there, unchanged.\<close>

lemma hold_step_keeps:
  assumes "hold_step may db db'" and "h \<in> set (rdHolds db)" and "\<not> may h"
  shows "h \<in> set (rdHolds db')"
  using assms by (induction rule: hold_step.induct) (auto simp: set_update_where image_iff)

section \<open>The operations as steps\<close>

lemma projection_step:
  "updatePointHoldProjection env pointID now db = Inr db' \<Longrightarrow>
     db' = db\<lparr>rdPoints := project pointID now (rdHolds db) (rdPoints db)\<rparr>"
  unfolding updatePointHoldProjection_def Let_def bind_result_eq_Inr guard_eq_Inr by (auto simp: project_def)

lemma crypto_result_eq_Inr [simp]: "crypto_result r = Inr a \<longleftrightarrow> r = Inr a"
  by (cases r) (simp_all add: crypto_result_def)

lemma BeforeSave_new:
  assumes "hold_BeforeSave env hold = Inr row" and "hdReleaseReason hold = []"
  obtains sealed where "row = hold\<lparr>hdReason := sealed\<rparr>" and "encryptBackupAssetField env (hdReason hold) = Inr sealed"
  using assms by (auto simp: hold_BeforeSave_def result_simps encryptBackupAssetField_def [of env "[]"])

lemma create_hold_step:
  assumes "CreateHoldTx env request reason expiresAt db = Inr (db', row)"
    and "validateCreateHoldRequest request now = Inr (reason, expiresAt)"
  shows "hold_step may db db' \<and> row \<in> set (rdHolds db') \<and> hold_active row
    \<and> hdPointID row = chPointID request \<and> hdType row = chType request
    \<and> encryptBackupAssetField (rvCrypto env) reason = Inr (hdReason row)"
proof -
  obtain holdID holds db1 where
    free: "rows_affected (active_of_type (chPointID request) (chType request)) (rdHolds db) = 0"
    and create: "create_hold env \<lparr>hdID = holdID, hdPointID = chPointID request, hdType = chType request,
                            hdState = HoldActive, hdReason = reason, hdCreatedBy = actorUserID (chActor request),
                            hdExpiresAt = expiresAt, hdReleasedBy = None, hdReleasedAt = None, hdReleaseReason = [],
                            hdCreatedAt = rvNow env, hdUpdatedAt = rvNow env\<rparr> (rdHolds db) = Inr (row, holds)"
    and proj: "updatePointHoldProjection env (chPointID request) (rvNow env) (db\<lparr>rdHolds := holds\<rparr>) = Inr db1"
    and audit: "writeMutationAuditTx env (mutationAuditInput env (chActor request) AuditActionHoldCreate [] (chPointID request) 1 []) db1 = Inr db'"
    using assms(1) unfolding CreateHoldTx_def bind_result_eq_Inr guard_eq_Inr option_case_eq_Inr sum_case_eq_Inr
    by (auto simp: bind_result_eq_Inr)
  have new: "hdID row \<notin> set (map hdID (rdHolds db))" "holds = rdHolds db @ [row]"
    using create by (auto simp: create_hold_def result_simps)
  obtain sealed where row: "row = \<lparr>hdID = holdID, hdPointID = chPointID request, hdType = chType request,
                            hdState = HoldActive, hdReason = sealed, hdCreatedBy = actorUserID (chActor request),
                            hdExpiresAt = expiresAt, hdReleasedBy = None, hdReleasedAt = None, hdReleaseReason = [],
                            hdCreatedAt = rvNow env, hdUpdatedAt = rvNow env\<rparr>"
    and sealed: "encryptBackupAssetField (rvCrypto env) reason = Inr sealed"
    using create by (auto simp: create_hold_def result_simps elim!: BeforeSave_new)
  have db': "rdHolds db' = rdHolds db @ [row]" "rdPoints db' = project (hdPointID row) (rvNow env) (rdHolds db') (rdPoints db)"
    using projection_step [OF proj] writeMutationAuditTx_ok [OF audit] new(2) by (simp_all add: row)
  have "hold_row_ok row"
    using assms(2) by (cases "chType request") (auto simp: row hold_row_ok_def hold_check_def validateCreateHoldRequest_def
        result_simps split: option.splits if_splits)
  moreover have "\<forall>h \<in> set (rdHolds db). hold_active h \<longrightarrow> hold_slot h \<noteq> hold_slot row"
    using free by (auto simp: rows_affected_def filter_empty_conv active_of_type_def hold_active_def hold_slot_def row)
  ultimately have "hold_step may db db'" using new(1) db' by (intro hold_step.place)
  then show ?thesis using db'(1) sealed by (simp add: row hold_active_def)
qed

lemma update_holds_one:
  assumes "update_holds env hit write holds = Inr (affected, holds')" and "h \<in> set holds" and "hit h"
    and "\<And>x. x \<in> set holds \<Longrightarrow> hit x \<Longrightarrow> x = h"
  shows "holds' = update_where (\<lambda>x. x = h) (\<lambda>_. write h) holds \<and> hold_check (write h)"
proof -
  have "update_where hit write holds = update_where (\<lambda>x. x = h) (\<lambda>_. write h) holds"
    by (intro update_where_cong) (metis assms(3,4))+
  moreover have "list_all (\<lambda>h. hold_check (write h)) (filter hit holds) \<and> holds' = update_where hit write holds"
    using assms(1) by (simp add: update_holds_def bind_result_eq_Inr guard_eq_Inr)
  ultimately show ?thesis using assms(2,3) by (simp add: list_all_iff)
qed

lemma release_hold_step:
  assumes "ReleaseHoldTx env request reason db = Inr (db', hold)" and "holds_ok db"
  shows "hold_step (\<lambda>h. hdID h = rhHoldID request \<and> is_ok (hold_AfterFind (rvCrypto env) h)) db db'"
proof -
  let ?hit = "\<lambda>h. hdID h = rhHoldID request \<and> hdPointID h = rhPointID request \<and> hdState h = HoldActive"
  obtain row found sealed affected holds db1 where
    row: "take_row (\<lambda>h. hdID h = rhHoldID request \<and> hdPointID h = rhPointID request) (rdHolds db) = Some row"
    and found: "hold_AfterFind (rvCrypto env) row = Inr found" "hdState found = HoldActive"
    and upd: "update_holds env ?hit (\<lambda>h. h\<lparr>hdState := HoldReleased, hdReleasedBy := Some (actorUserID (rhActor request)),
                          hdReleasedAt := Some (rvNow env), hdReleaseReason := sealed, hdUpdatedAt := rvNow env\<rparr>)
                   (rdHolds db) = Inr (affected, holds)"
    and proj: "updatePointHoldProjection env (rhPointID request) (rvNow env) (db\<lparr>rdHolds := holds\<rparr>) = Inr db1"
    and audit: "writeMutationAuditTx env (mutationAuditInput env (rhActor request) AuditActionHoldRelease [] (rhPointID request) 1 []) db1 = Inr db'"
    using assms(1) unfolding ReleaseHoldTx_def bind_result_eq_Inr guard_eq_Inr option_case_eq_Inr crypto_result_eq_Inr
    by (fastforce split: prod.splits simp: result_simps)
  have row': "row \<in> set (rdHolds db)" "hdID row = rhHoldID request" "hdPointID row = rhPointID request" "hdState row = HoldActive"
    using take_row_Some [OF row] found by (auto simp: hold_AfterFind_def result_simps)
  have ids: "distinct (map hdID (rdHolds db))" using assms(2) by (simp add: holds_ok_def exclusive_def)
  have one: "x = row" if "x \<in> set (rdHolds db)" "?hit x" for x
    using key_unique [OF ids that(1) row'(1)] row'(2) that(2) by simp
  let ?new = "row\<lparr>hdState := HoldReleased, hdReleasedBy := Some (actorUserID (rhActor request)),
                          hdReleasedAt := Some (rvNow env), hdReleaseReason := sealed, hdUpdatedAt := rvNow env\<rparr>"
  have new: "holds = update_where (\<lambda>x. x = row) (\<lambda>_. ?new) (rdHolds db) \<and> hold_check ?new"
    using row' one by (intro update_holds_one [OF upd]) blast+
  have db': "rdHolds db' = holds" "rdPoints db' = project (hdPointID row) (rvNow env) (rdHolds db') (rdPoints db)"
    using projection_step [OF proj] writeMutationAuditTx_ok [OF audit] row'(3) by simp_all
  show ?thesis
    by (rule hold_step.release [OF row'(1) _ _ _ _ _ _ _ _ db'(2), where new = ?new])
      (use row' found new db'(1) in \<open>simp_all add: hold_active_def hold_slot_def\<close>)
qed

lemma expire_hold_step:
  assumes "expireOperationalTx env actor releasedBy candidate now db = Inr (db', released)" and "holds_ok db"
  shows "hold_step (\<lambda>h. hdType h = RecoveryPointHoldOperational \<and> releasedBy \<noteq> None) db db'"
proof (cases "take_row (\<lambda>h. hdID h = fst candidate \<and> hdPointID h = snd candidate) (rdHolds db)")
  case None
  then show ?thesis using assms(1) by (auto simp: expireOperationalTx_def bind_result_eq_Inr intro: hold_step.idle)
next
  case (Some row)
  let ?hit = "\<lambda>h. hdID h = hdID row \<and> hdPointID h = hdPointID row \<and> due_hold now h"
  note row = take_row_Some [OF Some]
  show ?thesis
  proof (cases "due_hold now row")
    case False
    then show ?thesis using assms(1) Some by (auto simp: expireOperationalTx_def bind_result_eq_Inr intro: hold_step.idle)
  next
    case True
    have ids: "distinct (map hdID (rdHolds db))" using assms(2) by (simp add: holds_ok_def exclusive_def)
    have one: "?hit x \<longleftrightarrow> x = row" if "x \<in> set (rdHolds db)" for x
      using key_unique [OF ids that] row True by auto
    then have affected: "rows_affected ?hit (rdHolds db) = 1"
      using filter_single [OF ids, of row ?hit] row by (simp add: rows_affected_def)
    obtain sealed holds db1 where
      upd: "update_holds env ?hit (\<lambda>h. h\<lparr>hdState := HoldReleased, hdReleasedBy := releasedBy, hdReleasedAt := Some now,
                        hdReleaseReason := sealed, hdUpdatedAt := now\<rparr>) (rdHolds db) = Inr (1, holds)"
      and proj: "updatePointHoldProjection env (hdPointID row) now (db\<lparr>rdHolds := holds\<rparr>) = Inr db1"
      and audit: "writeMutationAuditTx env (mutationAuditInput env actor AuditActionHoldRelease [] (hdPointID row) 1 []) db1 = Inr db'"
    proof -
      obtain sealed affected holds where
        upd: "update_holds env ?hit (\<lambda>h. h\<lparr>hdState := HoldReleased, hdReleasedBy := releasedBy, hdReleasedAt := Some now,
                        hdReleaseReason := sealed, hdUpdatedAt := now\<rparr>) (rdHolds db) = Inr (affected, holds)"
        and rest: "(if affected \<noteq> 1 then Inr (db\<lparr>rdHolds := holds\<rparr>, None)
               else
                 bind_result (updatePointHoldProjection env (hdPointID row) now (db\<lparr>rdHolds := holds\<rparr>)) (\<lambda>db1.
                 bind_result (writeMutationAuditTx env
                   (mutationAuditInput env actor AuditActionHoldRelease [] (hdPointID row) 1 []) db1) (\<lambda>db2.
                   Inr (db2, Some (holdRecordFromModel (row\<lparr>hdState := HoldReleased, hdReleasedBy := releasedBy,
                     hdReleasedAt := Some now, hdUpdatedAt := now\<rparr>)))))) = Inr (db', released)"
        using assms(1) Some True unfolding expireOperationalTx_def bind_result_eq_Inr by (auto simp: bind_result_eq_Inr)
      moreover have "affected = 1" using upd affected by (simp add: update_holds_def bind_result_eq_Inr guard_eq_Inr)
      ultimately show thesis using that by (auto simp: bind_result_eq_Inr)
    qed
    let ?new = "row\<lparr>hdState := HoldReleased, hdReleasedBy := releasedBy, hdReleasedAt := Some now,
                        hdReleaseReason := sealed, hdUpdatedAt := now\<rparr>"
    have new: "holds = update_where (\<lambda>x. x = row) (\<lambda>_. ?new) (rdHolds db) \<and> hold_check ?new"
      using row one True by (intro update_holds_one [OF upd]) blast+
    have db': "rdHolds db' = holds" "rdPoints db' = project (hdPointID row) now (rdHolds db') (rdPoints db)"
      using projection_step [OF proj] writeMutationAuditTx_ok [OF audit] by simp_all
    show ?thesis
      by (rule hold_step.release [OF _ _ _ _ _ _ _ _ _ db'(2), where new = ?new])
        (use row True new db'(1) in \<open>simp_all add: hold_active_def hold_slot_def due_hold_def hold_check_def\<close>)
  qed
qed

section \<open>Sequences of calls\<close>

datatype retention_call =
    CallPolicy policy_call
  | CallCreateHold CreateHoldRequest
  | CallReleaseHold ReleaseHoldRequest
  | CallExpireHolds "string \<Rightarrow> retention_env" AuditActor int
  | CallExpireMaintenance "string \<Rightarrow> retention_env" int

fun run_retention :: "retention_env \<Rightarrow> retention_call \<Rightarrow> retention_db \<Rightarrow> retention_db" where
  "run_retention env (CallPolicy call) db = run_policy env call db"
| "run_retention env (CallCreateHold request) db = fst (CreateHold env request db)"
| "run_retention env (CallReleaseHold request) db = fst (ReleaseHold env request db)"
| "run_retention env (CallExpireHolds per actor limit) db = fst (ExpireOperational env per actor limit db)"
| "run_retention env (CallExpireMaintenance per limit) db = fst (ExpireOperationalMaintenance env per limit db)"

abbreviation run_retentions :: "(retention_env \<times> retention_call) list \<Rightarrow> retention_db \<Rightarrow> retention_db" where
  "run_retentions \<equiv> run_all run_retention"

text \<open>The holds a call may release.\<close>

fun may_release :: "retention_env \<Rightarrow> retention_call \<Rightarrow> HoldRow \<Rightarrow> bool" where
  "may_release env (CallReleaseHold request) h \<longleftrightarrow> hdID h = rhHoldID request \<and> is_ok (hold_AfterFind (rvCrypto env) h)"
| "may_release env (CallExpireHolds per actor limit) h \<longleftrightarrow> hdType h = RecoveryPointHoldOperational"
| "may_release env call h \<longleftrightarrow> False"

lemma hold_step_mono: "hold_step may db db' \<Longrightarrow> (\<And>h. may h \<Longrightarrow> may' h) \<Longrightarrow> hold_step may' db db'"
  by (induction rule: hold_step.induct) (blast intro: hold_step.intros)+

lemma transaction_step:
  assumes "retention_transaction env body db = (db', r)" and "\<And>v. body db = Inr (db', v) \<Longrightarrow> hold_step may db db'"
  shows "hold_step may db db'"
  using assms(1) by (rule transaction_cases) (auto intro: assms(2) hold_step.idle)

lemma transaction_fst:
  "fst (case t of (db1, Inl err) \<Rightarrow> (db1, Inl err) | (db1, Inr v) \<Rightarrow> (db1, Inr (f v))) = fst t"
  by (auto split: prod.splits sum.splits)

lemma expire_candidates_steps:
  assumes "expire_candidates per actor releasedBy now candidates db = (db', r)" and "holds_ok db"
  shows "(hold_step (\<lambda>h. hdType h = RecoveryPointHoldOperational \<and> releasedBy \<noteq> None))\<^sup>*\<^sup>* db db'"
  using assms
proof (induction candidates arbitrary: db r)
  case (Cons c candidates)
  let ?step = "hold_step (\<lambda>h. hdType h = RecoveryPointHoldOperational \<and> releasedBy \<noteq> None)"
  obtain db1 r1 where run: "expireOperationalHold (per (fst c)) actor releasedBy c now db = (db1, r1)" by fastforce
  have step: "?step db db1"
    using run unfolding expireOperationalHold_def by (rule transaction_step) (rule expire_hold_step [OF _ Cons.prems(2)])
  show ?case
  proof (cases r1)
    case (Inl e)
    then show ?thesis using Cons.prems(1) run step by auto
  next
    case (Inr v)
    then obtain r2 where "expire_candidates per actor releasedBy now candidates db1 = (db', r2)"
      using Cons.prems(1) run by (auto split: prod.splits sum.splits)
    then have "?step\<^sup>*\<^sup>* db1 db'" using Cons.IH hold_step_ok [OF step Cons.prems(2)] by blast
    then show ?thesis using step by (simp add: converse_rtranclp_into_rtranclp)
  qed
qed simp

lemma expire_batch_steps:
  assumes "holds_ok db"
  shows "(hold_step (\<lambda>h. hdType h = RecoveryPointHoldOperational \<and> releasedBy \<noteq> None))\<^sup>*\<^sup>* db
    (fst (expireOperationalBatch env per actor releasedBy limit db))"
proof -
  have "(hold_step (\<lambda>h. hdType h = RecoveryPointHoldOperational \<and> releasedBy \<noteq> None))\<^sup>*\<^sup>* db
      (fst (expire_candidates per actor releasedBy now candidates db))" for now candidates
    by (rule expire_candidates_steps [OF _ assms]) (rule prod.collapse [symmetric])
  then show ?thesis by (simp add: expireOperationalBatch_def split: sum.splits)
qed

lemma run_policy_frame:
  "rdHolds (run_policy env call db) = rdHolds db \<and> rdPoints (run_policy env call db) = rdPoints db"
proof -
  have audit: "rdHolds db' = rdHolds db \<and> rdPoints db' = rdPoints db"
    if "writeMutationAuditTx env input (db\<lparr>rdPolicies := rows\<rparr>) = Inr db'" for env input rows db'
    using writeMutationAuditTx_ok [OF that] by simp
  have mutate: "rdHolds db' = rdHolds db \<and> rdPoints db' = rdPoints db"
    if "mutate_policy env actor action policyID expected wr db = Inr (db', row)" for actor action policyID expected wr db' row
    using that unfolding mutate_policy_def Let_def bind_result_eq_Inr guard_eq_Inr by (auto dest: audit)
  have create: "rdHolds db' = rdHolds db \<and> rdPoints db' = rdPoints db"
    if "CreatePolicyTx env request canonical db = Inr (db', row)" for request canonical db' row
    using that unfolding CreatePolicyTx_def Let_def bind_result_eq_Inr guard_eq_Inr option_case_eq_Inr sum_case_eq_Inr by (auto dest: audit)
  show ?thesis
    by (cases call) (auto simp: CreatePolicy_def UpdatePolicy_def DeletePolicy_def split: sum.splits prod.splits
        elim!: transaction_cases dest: mutate create)
qed

lemma run_retention_steps:
  assumes "holds_ok db"
  shows "(hold_step (may_release env call))\<^sup>*\<^sup>* db (run_retention env call db)"
proof (cases call)
  case (CallPolicy c)
  then have "hold_step (may_release env call) db (run_retention env call db)"
    using run_policy_frame by (simp add: hold_step.idle)
  then show ?thesis by (rule r_into_rtranclp)
next
  case (CallCreateHold request)
  have "hold_step (may_release env call) db (run_retention env call db)"
    unfolding CallCreateHold run_retention.simps CreateHold_def
    by (auto split: sum.splits prod.splits simp: result_simps intro: hold_step.idle
        elim!: transaction_step dest!: create_hold_step)
  then show ?thesis by (rule r_into_rtranclp)
next
  case (CallReleaseHold request)
  have tx: "hold_step (may_release env call) db (fst (retention_transaction env (ReleaseHoldTx env request reason) db))" for reason
    by (rule transaction_step [OF prod.collapse [symmetric]])
      (drule release_hold_step [OF _ assms], erule hold_step_mono, simp add: CallReleaseHold)
  have "hold_step (may_release env call) db (run_retention env call db)"
    unfolding CallReleaseHold run_retention.simps ReleaseHold_def
    by (split sum.split) (use tx in \<open>simp add: transaction_fst CallReleaseHold hold_step.idle\<close>)
  then show ?thesis by (rule r_into_rtranclp)
next
  case (CallExpireHolds per actor limit)
  have "(hold_step (may_release env call))\<^sup>*\<^sup>* db (fst (expireOperationalBatch env per actor (Some n) limit db))" for n
    using expire_batch_steps [OF assms] by (rule rtranclp_mono [THEN predicate2D, rotated])
      (auto simp: CallExpireHolds elim: hold_step_mono)
  then show ?thesis by (auto simp: CallExpireHolds ExpireOperational_def split: sum.splits)
next
  case (CallExpireMaintenance per limit)
  have "(hold_step (may_release env call))\<^sup>*\<^sup>* db (fst (expireOperationalBatch env per actor None limit db))" for actor
    using expire_batch_steps [OF assms] by (rule rtranclp_mono [THEN predicate2D, rotated])
      (auto simp: CallExpireMaintenance elim: hold_step_mono)
  then show ?thesis by (auto simp: CallExpireMaintenance ExpireOperationalMaintenance_def)
qed

lemma steps_ok:
  assumes "(hold_step may)\<^sup>*\<^sup>* db db'" and "holds_ok db"
  shows "holds_ok db' \<and> rows_follow hdID hold_slot hold_active (rdHolds db) (rdHolds db')"
  using assms by (induction rule: rtranclp_induct) (auto simp: rows_follow_refl dest!: hold_step_ok intro: rows_follow_trans)

lemma steps_keep:
  assumes "(hold_step may)\<^sup>*\<^sup>* db db'" and "h \<in> set (rdHolds db)" and "\<not> may h"
  shows "h \<in> set (rdHolds db')"
  using assms by (induction rule: rtranclp_induct) (auto dest: hold_step_keeps)

interpretation retention_calls: call_sequence run_retention "\<lambda>_. True" holds_ok
  "\<lambda>db db'. rows_follow hdID hold_slot hold_active (rdHolds db) (rdHolds db')"
  by unfold_locales (auto intro: rows_follow_refl rows_follow_trans dest: steps_ok [OF run_retention_steps])

lemma run_retentions_ok:
  "holds_ok db \<Longrightarrow> holds_ok (run_retentions calls db)
    \<and> rows_follow hdID hold_slot hold_active (rdHolds db) (rdHolds (run_retentions calls db))"
  by (rule retention_calls.calls_ok) (simp_all add: list_all_iff split_def)

lemma run_retentions_keep:
  assumes "holds_ok db" and "h \<in> set (rdHolds db)" and "\<And>env call. (env, call) \<in> set calls \<Longrightarrow> \<not> may_release env call h"
  shows "h \<in> set (rdHolds (run_retentions calls db))"
  using assms(1) _ assms(2)
proof (rule retention_calls.calls_keep [where P = "\<lambda>db. h \<in> set (rdHolds db)"])
  show "list_all (\<lambda>(env, call). True) calls" by (simp add: list_all_iff split_def)
qed (use assms(3) steps_keep [OF run_retention_steps] in blast)

section \<open>Properties\<close>

lemma hold_until_spec:
  "hold_until acc holds =
     (if \<exists>h \<in> set holds. hdType h = RecoveryPointHoldLegal then None
      else fold (\<lambda>h t. case hdExpiresAt h of None \<Rightarrow> t | Some e \<Rightarrow> Some (case t of None \<Rightarrow> e | Some u \<Rightarrow> max u e)) holds acc)"
  by (induction holds arbitrary: acc) (auto split: option.splits simp: max_def)

lemma latest_expiry:
  assumes "\<forall>h \<in> set holds. hdType h \<noteq> RecoveryPointHoldLegal \<and> hdExpiresAt h \<noteq> None" and "holds \<noteq> []"
  shows "hold_until None holds = Some (Max ((\<lambda>h. the (hdExpiresAt h)) ` set holds))"
proof -
  have *: "fold (\<lambda>h t. case hdExpiresAt h of None \<Rightarrow> t | Some e \<Rightarrow> Some (case t of None \<Rightarrow> e | Some u \<Rightarrow> max u e)) hs (Some u)
      = Some (Max (insert u ((\<lambda>h. the (hdExpiresAt h)) ` set hs)))"
    if "\<forall>h \<in> set hs. hdExpiresAt h \<noteq> None" for hs u
    using that
  proof (induction hs arbitrary: u)
    case (Cons h hs)
    obtain e where e: "hdExpiresAt h = Some e" using Cons.prems by auto
    have "Max (insert (max u e) ((\<lambda>h. the (hdExpiresAt h)) ` set hs)) = Max (insert u (insert e ((\<lambda>h. the (hdExpiresAt h)) ` set hs)))"
      by (cases "hs = []") (simp_all add: max.assoc)
    then show ?case using Cons by (simp add: e)
  qed simp
  obtain h hs e where h: "holds = h # hs" "hdExpiresAt h = Some e" using assms by (cases holds) auto
  then show ?thesis using assms(1) * [of hs e] by (simp add: hold_until_spec)
qed

text \<open>
  C8. The hold columns of a recovery point say exactly which holds are active. Along every sequence of
  policy and hold calls, with any faults, a point has at most one active hold of a type; it is marked
  held iff it has an active hold; its hold ends never while a legal hold is active, and otherwise with
  the last of its operational holds; and a released hold never changes.
\<close>

theorem hold_projection_exact:
  assumes "holds_ok db" and "p \<in> set (rdPoints (run_retentions calls db))"
  shows "(let active = filter (\<lambda>h. hdPointID h = rpID p \<and> hdState h = HoldActive) (rdHolds (run_retentions calls db)) in
      distinct (map hdType active) \<and> (rpHoldState p = HoldActive \<longleftrightarrow> active \<noteq> [])
      \<and> rpHoldUntil p = (if active = [] \<or> RecoveryPointHoldLegal \<in> hdType ` set active then None
           else Some (Max ((\<lambda>h. the (hdExpiresAt h)) ` set active))))
    \<and> {h \<in> set (rdHolds db). hdState h \<noteq> HoldActive} \<subseteq> set (rdHolds (run_retentions calls db))"
proof -
  let ?db = "run_retentions calls db"
  let ?active = "active_holds (rpID p) (rdHolds ?db)"
  let ?sorted = "sort_key (\<lambda>h. hold_type_name (hdType h)) ?active"
  have ok: "holds_ok ?db" and follow: "rows_follow hdID hold_slot hold_active (rdHolds db) (rdHolds ?db)"
    using run_retentions_ok [OF assms(1)] by auto
  then have "distinct (map hold_slot (filter hold_active (rdHolds ?db)))" "list_all hold_row_ok (rdHolds ?db)"
    "projection_ok (rdHolds ?db) p"
    using assms(2) by (auto simp: holds_ok_def exclusive_def list_all_iff)
  note facts = this
  have inj: "inj_on hold_slot (set (filter hold_active (rdHolds ?db)))" "distinct (filter hold_active (rdHolds ?db))"
    using facts(1) by (simp_all add: distinct_map)
  have sub: "?active = filter (\<lambda>h. hdPointID h = rpID p) (filter hold_active (rdHolds ?db))"
    by (simp add: active_holds_def hold_active_def conj_commute)
  have "distinct ?active" unfolding sub using inj(2) by (rule distinct_filter)
  moreover have "inj_on hdType (set ?active)"
    using inj(1) unfolding sub by (auto simp: inj_on_def hold_slot_def)
  ultimately have "distinct (map hdType ?active)" by (simp add: distinct_map)
  moreover have "hold_until None ?sorted = (if ?active = [] \<or> RecoveryPointHoldLegal \<in> hdType ` set ?active then None
           else Some (Max ((\<lambda>h. the (hdExpiresAt h)) ` set ?active)))"
  proof (cases "?active = [] \<or> RecoveryPointHoldLegal \<in> hdType ` set ?active")
    case True
    then show ?thesis by (auto simp: hold_until_spec)
  next
    case False
    then have "\<forall>h \<in> set ?sorted. hdType h \<noteq> RecoveryPointHoldLegal \<and> hdExpiresAt h \<noteq> None"
      using facts(2) by (fastforce simp: list_all_iff hold_row_ok_def active_holds_def image_iff)
    then show ?thesis using False latest_expiry [of ?sorted] by (simp add: sort_key_empty)
  qed
  moreover have "{h \<in> set (rdHolds db). hdState h \<noteq> HoldActive} \<subseteq> set (rdHolds ?db)"
    using follow unfolding rows_follow_def hold_active_def by blast
  ultimately show ?thesis using facts(3) by (simp add: projection_ok_def active_holds_def)
qed

lemma created_hold:
  assumes "CreateHold env request db = (db1, Inr answer)" and "holds_ok db"
  obtains h where "h \<in> set (rdHolds db1)" and "holds_ok db1" and "hdID h = hrID answer" and "hold_active h"
    and "hdPointID h = chPointID request" and "hdType h = chType request"
    and "encryptBackupAssetField (rvCrypto env) (TrimSpace (chReason request)) = Inr (hdReason h)"
proof -
  obtain reason expiresAt row where valid: "validateCreateHoldRequest request (rvNow env) = Inr (reason, expiresAt)"
    and tx: "retention_transaction env (CreateHoldTx env request reason expiresAt) db = (db1, Inr row)"
    and answer: "answer = holdRecordFromModel row"
    using assms(1) by (auto simp: CreateHold_def bind_result_eq_Inr split: sum.splits prod.splits)
  have "reason = TrimSpace (chReason request)"
    using valid by (cases "chType request")
      (auto simp: validateCreateHoldRequest_def validateHoldReason_def Let_def result_simps split: option.splits if_splits)
  moreover note step = create_hold_step [OF retention_transaction_ok [OF tx] valid]
  moreover have "holds_ok db1" using step hold_step_ok assms(2) by blast
  ultimately show thesis using that [of row] by (simp add: answer holdRecordFromModel_def)
qed

lemma active_hold_not_selected:
  assumes "SelectPoints env request db = Inr sel" and "h \<in> set (rdHolds db)" and "hold_active h"
  shows "hdPointID h \<notin> spRecoveryPointID ` set (slPoints sel)"
proof
  assume "hdPointID h \<in> spRecoveryPointID ` set (slPoints sel)"
  then obtain x where x: "x \<in> set (slPoints sel)" "spRecoveryPointID x = hdPointID h" by auto
  from selected_eligible [OF assms(1) x(1)] obtain p repositoryID taskID where
    "eligible_point db repositoryID taskID p" "x = selected_point p" by metis
  then show False using x(2) assms(2,3) by (auto simp: eligible_point_def list_ex_iff selected_point_def hold_active_def)
qed

text \<open>
  C3. A legal hold protects its point. Once it was created, and whatever policy and hold calls follow, as
  long as none of them releases this very hold, no selection of any policy returns the point: operational
  expiry, other holds and policy changes do not weaken it.
\<close>

theorem legal_hold_protects:
  assumes "holds_ok db" and "CreateHold env request db = (db1, Inr answer)" and "chType request = RecoveryPointHoldLegal"
    and "\<And>env' release. (env', CallReleaseHold release) \<in> set calls \<Longrightarrow> rhHoldID release \<noteq> hrID answer"
    and "SelectPoints env2 selection (run_retentions calls db1) = Inr sel"
  shows "chPointID request \<notin> spRecoveryPointID ` set (slPoints sel)"
proof -
  obtain h where h: "h \<in> set (rdHolds db1)" "holds_ok db1" "hdID h = hrID answer" "hold_active h"
      "hdPointID h = chPointID request" "hdType h = chType request"
    using created_hold [OF assms(2,1)] by metis
  have "\<not> may_release env' call h" if "(env', call) \<in> set calls" for env' call
    using that assms(3) h(3,6) by (cases "(env', call, h)" rule: may_release.cases) (auto dest: assms(4))
  then have "h \<in> set (rdHolds (run_retentions calls db1))" using run_retentions_keep [OF h(2,1)] by blast
  then show ?thesis using active_hold_not_selected [OF assms(5)] h(4,5) by force
qed

text \<open>
  C36. A legal hold whose reason looks like an encrypted value is stored as it is, and when the value does
  not decrypt no call ever releases the hold: every release request for it fails, since loading the row
  runs the decryption hook.
\<close>

theorem sealed_reason_permanent:
  assumes "holds_ok db" and "CreateHold env request db = (db1, Inr answer)" and "chType request = RecoveryPointHoldLegal"
    and "IsEncrypted (TrimSpace (chReason request))"
    and "\<And>env' call. (env', call) \<in> set calls \<Longrightarrow> \<not> is_ok (DecryptString (rvCrypto env') (TrimSpace (chReason request)))"
  shows "\<exists>h \<in> set (rdHolds (run_retentions calls db1)). hdID h = hrID answer \<and> hdState h = HoldActive"
proof -
  obtain h where h: "h \<in> set (rdHolds db1)" "holds_ok db1" "hdID h = hrID answer" "hold_active h" "hdType h = chType request"
      and reason: "encryptBackupAssetField (rvCrypto env) (TrimSpace (chReason request)) = Inr (hdReason h)"
    using created_hold [OF assms(2,1)] by metis
  have nonblank: "TrimSpace (TrimSpace (chReason request)) \<noteq> []"
    by (rule IsEncrypted_nonblank [OF assms(4)])
  then have same: "hdReason h = TrimSpace (chReason request)"
    using reason assms(4) by (simp add: encryptBackupAssetField_def EncryptIfNeeded_def)
  have "\<not> is_ok (hold_AfterFind env' h)" if "\<not> is_ok (DecryptString env' (TrimSpace (chReason request)))" for env'
    using that nonblank assms(4) by (auto simp: hold_AfterFind_def same decryptBackupAssetField_def DecryptIfNeeded_def is_ok_iff result_simps)
  then have "\<not> may_release env' call h" if "(env', call) \<in> set calls" for env' call
    using that assms(3,5) h(5) by (cases "(env', call, h)" rule: may_release.cases) auto
  then have "h \<in> set (rdHolds (run_retentions calls db1))" using run_retentions_keep [OF h(2,1)] by blast
  then show ?thesis using h(3,4) by (auto simp: hold_active_def)
qed

lemma system_expiry_fails:
  assumes "h \<in> set (rdHolds db)" and "due_hold now h" and "holds_ok db"
  shows "\<exists>e. expireOperationalHold env actor None (hdID h, hdPointID h) now db = (db, Inl e)"
proof -
  have ids: "distinct (map hdID (rdHolds db))" using assms(3) by (simp add: holds_ok_def exclusive_def)
  have row: "take_row (\<lambda>x. hdID x = hdID h \<and> hdPointID x = hdPointID h) (rdHolds db) = Some h"
  proof (cases "take_row (\<lambda>x. hdID x = hdID h \<and> hdPointID x = hdPointID h) (rdHolds db)")
    case None
    then show ?thesis using assms(1) by (auto simp: take_row_None)
  next
    case (Some x)
    then show ?thesis using take_row_Some [OF Some] key_unique [OF ids _ assms(1)] by auto
  qed
  have "\<not> is_ok (expireOperationalTx env actor None (hdID h, hdPointID h) now db)"
    using assms(1,2) row
    by (auto simp: is_ok_iff expireOperationalTx_def update_holds_def bind_result_eq_Inr guard_eq_Inr hold_check_def list_all_iff)
  then show ?thesis unfolding expireOperationalHold_def by (rule transaction_stale)
qed

text \<open>
  C35. The expiry the retention worker runs makes no progress once an operational hold is due. It releases
  holds without a releasing user, which the constraint of the hold table forbids, so the call fails and
  changes nothing, in every environment and for every batch size, as long as the hold is there.
\<close>

theorem maintenance_expiry_stuck:
  assumes "holds_ok db" and "h \<in> set (rdHolds db)" and "due_hold (rvNow env) h"
  shows "\<exists>e. ExpireOperationalMaintenance env per limit db = (db, Inl e)"
proof (cases "limit < 1 \<or> maxOperationalHoldExpiryBatch < limit \<or> \<not> is_ok (retention_stmt_ok env StmtExpiredHolds)")
  case True
  then show ?thesis
    by (auto simp: ExpireOperationalMaintenance_def expireOperationalBatch_def split: sum.splits)
next
  case False
  let ?due = "sort_key (\<lambda>h. (the (hdExpiresAt h), hdID h)) (filter (due_hold (rvNow env)) (rdHolds db))"
  have "?due \<noteq> []" using assms(2,3) by (auto simp: sort_key_empty filter_empty_conv)
  then obtain d ds where due: "take (nat limit) ?due = d # ds" using False by (cases "take (nat limit) ?due") auto
  then have "d \<in> set (take (nat limit) ?due)" by simp
  then have "d \<in> set (rdHolds db)" "due_hold (rvNow env) d" by (auto dest: in_set_takeD)
  then obtain e where "expireOperationalHold (per (hdID d)) \<lparr>actorUserID = 0, actorUsername = ''system'', actorRole = ''system''\<rparr> None
      (hdID d, hdPointID d) (rvNow env) db = (db, Inl e)"
    using system_expiry_fails assms(1) by blast
  then show ?thesis using False
    by (auto simp: ExpireOperationalMaintenance_def expireOperationalBatch_def due is_ok_iff split: sum.splits)
qed

section \<open>An example\<close>

definition sample_legal :: "string \<Rightarrow> CreateHoldRequest" where
  "sample_legal reason = \<lparr>chActor = sample_admin, chPointID = sample_id CHR ''b'', chType = RecoveryPointHoldLegal, chReason = reason, chExpiresAt = None\<rparr>"

definition sample_operational :: CreateHoldRequest where
  "sample_operational = \<lparr>chActor = sample_admin, chPointID = sample_id CHR ''b'', chType = RecoveryPointHoldOperational,
     chReason = ''audit'', chExpiresAt = Some 950\<rparr>"

definition sample_release :: ReleaseHoldRequest where
  "sample_release = \<lparr>rhActor = sample_admin, rhPointID = sample_id CHR ''b'', rhHoldID = sample_id CHR ''e'', rhReason = ''done''\<rparr>"

definition sample_env_at :: "time \<Rightarrow> char \<Rightarrow> retention_env" where
  "sample_env_at now c = sample_retention_env\<lparr>rvNow := now, rvNewID := Some (sample_id c)\<rparr>"

definition sample_expiry :: "(retention_env \<times> retention_call) list" where
  "sample_expiry = [(sample_env_at 910 (CHR ''d''), CallCreateHold sample_operational),
     (sample_env_at 960 (CHR ''d''), CallExpireHolds (\<lambda>_. sample_env_at 960 (CHR ''d'')) sample_admin 10)]"

lemma sample_holds_ok: "holds_ok sample_retention_db"
  by code_simp

theorem hold_projection_exact_witness:
  "map (\<lambda>p. (rpID p, rpHoldState p)) (filter (\<lambda>p. rpHoldState p \<noteq> HoldNone) (rdPoints (run_retentions sample_expiry sample_retention_db)))
     = [(sample_id CHR ''b'', HoldReleased)]
   \<and> (\<exists>p. p \<in> set (rdPoints (run_retentions sample_expiry sample_retention_db)) \<and> rpHoldState p = HoldReleased \<and> rpHoldUntil p = None)"
proof -
  let ?db = "run_retentions sample_expiry sample_retention_db"
  have states: "map (\<lambda>p. (rpID p, rpHoldState p)) (filter (\<lambda>p. rpHoldState p \<noteq> HoldNone) (rdPoints ?db)) = [(sample_id CHR ''b'', HoldReleased)]"
    by code_simp
  then obtain p where p: "filter (\<lambda>p. rpHoldState p \<noteq> HoldNone) (rdPoints ?db) = [p]" "rpHoldState p = HoldReleased" by auto
  then have "p \<in> set (filter (\<lambda>p. rpHoldState p \<noteq> HoldNone) (rdPoints ?db))" by simp
  then have p': "p \<in> set (rdPoints ?db)" by simp
  have "rpHoldUntil p = None"
    using hold_projection_exact [OF sample_holds_ok p'] p(2) by (simp add: Let_def split: if_splits)
  then show ?thesis using states p(2) p' by blast
qed

theorem legal_hold_protects_witness:
  "\<exists>sel. SelectPoints sample_retention_env sample_selection
      (run_retentions sample_expiry (fst (CreateHold sample_retention_env (sample_legal ''court order'') sample_retention_db))) = Inr sel
    \<and> sample_id CHR ''b'' \<notin> spRecoveryPointID ` set (slPoints sel)"
proof -
  let ?create = "CreateHold sample_retention_env (sample_legal ''court order'') sample_retention_db"
  have "case ?create of (db1, r) \<Rightarrow> is_ok r \<and> is_ok (SelectPoints sample_retention_env sample_selection (run_retentions sample_expiry db1))"
    by code_simp
  then have "is_ok (snd ?create)" "is_ok (SelectPoints sample_retention_env sample_selection (run_retentions sample_expiry (fst ?create)))"
    by (simp_all add: case_prod_beta)
  then obtain answer sel where run: "?create = (fst ?create, Inr answer)"
    and sel: "SelectPoints sample_retention_env sample_selection (run_retentions sample_expiry (fst ?create)) = Inr sel"
    by (metis is_ok_iff prod.collapse)
  have "sample_id CHR ''b'' \<notin> spRecoveryPointID ` set (slPoints sel)"
    using legal_hold_protects [OF sample_holds_ok run _ _ sel] by (simp add: sample_expiry_def sample_legal_def)
  then show ?thesis using sel by blast
qed

theorem sealed_reason_permanent_witness:
  "\<exists>h \<in> set (rdHolds (run_retentions [(sample_env_at 910 (CHR ''d''), CallReleaseHold sample_release)]
      (fst (CreateHold sample_retention_env (sample_legal ''enc:v2:!'') sample_retention_db)))).
      hdPointID h = sample_id CHR ''b'' \<and> hdState h = HoldActive"
proof -
  let ?create = "CreateHold sample_retention_env (sample_legal ''enc:v2:!'') sample_retention_db"
  let ?db = "run_retentions [(sample_env_at 910 (CHR ''d''), CallReleaseHold sample_release)] (fst ?create)"
  have facts: "is_ok (snd ?create)" "IsEncrypted (TrimSpace ''enc:v2:!'')"
    "\<not> is_ok (DecryptString (rvCrypto (sample_env_at 910 (CHR ''d''))) (TrimSpace ''enc:v2:!''))"
    "list_all (\<lambda>h. hdPointID h = sample_id CHR ''b'') (rdHolds ?db)" by code_simp+
  then obtain answer where run: "?create = (fst ?create, Inr answer)" by (metis is_ok_iff prod.collapse)
  have "\<exists>h \<in> set (rdHolds ?db). hdID h = hrID answer \<and> hdState h = HoldActive"
    using facts by (intro sealed_reason_permanent [OF sample_holds_ok run]) (auto simp: sample_legal_def)
  then show ?thesis using facts(4) by (auto simp: list_all_iff)
qed

theorem maintenance_expiry_stuck_witness:
  "\<exists>e. ExpireOperationalMaintenance (sample_env_at 960 (CHR ''d'')) (\<lambda>_. sample_env_at 960 (CHR ''d'')) 10
      (fst (CreateHold (sample_env_at 910 (CHR ''d'')) sample_operational sample_retention_db))
    = (fst (CreateHold (sample_env_at 910 (CHR ''d'')) sample_operational sample_retention_db), Inl e)"
proof -
  let ?db = "fst (CreateHold (sample_env_at 910 (CHR ''d'')) sample_operational sample_retention_db)"
  have "holds_ok ?db" "list_ex (due_hold (rvNow (sample_env_at 960 (CHR ''d'')))) (rdHolds ?db)" by code_simp+
  then show ?thesis using maintenance_expiry_stuck [of ?db] by (auto simp: list_ex_iff)
qed

end
