(* ===== verification/Domain_Keyring.thy ===== *)
theory Domain_Keyring
  imports Tables Secure_Crypto "HOL-Library.List_Lexorder" "HOL-Library.Char_ord" "HOL-Library.Product_Lexorder"
begin

text \<open>
  The domain keys of the installation, \<open>Keyring\<close> of \<open>backend/internal/backupasset/keyring.go\<close>: keys
  per domain and version, wrapped under the data key by package \<open>secure\<close>, with creation on first use,
  rotation, replacement, loss, and the rewrapping that follows a rotation of the data key.

  The state is the table \<open>wrapped_domain_keys\<close>. An environment holds the clock, the identifier and the
  key bytes drawn at random, the nonce drawn for each row, the variables of \<open>secure\<close>, whether the caller's
  context is cancelled, and the statements that fail. An insert respects the unique indexes of the table
  (identifier, domain and version, active row per domain). \<open>Ensure\<close> retries; \<open>others\<close> is what other
  processes commit before each attempt. The callback that invalidates data of a rebuildable domain is an
  argument; only its error matters here. The messages \<open>retryableKeyringConflict\<close> searches are ASCII.
\<close>

section \<open>Domains, states and rows\<close>

datatype KeyDomain =
    KeyDomainEntryIdentity | KeyDomainCursorSigning | KeyDomainAuditFingerprint
  | KeyDomainRecoveryCleanupOwnership | KeyDomainRclonePreflightIdentity | KeyDomainSearchToken
  | KeyDomainDerivedStore | KeyDomainExportStore | KeyDomainOther string

datatype DomainKeyState =
    DomainKeyActive | DomainKeyVerifyOnly | DomainKeyRetired | DomainKeyLost | DomainKeyStateOther string

definition domain_name :: "KeyDomain \<Rightarrow> string" where
  "domain_name domain =
     (case domain of
        KeyDomainEntryIdentity \<Rightarrow> ''entry_identity''
      | KeyDomainCursorSigning \<Rightarrow> ''cursor_signing''
      | KeyDomainAuditFingerprint \<Rightarrow> ''audit_fingerprint''
      | KeyDomainRecoveryCleanupOwnership \<Rightarrow> ''recovery_cleanup_ownership''
      | KeyDomainRclonePreflightIdentity \<Rightarrow> ''rclone_preflight_identity''
      | KeyDomainSearchToken \<Rightarrow> ''search_token''
      | KeyDomainDerivedStore \<Rightarrow> ''derived_store''
      | KeyDomainExportStore \<Rightarrow> ''export_store''
      | KeyDomainOther name \<Rightarrow> name)"

definition RequiredKeyDomains :: "KeyDomain list" where
  "RequiredKeyDomains =
     [KeyDomainEntryIdentity, KeyDomainCursorSigning, KeyDomainAuditFingerprint,
      KeyDomainRecoveryCleanupOwnership, KeyDomainRclonePreflightIdentity]"

definition validKeyDomains :: "KeyDomain list" where
  "validKeyDomains =
     [KeyDomainEntryIdentity, KeyDomainCursorSigning, KeyDomainAuditFingerprint,
      KeyDomainRecoveryCleanupOwnership, KeyDomainSearchToken, KeyDomainDerivedStore,
      KeyDomainExportStore, KeyDomainRclonePreflightIdentity]"

definition validDomainKeyStates :: "DomainKeyState list" where
  "validDomainKeyStates = [DomainKeyActive, DomainKeyVerifyOnly, DomainKeyRetired, DomainKeyLost]"

record KeyRow =
  krID :: string
  krDomain :: KeyDomain
  krVersion :: int
  krState :: DomainKeyState
  krWrapped :: WrappedDomainKey
  krActivatedAt :: time
  krVerifyUntil :: "time option"
  krLostAt :: "time option"
  krCreatedAt :: time
  krUpdatedAt :: time

record DomainKeyMaterial =
  dmID :: string
  dmDomain :: KeyDomain
  dmVersion :: int
  dmState :: DomainKeyState
  dmKey :: string
  dmActivatedAt :: time
  dmVerifyUntil :: "time option"

record RebuildableKeyTransition =
  rtDomain :: KeyDomain
  rtPreviousVersion :: int
  rtNextVersion :: int

section \<open>Environment\<close>

datatype keyring_error =
    KeyringError asset_error
  | KeyringFault string
  | KeyringCrypto crypto_error
  | KeyringCancelled

datatype keyring_stmt =
    KeyBegin | KeyCommit | KeyLoadRows | KeyCreate | KeyLoadActive | KeyLoadHistory | KeyLoadVersion
  | KeyLockExpected | KeyUpdate | KeyLoadRewrap | KeyPersistRewrap

record keyring_env =
  kvNow :: time
  kvNewID :: "string option"
  kvRandom :: "string option"
  kvNonces :: "string \<Rightarrow> string option"
  kvCrypto :: crypto_env
  kvDuplicate :: string
  kvFault :: "keyring_stmt \<Rightarrow> string option"
  kvCancelled :: bool

definition key_stmt_ok :: "keyring_env \<Rightarrow> keyring_stmt \<Rightarrow> (keyring_error, unit) result" where
  "key_stmt_ok env stmt = (case kvFault env stmt of Some message \<Rightarrow> Inl (KeyringFault message) | None \<Rightarrow> Inr ())"

definition keyring_transaction ::
  "keyring_env \<Rightarrow> (KeyRow list \<Rightarrow> (keyring_error, KeyRow list \<times> 'a) result) \<Rightarrow> KeyRow list
   \<Rightarrow> KeyRow list \<times> (keyring_error, 'a) result" where
  "keyring_transaction env body rows =
     (case bind_result (key_stmt_ok env KeyBegin) (\<lambda>_.
             bind_result (body rows) (\<lambda>r. bind_result (key_stmt_ok env KeyCommit) (\<lambda>_. Inr r))) of
        Inl err \<Rightarrow> (rows, Inl err)
      | Inr (rows1, value) \<Rightarrow> (rows1, Inr value))"

definition wrap_env :: "keyring_env \<Rightarrow> string \<Rightarrow> crypto_env" where
  "wrap_env env rowID = (kvCrypto env)\<lparr>cvNonce := kvNonces env rowID\<rparr>"

section \<open>Rows and material\<close>

definition key_validate :: "KeyDomain \<Rightarrow> (keyring_error, unit) result" where
  "key_validate domain = require (domain \<in> set validKeyDomains) (KeyringError ErrKeyUnavailable)"

definition validateRebuildableTransition ::
  "KeyDomain \<Rightarrow> (RebuildableKeyTransition \<Rightarrow> string option) option \<Rightarrow> (keyring_error, unit) result" where
  "validateRebuildableTransition domain invalidate =
     bind_result (key_validate domain) (\<lambda>_.
       if domain \<noteq> KeyDomainSearchToken \<and> domain \<noteq> KeyDomainDerivedStore \<and> domain \<noteq> KeyDomainExportStore
       then Inl (KeyringError ErrKeyRotationProhibited)
       else if invalidate = None then Inl (KeyringError ErrInvalidState)
       else Inr ())"

definition newRow :: "keyring_env \<Rightarrow> KeyDomain \<Rightarrow> int \<Rightarrow> DomainKeyState \<Rightarrow> time option \<Rightarrow> (keyring_error, KeyRow) result" where
  "newRow env domain version state verifyUntil =
     (case kvNewID env of
        None \<Rightarrow> Inl (KeyringFault ''generate opaque ID'')
      | Some rowID \<Rightarrow>
          (case kvRandom env of
             None \<Rightarrow> Inl (KeyringFault ''generate domain key'')
           | Some plaintext \<Rightarrow>
               (case WrapDomainKey (wrap_env env rowID) (domain_name domain) version plaintext of
                  Inl err \<Rightarrow> Inl (KeyringCrypto err)
                | Inr wrapped \<Rightarrow>
                    Inr \<lparr>krID = rowID, krDomain = domain, krVersion = version, krState = state, krWrapped = wrapped,
                         krActivatedAt = kvNow env, krVerifyUntil = verifyUntil, krLostAt = None,
                         krCreatedAt = kvNow env, krUpdatedAt = kvNow env\<rparr>)))"

definition unwrapPersistedMaterial :: "keyring_env \<Rightarrow> KeyRow \<Rightarrow> (keyring_error, DomainKeyMaterial) result" where
  "unwrapPersistedMaterial env row =
     (if krDomain row \<notin> set validKeyDomains \<or> krState row \<notin> set validDomainKeyStates \<or> krVersion row \<le> 0
         \<or> \<not> ValidateOpaqueID (krID row)
      then Inl (KeyringError ErrKeyUnavailable)
      else if krState row = DomainKeyLost then Inl (KeyringError ErrKeyLost)
      else case UnwrapDomainKey (kvCrypto env) (domain_name (krDomain row)) (krVersion row) (krWrapped row) of
        Inl _ \<Rightarrow> Inl (KeyringError ErrKeyUnavailable)
      | Inr plaintext \<Rightarrow>
          Inr \<lparr>dmID = krID row, dmDomain = krDomain row, dmVersion = krVersion row, dmState = krState row,
               dmKey = plaintext, dmActivatedAt = krActivatedAt row, dmVerifyUntil = krVerifyUntil row\<rparr>)"

definition material :: "keyring_env \<Rightarrow> KeyRow \<Rightarrow> (keyring_error, DomainKeyMaterial) result" where
  "material env row =
     bind_result (unwrapPersistedMaterial env row) (\<lambda>m.
       if dmState m = DomainKeyRetired
          \<or> dmState m = DomainKeyVerifyOnly \<and> (case dmVerifyUntil m of None \<Rightarrow> False | Some until \<Rightarrow> \<not> kvNow env < until)
       then Inl (KeyringError ErrKeyUnavailable) else Inr m)"

definition domain_rows :: "KeyDomain \<Rightarrow> KeyRow list \<Rightarrow> KeyRow list" where
  "domain_rows domain rows = sort_key krVersion (filter (\<lambda>r. krDomain r = domain) rows)"

definition loadDomainKeyRows :: "keyring_env \<Rightarrow> KeyDomain \<Rightarrow> KeyRow list \<Rightarrow> (keyring_error, KeyRow list) result" where
  "loadDomainKeyRows env domain rows = bind_result (key_stmt_ok env KeyLoadRows) (\<lambda>_. Inr (domain_rows domain rows))"

text \<open>\<open>First\<close> orders by the primary key.\<close>

definition first_row :: "(KeyRow \<Rightarrow> bool) \<Rightarrow> KeyRow list \<Rightarrow> KeyRow option" where
  "first_row p rows = (case sort_key krID (filter p rows) of [] \<Rightarrow> None | row # _ \<Rightarrow> Some row)"

definition missingDomainError :: "keyring_env \<Rightarrow> KeyDomain \<Rightarrow> KeyRow list \<Rightarrow> keyring_error" where
  "missingDomainError env domain rows =
     (case key_stmt_ok env KeyLoadHistory of
        Inl err \<Rightarrow> err
      | Inr _ \<Rightarrow>
          (case rev (domain_rows domain rows) of
             [] \<Rightarrow> KeyringError ErrKeyUnavailable
           | row # _ \<Rightarrow> if krState row = DomainKeyLost then KeyringError ErrKeyLost else KeyringError ErrKeyUnavailable))"

definition Active :: "keyring_env \<Rightarrow> KeyDomain \<Rightarrow> KeyRow list \<Rightarrow> (keyring_error, DomainKeyMaterial) result" where
  "Active env domain rows =
     bind_result (key_validate domain) (\<lambda>_.
     bind_result (key_stmt_ok env KeyLoadActive) (\<lambda>_.
       case first_row (\<lambda>r. krDomain r = domain \<and> krState r = DomainKeyActive) rows of
         None \<Rightarrow> Inl (missingDomainError env domain rows)
       | Some row \<Rightarrow> material env row))"

text \<open>\<open>ActiveTx\<close> reads the rows of the caller's transaction, with the history query written out.\<close>

definition ActiveTx :: "keyring_env \<Rightarrow> KeyDomain \<Rightarrow> KeyRow list \<Rightarrow> (keyring_error, DomainKeyMaterial) result" where
  "ActiveTx env domain rows =
     bind_result (key_validate domain) (\<lambda>_.
     bind_result (key_stmt_ok env KeyLoadActive) (\<lambda>_.
       case first_row (\<lambda>r. krDomain r = domain \<and> krState r = DomainKeyActive) rows of
         Some row \<Rightarrow> material env row
       | None \<Rightarrow>
           bind_result (key_stmt_ok env KeyLoadHistory) (\<lambda>_.
             case rev (domain_rows domain rows) of
               [] \<Rightarrow> Inl (KeyringError ErrKeyUnavailable)
             | row # _ \<Rightarrow>
                 if krState row = DomainKeyLost then Inl (KeyringError ErrKeyLost)
                 else Inl (KeyringError ErrKeyUnavailable))))"

lemma ActiveTx_Active: "ActiveTx env domain rows = Active env domain rows"
  unfolding ActiveTx_def Active_def missingDomainError_def bind_result_def
  by (simp split: sum.split option.split list.split)

definition ByVersion :: "keyring_env \<Rightarrow> KeyDomain \<Rightarrow> int \<Rightarrow> KeyRow list \<Rightarrow> (keyring_error, DomainKeyMaterial) result" where
  "ByVersion env domain version rows =
     bind_result (key_validate domain) (\<lambda>_.
       if version \<le> 0 then Inl (KeyringError ErrKeyUnavailable)
       else
         bind_result (key_stmt_ok env KeyLoadVersion) (\<lambda>_.
           case first_row (\<lambda>r. krDomain r = domain \<and> krVersion r = version) rows of
             None \<Rightarrow> Inl (KeyringError ErrKeyUnavailable)
           | Some row \<Rightarrow> material env row))"

definition LockActiveTx :: "keyring_env \<Rightarrow> DomainKeyMaterial \<Rightarrow> KeyRow list \<Rightarrow> (keyring_error, DomainKeyMaterial) result" where
  "LockActiveTx env expected rows =
     (if dmState expected \<noteq> DomainKeyActive \<or> dmVersion expected \<le> 0 \<or> \<not> ValidateOpaqueID (dmID expected)
         \<or> length (dmKey expected) \<noteq> DomainKeySize
      then Inl (KeyringError ErrKeyUnavailable)
      else
        bind_result (key_validate (dmDomain expected)) (\<lambda>_.
        bind_result (key_stmt_ok env KeyLockExpected) (\<lambda>_.
          case take_row (\<lambda>r. krID r = dmID expected \<and> krDomain r = dmDomain expected \<and> krVersion r = dmVersion expected) rows of
            None \<Rightarrow> Inl (KeyringError ErrKeyUnavailable)
          | Some row \<Rightarrow>
              if krState row \<noteq> DomainKeyActive then Inl (KeyringError ErrKeyUnavailable)
              else
                bind_result (material env row) (\<lambda>m.
                  if dmID m \<noteq> dmID expected \<or> dmDomain m \<noteq> dmDomain expected \<or> dmVersion m \<noteq> dmVersion expected
                     \<or> dmState m \<noteq> DomainKeyActive \<or> dmKey m \<noteq> dmKey expected
                  then Inl (KeyringError ErrKeyUnavailable) else Inr m))))"

section \<open>Creation\<close>

definition create_key :: "keyring_env \<Rightarrow> KeyRow \<Rightarrow> KeyRow list \<Rightarrow> (keyring_error, KeyRow list) result" where
  "create_key env row rows =
     bind_result (key_stmt_ok env KeyCreate) (\<lambda>_.
       if krID row \<in> set (map krID rows) \<or> (krDomain row, krVersion row) \<in> set (map (\<lambda>r. (krDomain r, krVersion r)) rows)
          \<or> krState row = DomainKeyActive \<and> list_ex (\<lambda>r. krDomain r = krDomain row \<and> krState r = DomainKeyActive) rows
       then Inl (KeyringFault (kvDuplicate env)) else Inr (rows @ [row]))"

text \<open>The scan of \<open>Ensure\<close> over the rows of the domain: the first active row, or a lost one before it.\<close>

fun scan_rows :: "KeyRow list \<Rightarrow> (keyring_error, KeyRow option) result" where
  "scan_rows [] = Inr None"
| "scan_rows (row # rows) =
     (if krState row = DomainKeyActive then Inr (Some row)
      else if krState row = DomainKeyLost then Inl (KeyringError ErrKeyLost)
      else scan_rows rows)"

definition EnsureTx :: "keyring_env \<Rightarrow> KeyDomain \<Rightarrow> KeyRow list \<Rightarrow> (keyring_error, KeyRow list \<times> KeyRow) result" where
  "EnsureTx env domain rows =
     bind_result (loadDomainKeyRows env domain rows) (\<lambda>found.
     bind_result (scan_rows found) (\<lambda>hit.
       case hit of
         Some row \<Rightarrow> Inr (rows, row)
       | None \<Rightarrow>
           if found \<noteq> [] then Inl (KeyringError ErrKeyUnavailable)
           else
             bind_result (newRow env domain 1 DomainKeyActive None) (\<lambda>row.
             bind_result (create_key env row rows) (\<lambda>rows1. Inr (rows1, row)))))"

definition retryableKeyringConflict :: "keyring_error \<Rightarrow> bool" where
  "retryableKeyringConflict err =
     (case err of
        KeyringFault message \<Rightarrow>
          (let m = map ascii_lower message in Contains m ''locked'' \<or> Contains m ''busy'' \<or> Contains m ''unique'')
      | _ \<Rightarrow> False)"

fun ensure_loop ::
  "(nat \<Rightarrow> keyring_env) \<Rightarrow> (nat \<Rightarrow> KeyRow list \<Rightarrow> KeyRow list) \<Rightarrow> KeyDomain \<Rightarrow> nat \<Rightarrow> nat \<Rightarrow> keyring_error \<Rightarrow> KeyRow list
   \<Rightarrow> KeyRow list \<times> (keyring_error, DomainKeyMaterial) result" where
  "ensure_loop envs others domain 0 attempt lastErr rows = (rows, Inl lastErr)"
| "ensure_loop envs others domain (Suc n) attempt lastErr rows =
     (let env = envs attempt in
      case keyring_transaction env (EnsureTx env domain) (others attempt rows) of
        (rows1, Inr created) \<Rightarrow> (rows1, material env created)
      | (rows1, Inl err) \<Rightarrow>
          if err = KeyringError ErrKeyLost \<or> err = KeyringError ErrKeyUnavailable then (rows1, Inl err)
          else
            (case Active env domain rows1 of
               Inr active \<Rightarrow> (rows1, Inr active)
             | Inl activeErr \<Rightarrow>
                 if activeErr = KeyringError ErrKeyLost then (rows1, Inl activeErr)
                 else if \<not> retryableKeyringConflict err then (rows1, Inl err)
                 else if kvCancelled env then (rows1, Inl KeyringCancelled)
                 else ensure_loop envs others domain n (Suc attempt) err rows1))"

definition ensureAttempts :: nat where
  "ensureAttempts = 20"

definition Ensure ::
  "keyring_env \<Rightarrow> (nat \<Rightarrow> keyring_env) \<Rightarrow> (nat \<Rightarrow> KeyRow list \<Rightarrow> KeyRow list) \<Rightarrow> KeyDomain \<Rightarrow> KeyRow list
   \<Rightarrow> KeyRow list \<times> (keyring_error, DomainKeyMaterial) result" where
  "Ensure env envs others domain rows =
     (case key_validate domain of
        Inl err \<Rightarrow> (rows, Inl err)
      | Inr _ \<Rightarrow>
          (case Active env domain rows of
             Inr m \<Rightarrow> (rows, Inr m)
           | Inl err \<Rightarrow>
               if err = KeyringError ErrKeyLost then (rows, Inl err)
               else ensure_loop envs others domain ensureAttempts 0 err rows))"

fun ensure_domains ::
  "(KeyDomain \<Rightarrow> keyring_env) \<Rightarrow> (KeyDomain \<Rightarrow> nat \<Rightarrow> keyring_env) \<Rightarrow> (KeyDomain \<Rightarrow> nat \<Rightarrow> KeyRow list \<Rightarrow> KeyRow list)
   \<Rightarrow> KeyDomain list \<Rightarrow> KeyRow list \<Rightarrow> KeyRow list \<times> (keyring_error, (KeyDomain \<times> DomainKeyMaterial) list) result" where
  "ensure_domains env envs others [] rows = (rows, Inr [])"
| "ensure_domains env envs others (domain # domains) rows =
     (case Ensure (env domain) (envs domain) (others domain) domain rows of
        (rows1, Inl err) \<Rightarrow> (rows1, Inl err)
      | (rows1, Inr m) \<Rightarrow>
          (case ensure_domains env envs others domains rows1 of
             (rows2, Inl err) \<Rightarrow> (rows2, Inl err)
           | (rows2, Inr rest) \<Rightarrow> (rows2, Inr ((domain, m) # rest))))"

definition EnsureRequiredDomains ::
  "(KeyDomain \<Rightarrow> keyring_env) \<Rightarrow> (KeyDomain \<Rightarrow> nat \<Rightarrow> keyring_env) \<Rightarrow> (KeyDomain \<Rightarrow> nat \<Rightarrow> KeyRow list \<Rightarrow> KeyRow list)
   \<Rightarrow> KeyRow list \<Rightarrow> KeyRow list \<times> (keyring_error, (KeyDomain \<times> DomainKeyMaterial) list) result" where
  "EnsureRequiredDomains env envs others rows = ensure_domains env envs others RequiredKeyDomains rows"

section \<open>Rotation and replacement\<close>

definition max_version :: "KeyRow list \<Rightarrow> int" where
  "max_version rows = fold (\<lambda>r m. if m < krVersion r then krVersion r else m) rows 0"

definition active_row :: "KeyRow list \<Rightarrow> KeyRow option" where
  "active_row rows = take_row (\<lambda>r. krState r = DomainKeyActive) (rev rows)"

text \<open>The update of one row under its identifier and state.\<close>

definition set_key_state ::
  "keyring_env \<Rightarrow> string \<Rightarrow> DomainKeyState \<Rightarrow> (KeyRow \<Rightarrow> KeyRow) \<Rightarrow> KeyRow list \<Rightarrow> (keyring_error, KeyRow list) result" where
  "set_key_state env rowID state change rows =
     bind_result (key_stmt_ok env KeyUpdate) (\<lambda>_.
       let hit = (\<lambda>r. krID r = rowID \<and> krState r = state) in
       if rows_affected hit rows \<noteq> 1 then Inl (KeyringError ErrConflict) else Inr (update_where hit change rows))"

definition RotateTx :: "keyring_env \<Rightarrow> KeyDomain \<Rightarrow> duration \<Rightarrow> KeyRow list \<Rightarrow> (keyring_error, KeyRow list \<times> KeyRow) result" where
  "RotateTx env domain verifyFor rows =
     bind_result (loadDomainKeyRows env domain rows) (\<lambda>found.
       case active_row found of
         None \<Rightarrow>
           if list_ex (\<lambda>r. krState r = DomainKeyLost) found then Inl (KeyringError ErrKeyLost)
           else Inl (KeyringError ErrKeyUnavailable)
       | Some active \<Rightarrow>
           bind_result (material env active) (\<lambda>_.
           bind_result (set_key_state env (krID active) DomainKeyActive
             (\<lambda>r. r\<lparr>krState := DomainKeyVerifyOnly,
                    krVerifyUntil := (if domain = KeyDomainCursorSigning then Some (kvNow env + verifyFor) else None),
                    krUpdatedAt := kvNow env\<rparr>) rows) (\<lambda>rows1.
           bind_result (newRow env domain (wrap64 (max_version found + 1)) DomainKeyActive None) (\<lambda>row.
           bind_result (create_key env row rows1) (\<lambda>rows2. Inr (rows2, row))))))"

definition Rotate ::
  "keyring_env \<Rightarrow> KeyDomain \<Rightarrow> duration \<Rightarrow> KeyRow list \<Rightarrow> KeyRow list \<times> (keyring_error, DomainKeyMaterial) result" where
  "Rotate env domain verifyFor rows =
     (case bind_result (key_validate domain) (\<lambda>_.
             if domain = KeyDomainEntryIdentity \<or> domain = KeyDomainRecoveryCleanupOwnership
                \<or> domain = KeyDomainRclonePreflightIdentity \<or> domain = KeyDomainSearchToken
             then Inl (KeyringError ErrKeyRotationProhibited)
             else if domain = KeyDomainCursorSigning \<and> (verifyFor \<le> 0 \<or> 7 * 24 * Hour < verifyFor)
             then Inl (KeyringError ErrInvalidState)
             else Inr ()) of
        Inl err \<Rightarrow> (rows, Inl err)
      | Inr _ \<Rightarrow>
          (case keyring_transaction env (RotateTx env domain verifyFor) rows of
             (rows1, Inl err) \<Rightarrow> (rows1, Inl err)
           | (rows1, Inr created) \<Rightarrow> (rows1, material env created)))"

definition run_invalidate ::
  "(RebuildableKeyTransition \<Rightarrow> string option) option \<Rightarrow> RebuildableKeyTransition \<Rightarrow> (keyring_error, unit) result" where
  "run_invalidate invalidate transition =
     (case invalidate of
        None \<Rightarrow> Inr ()
      | Some callback \<Rightarrow> (case callback transition of Some message \<Rightarrow> Inl (KeyringFault message) | None \<Rightarrow> Inr ()))"

definition ReplaceRebuildableTx ::
  "keyring_env \<Rightarrow> KeyDomain \<Rightarrow> (RebuildableKeyTransition \<Rightarrow> string option) option \<Rightarrow> KeyRow list
   \<Rightarrow> (keyring_error, KeyRow list \<times> KeyRow) result" where
  "ReplaceRebuildableTx env domain invalidate rows =
     bind_result (loadDomainKeyRows env domain rows) (\<lambda>found.
       let maxVersion = max_version found; next_version = wrap64 (maxVersion + 1) in
       if maxVersion = 0 then Inl (KeyringError ErrKeyUnavailable)
       else
         bind_result
           (case active_row found of
              None \<Rightarrow>
                (case rev found of
                   [] \<Rightarrow> Inl (KeyringError ErrKeyUnavailable)
                 | latest # _ \<Rightarrow> require (krState latest = DomainKeyLost) (KeyringError ErrKeyUnavailable))
            | Some active \<Rightarrow> bind_result (material env active) (\<lambda>_. Inr ())) (\<lambda>_.
         bind_result (run_invalidate invalidate
           \<lparr>rtDomain = domain, rtPreviousVersion = maxVersion, rtNextVersion = next_version\<rparr>) (\<lambda>_.
         bind_result
           (case active_row found of
              None \<Rightarrow> Inr rows
            | Some active \<Rightarrow>
                set_key_state env (krID active) DomainKeyActive
                  (\<lambda>r. r\<lparr>krState := DomainKeyRetired, krVerifyUntil := None, krUpdatedAt := kvNow env\<rparr>) rows) (\<lambda>rows1.
         bind_result (newRow env domain next_version DomainKeyActive None) (\<lambda>row.
         bind_result (create_key env row rows1) (\<lambda>rows2. Inr (rows2, row)))))))"

definition ReplaceRebuildable ::
  "keyring_env \<Rightarrow> KeyDomain \<Rightarrow> (RebuildableKeyTransition \<Rightarrow> string option) option \<Rightarrow> KeyRow list
   \<Rightarrow> KeyRow list \<times> (keyring_error, DomainKeyMaterial) result" where
  "ReplaceRebuildable env domain invalidate rows =
     (case validateRebuildableTransition domain invalidate of
        Inl err \<Rightarrow> (rows, Inl err)
      | Inr _ \<Rightarrow>
          (case keyring_transaction env (ReplaceRebuildableTx env domain invalidate) rows of
             (rows1, Inl err) \<Rightarrow> (rows1, Inl err)
           | (rows1, Inr created) \<Rightarrow> (rows1, material env created)))"

section \<open>Rewrapping\<close>

fun rewrap_rows :: "keyring_env \<Rightarrow> KeyRow list \<Rightarrow> int \<Rightarrow> KeyRow list \<Rightarrow> (keyring_error, KeyRow list \<times> int) result" where
  "rewrap_rows env [] count rows = Inr (rows, count)"
| "rewrap_rows env (row # pending) count rows =
     bind_result (unwrapPersistedMaterial env row) (\<lambda>m.
       case WrapDomainKey (wrap_env env (krID row)) (domain_name (krDomain row)) (krVersion row) (dmKey m) of
         Inl _ \<Rightarrow> Inl (KeyringError ErrKeyUnavailable)
       | Inr wrapped \<Rightarrow>
           bind_result (key_stmt_ok env KeyPersistRewrap) (\<lambda>_.
             let hit = (\<lambda>r. krID r = krID row \<and> krDomain r = krDomain row \<and> krVersion r = krVersion row) in
             if rows_affected hit rows \<noteq> 1 then Inl (KeyringError ErrConflict)
             else rewrap_rows env pending (count + 1)
               (update_where hit (\<lambda>r. r\<lparr>krWrapped := wrapped, krUpdatedAt := kvNow env\<rparr>) rows)))"

definition rewrapDomainsTx :: "keyring_env \<Rightarrow> KeyDomain list \<Rightarrow> KeyRow list \<Rightarrow> (keyring_error, KeyRow list \<times> int) result" where
  "rewrapDomainsTx env domains rows =
     bind_result (key_stmt_ok env KeyLoadRewrap) (\<lambda>_.
       rewrap_rows env
         (sort_key (\<lambda>r. (domain_name (krDomain r), krVersion r))
           (filter (\<lambda>r. krState r \<noteq> DomainKeyLost \<and> (domains = [] \<or> krDomain r \<in> set domains)) rows)) 0 rows)"

definition RewrapAll :: "keyring_env \<Rightarrow> KeyRow list \<Rightarrow> KeyRow list \<times> (keyring_error, int) result" where
  "RewrapAll env rows = keyring_transaction env (rewrapDomainsTx env []) rows"

fun check_domains :: "KeyDomain set \<Rightarrow> KeyDomain list \<Rightarrow> (keyring_error, unit) result" where
  "check_domains seen [] = Inr ()"
| "check_domains seen (domain # domains) =
     bind_result (key_validate domain) (\<lambda>_.
       if domain \<in> seen then Inl (KeyringError ErrInvalidState) else check_domains (insert domain seen) domains)"

definition RewrapDomains :: "keyring_env \<Rightarrow> KeyDomain list \<Rightarrow> KeyRow list \<Rightarrow> KeyRow list \<times> (keyring_error, int) result" where
  "RewrapDomains env domains rows =
     (if domains = [] then (rows, Inl (KeyringError ErrKeyUnavailable))
      else case check_domains {} domains of
        Inl err \<Rightarrow> (rows, Inl err)
      | Inr _ \<Rightarrow> keyring_transaction env (rewrapDomainsTx env domains) rows)"

section \<open>Loss\<close>

definition lose :: "keyring_env \<Rightarrow> KeyRow \<Rightarrow> KeyRow" where
  "lose env r = r\<lparr>krState := DomainKeyLost, krVerifyUntil := None, krLostAt := Some (kvNow env), krUpdatedAt := kvNow env\<rparr>"

text \<open>A single statement outside a transaction: it commits or fails as a whole.\<close>

definition MarkLost :: "keyring_env \<Rightarrow> KeyDomain \<Rightarrow> int \<Rightarrow> KeyRow list \<Rightarrow> KeyRow list \<times> (keyring_error, unit) result" where
  "MarkLost env domain version rows =
     (let hit = (\<lambda>r. krDomain r = domain \<and> krVersion r = version \<and> krState r \<noteq> DomainKeyLost) in
      case bind_result (key_validate domain) (\<lambda>_.
             if domain = KeyDomainSearchToken \<or> domain = KeyDomainDerivedStore \<or> domain = KeyDomainExportStore
             then Inl (KeyringError ErrKeyRotationProhibited)
             else if version \<le> 0 then Inl (KeyringError ErrKeyUnavailable)
             else key_stmt_ok env KeyUpdate) of
        Inl err \<Rightarrow> (rows, Inl err)
      | Inr _ \<Rightarrow>
          (update_where hit (lose env) rows,
           if rows_affected hit rows \<noteq> 1 then Inl (KeyringError ErrKeyUnavailable) else Inr ()))"

definition MarkRebuildableLostTx ::
  "keyring_env \<Rightarrow> KeyDomain \<Rightarrow> int \<Rightarrow> (RebuildableKeyTransition \<Rightarrow> string option) option \<Rightarrow> KeyRow list
   \<Rightarrow> (keyring_error, KeyRow list \<times> unit) result" where
  "MarkRebuildableLostTx env domain version invalidate rows =
     bind_result (loadDomainKeyRows env domain rows) (\<lambda>found.
       case take_row (\<lambda>r. krVersion r = version) found of
         None \<Rightarrow> Inl (KeyringError ErrKeyUnavailable)
       | Some target \<Rightarrow>
           if \<not> (krState target = DomainKeyActive \<or> domain = KeyDomainExportStore \<and> krState target = DomainKeyVerifyOnly)
           then Inl (KeyringError ErrKeyUnavailable)
           else
             bind_result (run_invalidate invalidate \<lparr>rtDomain = domain, rtPreviousVersion = version, rtNextVersion = 0\<rparr>) (\<lambda>_.
             bind_result (key_stmt_ok env KeyUpdate) (\<lambda>_.
               let hit = (\<lambda>r. krID r = krID target \<and> krVersion r = version \<and> krState r = krState target) in
               if rows_affected hit rows \<noteq> 1 then Inl (KeyringError ErrConflict)
               else Inr (update_where hit (lose env) rows, ()))))"

definition MarkRebuildableLost ::
  "keyring_env \<Rightarrow> KeyDomain \<Rightarrow> int \<Rightarrow> (RebuildableKeyTransition \<Rightarrow> string option) option \<Rightarrow> KeyRow list
   \<Rightarrow> KeyRow list \<times> (keyring_error, unit) result" where
  "MarkRebuildableLost env domain version invalidate rows =
     (case bind_result (validateRebuildableTransition domain invalidate) (\<lambda>_.
             if version \<le> 0 then Inl (KeyringError ErrKeyUnavailable) else Inr ()) of
        Inl err \<Rightarrow> (rows, Inl err)
      | Inr _ \<Rightarrow> keyring_transaction env (MarkRebuildableLostTx env domain version invalidate) rows)"

end
