(* ===== verification/Domain_Keyring_Safety.thy ===== *)
theory Domain_Keyring_Safety
  imports Domain_Keyring
begin

text \<open>
  What the keyring guarantees: an invariant of the key table that every operation keeps, also between the
  attempts of \<open>Ensure\<close>; that rewrapping preserves every key; and that a domain has one key.
\<close>

section \<open>The key table\<close>

definition key_active :: "KeyRow \<Rightarrow> bool" where
  "key_active r \<longleftrightarrow> krState r = DomainKeyActive"

definition key_version :: "KeyRow \<Rightarrow> KeyDomain \<times> int" where
  "key_version r = (krDomain r, krVersion r)"

text \<open>The domains whose first key is never replaced.\<close>

definition stable_domains :: "KeyDomain set" where
  "stable_domains = {KeyDomainEntryIdentity, KeyDomainRecoveryCleanupOwnership, KeyDomainRclonePreflightIdentity}"

definition keys_ok :: "KeyRow list \<Rightarrow> bool" where
  "keys_ok rows \<longleftrightarrow> exclusive krID krDomain key_active rows \<and> distinct (map key_version rows)
     \<and> list_all (\<lambda>r. krDomain r \<in> stable_domains \<longrightarrow> krVersion r = 1) rows"

definition keys_follow :: "KeyRow list \<Rightarrow> KeyRow list \<Rightarrow> bool" where
  "keys_follow rows rows' \<longleftrightarrow>
     (\<forall>r \<in> set rows. \<exists>r' \<in> set rows'. krID r' = krID r \<and> key_version r' = key_version r
        \<and> (krState r = DomainKeyLost \<longrightarrow> r' = r) \<and> (key_active r' \<longrightarrow> key_active r))"

definition key_step :: "KeyRow list \<Rightarrow> KeyRow list \<Rightarrow> bool" where
  "key_step rows rows' \<longleftrightarrow> (keys_ok rows \<longrightarrow> keys_ok rows' \<and> keys_follow rows rows')"

lemma keys_follow_refl: "keys_follow rows rows"
  by (auto simp: keys_follow_def)

lemma keys_follow_trans: "keys_follow a b \<Longrightarrow> keys_follow b c \<Longrightarrow> keys_follow a c"
  unfolding keys_follow_def by metis

lemma key_step_refl [simp, intro]: "key_step rows rows"
  by (simp add: key_step_def keys_follow_refl)

lemma key_step_trans: "key_step a b \<Longrightarrow> key_step b c \<Longrightarrow> key_step a c"
  by (auto simp: key_step_def intro: keys_follow_trans)

lemma change_step:
  assumes "\<And>r. r \<in> set rows \<Longrightarrow> p r \<Longrightarrow> krID (f r) = krID r \<and> key_version (f r) = key_version r \<and> krState r \<noteq> DomainKeyLost
      \<and> (key_active (f r) \<longrightarrow> key_active r)"
  shows "key_step rows (update_where p f rows)"
  unfolding key_step_def
proof (intro impI conjI)
  assume ok: "keys_ok rows"
  let ?g = "\<lambda>r. if p r then f r else r"
  have keep: "krID (?g r) = krID r \<and> krDomain (?g r) = krDomain r \<and> key_version (?g r) = key_version r \<and> (key_active (?g r) \<longrightarrow> key_active r)"
    if "r \<in> set rows" for r
    using assms [OF that] by (simp add: key_version_def)
  have "distinct (map krDomain (filter key_active (map ?g rows)))"
    using ok keep by (intro distinct_filter_map) (auto simp: keys_ok_def exclusive_def)
  moreover have "map krID (map ?g rows) = map krID rows" "map key_version (map ?g rows) = map key_version rows"
    using keep by simp_all
  moreover have "list_all (\<lambda>r. krDomain r \<in> stable_domains \<longrightarrow> krVersion r = 1) (map ?g rows)"
    using ok assms unfolding keys_ok_def list_all_iff by (auto simp: key_version_def)
  ultimately show "keys_ok (update_where p f rows)"
    using ok unfolding keys_ok_def exclusive_def update_where_def by metis
  show "keys_follow rows (update_where p f rows)"
    unfolding keys_follow_def
  proof
    fix r assume r: "r \<in> set rows"
    then show "\<exists>r' \<in> set (update_where p f rows). krID r' = krID r \<and> key_version r' = key_version r
        \<and> (krState r = DomainKeyLost \<longrightarrow> r' = r) \<and> (key_active r' \<longrightarrow> key_active r)"
      using assms [OF r] by (intro bexI [of _ "?g r"]) (auto simp: set_update_where)
  qed
qed

lemma create_step:
  assumes "create_key env row rows = Inr rows'" and "krDomain row \<in> stable_domains \<longrightarrow> krVersion row = 1"
    and "key_active row"
  shows "key_step rows rows' \<and> row \<in> set rows'"
proof -
  have rows': "rows' = rows @ [row]" "krID row \<notin> set (map krID rows)" "key_version row \<notin> set (map key_version rows)"
    "\<And>r. r \<in> set rows \<Longrightarrow> key_active r \<Longrightarrow> krDomain r \<noteq> krDomain row"
    using assms(1,3) by (auto simp: create_key_def bind_result_eq_Inr guard_eq_Inr key_version_def key_active_def list_ex_iff)
  have "keys_ok rows \<Longrightarrow> keys_ok rows'"
    using rows' assms(2) exclusive_append [of krID krDomain key_active rows row] by (auto simp: keys_ok_def)
  moreover have "keys_follow rows rows'" by (auto simp: keys_follow_def rows'(1))
  ultimately show ?thesis by (simp add: key_step_def rows'(1))
qed

lemma newRow_fields:
  "newRow env domain version state until = Inr row \<Longrightarrow> krDomain row = domain \<and> krVersion row = version \<and> krState row = state"
  by (auto simp: newRow_def split: option.splits sum.splits)

lemma set_key_state_step:
  assumes "set_key_state env rowID DomainKeyActive change rows = Inr rows'"
    and "\<And>r. krID (change r) = krID r \<and> key_version (change r) = key_version r \<and> \<not> key_active (change r)"
  shows "key_step rows rows'"
  using assms by (auto simp: set_key_state_def Let_def bind_result_eq_Inr guard_eq_Inr intro!: change_step)

lemma key_transaction_ok:
  "keyring_transaction env body rows = (rows', Inr v) \<Longrightarrow> body rows = Inr (rows', v)"
  by (auto simp: keyring_transaction_def bind_result_eq_Inr split: sum.splits prod.splits)

lemma key_transaction_step:
  assumes "\<And>rows' v. body rows = Inr (rows', v) \<Longrightarrow> key_step rows rows'"
  shows "key_step rows (fst (keyring_transaction env body rows))"
  using assms by (auto simp: keyring_transaction_def bind_result_eq_Inr split: sum.splits prod.splits)

section \<open>Every operation is a step\<close>

lemma ensure_tx_step:
  assumes "EnsureTx env domain rows = Inr (rows', row)"
  shows "key_step rows rows' \<and> row \<in> set rows' \<and> krDomain row = domain \<and> key_active row"
proof -
  obtain hit where scan: "scan_rows (domain_rows domain rows) = Inr hit"
    and rest: "(case hit of
         Some row \<Rightarrow> Inr (rows, row)
       | None \<Rightarrow>
           if domain_rows domain rows \<noteq> [] then Inl (KeyringError ErrKeyUnavailable)
           else
             bind_result (newRow env domain 1 DomainKeyActive None) (\<lambda>row.
             bind_result (create_key env row rows) (\<lambda>rows1. Inr (rows1, row)))) = Inr (rows', row)"
    using assms by (auto simp: EnsureTx_def loadDomainKeyRows_def bind_result_eq_Inr)
  show ?thesis
  proof (cases hit)
    case None
    then obtain rows1 where new: "newRow env domain 1 DomainKeyActive None = Inr row" and "create_key env row rows = Inr rows'"
      using rest by (auto simp: bind_result_eq_Inr split: if_splits)
    then show ?thesis using create_step [of env row rows rows'] newRow_fields [OF new] by (simp add: key_active_def)
  next
    case (Some found)
    have "scan_rows list = Inr (Some found) \<Longrightarrow> found \<in> set list \<and> krState found = DomainKeyActive" for list
      by (induction list) (auto split: if_splits)
    then have "found \<in> set (domain_rows domain rows)" "krState found = DomainKeyActive" using scan Some by auto
    then show ?thesis using rest Some by (auto simp: domain_rows_def key_active_def)
  qed
qed

lemma ensure_loop_step:
  assumes "\<And>n rows. key_step rows (others n rows)"
  shows "key_step rows (fst (ensure_loop envs others domain n attempt lastErr rows))"
proof (induction n arbitrary: attempt lastErr rows)
  case (Suc n)
  let ?env = "envs attempt"
  obtain rows1 r where run: "keyring_transaction ?env (EnsureTx ?env domain) (others attempt rows) = (rows1, r)" by fastforce
  have "key_step (others attempt rows) (fst (keyring_transaction ?env (EnsureTx ?env domain) (others attempt rows)))"
    by (rule key_transaction_step) (auto dest: ensure_tx_step)
  then have "key_step (others attempt rows) rows1" using run by simp
  then have step: "key_step rows rows1" by (rule key_step_trans [OF assms])
  then have "key_step rows (fst (ensure_loop envs others domain n (Suc attempt) err rows1))" for err
    using Suc.IH key_step_trans by blast
  then show ?case using run step by (auto simp: Let_def split: sum.splits)
qed simp

lemma rotate_tx_step:
  assumes "RotateTx env domain verifyFor rows = Inr (rows', row)" and "domain \<notin> stable_domains"
  shows "key_step rows rows'"
proof (cases "active_row (domain_rows domain rows)")
  case None
  then show ?thesis using assms(1) by (simp add: RotateTx_def loadDomainKeyRows_def bind_result_eq_Inr guard_eq_Inr)
next
  case (Some active)
  let ?change = "\<lambda>r. r\<lparr>krState := DomainKeyVerifyOnly,
                    krVerifyUntil := (if domain = KeyDomainCursorSigning then Some (kvNow env + verifyFor) else None),
                    krUpdatedAt := kvNow env\<rparr>"
  have "\<exists>rows1. set_key_state env (krID active) DomainKeyActive ?change rows = Inr rows1
      \<and> newRow env domain (wrap64 (max_version (domain_rows domain rows) + 1)) DomainKeyActive None = Inr row
      \<and> create_key env row rows1 = Inr rows'"
    using assms(1) Some unfolding RotateTx_def loadDomainKeyRows_def bind_result_eq_Inr by (auto simp only: option.simps bind_result_eq_Inr sum.inject prod.inject)
  then obtain rows1 where upd: "set_key_state env (krID active) DomainKeyActive ?change rows = Inr rows1"
    and new: "newRow env domain (wrap64 (max_version (domain_rows domain rows) + 1)) DomainKeyActive None = Inr row"
    and create: "create_key env row rows1 = Inr rows'" by blast
  have "key_step rows rows1" using upd by (rule set_key_state_step) (simp add: key_version_def key_active_def)
  moreover have "key_step rows1 rows'" using create_step [OF create] newRow_fields [OF new] assms(2) by (simp add: key_active_def)
  ultimately show ?thesis by (rule key_step_trans)
qed

lemma replace_tx_step:
  assumes "ReplaceRebuildableTx env domain invalidate rows = Inr (rows', row)" and "domain \<notin> stable_domains"
  shows "key_step rows rows'"
proof -
  obtain found rows1 version where
    upd: "(case active_row found of
              None \<Rightarrow> Inr rows
            | Some active \<Rightarrow>
                set_key_state env (krID active) DomainKeyActive
                  (\<lambda>r. r\<lparr>krState := DomainKeyRetired, krVerifyUntil := None, krUpdatedAt := kvNow env\<rparr>) rows) = Inr rows1"
    and new: "newRow env domain version DomainKeyActive None = Inr row" and create: "create_key env row rows1 = Inr rows'"
    using assms(1) unfolding ReplaceRebuildableTx_def Let_def bind_result_eq_Inr guard_eq_Inr by blast
  have "key_step rows rows1" using upd
    by (cases "active_row found") (auto elim!: set_key_state_step simp: key_version_def key_active_def)
  moreover have "key_step rows1 rows'" using create_step [OF create] newRow_fields [OF new] assms(2) by (simp add: key_active_def)
  ultimately show ?thesis by (rule key_step_trans)
qed

text \<open>
  What \<open>rewrap_rows\<close> does: every pending row is unwrapped and wrapped again, and only its wrapping changes.
\<close>

definition rewrapped :: "keyring_env \<Rightarrow> KeyRow \<Rightarrow> KeyRow \<Rightarrow> bool" where
  "rewrapped env r r' \<longleftrightarrow>
     (\<exists>m w. unwrapPersistedMaterial env r = Inr m
        \<and> WrapDomainKey (wrap_env env (krID r)) (domain_name (krDomain r)) (krVersion r) (dmKey m) = Inr w
        \<and> r' = r\<lparr>krWrapped := w, krUpdatedAt := kvNow env\<rparr>)"

lemma rewrap_rows_step:
  assumes "rewrap_rows env pending count rows = Inr (rows', n)" and "\<And>r. r \<in> set pending \<Longrightarrow> r \<in> set rows \<and> krState r \<noteq> DomainKeyLost"
    and "distinct (map krID pending)" and "distinct (map krID rows)"
  shows "key_step rows rows' \<and> n = count + int (length pending)
    \<and> (\<forall>r \<in> set rows. if r \<in> set pending then \<exists>r' \<in> set rows'. rewrapped env r r' else r \<in> set rows')"
  using assms
proof (induction pending arbitrary: count rows)
  case (Cons row pending)
  let ?hit = "\<lambda>r. krID r = krID row \<and> krDomain r = krDomain row \<and> krVersion r = krVersion row"
  obtain m w where m: "unwrapPersistedMaterial env row = Inr m"
    and w: "WrapDomainKey (wrap_env env (krID row)) (domain_name (krDomain row)) (krVersion row) (dmKey m) = Inr w"
    and rest: "rewrap_rows env pending (count + 1) (update_where ?hit (\<lambda>r. r\<lparr>krWrapped := w, krUpdatedAt := kvNow env\<rparr>) rows) = Inr (rows', n)"
    using Cons.prems(1) by (auto simp: bind_result_eq_Inr guard_eq_Inr sum_case_eq_Inr Let_def)
  let ?new = "row\<lparr>krWrapped := w, krUpdatedAt := kvNow env\<rparr>"
  let ?rows1 = "update_where (\<lambda>r. r = row) (\<lambda>_. ?new) rows"
  have row: "row \<in> set rows" "krState row \<noteq> DomainKeyLost" using Cons.prems(2) by auto
  have "?hit r \<longleftrightarrow> r = row" if "r \<in> set rows" for r using key_unique [OF Cons.prems(4) that row(1)] by auto
  then have rows1: "update_where ?hit (\<lambda>r. r\<lparr>krWrapped := w, krUpdatedAt := kvNow env\<rparr>) rows = ?rows1"
    by (intro update_where_cong) auto
  have step1: "key_step rows ?rows1"
    using row by (intro change_step) (auto simp: key_version_def key_active_def)
  have ids1: "distinct (map krID ?rows1)"
  proof -
    have "map krID ?rows1 = map krID rows" by (auto simp: update_where_def)
    then show ?thesis using Cons.prems(4) by simp
  qed
  have other: "r \<noteq> row" if "r \<in> set pending" for r using that Cons.prems(3) by auto
  have keep: "r \<in> set ?rows1" if "r \<in> set rows" "r \<noteq> row" for r using that by (auto simp: set_update_where image_iff)
  have new: "?new \<in> set ?rows1" "?new \<notin> set pending"
    using row(1) Cons.prems(3) by (auto simp: set_update_where image_iff)
  have IH: "key_step ?rows1 rows' \<and> n = (count + 1) + int (length pending)
      \<and> (\<forall>r \<in> set ?rows1. if r \<in> set pending then \<exists>r' \<in> set rows'. rewrapped env r r' else r \<in> set rows')"
    using Cons.prems(2,3) ids1 other keep by (intro Cons.IH rest [unfolded rows1]) auto
  show ?case
  proof (intro conjI ballI)
    show "key_step rows rows'" using step1 IH key_step_trans by blast
    show "n = count + int (length (row # pending))" using IH by simp
    fix r assume r: "r \<in> set rows"
    show "if r \<in> set (row # pending) then \<exists>r' \<in> set rows'. rewrapped env r r' else r \<in> set rows'"
    proof (cases "r = row")
      case True
      have "?new \<in> set rows'" using IH new by auto
      moreover have "rewrapped env row ?new" using m w by (auto simp: rewrapped_def)
      ultimately show ?thesis using True by auto
    next
      case False
      then show ?thesis using IH keep [OF r False] by auto
    qed
  qed
qed simp

lemma rewrap_tx_step:
  assumes "rewrapDomainsTx env domains rows = Inr (rows', n)" and "distinct (map krID rows)"
  shows "key_step rows rows' \<and> n = int (length (filter (\<lambda>r. krState r \<noteq> DomainKeyLost \<and> (domains = [] \<or> krDomain r \<in> set domains)) rows))
    \<and> (\<forall>r \<in> set rows. if krState r \<noteq> DomainKeyLost \<and> (domains = [] \<or> krDomain r \<in> set domains)
          then \<exists>r' \<in> set rows'. rewrapped env r r' else r \<in> set rows')"
proof -
  let ?pending = "filter (\<lambda>r. krState r \<noteq> DomainKeyLost \<and> (domains = [] \<or> krDomain r \<in> set domains)) rows"
  let ?sorted = "sort_key (\<lambda>r. (domain_name (krDomain r), krVersion r)) ?pending"
  have run: "rewrap_rows env ?sorted 0 rows = Inr (rows', n)"
    using assms(1) by (auto simp: rewrapDomainsTx_def bind_result_eq_Inr)
  have "distinct (map krID ?pending)" using assms(2) by (simp add: distinct_map_filter)
  then have "distinct (map krID ?sorted)" by (simp add: distinct_map)
  then have res: "key_step rows rows' \<and> n = 0 + int (length ?sorted)
      \<and> (\<forall>r \<in> set rows. if r \<in> set ?sorted then \<exists>r' \<in> set rows'. rewrapped env r r' else r \<in> set rows')"
    by (intro rewrap_rows_step [OF run _ _ assms(2)]) auto
  have "if krState r \<noteq> DomainKeyLost \<and> (domains = [] \<or> krDomain r \<in> set domains)
      then \<exists>r' \<in> set rows'. rewrapped env r r' else r \<in> set rows'" if "r \<in> set rows" for r
  proof -
    have mem: "(r \<in> set ?sorted) = (krState r \<noteq> DomainKeyLost \<and> (domains = [] \<or> krDomain r \<in> set domains))" using that by simp
    have "if r \<in> set ?sorted then \<exists>r' \<in> set rows'. rewrapped env r r' else r \<in> set rows'"
      using bspec [OF conjunct2 [OF conjunct2 [OF res]] that] .
    then show ?thesis by (simp only: mem)
  qed
  then show ?thesis using res by simp
qed

lemma mark_rebuildable_step:
  assumes "MarkRebuildableLostTx env domain version invalidate rows = Inr (rows', u)"
  shows "key_step rows rows'"
proof (cases "take_row (\<lambda>r. krVersion r = version) (domain_rows domain rows)")
  case None
  then show ?thesis using assms by (simp add: MarkRebuildableLostTx_def loadDomainKeyRows_def bind_result_eq_Inr)
next
  case (Some target)
  let ?hit = "\<lambda>r. krID r = krID target \<and> krVersion r = version \<and> krState r = krState target"
  have "krState target \<noteq> DomainKeyLost \<and> rows' = update_where ?hit (lose env) rows"
    using assms Some by (auto simp: MarkRebuildableLostTx_def loadDomainKeyRows_def Let_def bind_result_eq_Inr guard_eq_Inr)
  then show ?thesis by (auto intro!: change_step simp: lose_def key_version_def key_active_def)
qed

section \<open>Sequences of calls\<close>

datatype keyring_call =
    CallEnsure "nat \<Rightarrow> keyring_env" "nat \<Rightarrow> KeyRow list \<Rightarrow> KeyRow list" KeyDomain
  | CallRotate KeyDomain duration
  | CallReplace KeyDomain "(RebuildableKeyTransition \<Rightarrow> string option) option"
  | CallRewrapAll
  | CallRewrapDomains "KeyDomain list"
  | CallMarkLost KeyDomain int
  | CallMarkRebuildableLost KeyDomain int "(RebuildableKeyTransition \<Rightarrow> string option) option"

fun run_keyring :: "keyring_env \<Rightarrow> keyring_call \<Rightarrow> KeyRow list \<Rightarrow> KeyRow list" where
  "run_keyring env (CallEnsure envs others domain) rows = fst (Ensure env envs others domain rows)"
| "run_keyring env (CallRotate domain verifyFor) rows = fst (Rotate env domain verifyFor rows)"
| "run_keyring env (CallReplace domain invalidate) rows = fst (ReplaceRebuildable env domain invalidate rows)"
| "run_keyring env CallRewrapAll rows = fst (RewrapAll env rows)"
| "run_keyring env (CallRewrapDomains domains) rows = fst (RewrapDomains env domains rows)"
| "run_keyring env (CallMarkLost domain version) rows = fst (MarkLost env domain version rows)"
| "run_keyring env (CallMarkRebuildableLost domain version invalidate) rows = fst (MarkRebuildableLost env domain version invalidate rows)"

abbreviation run_keyrings :: "(keyring_env \<times> keyring_call) list \<Rightarrow> KeyRow list \<Rightarrow> KeyRow list" where
  "run_keyrings \<equiv> run_all run_keyring"

text \<open>What other processes may do between the attempts of \<open>Ensure\<close>: keyring calls.\<close>

fun fair_call :: "keyring_call \<Rightarrow> bool" where
  "fair_call (CallEnsure envs others domain) \<longleftrightarrow> (\<forall>n rows. key_step rows (others n rows))"
| "fair_call call \<longleftrightarrow> True"

lemma key_transaction_fst:
  "fst (case t of (rows1, Inl err) \<Rightarrow> (rows1, Inl err) | (rows1, Inr v) \<Rightarrow> (rows1, f v)) = fst t"
  by (auto split: prod.splits sum.splits)

lemma run_keyring_step:
  assumes "keys_ok rows" and "fair_call call"
  shows "key_step rows (run_keyring env call rows)"
proof -
  have rewrap: "key_step rows (fst (keyring_transaction env (rewrapDomainsTx env domains) rows))" for domains
  proof (rule key_transaction_step)
    fix rows' n assume "rewrapDomainsTx env domains rows = Inr (rows', n)"
    then show "key_step rows rows'" using rewrap_tx_step assms(1) by (simp add: keys_ok_def exclusive_def)
  qed
  show ?thesis
  proof (cases call)
    case (CallEnsure envs others domain)
    then show ?thesis using assms(2) ensure_loop_step by (auto simp: Ensure_def split: sum.splits)
  next
    case (CallRotate domain verifyFor)
    have "key_step rows (fst (keyring_transaction env (RotateTx env domain verifyFor) rows))" if "domain \<notin> stable_domains"
      using that by (intro key_transaction_step) (auto dest: rotate_tx_step)
    then show ?thesis
      by (auto simp: CallRotate Rotate_def key_transaction_fst bind_result_eq_Inr guard_eq_Inr stable_domains_def split: sum.split)
  next
    case (CallReplace domain invalidate)
    have "key_step rows (fst (keyring_transaction env (ReplaceRebuildableTx env domain invalidate) rows))" if "domain \<notin> stable_domains"
      using that by (intro key_transaction_step) (auto dest: replace_tx_step)
    then show ?thesis
      by (auto simp: CallReplace ReplaceRebuildable_def validateRebuildableTransition_def key_transaction_fst bind_result_eq_Inr
          guard_eq_Inr stable_domains_def split: sum.split)
  next
    case CallRewrapAll
    then show ?thesis using rewrap by (simp add: RewrapAll_def)
  next
    case (CallRewrapDomains domains)
    then show ?thesis using rewrap by (simp add: RewrapDomains_def split: sum.split)
  next
    case (CallMarkLost domain version)
    have "key_step rows (update_where (\<lambda>r. krDomain r = domain \<and> krVersion r = version \<and> krState r \<noteq> DomainKeyLost) (lose env) rows)"
      by (rule change_step) (simp add: lose_def key_version_def key_active_def)
    then show ?thesis unfolding CallMarkLost run_keyring.simps MarkLost_def Let_def
      by (split sum.split) (simp only: fst_conv key_step_refl simp_thms)
  next
    case (CallMarkRebuildableLost domain version invalidate)
    have "key_step rows (fst (keyring_transaction env (MarkRebuildableLostTx env domain version invalidate) rows))"
      by (intro key_transaction_step) (auto dest: mark_rebuildable_step)
    then show ?thesis by (simp add: CallMarkRebuildableLost MarkRebuildableLost_def split: sum.split)
  qed
qed

interpretation keyring_calls: call_sequence run_keyring fair_call keys_ok keys_follow
  using run_keyring_step by unfold_locales (auto simp: key_step_def intro: keys_follow_refl keys_follow_trans)


section \<open>Rewrapping keeps the keys\<close>

lemma unwrap_rewrapped:
  assumes "rewrapped env r r'" and "crypto_laws (cvLib (kvCrypto env))" and "aead_authentic (cvLib (kvCrypto env))"
    and "cvLib (kvCrypto env') = cvLib (kvCrypto env)" and "can_unwrap (kvCrypto env) (kvCrypto env')"
    and "\<And>rowID nonce. kvNonces env rowID = Some nonce \<Longrightarrow> length nonce = nonceSize"
    and "domainWrappingKEKs (kvCrypto env') = Inr candidates"
    and "inj_on (kekFingerprint (cvLib (kvCrypto env))) (set candidates)"
  shows "\<exists>m. unwrapPersistedMaterial env r = Inr m \<and> unwrapPersistedMaterial env' r' = Inr m"
proof -
  obtain m w where m: "unwrapPersistedMaterial env r = Inr m"
    and w: "WrapDomainKey (wrap_env env (krID r)) (domain_name (krDomain r)) (krVersion r) (dmKey m) = Inr w"
    and r': "r' = r\<lparr>krWrapped := w, krUpdatedAt := kvNow env\<rparr>"
    using assms(1) by (auto simp: rewrapped_def)
  have same: "cvLib (wrap_env env (krID r)) = cvLib (kvCrypto env)" "cvNonce (wrap_env env (krID r)) = kvNonces env (krID r)"
    by (simp_all add: wrap_env_def)
  have "can_unwrap (wrap_env env (krID r)) (kvCrypto env')" using assms(5) by (simp add: can_unwrap_def wrap_env_def)
  then have "UnwrapDomainKey (kvCrypto env') (domain_name (krDomain r)) (krVersion r) w = Inr (dmKey m)"
    using unwrap_wrapped_iff [OF _ _ _ _ _ w assms(7)] assms(2-4,6,8) by (simp add: same)
  moreover have "dmKey m = key \<Longrightarrow> m = \<lparr>dmID = krID r, dmDomain = krDomain r, dmVersion = krVersion r, dmState = krState r,
      dmKey = key, dmActivatedAt = krActivatedAt r, dmVerifyUntil = krVerifyUntil r\<rparr>" for key
    using m by (auto simp: unwrapPersistedMaterial_def split: if_splits sum.splits)
  moreover have "\<not> (krDomain r \<notin> set validKeyDomains \<or> krState r \<notin> set validDomainKeyStates \<or> krVersion r \<le> 0
         \<or> \<not> ValidateOpaqueID (krID r)) \<and> krState r \<noteq> DomainKeyLost"
    using m by (auto simp: unwrapPersistedMaterial_def split: if_splits)
  ultimately have "unwrapPersistedMaterial env' r' = Inr m"
    unfolding unwrapPersistedMaterial_def r' by simp
  then show ?thesis using m by blast
qed

text \<open>
  C9. Rewrapping completes a rotation of the data key without changing a domain key. When \<open>RewrapAll\<close>
  succeeds, it has rewrapped every key that is not lost, and each of them unwraps to the same material in
  every process with the current data key, even when the former key is no longer configured.
\<close>

theorem rewrap_preserves_keys:
  assumes "keys_ok rows" and "crypto_laws (cvLib (kvCrypto env))" and "aead_authentic (cvLib (kvCrypto env))"
    and "\<And>rowID nonce. kvNonces env rowID = Some nonce \<Longrightarrow> length nonce = nonceSize"
    and "RewrapAll env rows = (rows', Inr n)" and "r \<in> set rows" and "krState r \<noteq> DomainKeyLost"
    and "cvLib (kvCrypto env') = cvLib (kvCrypto env)" and "TrimSpace (cvDataKey (kvCrypto env)) \<noteq> []"
    and "TrimSpace (cvDataKey (kvCrypto env')) = TrimSpace (cvDataKey (kvCrypto env))"
    and "domainWrappingKEKs (kvCrypto env') = Inr candidates"
    and "inj_on (kekFingerprint (cvLib (kvCrypto env))) (set candidates)"
  shows "n = int (length (filter (\<lambda>k. krState k \<noteq> DomainKeyLost) rows))
    \<and> (\<exists>m r'. r' \<in> set rows' \<and> krID r' = krID r
         \<and> unwrapPersistedMaterial env r = Inr m \<and> unwrapPersistedMaterial env' r' = Inr m)"
proof -
  have ids: "distinct (map krID rows)" using assms(1) by (simp add: keys_ok_def exclusive_def)
  have "rewrapDomainsTx env [] rows = Inr (rows', n)"
    using assms(5) by (auto simp: RewrapAll_def dest: key_transaction_ok)
  from rewrap_tx_step [OF this ids] have n: "n = int (length (filter (\<lambda>k. krState k \<noteq> DomainKeyLost) rows))"
    and all: "\<forall>r \<in> set rows. if krState r \<noteq> DomainKeyLost then \<exists>r' \<in> set rows'. rewrapped env r r' else r \<in> set rows'"
    by simp_all
  obtain r' where r': "r' \<in> set rows'" "rewrapped env r r'" using bspec [OF all assms(6)] assms(7) by auto
  have "can_unwrap (kvCrypto env) (kvCrypto env')" using assms(9,10) by (simp add: can_unwrap_def)
  then have "\<exists>m. unwrapPersistedMaterial env r = Inr m \<and> unwrapPersistedMaterial env' r' = Inr m"
    by (rule unwrap_rewrapped [OF r'(2) assms(2,3,8) _ _ assms(11,12)]) (rule assms(4))
  then obtain m where "unwrapPersistedMaterial env r = Inr m" "unwrapPersistedMaterial env' r' = Inr m" by blast
  moreover have "krID r' = krID r" using r'(2) by (auto simp: rewrapped_def)
  ultimately show ?thesis using n r'(1) by blast
qed

section \<open>Ensuring a key\<close>

definition ensured :: "crypto_env \<Rightarrow> KeyDomain \<Rightarrow> DomainKeyMaterial \<Rightarrow> KeyRow list \<Rightarrow> bool" where
  "ensured crypto domain m rows \<longleftrightarrow>
     (\<exists>row \<in> set rows. krDomain row = domain \<and> key_active row \<and> (\<exists>env. kvCrypto env = crypto \<and> unwrapPersistedMaterial env row = Inr m))"

lemma first_row_Some: "first_row p rows = Some row \<Longrightarrow> row \<in> set rows \<and> p row"
proof -
  assume "first_row p rows = Some row"
  then obtain rest where "sort_key krID (filter p rows) = row # rest" by (auto simp: first_row_def split: list.splits)
  then have "set (row # rest) = set (filter p rows)" by (metis set_sort)
  then show ?thesis by auto
qed

lemma first_row_unique:
  assumes "row \<in> set rows" and "p row" and "\<And>x. x \<in> set rows \<Longrightarrow> p x \<Longrightarrow> x = row"
  shows "first_row p rows = Some row"
proof (cases "first_row p rows")
  case None
  then have "sort_key krID (filter p rows) = []" by (simp add: first_row_def split: list.splits)
  then show ?thesis using assms(1,2) by (simp add: sort_key_empty filter_empty_conv)
next
  case (Some x)
  then show ?thesis using first_row_Some assms(3) by blast
qed

lemma material_unwrap: "material env row = Inr m \<Longrightarrow> unwrapPersistedMaterial env row = Inr m"
  by (auto simp: material_def bind_result_eq_Inr split: if_splits)

lemma Active_ensured: "Active env domain rows = Inr m \<Longrightarrow> ensured (kvCrypto env) domain m rows"
  by (auto simp: Active_def ensured_def bind_result_eq_Inr key_active_def split: option.splits
      dest!: first_row_Some material_unwrap)

lemma ensure_loop_ensured:
  assumes "ensure_loop envs others domain n attempt lastErr rows = (rows', Inr m)" and "\<And>k. kvCrypto (envs k) = crypto"
  shows "ensured crypto domain m rows'"
  using assms(1)
proof (induction n arbitrary: attempt lastErr rows)
  case (Suc n)
  let ?env = "envs attempt"
  obtain rows1 r where run: "keyring_transaction ?env (EnsureTx ?env domain) (others attempt rows) = (rows1, r)" by fastforce
  show ?case
  proof (cases r)
    case (Inr created)
    have "created \<in> set rows1 \<and> krDomain created = domain \<and> key_active created"
      using ensure_tx_step [OF key_transaction_ok [OF run [unfolded Inr]]] by simp
    moreover have "rows' = rows1" "material ?env created = Inr m" using Suc.prems run Inr by (simp_all add: Let_def)
    ultimately show ?thesis using assms(2) [of attempt] material_unwrap unfolding ensured_def by blast
  next
    case (Inl err)
    then show ?thesis using Suc.prems Suc.IH run Active_ensured [of ?env domain rows1 m] assms(2)
      by (auto simp: Let_def split: if_splits sum.splits)
  qed
qed simp

lemma ensured_Active:
  assumes "ensured (kvCrypto env) domain m rows" and "keys_ok rows" and "domain \<in> set validKeyDomains" and "kvFault env KeyLoadActive = None"
  shows "Active env domain rows = Inr m"
proof -
  let ?hit = "\<lambda>r. krDomain r = domain \<and> krState r = DomainKeyActive"
  obtain row e where row: "row \<in> set rows" "krDomain row = domain" "key_active row"
    and e: "kvCrypto e = kvCrypto env" "unwrapPersistedMaterial e row = Inr m"
    using assms(1) by (auto simp: ensured_def)
  have "unwrapPersistedMaterial env row = unwrapPersistedMaterial e row" by (simp add: unwrapPersistedMaterial_def e(1))
  then have unwrap: "unwrapPersistedMaterial env row = Inr m" using e(2) by simp
  then have "dmState m = DomainKeyActive" using row(3)
    by (auto simp: unwrapPersistedMaterial_def key_active_def split: if_splits sum.splits)
  with unwrap have mat: "material env row = Inr m" by (simp add: material_def)
  have "x = row" if "x \<in> set rows" "?hit x" for x
  proof -
    have "inj_on krDomain (set (filter key_active rows))" using assms(2) by (auto simp: keys_ok_def exclusive_def distinct_map)
    then show ?thesis using that row by (auto simp: inj_on_def key_active_def)
  qed
  moreover have "?hit row" using row by (simp add: key_active_def)
  ultimately have "first_row ?hit rows = Some row" using row(1) by (intro first_row_unique)
  then show ?thesis using mat assms(3,4) by (simp add: Active_def key_validate_def key_stmt_ok_def)
qed


section \<open>An example\<close>

definition sample_keyring :: "string \<Rightarrow> string \<Rightarrow> char \<Rightarrow> keyring_env" where
  "sample_keyring data legacy c = \<lparr>kvNow = 100, kvNewID = Some (replicate 32 c), kvRandom = Some (replicate 32 c),
     kvNonces = (\<lambda>_. Some (replicate 12 (CHR ''n''))), kvCrypto = sample_crypto data legacy, kvDuplicate = ''UNIQUE constraint failed'',
     kvFault = (\<lambda>_. None), kvCancelled = False\<rparr>"

definition sample_keys :: "KeyRow list" where
  "sample_keys = run_keyrings
     [(sample_keyring ''first'' [] (CHR ''1''), CallEnsure (\<lambda>_. sample_keyring ''first'' [] (CHR ''1'')) (\<lambda>_ rows. rows) KeyDomainEntryIdentity),
      (sample_keyring ''first'' [] (CHR ''2''), CallEnsure (\<lambda>_. sample_keyring ''first'' [] (CHR ''2'')) (\<lambda>_ rows. rows) KeyDomainCursorSigning)] []"

lemma sample_keys_ok: "keys_ok sample_keys"
  unfolding sample_keys_def by (intro keyring_calls.calls_ok [THEN conjunct1]) (simp_all add: keys_ok_def exclusive_def)

definition sample_keyring_calls :: "(keyring_env \<times> keyring_call) list" where
  "sample_keyring_calls = [(sample_keyring ''first'' [] (CHR ''3''), CallRotate KeyDomainCursorSigning Hour),
        (sample_keyring ''first'' [] (CHR ''4''), CallMarkLost KeyDomainEntryIdentity 1)]"


lemma sample_keyring_simps [simp]:
  "kvCrypto (sample_keyring data legacy c) = sample_crypto data legacy" "kvNonces (sample_keyring data legacy c) = (\<lambda>_. Some (replicate 12 (CHR ''n'')))"
  "kvFault (sample_keyring data legacy c) = (\<lambda>_. None)"
  by (simp_all add: sample_keyring_def)

theorem rewrap_preserves_keys_witness:
  "\<exists>rows' n m r'. RewrapAll (sample_keyring ''second'' ''first'' (CHR ''5'')) sample_keys = (rows', Inr n) \<and> r' \<in> set rows'
     \<and> unwrapPersistedMaterial (sample_keyring ''second'' [] (CHR ''6'')) r' = Inr m \<and> dmKey m = replicate 32 (CHR ''1'')"
proof -
  let ?env = "sample_keyring ''second'' ''first'' (CHR ''5'')" and ?env' = "sample_keyring ''second'' [] (CHR ''6'')"
  have "case sample_keys of
      [] \<Rightarrow> False
    | r # rest \<Rightarrow> krState r \<noteq> DomainKeyLost \<and> is_ok (snd (RewrapAll ?env (r # rest)))
        \<and> (case unwrapPersistedMaterial ?env r of Inl _ \<Rightarrow> False | Inr m \<Rightarrow> dmKey m = replicate 32 (CHR ''1''))"
    by code_simp
  then obtain r rest where keys: "sample_keys = r # rest" and live: "krState r \<noteq> DomainKeyLost"
    and ok: "is_ok (snd (RewrapAll ?env sample_keys))"
    and key: "case unwrapPersistedMaterial ?env r of Inl _ \<Rightarrow> False | Inr m \<Rightarrow> dmKey m = replicate 32 (CHR ''1'')"
    by (fastforce split: list.splits)
  have facts: "domainWrappingKEKs (sample_crypto ''second'' []) = Inr [clArgon2 sample_lib ''second''] \<and> TrimSpace ''second'' \<noteq> []"
    by code_simp
  obtain rows' n where run: "RewrapAll ?env sample_keys = (rows', Inr n)" using ok by (metis is_ok_iff prod.collapse)
  have r: "r \<in> set sample_keys" unfolding keys by simp
  have "n = int (length (filter (\<lambda>k. krState k \<noteq> DomainKeyLost) sample_keys))
    \<and> (\<exists>m r'. r' \<in> set rows' \<and> krID r' = krID r
         \<and> unwrapPersistedMaterial ?env r = Inr m \<and> unwrapPersistedMaterial ?env' r' = Inr m)"
    by (rule rewrap_preserves_keys [OF sample_keys_ok _ _ _ run r live, where candidates = "[clArgon2 sample_lib ''second'']"])
      (use facts sample_lib_laws in \<open>auto simp: nonceSize_def sample_crypto_def\<close>)
  then show ?thesis using run key by (auto split: sum.splits)
qed


end
