(* ===== verification/Catalog_Cursor.thy ===== *)
theory Catalog_Cursor
  imports Domain_Keyring_Safety
begin

text \<open>
  The page cursors of the catalog, \<open>CursorCodec\<close> of \<open>backend/internal/backupasset/catalog/cursor.go\<close>: a
  cursor is the scope of a listing with the last item shown, signed with the current key of the domain
  \<open>cursor_signing\<close>. The keys come from the keyring through the interface \<open>CursorKeySource\<close>.

  \<open>CursorScope\<close> and \<open>cursorClaims\<close> have the same members and are one record here. The text of a cursor is
  \<open>json.Marshal\<close> of the envelope, written out; its strings are hexadecimal identifiers and names of enums,
  which need no escapes. The strict JSON decoder, base64 and HMAC-SHA256 are arguments; \<open>cursor_laws\<close>
  states that decoding inverts encoding, that base64 has no dots, and the length of a signature.
\<close>

section \<open>Scopes\<close>

text \<open>The errors of the package, an error of the asset domain it wraps, and the message of a statement that failed.\<close>

datatype catalog_error =
    ErrUnknownInternalState | ErrInvalidCatalogContract | ErrInvalidAssetReference | ErrUnsafeEntryPath
  | ErrIdentityKeyUnavailable | ErrDuplicateEntry | ErrIdentityCollision | ErrInvalidCursor | ErrStaleCursor
  | ErrCatalogProofMismatch | ErrCatalogSourceChanged | ErrCatalogBuildLimit | ErrOwnershipProjectionLimit
  | ErrCatalogUnavailable | ErrFeatureDisabled | ErrCatalogRebuildNotRequired
  | ErrCatalogAsset asset_error | ErrCatalogQuery string

datatype CursorEndpoint =
    CursorEndpointRepositories | CursorEndpointRecoveryPoints | CursorEndpointEntries | CursorEndpointDiff
  | CursorEndpointFileSourceNodes | CursorEndpointFileSourceSets | CursorEndpointFileSourceVersions
  | CursorEndpointOther string

definition endpoint_name :: "CursorEndpoint \<Rightarrow> string" where
  "endpoint_name e =
     (case e of
        CursorEndpointRepositories \<Rightarrow> ''repositories''
      | CursorEndpointRecoveryPoints \<Rightarrow> ''recovery_points''
      | CursorEndpointEntries \<Rightarrow> ''entries''
      | CursorEndpointDiff \<Rightarrow> ''diff''
      | CursorEndpointFileSourceNodes \<Rightarrow> ''file_source_nodes''
      | CursorEndpointFileSourceSets \<Rightarrow> ''file_source_sets''
      | CursorEndpointFileSourceVersions \<Rightarrow> ''file_source_versions''
      | CursorEndpointOther name \<Rightarrow> name)"

definition CursorForward :: string where "CursorForward = ''forward''"

definition CursorBackward :: string where "CursorBackward = ''backward''"

record CursorAnchor =
  caRepositoryID :: string
  caRecoveryPointID :: string
  caEntryID :: string
  caBaseEntryID :: string
  caCompareEntryID :: string
  caChangeKind :: string
  caNodeID :: nat
  caBackupSetID :: string

record CursorScope =
  csEndpoint :: CursorEndpoint
  csDirection :: string
  csUserID :: nat
  csRole :: string
  csSort :: string
  csNodeID :: nat
  csBackupSetID :: string
  csProjectionDigest :: string
  csRepositoryID :: string
  csRecoveryPointID :: string
  csGenerationID :: string
  csParentEntryID :: string
  csBaseRecoveryPointID :: string
  csCompareRecoveryPointID :: string
  csBaseGenerationID :: string
  csCompareGenerationID :: string
  csBaseParentEntryID :: string
  csCompareParentEntryID :: string
  csAnchor :: CursorAnchor

definition empty_anchor :: CursorAnchor where
  "empty_anchor = \<lparr>caRepositoryID = [], caRecoveryPointID = [], caEntryID = [], caBaseEntryID = [],
     caCompareEntryID = [], caChangeKind = [], caNodeID = 0, caBackupSetID = []\<rparr>"

definition lowerHexLength :: "string \<Rightarrow> nat \<Rightarrow> bool" where
  "lowerHexLength value len \<longleftrightarrow> length value = len \<and> list_all is_lower_hex_char value"

definition validDiffChangeKinds :: "string list" where
  "validDiffChangeKinds = [''added'', ''removed'', ''modified'', ''type_changed'']"

definition validRecoveryPointSort :: "string \<Rightarrow> bool" where
  "validRecoveryPointSort value \<longleftrightarrow> value = ''captured_desc'' \<or> value = ''captured_asc'' \<or> value = ''created_desc''"

definition validEntrySort :: "string \<Rightarrow> bool" where
  "validEntrySort value \<longleftrightarrow> value = ''name_asc'' \<or> value = ''name_desc'' \<or> value = ''size_desc'' \<or> value = ''modified_desc''"

definition hasDiffScope :: "CursorScope \<Rightarrow> bool" where
  "hasDiffScope c \<longleftrightarrow>
     csBaseRecoveryPointID c \<noteq> [] \<or> csCompareRecoveryPointID c \<noteq> [] \<or> csBaseGenerationID c \<noteq> []
     \<or> csCompareGenerationID c \<noteq> [] \<or> csBaseParentEntryID c \<noteq> [] \<or> csCompareParentEntryID c \<noteq> []
     \<or> caBaseEntryID (csAnchor c) \<noteq> [] \<or> caCompareEntryID (csAnchor c) \<noteq> [] \<or> caChangeKind (csAnchor c) \<noteq> []"

definition hasPointScope :: "CursorScope \<Rightarrow> bool" where
  "hasPointScope c \<longleftrightarrow>
     csRepositoryID c \<noteq> [] \<or> csRecoveryPointID c \<noteq> [] \<or> csGenerationID c \<noteq> [] \<or> csParentEntryID c \<noteq> [] \<or> hasDiffScope c
     \<or> caRecoveryPointID (csAnchor c) \<noteq> [] \<or> caEntryID (csAnchor c) \<noteq> []"

definition hasEntryOrDiffScope :: "CursorScope \<Rightarrow> bool" where
  "hasEntryOrDiffScope c \<longleftrightarrow>
     csRecoveryPointID c \<noteq> [] \<or> csGenerationID c \<noteq> [] \<or> csParentEntryID c \<noteq> [] \<or> hasDiffScope c \<or> caEntryID (csAnchor c) \<noteq> []"

definition hasFileSourceScope :: "CursorScope \<Rightarrow> bool" where
  "hasFileSourceScope c \<longleftrightarrow>
     csNodeID c \<noteq> 0 \<or> csBackupSetID c \<noteq> [] \<or> csProjectionDigest c \<noteq> [] \<or> caNodeID (csAnchor c) \<noteq> 0 \<or> caBackupSetID (csAnchor c) \<noteq> []"

definition hasFileSourceIdentityScope :: "CursorScope \<Rightarrow> bool" where
  "hasFileSourceIdentityScope c \<longleftrightarrow>
     csNodeID c \<noteq> 0 \<or> csBackupSetID c \<noteq> [] \<or> caNodeID (csAnchor c) \<noteq> 0 \<or> caBackupSetID (csAnchor c) \<noteq> []"

definition hasLegacyCatalogScopeExceptRecoveryPointAnchor :: "CursorScope \<Rightarrow> bool" where
  "hasLegacyCatalogScopeExceptRecoveryPointAnchor c \<longleftrightarrow>
     csRepositoryID c \<noteq> [] \<or> csRecoveryPointID c \<noteq> [] \<or> csGenerationID c \<noteq> [] \<or> csParentEntryID c \<noteq> []
     \<or> csBaseRecoveryPointID c \<noteq> [] \<or> csCompareRecoveryPointID c \<noteq> [] \<or> csBaseGenerationID c \<noteq> []
     \<or> csCompareGenerationID c \<noteq> [] \<or> csBaseParentEntryID c \<noteq> [] \<or> csCompareParentEntryID c \<noteq> []
     \<or> caRepositoryID (csAnchor c) \<noteq> [] \<or> caEntryID (csAnchor c) \<noteq> []
     \<or> caBaseEntryID (csAnchor c) \<noteq> [] \<or> caCompareEntryID (csAnchor c) \<noteq> [] \<or> caChangeKind (csAnchor c) \<noteq> []"

definition hasLegacyCatalogScope :: "CursorScope \<Rightarrow> bool" where
  "hasLegacyCatalogScope c \<longleftrightarrow>
     csRepositoryID c \<noteq> [] \<or> csRecoveryPointID c \<noteq> [] \<or> csGenerationID c \<noteq> [] \<or> csParentEntryID c \<noteq> []
     \<or> csBaseRecoveryPointID c \<noteq> [] \<or> csCompareRecoveryPointID c \<noteq> [] \<or> csBaseGenerationID c \<noteq> []
     \<or> csCompareGenerationID c \<noteq> [] \<or> csBaseParentEntryID c \<noteq> [] \<or> csCompareParentEntryID c \<noteq> []
     \<or> caRepositoryID (csAnchor c) \<noteq> [] \<or> caRecoveryPointID (csAnchor c) \<noteq> [] \<or> caEntryID (csAnchor c) \<noteq> []
     \<or> caBaseEntryID (csAnchor c) \<noteq> [] \<or> caCompareEntryID (csAnchor c) \<noteq> [] \<or> caChangeKind (csAnchor c) \<noteq> []"

text \<open>The three checks of \<open>validate\<close>: authorisation, identifiers, and the members of the endpoint.\<close>

definition cursor_authorised :: "CursorScope \<Rightarrow> bool" where
  "cursor_authorised c \<longleftrightarrow>
     csUserID c \<noteq> 0 \<and> (csRole c = ''admin'' \<or> csRole c = ''operator'')
     \<and> (csDirection c = CursorForward \<or> csDirection c = CursorBackward)"

definition opaque_or_empty :: "string \<Rightarrow> bool" where
  "opaque_or_empty value \<longleftrightarrow> value = [] \<or> ValidateOpaqueID value"

definition entry_or_empty :: "string \<Rightarrow> bool" where
  "entry_or_empty value \<longleftrightarrow> value = [] \<or> lowerHexLength value 64"

definition cursor_resources :: "CursorScope \<Rightarrow> bool" where
  "cursor_resources c \<longleftrightarrow>
     opaque_or_empty (csBackupSetID c) \<and> (csProjectionDigest c = [] \<or> lowerHexLength (csProjectionDigest c) 64)
     \<and> opaque_or_empty (csRepositoryID c) \<and> opaque_or_empty (csRecoveryPointID c) \<and> opaque_or_empty (csGenerationID c)
     \<and> opaque_or_empty (csBaseRecoveryPointID c) \<and> opaque_or_empty (csCompareRecoveryPointID c)
     \<and> opaque_or_empty (csBaseGenerationID c) \<and> opaque_or_empty (csCompareGenerationID c)
     \<and> entry_or_empty (csParentEntryID c) \<and> entry_or_empty (csBaseParentEntryID c) \<and> entry_or_empty (csCompareParentEntryID c)
     \<and> opaque_or_empty (caRepositoryID (csAnchor c)) \<and> opaque_or_empty (caRecoveryPointID (csAnchor c))
     \<and> entry_or_empty (caEntryID (csAnchor c)) \<and> entry_or_empty (caBaseEntryID (csAnchor c))
     \<and> entry_or_empty (caCompareEntryID (csAnchor c)) \<and> opaque_or_empty (caBackupSetID (csAnchor c))"

definition cursor_endpoint_ok :: "bool \<Rightarrow> CursorScope \<Rightarrow> bool" where
  "cursor_endpoint_ok requireAnchor c =
     (case csEndpoint c of
        CursorEndpointRepositories \<Rightarrow>
          \<not> (csSort c \<noteq> ''created_desc'' \<or> requireAnchor \<and> caRepositoryID (csAnchor c) = [] \<or> hasPointScope c \<or> hasFileSourceScope c)
      | CursorEndpointRecoveryPoints \<Rightarrow>
          \<not> (csRepositoryID c = [] \<or> requireAnchor \<and> caRecoveryPointID (csAnchor c) = []
             \<or> \<not> validRecoveryPointSort (csSort c) \<or> hasEntryOrDiffScope c \<or> hasFileSourceScope c)
      | CursorEndpointEntries \<Rightarrow>
          \<not> (csRepositoryID c = [] \<or> csRecoveryPointID c = [] \<or> csGenerationID c = [] \<or> \<not> lowerHexLength (csProjectionDigest c) 64
             \<or> requireAnchor \<and> caEntryID (csAnchor c) = [] \<or> \<not> validEntrySort (csSort c) \<or> hasDiffScope c \<or> hasFileSourceIdentityScope c)
      | CursorEndpointDiff \<Rightarrow>
          \<not> (csRepositoryID c = [] \<or> csBaseRecoveryPointID c = [] \<or> csCompareRecoveryPointID c = []
             \<or> csBaseRecoveryPointID c = csCompareRecoveryPointID c \<or> csBaseGenerationID c = [] \<or> csCompareGenerationID c = []
             \<or> csSort c \<noteq> ''path_asc'' \<or> requireAnchor \<and> caBaseEntryID (csAnchor c) = [] \<and> caCompareEntryID (csAnchor c) = []
             \<or> (caBaseEntryID (csAnchor c) \<noteq> [] \<or> caCompareEntryID (csAnchor c) \<noteq> []) \<and> caChangeKind (csAnchor c) \<notin> set validDiffChangeKinds
             \<or> csRecoveryPointID c \<noteq> [] \<or> csGenerationID c \<noteq> [] \<or> csParentEntryID c \<noteq> [] \<or> hasFileSourceScope c)
      | CursorEndpointFileSourceSets \<Rightarrow>
          \<not> (csNodeID c = 0 \<or> csBackupSetID c \<noteq> [] \<or> \<not> lowerHexLength (csProjectionDigest c) 64 \<or> csSort c \<noteq> ''backup_set_id_asc''
             \<or> requireAnchor \<and> caBackupSetID (csAnchor c) = [] \<or> caNodeID (csAnchor c) \<noteq> 0 \<or> hasLegacyCatalogScope c)
      | CursorEndpointFileSourceNodes \<Rightarrow>
          \<not> (csNodeID c \<noteq> 0 \<or> csBackupSetID c \<noteq> [] \<or> \<not> lowerHexLength (csProjectionDigest c) 64 \<or> csSort c \<noteq> ''node_id_asc''
             \<or> requireAnchor \<and> caNodeID (csAnchor c) = 0 \<or> caBackupSetID (csAnchor c) \<noteq> [] \<or> hasLegacyCatalogScope c)
      | CursorEndpointFileSourceVersions \<Rightarrow>
          \<not> (csNodeID c \<noteq> 0 \<or> csBackupSetID c = [] \<or> \<not> lowerHexLength (csProjectionDigest c) 64 \<or> csSort c \<noteq> ''retained_desc''
             \<or> requireAnchor \<and> caRecoveryPointID (csAnchor c) = [] \<or> caNodeID (csAnchor c) \<noteq> 0
             \<or> caBackupSetID (csAnchor c) \<noteq> [] \<or> hasLegacyCatalogScopeExceptRecoveryPointAnchor c)
      | CursorEndpointOther _ \<Rightarrow> False)"

definition validate :: "bool \<Rightarrow> CursorScope \<Rightarrow> (catalog_error, unit) result" where
  "validate requireAnchor c =
     (if \<not> cursor_authorised c \<or> \<not> cursor_resources c \<or> \<not> cursor_endpoint_ok requireAnchor c then Inl ErrInvalidCursor else Inr ())"

definition cursorClaimsFromScope :: "bool \<Rightarrow> CursorScope \<Rightarrow> (catalog_error, CursorScope) result" where
  "cursorClaimsFromScope requireAnchor scope = bind_result (validate requireAnchor scope) (\<lambda>_. Inr scope)"

definition toScope :: "CursorScope \<Rightarrow> (catalog_error, CursorScope) result" where
  "toScope claims = bind_result (validate True claims) (\<lambda>_. Inr claims)"

definition cursorClaimsMatch :: "CursorScope \<Rightarrow> CursorScope \<Rightarrow> bool" where
  "cursorClaimsMatch actual expected \<longleftrightarrow>
     csEndpoint actual = csEndpoint expected \<and> csDirection actual = csDirection expected \<and> csUserID actual = csUserID expected
     \<and> csRole actual = csRole expected \<and> csSort actual = csSort expected \<and> csNodeID actual = csNodeID expected
     \<and> csBackupSetID actual = csBackupSetID expected \<and> csProjectionDigest actual = csProjectionDigest expected
     \<and> csRepositoryID actual = csRepositoryID expected \<and> csRecoveryPointID actual = csRecoveryPointID expected
     \<and> csGenerationID actual = csGenerationID expected \<and> csParentEntryID actual = csParentEntryID expected
     \<and> csBaseRecoveryPointID actual = csBaseRecoveryPointID expected \<and> csCompareRecoveryPointID actual = csCompareRecoveryPointID expected
     \<and> csBaseGenerationID actual = csBaseGenerationID expected \<and> csCompareGenerationID actual = csCompareGenerationID expected
     \<and> csBaseParentEntryID actual = csBaseParentEntryID expected \<and> csCompareParentEntryID actual = csCompareParentEntryID expected
     \<and> (csAnchor expected = empty_anchor \<or> csAnchor actual = csAnchor expected)"

section \<open>Text\<close>

record cursorEnvelope =
  ceFormatVersion :: int
  ceKeyVersion :: int
  ceIssuedAt :: int
  ceExpiresAt :: int
  ceScope :: CursorScope

record cursor_lib =
  cuEncode :: "string \<Rightarrow> string"
  cuDecode :: "string \<Rightarrow> string option"
  cuParse :: "string \<Rightarrow> (cursorEnvelope \<times> bool) option"
  cuHmac :: "string \<Rightarrow> string \<Rightarrow> string"

definition json_some :: "string \<Rightarrow> string \<Rightarrow> string list" where
  "json_some name value = (if value = [] then [] else [json_text name value])"

definition json_int :: "string \<Rightarrow> int \<Rightarrow> string" where
  "json_int name value = CHR 0x22 # name @ [CHR 0x22, CHR '':''] @ FormatInt value"

definition json_uint :: "string \<Rightarrow> nat \<Rightarrow> string list" where
  "json_uint name value = (if value = 0 then [] else [json_int name (int value)])"

fun json_join :: "string list \<Rightarrow> string" where
  "json_join [] = []"
| "json_join [field] = field"
| "json_join (field # members) = field @ '','' @ json_join members"

definition json_object :: "string list \<Rightarrow> string" where
  "json_object members = ''{'' @ json_join members @ ''}''"

definition json_member :: "string \<Rightarrow> string \<Rightarrow> string" where
  "json_member name value = CHR 0x22 # name @ [CHR 0x22, CHR '':''] @ value"

definition json_anchor :: "CursorAnchor \<Rightarrow> string" where
  "json_anchor a = json_object
     (json_some ''repository_id'' (caRepositoryID a) @ json_some ''recovery_point_id'' (caRecoveryPointID a)
      @ json_some ''entry_id'' (caEntryID a) @ json_some ''base_entry_id'' (caBaseEntryID a)
      @ json_some ''compare_entry_id'' (caCompareEntryID a) @ json_some ''change_kind'' (caChangeKind a)
      @ json_uint ''node_id'' (caNodeID a) @ json_some ''backup_set_id'' (caBackupSetID a))"

definition json_scope :: "CursorScope \<Rightarrow> string" where
  "json_scope c = json_object
     ([json_text ''endpoint'' (endpoint_name (csEndpoint c)), json_text ''direction'' (csDirection c),
       json_int ''user_id'' (int (csUserID c)), json_text ''role'' (csRole c), json_text ''sort'' (csSort c)]
      @ json_uint ''node_id'' (csNodeID c) @ json_some ''backup_set_id'' (csBackupSetID c)
      @ json_some ''projection_digest'' (csProjectionDigest c) @ json_some ''repository_id'' (csRepositoryID c)
      @ json_some ''recovery_point_id'' (csRecoveryPointID c) @ json_some ''generation_id'' (csGenerationID c)
      @ json_some ''parent_entry_id'' (csParentEntryID c) @ json_some ''base_recovery_point_id'' (csBaseRecoveryPointID c)
      @ json_some ''compare_recovery_point_id'' (csCompareRecoveryPointID c) @ json_some ''base_generation_id'' (csBaseGenerationID c)
      @ json_some ''compare_generation_id'' (csCompareGenerationID c) @ json_some ''base_parent_entry_id'' (csBaseParentEntryID c)
      @ json_some ''compare_parent_entry_id'' (csCompareParentEntryID c) @ [json_member ''anchor'' (json_anchor (csAnchor c))])"

definition json_cursor :: "cursorEnvelope \<Rightarrow> string" where
  "json_cursor e = json_object
     [json_int ''format_version'' (ceFormatVersion e), json_int ''key_version'' (ceKeyVersion e),
      json_int ''issued_at'' (ceIssuedAt e), json_int ''expires_at'' (ceExpiresAt e),
      json_member ''scope'' (json_scope (ceScope e))]"

section \<open>The codec\<close>

text \<open>
  The two operations of the key source are members of the codec; \<open>keyring_codec\<close> below fills them from the
  keyring. \<open>Unix\<close> counts seconds from 1970, rounding down, and \<open>unix_time\<close> is the instant of a count.
\<close>

record CursorCodec =
  ccActive :: "(keyring_error, DomainKeyMaterial) result"
  ccByVersion :: "int \<Rightarrow> (keyring_error, DomainKeyMaterial) result"
  ccNow :: time
  ccTTL :: duration
  ccLib :: cursor_lib

definition unix_epoch :: time where
  "unix_epoch = 62135596800 * Second"

definition Unix :: "time \<Rightarrow> int" where
  "Unix t = (t - unix_epoch) div Second"

definition unix_time :: "int \<Rightarrow> time" where
  "unix_time seconds = unix_epoch + seconds * Second"

definition cursorFormatVersion :: int where "cursorFormatVersion = 1"

definition maxCursorTokenBytes :: nat where "maxCursorTokenBytes = 8192"

definition signCursor :: "cursor_lib \<Rightarrow> string \<Rightarrow> string \<Rightarrow> string" where
  "signCursor lib key payload = cuHmac lib key (''xirang.catalog.cursor.v1'' @ [CHR 0x00] @ payload)"

definition cursor_envelope :: "CursorCodec \<Rightarrow> DomainKeyMaterial \<Rightarrow> CursorScope \<Rightarrow> cursorEnvelope" where
  "cursor_envelope codec m claims =
     \<lparr>ceFormatVersion = cursorFormatVersion, ceKeyVersion = dmVersion m, ceIssuedAt = Unix (ccNow codec),
      ceExpiresAt = Unix (ccNow codec + ccTTL codec), ceScope = claims\<rparr>"

definition Encode :: "CursorCodec \<Rightarrow> CursorScope \<Rightarrow> (catalog_error, string) result" where
  "Encode codec scope =
     bind_result (cursorClaimsFromScope True scope) (\<lambda>claims.
       if ccTTL codec \<le> 0 \<or> 15 * Minute < ccTTL codec then Inl ErrInvalidCursor
       else case ccActive codec of
         Inl _ \<Rightarrow> Inl ErrInvalidCursor
       | Inr m \<Rightarrow>
           if dmVersion m \<le> 0 \<or> dmState m \<noteq> DomainKeyActive \<or> length (dmKey m) < 32 then Inl ErrInvalidCursor
           else
             let payload = json_cursor (cursor_envelope codec m claims);
                 token = cuEncode (ccLib codec) payload @ ''.'' @ cuEncode (ccLib codec) (signCursor (ccLib codec) (dmKey m) payload)
             in if length payload > maxCursorTokenBytes then Inl ErrInvalidCursor
                else if length token > maxCursorTokenBytes then Inl ErrInvalidCursor
                else Inr token)"

definition cursorKeyMayVerify :: "DomainKeyMaterial \<Rightarrow> time \<Rightarrow> bool" where
  "cursorKeyMayVerify m now =
     (case dmState m of
        DomainKeyActive \<Rightarrow> True
      | DomainKeyVerifyOnly \<Rightarrow> (case dmVerifyUntil m of None \<Rightarrow> False | Some until \<Rightarrow> now < until)
      | _ \<Rightarrow> False)"

text \<open>The envelope of a token once its signature is checked.\<close>

definition cursor_in_time :: "cursorEnvelope \<Rightarrow> time \<Rightarrow> bool" where
  "cursor_in_time e now \<longleftrightarrow>
     \<not> (ceIssuedAt e \<le> 0 \<or> ceExpiresAt e \<le> ceIssuedAt e \<or> \<not> now < unix_time (ceExpiresAt e) \<or> Unix (now + Minute) < ceIssuedAt e)"

definition open_envelope :: "CursorCodec \<Rightarrow> string \<Rightarrow> string \<Rightarrow> cursorEnvelope \<Rightarrow> (catalog_error, CursorScope) result" where
  "open_envelope codec payload signature e =
     (if ceFormatVersion e \<noteq> cursorFormatVersion \<or> ceKeyVersion e \<le> 0 then Inl ErrInvalidCursor
      else
        bind_result (toScope (ceScope e)) (\<lambda>scope.
          case ccByVersion codec (ceKeyVersion e) of
            Inl _ \<Rightarrow> Inl ErrInvalidCursor
          | Inr m \<Rightarrow>
              if length (dmKey m) < 32 \<or> \<not> cursorKeyMayVerify m (ccNow codec)
                 \<or> signature \<noteq> signCursor (ccLib codec) (dmKey m) payload
              then Inl ErrInvalidCursor
              else if \<not> cursor_in_time e (ccNow codec) then Inl ErrStaleCursor
              else Inr scope))"

definition decodeAuthenticated :: "CursorCodec \<Rightarrow> string \<Rightarrow> (catalog_error, CursorScope) result" where
  "decodeAuthenticated codec token =
     (if token = [] \<or> length token > maxCursorTokenBytes then Inl ErrInvalidCursor
      else case split_on (CHR ''.'') token of
        [left, right] \<Rightarrow>
          (case cuDecode (ccLib codec) left of
             None \<Rightarrow> Inl ErrInvalidCursor
           | Some payload \<Rightarrow>
               if payload = [] \<or> length payload > maxCursorTokenBytes then Inl ErrInvalidCursor
               else case cuDecode (ccLib codec) right of
                 None \<Rightarrow> Inl ErrInvalidCursor
               | Some signature \<Rightarrow>
                   if length signature \<noteq> 32 then Inl ErrInvalidCursor
                   else case cuParse (ccLib codec) payload of
                     None \<Rightarrow> Inl ErrInvalidCursor
                   | Some (e, at_end) \<Rightarrow>
                       if \<not> at_end then Inl ErrInvalidCursor else open_envelope codec payload signature e)
      | _ \<Rightarrow> Inl ErrInvalidCursor)"

definition Decode :: "CursorCodec \<Rightarrow> string \<Rightarrow> CursorScope \<Rightarrow> (catalog_error, CursorScope) result" where
  "Decode codec token expected =
     bind_result (cursorClaimsFromScope False expected) (\<lambda>expectedClaims.
     bind_result (decodeAuthenticated codec token) (\<lambda>actualScope.
       if \<not> cursorClaimsMatch actualScope expectedClaims then Inl ErrStaleCursor else Inr actualScope))"

section \<open>What decoding accepts\<close>

definition cursor_laws :: "cursor_lib \<Rightarrow> bool" where
  "cursor_laws lib \<longleftrightarrow>
     (\<forall>s. cuDecode lib (cuEncode lib s) = Some s \<and> CHR ''.'' \<notin> set (cuEncode lib s)) \<and> (\<forall>key s. length (cuHmac lib key s) = 32)"

text \<open>The instants at which a cursor issued by a codec is accepted by the clock.\<close>

definition cursor_window :: "CursorCodec \<Rightarrow> time \<Rightarrow> bool" where
  "cursor_window codec now \<longleftrightarrow>
     0 < Unix (ccNow codec) \<and> Unix (ccNow codec) < Unix (ccNow codec + ccTTL codec)
     \<and> now < unix_time (Unix (ccNow codec + ccTTL codec)) \<and> Unix (ccNow codec) \<le> Unix (now + Minute)"

lemma in_time_window: "cursor_in_time (cursor_envelope codec m scope) now \<longleftrightarrow> cursor_window codec now"
  by (auto simp: cursor_in_time_def cursor_envelope_def cursor_window_def)

lemma validate_cases: "validate b c = Inr u \<or> validate b c = Inl ErrInvalidCursor"
  by (simp add: validate_def)

lemma Encode_ok:
  assumes "Encode codec scope = Inr token"
  obtains m where "ccActive codec = Inr m" and "0 < dmVersion m" and "dmState m = DomainKeyActive" and "32 \<le> length (dmKey m)"
    and "validate True scope = Inr ()"
    and "token = cuEncode (ccLib codec) (json_cursor (cursor_envelope codec m scope)) @ ''.''
       @ cuEncode (ccLib codec) (signCursor (ccLib codec) (dmKey m) (json_cursor (cursor_envelope codec m scope)))"
    and "length (json_cursor (cursor_envelope codec m scope)) \<le> maxCursorTokenBytes" and "length token \<le> maxCursorTokenBytes"
proof -
  have "\<exists>m. ccActive codec = Inr m \<and> \<not> (dmVersion m \<le> 0 \<or> dmState m \<noteq> DomainKeyActive \<or> length (dmKey m) < 32)
    \<and> validate True scope = Inr ()
    \<and> token = cuEncode (ccLib codec) (json_cursor (cursor_envelope codec m scope)) @ ''.''
       @ cuEncode (ccLib codec) (signCursor (ccLib codec) (dmKey m) (json_cursor (cursor_envelope codec m scope)))
    \<and> \<not> length (json_cursor (cursor_envelope codec m scope)) > maxCursorTokenBytes \<and> \<not> length token > maxCursorTokenBytes"
    using assms unfolding Encode_def cursorClaimsFromScope_def Let_def
    by (auto simp: bind_result_eq_Inr guard_eq_Inr sum_case_eq_Inr)
  then show thesis using that by (metis linorder_not_less linorder_not_le)
qed

lemma decode_signed:
  assumes "cursor_laws lib" and "ccLib codec = lib" and "cuParse lib payload = Some (e, True)" and "payload \<noteq> []"
    and "token = cuEncode lib payload @ ''.'' @ cuEncode lib (signCursor lib key payload)"
    and "length payload \<le> maxCursorTokenBytes" and "length token \<le> maxCursorTokenBytes"
  shows "decodeAuthenticated codec token = open_envelope codec payload (signCursor lib key payload) e"
proof -
  have laws: "cuDecode lib (cuEncode lib s) = Some s" "CHR ''.'' \<notin> set (cuEncode lib s)" "length (signCursor lib k s) = 32" for s k
    using assms(1) by (simp_all add: cursor_laws_def signCursor_def)
  have "split_on (CHR ''.'') token = [cuEncode lib payload, cuEncode lib (signCursor lib key payload)]"
    using laws(2) by (simp add: assms(5) split_on_sep split_on_none)
  moreover have "token \<noteq> []" by (simp add: assms(5))
  ultimately show ?thesis using assms(2,3,4,6,7) by (simp add: decodeAuthenticated_def laws)
qed

lemma json_cursor_nonempty: "json_cursor e \<noteq> []"
  by (simp add: json_cursor_def json_object_def)

section \<open>The key source\<close>

text \<open>
  What cursors rely on: a state \<open>t\<close> of the key source that serves a state \<open>s\<close> answers, for the version of the
  key that was active in \<open>s\<close>, with the same key, which may still verify at the clock of \<open>t\<close>.
\<close>

locale cursor_keys =
  fixes active_key :: "'s \<Rightarrow> (keyring_error, DomainKeyMaterial) result"
    and key_by_version :: "'s \<Rightarrow> int \<Rightarrow> (keyring_error, DomainKeyMaterial) result"
    and clock :: "'s \<Rightarrow> time"
    and serves :: "'s \<Rightarrow> 's \<Rightarrow> bool"
  assumes served: "serves s t \<Longrightarrow> active_key s = Inr m \<Longrightarrow>
      \<exists>m'. key_by_version t (dmVersion m) = Inr m' \<and> dmKey m' = dmKey m \<and> cursorKeyMayVerify m' (clock t)"
begin

lemma issued_decode:
  assumes "cursor_laws lib" and "serves s t" and "ccLib codec = lib" and "ccLib codec' = lib"
    and "ccActive codec = active_key s" and "ccByVersion codec' = key_by_version t" and "ccNow codec' = clock t"
    and "\<And>m. active_key s = Inr m \<Longrightarrow>
      cuParse lib (json_cursor (cursor_envelope codec m scope)) = Some (cursor_envelope codec m scope, True)"
    and "Encode codec scope = Inr token"
  shows "decodeAuthenticated codec' token = (if cursor_window codec (clock t) then Inr scope else Inl ErrStaleCursor)"
proof -
  obtain m where active: "ccActive codec = Inr m" and version: "0 < dmVersion m" and key: "32 \<le> length (dmKey m)"
    and scope: "validate True scope = Inr ()"
    and token: "token = cuEncode (ccLib codec) (json_cursor (cursor_envelope codec m scope)) @ ''.''
       @ cuEncode (ccLib codec) (signCursor (ccLib codec) (dmKey m) (json_cursor (cursor_envelope codec m scope)))"
    and short: "length (json_cursor (cursor_envelope codec m scope)) \<le> maxCursorTokenBytes" "length token \<le> maxCursorTokenBytes"
    by (rule Encode_ok [OF assms(9)])
  let ?e = "cursor_envelope codec m scope"
  obtain m' where m': "key_by_version t (dmVersion m) = Inr m'" "dmKey m' = dmKey m" "cursorKeyMayVerify m' (clock t)"
    using served [OF assms(2)] active assms(5) by metis
  have fields: "ceFormatVersion ?e = cursorFormatVersion" "ceKeyVersion ?e = dmVersion m" "ceScope ?e = scope"
    by (simp_all add: cursor_envelope_def)
  have "cuParse lib (json_cursor ?e) = Some (?e, True)" using assms(8) active assms(5) by metis
  then have "decodeAuthenticated codec' token = open_envelope codec' (json_cursor ?e) (signCursor lib (dmKey m) (json_cursor ?e)) ?e"
    using assms(3) token short by (intro decode_signed [OF assms(1,4) _ json_cursor_nonempty]) simp_all
  also have "\<dots> = (if cursor_window codec (clock t) then Inr scope else Inl ErrStaleCursor)"
    using version key m' assms(4,6,7) scope unfolding open_envelope_def fields in_time_window
    by (simp add: toScope_def)
  finally show ?thesis .
qed

lemma issued_cursor:
  assumes "cursor_laws lib" and "serves s t" and "ccLib codec = lib" and "ccLib codec' = lib"
    and "ccActive codec = active_key s" and "ccByVersion codec' = key_by_version t" and "ccNow codec' = clock t"
    and "\<And>m. active_key s = Inr m \<Longrightarrow>
      cuParse lib (json_cursor (cursor_envelope codec m scope)) = Some (cursor_envelope codec m scope, True)"
    and "Encode codec scope = Inr token"
  shows "Decode codec' token expected = Inr answer \<longleftrightarrow>
    answer = scope \<and> validate False expected = Inr () \<and> cursorClaimsMatch scope expected \<and> cursor_window codec (clock t)"
  using issued_decode [OF assms] unfolding Decode_def cursorClaimsFromScope_def
  by (auto simp: bind_result_eq_Inr guard_eq_Inr)

end

section \<open>The keyring as key source\<close>

definition keyring_codec :: "cursor_lib \<Rightarrow> duration \<Rightarrow> keyring_env \<Rightarrow> KeyRow list \<Rightarrow> CursorCodec" where
  "keyring_codec lib ttl env rows =
     \<lparr>ccActive = Active env KeyDomainCursorSigning rows, ccByVersion = (\<lambda>version. ByVersion env KeyDomainCursorSigning version rows),
      ccNow = kvNow env, ccTTL = ttl, ccLib = lib\<rparr>"

text \<open>A row that still verifies until \<open>limit\<close> what the active row \<open>r\<close> signed.\<close>

definition verifies :: "time \<Rightarrow> KeyRow \<Rightarrow> KeyRow \<Rightarrow> bool" where
  "verifies limit r r' \<longleftrightarrow>
     krID r' = krID r \<and> krDomain r' = krDomain r \<and> krVersion r' = krVersion r \<and> krWrapped r' = krWrapped r
     \<and> (krState r' = DomainKeyActive \<or> krState r' = DomainKeyVerifyOnly \<and> (\<exists>until. krVerifyUntil r' = Some until \<and> limit \<le> until))"

lemma RotateTx_rows:
  assumes "RotateTx env domain verifyFor rows = Inr (rows', row)"
  obtains active where "active \<in> set rows" and "krDomain active = domain"
    and "rows' = update_where (\<lambda>r. krID r = krID active \<and> krState r = DomainKeyActive)
        (\<lambda>r. r\<lparr>krState := DomainKeyVerifyOnly,
               krVerifyUntil := (if domain = KeyDomainCursorSigning then Some (kvNow env + verifyFor) else None),
               krUpdatedAt := kvNow env\<rparr>) rows @ [row]"
proof -
  obtain active where a: "active_row (domain_rows domain rows) = Some active"
    using assms by (auto simp: RotateTx_def loadDomainKeyRows_def bind_result_eq_Inr guard_eq_Inr split: option.splits)
  then have "active \<in> set rows" "krDomain active = domain"
    by (auto simp: active_row_def domain_rows_def dest!: take_row_Some)
  moreover have "rows' = update_where (\<lambda>r. krID r = krID active \<and> krState r = DomainKeyActive)
        (\<lambda>r. r\<lparr>krState := DomainKeyVerifyOnly,
               krVerifyUntil := (if domain = KeyDomainCursorSigning then Some (kvNow env + verifyFor) else None),
               krUpdatedAt := kvNow env\<rparr>) rows @ [row]"
    using assms a
    by (auto simp: RotateTx_def loadDomainKeyRows_def bind_result_eq_Inr guard_eq_Inr set_key_state_def create_key_def Let_def)
  ultimately show thesis using that by blast
qed

lemma rotation_verifies:
  assumes "keys_ok rows" and "limit \<le> kvNow env + verifyFor" and "r' \<in> set rows" and "verifies limit r r'"
    and "krDomain r = KeyDomainCursorSigning"
  shows "\<exists>r' \<in> set (run_keyring env (CallRotate domain verifyFor) rows). verifies limit r r'"
proof (cases "run_keyring env (CallRotate domain verifyFor) rows = rows")
  case True
  then show ?thesis using assms(3,4) by auto
next
  case False
  then obtain rows' row where tx: "RotateTx env domain verifyFor rows = Inr (rows', row)"
    and rows': "run_keyring env (CallRotate domain verifyFor) rows = rows'"
    by (auto simp: Rotate_def keyring_transaction_def bind_result_eq_Inr split: sum.splits prod.splits)
  obtain active where a: "active \<in> set rows" "krDomain active = domain"
    and eq: "rows' = update_where (\<lambda>r. krID r = krID active \<and> krState r = DomainKeyActive)
        (\<lambda>r. r\<lparr>krState := DomainKeyVerifyOnly,
               krVerifyUntil := (if domain = KeyDomainCursorSigning then Some (kvNow env + verifyFor) else None),
               krUpdatedAt := kvNow env\<rparr>) rows @ [row]"
    by (rule RotateTx_rows [OF tx])
  show ?thesis
  proof (cases "krID r' = krID active \<and> krState r' = DomainKeyActive")
    case True
    have "inj_on krID (set rows)" using assms(1) by (simp add: keys_ok_def exclusive_def distinct_map)
    then have "r' = active" using True assms(3) a(1) by (auto simp: inj_on_def)
    then have "domain = KeyDomainCursorSigning" using a(2) assms(4,5) by (simp add: verifies_def)
    then have "r'\<lparr>krState := DomainKeyVerifyOnly, krVerifyUntil := Some (kvNow env + verifyFor), krUpdatedAt := kvNow env\<rparr> \<in> set rows'"
      using True assms(3) by (force simp: eq set_update_where)
    then show ?thesis unfolding rows' using assms(2,4) by (intro bexI) (auto simp: verifies_def)
  next
    case False
    then have "r' \<in> set rows'" using assms(3) by (force simp: eq set_update_where)
    then show ?thesis unfolding rows' using assms(4) by blast
  qed
qed

lemma rotations_verify:
  assumes "keys_ok rows" and "r \<in> set rows" and "krState r = DomainKeyActive" and "krDomain r = KeyDomainCursorSigning"
    and "\<And>e call. (e, call) \<in> set calls \<Longrightarrow> \<exists>domain verifyFor. call = CallRotate domain verifyFor \<and> limit \<le> kvNow e + verifyFor"
  shows "\<exists>r' \<in> set (run_keyrings calls rows). verifies limit r r'"
proof (rule keyring_calls.calls_keep [OF assms(1)])
  show "list_all (\<lambda>(env, call). fair_call call) calls" using assms(5) by (fastforce simp: list_all_iff)
  show "\<exists>r' \<in> set rows. verifies limit r r'" using assms(2,3) by (auto simp: verifies_def)
next
  fix e call t
  assume "(e, call) \<in> set calls" "keys_ok t" "\<exists>r' \<in> set t. verifies limit r r'"
  then show "\<exists>r' \<in> set (run_keyring e call t). verifies limit r r'"
    using assms(5) rotation_verifies [OF _ _ _ _ assms(4)] by metis
qed

text \<open>
  A state of the keyring serves an earlier one when only rotations lie between, each of which keeps the
  former key for verification until after the present.
\<close>

definition keyring_serves :: "keyring_env \<times> KeyRow list \<Rightarrow> keyring_env \<times> KeyRow list \<Rightarrow> bool" where
  "keyring_serves s t \<longleftrightarrow>
     keys_ok (snd s) \<and> kvCrypto (fst t) = kvCrypto (fst s) \<and> kvFault (fst t) KeyLoadVersion = None
     \<and> (\<exists>calls limit. snd t = run_keyrings calls (snd s) \<and> kvNow (fst t) < limit
          \<and> (\<forall>(e, call) \<in> set calls. \<exists>domain verifyFor. call = CallRotate domain verifyFor \<and> limit \<le> kvNow e + verifyFor))"

lemma ByVersion_unique:
  assumes "keys_ok rows" and "row \<in> set rows" and "krDomain row = domain" and "domain \<in> set validKeyDomains"
    and "0 < krVersion row" and "kvFault env KeyLoadVersion = None"
  shows "ByVersion env domain (krVersion row) rows = material env row"
proof -
  have "inj_on key_version (set rows)" using assms(1) by (simp add: keys_ok_def distinct_map)
  then have "x = row" if "x \<in> set rows" "krDomain x = domain \<and> krVersion x = krVersion row" for x
    using that assms(2,3) by (auto simp: inj_on_def key_version_def)
  then have "first_row (\<lambda>r. krDomain r = domain \<and> krVersion r = krVersion row) rows = Some row"
    using assms(2,3) by (intro first_row_unique) auto
  then show ?thesis using assms(4,5,6) by (simp add: ByVersion_def key_validate_def key_stmt_ok_def)
qed

lemma keyring_served:
  assumes "keyring_serves (env, rows) (env', rows')" and "Active env KeyDomainCursorSigning rows = Inr m"
  shows "\<exists>m'. ByVersion env' KeyDomainCursorSigning (dmVersion m) rows' = Inr m' \<and> dmKey m' = dmKey m \<and> cursorKeyMayVerify m' (kvNow env')"
proof -
  obtain calls limit where ok: "keys_ok rows" and crypto: "kvCrypto env' = kvCrypto env" and quiet: "kvFault env' KeyLoadVersion = None"
    and rows': "rows' = run_keyrings calls rows" and now: "kvNow env' < limit"
    and calls: "\<forall>(e, call) \<in> set calls. \<exists>domain verifyFor. call = CallRotate domain verifyFor \<and> limit \<le> kvNow e + verifyFor"
    using assms(1) by (auto simp: keyring_serves_def)
  obtain row where row: "row \<in> set rows" "krDomain row = KeyDomainCursorSigning" "krState row = DomainKeyActive"
    and unwrap: "unwrapPersistedMaterial env row = Inr m"
    using assms(2) by (auto simp: Active_def bind_result_eq_Inr split: option.splits dest!: first_row_Some material_unwrap)
  have fair: "list_all (\<lambda>(e, call). fair_call call) calls" using calls by (fastforce simp: list_all_iff)
  have ok': "keys_ok rows'" using keyring_calls.calls_ok [OF ok fair] by (simp add: rows')
  obtain row' where row': "row' \<in> set rows'" and ver: "verifies limit row row'"
    using rotations_verify [OF ok row(1,3,2), of calls limit] calls unfolding rows' by fast
  have m: "dmVersion m = krVersion row" "0 < krVersion row" "UnwrapDomainKey (kvCrypto env) (domain_name (krDomain row)) (krVersion row) (krWrapped row) = Inr (dmKey m)"
    "krDomain row \<in> set validKeyDomains" "ValidateOpaqueID (krID row)"
    using unwrap by (auto simp: unwrapPersistedMaterial_def split: if_splits sum.splits)
  have state: "krState row' = DomainKeyActive \<or> krState row' = DomainKeyVerifyOnly" using ver by (auto simp: verifies_def)
  let ?m = "\<lparr>dmID = krID row', dmDomain = krDomain row', dmVersion = krVersion row', dmState = krState row',
      dmKey = dmKey m, dmActivatedAt = krActivatedAt row', dmVerifyUntil = krVerifyUntil row'\<rparr>"
  have "unwrapPersistedMaterial env' row' = Inr ?m"
    using ver m state by (auto simp: unwrapPersistedMaterial_def verifies_def crypto validDomainKeyStates_def)
  moreover have "cursorKeyMayVerify ?m (kvNow env')" using ver now by (auto simp: cursorKeyMayVerify_def verifies_def)
  moreover have "\<not> (krState row' = DomainKeyVerifyOnly \<and> (case krVerifyUntil row' of None \<Rightarrow> False | Some until \<Rightarrow> \<not> kvNow env' < until))"
    using ver now by (auto simp: verifies_def)
  ultimately have "material env' row' = Inr ?m" using state by (auto simp: material_def)
  moreover have "ByVersion env' KeyDomainCursorSigning (krVersion row') rows' = material env' row'"
    using ver row(2) m(2,4) by (intro ByVersion_unique [OF ok' row'] quiet) (auto simp: verifies_def)
  ultimately show ?thesis using \<open>cursorKeyMayVerify ?m (kvNow env')\<close> ver m(1) by (auto simp: verifies_def)
qed

interpretation keyring_cursors: cursor_keys
  "\<lambda>(env, rows). Active env KeyDomainCursorSigning rows"
  "\<lambda>(env, rows) version. ByVersion env KeyDomainCursorSigning version rows"
  "\<lambda>(env, rows). kvNow env" keyring_serves
  by unfold_locales (use keyring_served in fastforce)


text \<open>
  C16. Rotating the signing key does not invalidate cursors. A cursor that is not expired is still accepted
  after any number of rotations of domain keys, when each keeps the former key for verification at least as
  long as a cursor lives.
\<close>

theorem cursor_survives_rotation:
  assumes "cursor_laws lib" and "keys_ok rows" and "Encode (keyring_codec lib ttl env rows) scope = Inr token"
    and "\<And>m. Active env KeyDomainCursorSigning rows = Inr m \<Longrightarrow>
      cuParse lib (json_cursor (cursor_envelope (keyring_codec lib ttl env rows) m scope))
        = Some (cursor_envelope (keyring_codec lib ttl env rows) m scope, True)"
    and "\<And>e call. (e, call) \<in> set calls \<Longrightarrow>
      \<exists>domain verifyFor. call = CallRotate domain verifyFor \<and> kvNow env \<le> kvNow e \<and> ttl \<le> verifyFor"
    and "kvCrypto env' = kvCrypto env" and "kvFault env' KeyLoadVersion = None"
    and "0 < Unix (kvNow env)" and "kvNow env \<le> kvNow env'" and "kvNow env' < unix_time (Unix (kvNow env + ttl))"
    and "validate False expected = Inr ()" and "cursorClaimsMatch scope expected"
  shows "Decode (keyring_codec lib ttl' env' (run_keyrings calls rows)) token expected = Inr scope"
proof -
  let ?limit = "unix_time (Unix (kvNow env + ttl))"
  have limit: "?limit \<le> kvNow env + ttl"
    using pos_mod_sign [of Second "kvNow env + ttl - unix_epoch"] by (simp add: unix_time_def Unix_def minus_mod_eq_div_mult [symmetric])
  have "\<exists>domain verifyFor. call = CallRotate domain verifyFor \<and> ?limit \<le> kvNow e + verifyFor" if "(e, call) \<in> set calls" for e call
    using assms(5) [OF that] limit by fastforce
  then have "keyring_serves (env, rows) (env', run_keyrings calls rows)"
    unfolding keyring_serves_def using assms(2,6,7,10) by (auto intro!: exI [of _ calls] exI [of _ ?limit])
  moreover have "cursor_window (keyring_codec lib ttl env rows) (kvNow env')"
  proof -
    have "kvNow env < ?limit" using assms(9,10) by simp
    then have "Unix (kvNow env) < Unix (kvNow env + ttl)" by (simp add: unix_time_def Unix_def div_less_iff_less_mult)
    moreover have "Unix (kvNow env) \<le> Unix (kvNow env' + Minute)" using assms(9) unfolding Unix_def by (intro zdiv_mono1) simp_all
    ultimately show ?thesis using assms(8,10) by (simp add: cursor_window_def keyring_codec_def)
  qed
  ultimately show ?thesis
    using keyring_cursors.issued_cursor [OF assms(1), of "(env, rows)" "(env', run_keyrings calls rows)" "keyring_codec lib ttl env rows"
        "keyring_codec lib ttl' env' (run_keyrings calls rows)" scope token expected scope] assms(3,4,11,12)
    by (simp add: keyring_codec_def)
qed

section \<open>An example\<close>

text \<open>An encoding without dots.\<close>

definition dot_encode :: "string \<Rightarrow> string" where
  "dot_encode s = concat (map (\<lambda>c. if c = CHR ''.'' then ''~d'' else if c = CHR ''~'' then ''~t'' else [c]) s)"

fun dot_decode :: "string \<Rightarrow> string option" where
  "dot_decode [] = Some []"
| "dot_decode (c # s) =
     (if c \<noteq> CHR ''~'' then map_option (Cons c) (dot_decode s)
      else case s of
        [] \<Rightarrow> None
      | d # t \<Rightarrow> map_option (Cons (if d = CHR ''d'' then CHR ''.'' else CHR ''~'')) (dot_decode t))"

definition sample_scope :: "string \<Rightarrow> CursorScope" where
  "sample_scope anchor = \<lparr>csEndpoint = CursorEndpointRepositories, csDirection = ''forward'', csUserID = 7, csRole = ''operator'',
     csSort = ''created_desc'', csNodeID = 0, csBackupSetID = [], csProjectionDigest = [], csRepositoryID = [], csRecoveryPointID = [],
     csGenerationID = [], csParentEntryID = [], csBaseRecoveryPointID = [], csCompareRecoveryPointID = [], csBaseGenerationID = [],
     csCompareGenerationID = [], csBaseParentEntryID = [], csCompareParentEntryID = [],
     csAnchor = empty_anchor\<lparr>caRepositoryID := anchor\<rparr>\<rparr>"

definition sample_item :: CursorScope where
  "sample_item = sample_scope (replicate 32 (CHR ''a''))"

definition sample_cursor_env :: "int \<Rightarrow> char \<Rightarrow> keyring_env" where
  "sample_cursor_env seconds c = (sample_keyring ''first'' [] c)\<lparr>kvNow := unix_time seconds\<rparr>"

text \<open>A decoder that knows the cursors of a list of scopes.\<close>

definition sample_envelope :: "CursorScope \<Rightarrow> cursorEnvelope" where
  "sample_envelope scope = \<lparr>ceFormatVersion = cursorFormatVersion, ceKeyVersion = 1, ceIssuedAt = 1000, ceExpiresAt = 1600, ceScope = scope\<rparr>"

definition table_parse :: "CursorScope list \<Rightarrow> string \<Rightarrow> (cursorEnvelope \<times> bool) option" where
  "table_parse scopes s = map_option (\<lambda>e. (e, True)) (find (\<lambda>e. json_cursor e = s) (map sample_envelope scopes))"

definition table_hmac :: "string \<Rightarrow> string \<Rightarrow> string" where
  "table_hmac key s = replicate 32 (CHR ''m'')"

definition table_lib :: "CursorScope list \<Rightarrow> cursor_lib" where
  "table_lib scopes = \<lparr>cuEncode = dot_encode, cuDecode = dot_decode, cuParse = table_parse scopes, cuHmac = table_hmac\<rparr>"

text \<open>The codec over the keyring of the example, with what the keyring answers written out.\<close>

definition sample_material :: DomainKeyMaterial where
  "sample_material = \<lparr>dmID = replicate 32 (CHR ''2''), dmDomain = KeyDomainCursorSigning, dmVersion = 1, dmState = DomainKeyActive,
     dmKey = replicate 32 (CHR ''2''), dmActivatedAt = 100, dmVerifyUntil = None\<rparr>"

definition table_version :: "int \<Rightarrow> (keyring_error, DomainKeyMaterial) result" where
  "table_version v = (if v = 1 then Inr sample_material else Inl (KeyringError ErrKeyUnavailable))"

definition table_codec :: "CursorScope list \<Rightarrow> CursorCodec" where
  "table_codec scopes = \<lparr>ccActive = Inr sample_material, ccByVersion = table_version,
     ccNow = unix_time 1000, ccTTL = 10 * Minute, ccLib = table_lib scopes\<rparr>"

definition sample_cursor_lib :: cursor_lib where
  "sample_cursor_lib = table_lib [sample_item]"

definition sample_codec :: CursorCodec where
  "sample_codec = keyring_codec sample_cursor_lib (10 * Minute) (sample_cursor_env 1000 (CHR ''3'')) sample_keys"

lemma dot_decode_encode: "dot_decode (dot_encode s) = Some s"
  by (induction s) (simp_all add: dot_encode_def)

lemma table_lib_laws: "cursor_laws (table_lib scopes)"
proof -
  have "CHR ''.'' \<notin> set (dot_encode s)" for s by (induction s) (auto simp: dot_encode_def)
  then show ?thesis by (simp add: cursor_laws_def table_lib_def table_hmac_def dot_decode_encode)
qed

lemma sample_cursor_laws: "cursor_laws sample_cursor_lib"
  unfolding sample_cursor_lib_def by (rule table_lib_laws)

lemma sample_cursor_env_simps [simp]:
  "kvCrypto (sample_cursor_env n c) = sample_crypto ''first'' []" "kvFault (sample_cursor_env n c) = (\<lambda>_. None)"
  "kvNow (sample_cursor_env n c) = unix_time n"
  by (simp_all add: sample_cursor_env_def)

lemma Unix_unix_time: "Unix (unix_time n + d) = n + d div Second"
  by (simp add: Unix_def unix_time_def)

lemma unix_time_mono: "unix_time m \<le> unix_time n \<longleftrightarrow> m \<le> n" "unix_time m < unix_time n \<longleftrightarrow> m < n"
  by (simp_all add: unix_time_def)

lemma Unix_sample: "Unix (unix_time n) = n"
  using Unix_unix_time [of n 0] by simp

lemma sample_keyring_answers:
  "Active (sample_cursor_env 1000 (CHR ''3'')) KeyDomainCursorSigning sample_keys = Inr sample_material
   \<and> ByVersion (sample_cursor_env 1000 (CHR ''3'')) KeyDomainCursorSigning 1 sample_keys = Inr sample_material
   \<and> list_all (\<lambda>r. krVersion r = 1) sample_keys"
proof -
  have "let ks = sample_keys in Active (sample_cursor_env 1000 (CHR ''3'')) KeyDomainCursorSigning ks = Inr sample_material
    \<and> ByVersion (sample_cursor_env 1000 (CHR ''3'')) KeyDomainCursorSigning 1 ks = Inr sample_material
    \<and> list_all (\<lambda>r. krVersion r = 1) ks"
    by code_simp
  then show ?thesis by (simp only: Let_def)
qed

lemma table_codec_keyring: "table_codec scopes = keyring_codec (table_lib scopes) (10 * Minute) (sample_cursor_env 1000 (CHR ''3'')) sample_keys"
proof -
  have "ByVersion (sample_cursor_env 1000 (CHR ''3'')) KeyDomainCursorSigning v sample_keys = Inl (KeyringError ErrKeyUnavailable)" if "v \<noteq> 1" for v
  proof -
    have "first_row (\<lambda>r. krDomain r = KeyDomainCursorSigning \<and> krVersion r = v) sample_keys = None"
      using sample_keyring_answers that first_row_Some [of _ sample_keys] by (cases "first_row (\<lambda>r. krDomain r = KeyDomainCursorSigning \<and> krVersion r = v) sample_keys") (auto simp: list_all_iff)
    moreover have "key_validate KeyDomainCursorSigning = Inr ()" by code_simp
    ultimately show ?thesis by (simp add: ByVersion_def key_stmt_ok_def)
  qed
  then have "(\<lambda>v. ByVersion (sample_cursor_env 1000 (CHR ''3'')) KeyDomainCursorSigning v sample_keys)
      = table_version"
    using sample_keyring_answers by (auto simp: table_version_def)
  then show ?thesis using sample_keyring_answers by (simp add: table_codec_def keyring_codec_def)
qed

lemma sample_codec_table: "sample_codec = table_codec [sample_item]"
  by (simp add: sample_codec_def sample_cursor_lib_def table_codec_keyring)

lemma sample_cursor_runs:
  "is_ok (Encode sample_codec sample_item) \<and> is_ok (validate False (sample_scope [])) \<and> cursorClaimsMatch sample_item (sample_scope [])"
  unfolding sample_codec_table by code_simp

lemma sample_cursor_parses:
  assumes "Active (sample_cursor_env 1000 (CHR ''3'')) KeyDomainCursorSigning sample_keys = Inr m"
  shows "cuParse sample_cursor_lib (json_cursor (cursor_envelope sample_codec m sample_item)) = Some (cursor_envelope sample_codec m sample_item, True)"
proof -
  have "m = sample_material" using sample_keyring_answers assms by simp
  then have "cursor_envelope sample_codec m sample_item = sample_envelope sample_item"
    by (simp add: cursor_envelope_def sample_codec_table table_codec_def sample_material_def sample_envelope_def Unix_unix_time Unix_sample)
  then show ?thesis by (simp add: sample_cursor_lib_def table_lib_def table_parse_def)
qed


theorem cursor_survives_rotation_witness:
  "\<exists>token. Encode sample_codec sample_item = Inr token
    \<and> Decode (keyring_codec sample_cursor_lib Minute (sample_cursor_env 1500 (CHR ''5''))
         (run_keyrings [(sample_cursor_env 1200 (CHR ''4''), CallRotate KeyDomainCursorSigning Hour)] sample_keys))
         token (sample_scope []) = Inr sample_item"
proof -
  obtain token where token: "Encode sample_codec sample_item = Inr token" using sample_cursor_runs by (auto simp: is_ok_iff)
  have valid: "validate False (sample_scope []) = Inr ()" using sample_cursor_runs by (auto simp: is_ok_iff)
  have "Decode (keyring_codec sample_cursor_lib Minute (sample_cursor_env 1500 (CHR ''5''))
      (run_keyrings [(sample_cursor_env 1200 (CHR ''4''), CallRotate KeyDomainCursorSigning Hour)] sample_keys))
      token (sample_scope []) = Inr sample_item"
    by (rule cursor_survives_rotation [OF sample_cursor_laws sample_keys_ok token [unfolded sample_codec_def]
          sample_cursor_parses [unfolded sample_codec_def]])
      (use valid sample_cursor_runs in \<open>simp_all add: Unix_unix_time Unix_sample unix_time_mono\<close>)
  then show ?thesis using token by blast
qed

end
