(* ===== verification/Catalog_Ownership.thy ===== *)
theory Catalog_Ownership
  imports Catalog_Cursor
begin

text \<open>
  Who may see a recovery point: \<open>backend/internal/backupasset/catalog/ownership.go\<close>, with the tables the
  catalog reads, and the publication lineage of \<open>backend/internal/backupasset/publication.go\<close> an operator's
  access rests on.

  A table is the list of its rows with the columns the catalog reads; primary keys are unique. The strict
  JSON decoders are arguments: they return the decoded value and whether the text ended after it. A time
  that was decoded from JSON knows whether its zone is UTC. \<open>bvFault\<close> says which statements fail and with
  which message; the decryption of a locator by a hook of the model is part of the statement that loads
  the row.
\<close>

section \<open>Tables\<close>

record CatalogPoint =
  cpID :: string
  cpRepositoryID :: string
  cpProducingTaskID :: "nat option"
  cpProducingTaskRunID :: "nat option"
  cpProducingNodeID :: nat
  cpLineageJSON :: string
  cpSemantics :: PointVersionSemantics
  cpState :: RecoveryPointState
  cpCapturedAt :: "time option"
  cpCommittedAt :: "time option"
  cpCreatedAt :: time

record TaskOwnershipRow =
  tkID :: nat
  tkNodeID :: nat
  tkArchivedAt :: "time option"

record NodeRow =
  ndID :: nat
  ndArchived :: bool

record NodeOwnerRow =
  noNodeID :: nat
  noUserID :: nat

record taskRunOwnershipControl =
  trID :: nat
  trTaskID :: nat

record linkOwnershipControl =
  loID :: string
  loTaskID :: "nat option"
  loRepositoryID :: string
  loNodeIDSnapshot :: nat
  loUnlinkedAt :: "time option"

record RepositoryRow =
  rrID :: string
  rrStatus :: RepositoryStatus

record CatalogGeneration =
  gnID :: string
  gnRecoveryPointID :: string
  gnGeneration :: int
  gnState :: CatalogGenerationState
  gnIsActive :: bool

record CatalogEntry =
  enGenerationID :: string
  enEntryID :: string
  enRecoveryPointID :: string
  enParentEntryID :: "string option"
  enNormalizedPath :: string
  enName :: string
  enEntryType :: CatalogEntryType
  enSize :: int
  enModifiedAt :: "time option"
  enMode :: string
  enOwner :: string
  enMimeType :: string
  enFingerprint :: string
  enFingerprintStrength :: string

record catalog_db =
  cdPoints :: "CatalogPoint list"
  cdTasks :: "TaskOwnershipRow list"
  cdNodes :: "NodeRow list"
  cdOwners :: "NodeOwnerRow list"
  cdRuns :: "taskRunOwnershipControl list"
  cdLinks :: "linkOwnershipControl list"
  cdRepositories :: "RepositoryRow list"
  cdGenerations :: "CatalogGeneration list"
  cdEntries :: "CatalogEntry list"

datatype catalog_stmt =
    StmtOwnershipControls | StmtProducingRuns | StmtProducingLinks | StmtMutableLinks
  | StmtLoadPoint | StmtLoadCatalogRepository | StmtActiveGeneration | StmtLoadEntry string | StmtListEntries | StmtListVersions
  | StmtDiff

section \<open>Publication lineage\<close>

record json_time =
  jtTime :: time
  jtUTC :: bool

record PublicationLineageV1 =
  plVersion :: int
  plTaskRepositoryLinkID :: string
  plTaskID :: nat
  plTaskRunID :: nat
  plTrigger :: string
  plChainRunIDPresent :: bool
  plChainRunIDDigest :: string
  plPublicationMode :: TaskPublicationMode
  plPointCodecVersion :: int
  plTagCodecVersion :: int
  plStartedAt :: json_time
  plPreparedAt :: json_time
  plPointDeadlineAt :: json_time

record RecoveryPointLineageSummary =
  lsProducingTaskID :: "nat option"
  lsProducingTaskRunID :: "nat option"
  lsSourcePointID :: string

text \<open>The decoders, and what \<open>safeAuditLabel\<close> does with text that is not ASCII.\<close>

record lineage_lib =
  liPublication :: "string \<Rightarrow> (PublicationLineageV1 \<times> bool) option"
  liSummary :: "string \<Rightarrow> (RecoveryPointLineageSummary \<times> bool) option"
  liUnicodeLabel :: "string \<Rightarrow> nat \<Rightarrow> string"

definition audit_label_char :: "char \<Rightarrow> bool" where
  "audit_label_char c \<longleftrightarrow>
     list_ex (\<lambda>(low, high). low \<le> c \<and> c \<le> high) [(CHR ''A'', CHR ''Z''), (CHR ''a'', CHR ''z'')]
     \<or> is_digit c \<or> c \<in> set ''_.:@-''"

definition boundAuditString :: "string \<Rightarrow> nat \<Rightarrow> string" where
  "boundAuditString value maximum =
     (let trimmed = TrimSpace value in if maximum = 0 \<or> length trimmed \<le> maximum then trimmed else take maximum trimmed)"

definition safeAuditLabel :: "(string \<Rightarrow> nat \<Rightarrow> string) \<Rightarrow> string \<Rightarrow> nat \<Rightarrow> string" where
  "safeAuditLabel unicodeLabel value maximum =
     (if \<not> is_ascii value then unicodeLabel value maximum
      else let trimmed = TrimSpace value in
        if trimmed = [] then []
        else if \<not> list_all audit_label_char trimmed then []
        else boundAuditString trimmed maximum)"

definition isUTCPublicationTime :: "json_time \<Rightarrow> bool" where
  "isUTCPublicationTime value \<longleftrightarrow> jtTime value \<noteq> 0 \<and> jtUTC value"

definition validatePublicationLineage :: "lineage_lib \<Rightarrow> PublicationLineageV1 \<Rightarrow> (asset_error, unit) result" where
  "validatePublicationLineage lib value =
     (if plVersion value \<noteq> 1 \<or> \<not> ValidateOpaqueID (plTaskRepositoryLinkID value) \<or> plTaskID value = 0 \<or> plTaskRunID value = 0
         \<or> plPointCodecVersion value \<noteq> 1 \<or> safeAuditLabel (liUnicodeLabel lib) (plTrigger value) 64 \<noteq> plTrigger value
      then Inl ErrInvalidState
      else if (case plPublicationMode value of
                 PublicationNativeSnapshot \<Rightarrow> plTagCodecVersion value \<noteq> 1
               | PublicationVersionedHardlink \<Rightarrow> plTagCodecVersion value \<noteq> 0
               | PublicationVersionedFullCopy \<Rightarrow> plTagCodecVersion value \<noteq> 0
               | PublicationVersionedPrefix \<Rightarrow> plTagCodecVersion value \<noteq> 0
               | PublicationNativeObjectVersions \<Rightarrow> plTagCodecVersion value \<noteq> 0
               | _ \<Rightarrow> True)
      then Inl ErrInvalidState
      else if (if plChainRunIDPresent value then \<not> isLowerHex (plChainRunIDDigest value) 64 else plChainRunIDDigest value \<noteq> [])
      then Inl ErrInvalidState
      else if \<not> isUTCPublicationTime (plStartedAt value) \<or> \<not> isUTCPublicationTime (plPreparedAt value)
         \<or> \<not> isUTCPublicationTime (plPointDeadlineAt value) \<or> jtTime (plPreparedAt value) < jtTime (plStartedAt value)
         \<or> \<not> jtTime (plPreparedAt value) < jtTime (plPointDeadlineAt value)
      then Inl ErrInvalidState
      else Inr ())"

definition DecodePublicationLineage :: "lineage_lib \<Rightarrow> string \<Rightarrow> (asset_error, PublicationLineageV1) result" where
  "DecodePublicationLineage lib raw =
     (case liPublication lib raw of
        None \<Rightarrow> Inl ErrInvalidState
      | Some (value, at_end) \<Rightarrow>
          if \<not> at_end then Inl ErrInvalidState
          else bind_result (validatePublicationLineage lib value) (\<lambda>_. Inr value))"

section \<open>Authorised points\<close>

record AuthorizationScope =
  asRole :: string
  asUserID :: nat

definition maxOwnershipCandidateIDs :: nat where "maxOwnershipCandidateIDs = 2000"

definition ValidateAuthorizationScope :: "AuthorizationScope \<Rightarrow> (catalog_error, unit) result" where
  "ValidateAuthorizationScope scope =
     (if asUserID scope = 0 \<or> (asRole scope \<noteq> ''admin'' \<and> asRole scope \<noteq> ''operator'') then Inl (ErrCatalogAsset ErrForbidden) else Inr ())"

definition catalog_stmt_ok :: "(catalog_stmt \<Rightarrow> string option) \<Rightarrow> catalog_stmt \<Rightarrow> (catalog_error, unit) result" where
  "catalog_stmt_ok flt stmt = (case flt stmt of None \<Rightarrow> Inr () | Some message \<Rightarrow> Inl (ErrCatalogQuery message))"

text \<open>The candidates without repetitions, in order.\<close>

fun unique_candidates :: "string list \<Rightarrow> string list \<Rightarrow> (catalog_error, string list) result" where
  "unique_candidates unique [] = Inr unique"
| "unique_candidates unique (i # ids) =
     (if \<not> ValidateOpaqueID i then Inl ErrInvalidAssetReference
      else if i \<in> set unique then unique_candidates unique ids
      else unique_candidates (unique @ [i]) ids)"

text \<open>
  The rows of the control query; for an operator joined with the live task, its node and the owners. The joins
  are on primary keys, so a point has at most one row.
\<close>

definition admin_controls :: "catalog_db \<Rightarrow> string list \<Rightarrow> CatalogPoint list" where
  "admin_controls db unique = filter (\<lambda>p. cpID p \<in> set unique) (cdPoints db)"

definition operator_controls :: "catalog_db \<Rightarrow> nat \<Rightarrow> string list \<Rightarrow> CatalogPoint list" where
  "operator_controls db userID unique =
     filter (\<lambda>p. cpID p \<in> set unique
       \<and> list_ex (\<lambda>t. cpProducingTaskID p = Some (tkID t) \<and> tkArchivedAt t = None
           \<and> list_ex (\<lambda>n. ndID n = tkNodeID t \<and> \<not> ndArchived n
               \<and> list_ex (\<lambda>w. noNodeID w = ndID n \<and> noUserID w = userID) (cdOwners db)) (cdNodes db)) (cdTasks db)
       \<and> cpProducingTaskID p \<noteq> None \<and> cpSemantics p \<noteq> PointImportedBaseline) (cdPoints db)"

definition validMutableOwnershipLineage :: "lineage_lib \<Rightarrow> string \<Rightarrow> nat \<Rightarrow> bool" where
  "validMutableOwnershipLineage lib raw taskID =
     (case liSummary lib raw of
        None \<Rightarrow> False
      | Some (lineage, at_end) \<Rightarrow>
          at_end \<and> lsProducingTaskID lineage = Some taskID \<and> lsProducingTaskRunID lineage = None \<and> lsSourcePointID lineage = [])"

text \<open>The lineage of a point that a publication created, and whether a mutable point is a candidate.\<close>

definition immutable_lineage :: "lineage_lib \<Rightarrow> CatalogPoint \<Rightarrow> PublicationLineageV1 option" where
  "immutable_lineage lib p =
     (case (cpProducingTaskID p, cpProducingTaskRunID p) of
        (Some taskID, Some runID) \<Rightarrow>
          (if cpSemantics p \<noteq> PointNativeSnapshot \<and> cpSemantics p \<noteq> PointXirangManifest then None
           else case DecodePublicationLineage lib (cpLineageJSON p) of
             Inl _ \<Rightarrow> None
           | Inr lineage \<Rightarrow> if plTaskID lineage \<noteq> taskID \<or> plTaskRunID lineage \<noteq> runID then None else Some lineage)
      | _ \<Rightarrow> None)"

definition mutable_candidate :: "lineage_lib \<Rightarrow> CatalogPoint \<Rightarrow> bool" where
  "mutable_candidate lib p =
     (case cpProducingTaskID p of
        None \<Rightarrow> False
      | Some taskID \<Rightarrow> cpSemantics p = PointMutableHead \<and> cpState p = RecoveryPointObserved
          \<and> validMutableOwnershipLineage lib (cpLineageJSON p) taskID)"

definition immutable_authorised :: "catalog_db \<Rightarrow> CatalogPoint \<Rightarrow> PublicationLineageV1 \<Rightarrow> bool" where
  "immutable_authorised db control lineage =
     (case (take_row (\<lambda>r. trID r = plTaskRunID lineage) (cdRuns db), take_row (\<lambda>l. loID l = plTaskRepositoryLinkID lineage) (cdLinks db)) of
        (Some run, Some link) \<Rightarrow>
          \<not> (trTaskID run \<noteq> plTaskID lineage \<or> loTaskID link \<noteq> Some (plTaskID lineage)
             \<or> loRepositoryID link \<noteq> cpRepositoryID control \<or> loNodeIDSnapshot link \<noteq> cpProducingNodeID control)
      | _ \<Rightarrow> False)"

definition mutable_authorised :: "linkOwnershipControl list \<Rightarrow> CatalogPoint \<Rightarrow> bool" where
  "mutable_authorised activeLinks control \<longleftrightarrow>
     list_ex (\<lambda>l. loTaskID l \<noteq> None \<and> loTaskID l = cpProducingTaskID control \<and> loRepositoryID l = cpRepositoryID control
       \<and> loNodeIDSnapshot l = cpProducingNodeID control) activeLinks"

definition validateOperatorLineages ::
  "lineage_lib \<Rightarrow> (catalog_stmt \<Rightarrow> string option) \<Rightarrow> catalog_db \<Rightarrow> CatalogPoint list \<Rightarrow> (catalog_error, string list) result" where
  "validateOperatorLineages lib flt db controls =
     (let immutable = filter (\<lambda>p. immutable_lineage lib p \<noteq> None) controls;
          mutables = filter (mutable_candidate lib) controls;
          mutableTasks = List.map_filter cpProducingTaskID mutables;
          activeLinks = filter (\<lambda>l. (case loTaskID l of None \<Rightarrow> False | Some t \<Rightarrow> t \<in> set mutableTasks) \<and> loUnlinkedAt l = None) (cdLinks db)
      in bind_result (if immutable = [] then Inr () else catalog_stmt_ok flt StmtProducingRuns) (\<lambda>_.
         bind_result (if immutable = [] then Inr () else catalog_stmt_ok flt StmtProducingLinks) (\<lambda>_.
         bind_result (if mutables = [] then Inr () else catalog_stmt_ok flt StmtMutableLinks) (\<lambda>_.
           Inr (map cpID (filter (\<lambda>p. immutable_authorised db p (the (immutable_lineage lib p))) immutable)
              @ map cpID (filter (mutable_authorised activeLinks) mutables))))))"

definition orderedAuthorizedIDs :: "string list \<Rightarrow> string list \<Rightarrow> string list option \<Rightarrow> string list" where
  "orderedAuthorizedIDs ordered existing authorized =
     filter (\<lambda>i. i \<in> set existing \<and> (case authorized of None \<Rightarrow> True | Some allowed \<Rightarrow> i \<in> set allowed)) ordered"

definition AuthorizedPointIDs ::
  "lineage_lib \<Rightarrow> (catalog_stmt \<Rightarrow> string option) \<Rightarrow> catalog_db \<Rightarrow> AuthorizationScope \<Rightarrow> string list \<Rightarrow> (catalog_error, string list) result" where
  "AuthorizedPointIDs lib flt db scope candidateIDs =
     bind_result (ValidateAuthorizationScope scope) (\<lambda>_.
       if candidateIDs = [] then Inr []
       else if length candidateIDs > maxOwnershipCandidateIDs then Inl ErrOwnershipProjectionLimit
       else bind_result (unique_candidates [] candidateIDs) (\<lambda>unique.
         bind_result (catalog_stmt_ok flt StmtOwnershipControls) (\<lambda>_.
           if asRole scope = ''admin'' then Inr (orderedAuthorizedIDs unique (map cpID (admin_controls db unique)) None)
           else
             let controls = operator_controls db (asUserID scope) unique in
             bind_result (validateOperatorLineages lib flt db controls) (\<lambda>authorized.
               Inr (orderedAuthorizedIDs unique (map cpID controls) (Some authorized))))))"

section \<open>The rule the service implements\<close>

text \<open>
  Evidence of who produced a point: a run and a link that the recorded lineage names and that agree with the
  point, or for a mutable head a link that is still in force.
\<close>

definition lineage_evidence :: "lineage_lib \<Rightarrow> catalog_db \<Rightarrow> CatalogPoint \<Rightarrow> bool" where
  "lineage_evidence lib db p \<longleftrightarrow>
     (\<exists>lineage run link. immutable_lineage lib p = Some lineage \<and> run \<in> set (cdRuns db) \<and> link \<in> set (cdLinks db)
        \<and> trID run = plTaskRunID lineage \<and> trTaskID run = plTaskID lineage
        \<and> loID link = plTaskRepositoryLinkID lineage \<and> loTaskID link = Some (plTaskID lineage)
        \<and> loRepositoryID link = cpRepositoryID p \<and> loNodeIDSnapshot link = cpProducingNodeID p)
     \<or> (mutable_candidate lib p \<and> (\<exists>link \<in> set (cdLinks db). loTaskID link = cpProducingTaskID p \<and> loUnlinkedAt link = None
          \<and> loRepositoryID link = cpRepositoryID p \<and> loNodeIDSnapshot link = cpProducingNodeID p))"

definition owns_producer :: "catalog_db \<Rightarrow> nat \<Rightarrow> CatalogPoint \<Rightarrow> bool" where
  "owns_producer db userID p \<longleftrightarrow>
     (\<exists>t \<in> set (cdTasks db). \<exists>n \<in> set (cdNodes db). cpProducingTaskID p = Some (tkID t) \<and> tkArchivedAt t = None
        \<and> ndID n = tkNodeID t \<and> \<not> ndArchived n
        \<and> (\<exists>w \<in> set (cdOwners db). noNodeID w = ndID n \<and> noUserID w = userID))"

definition may_see :: "lineage_lib \<Rightarrow> catalog_db \<Rightarrow> AuthorizationScope \<Rightarrow> string \<Rightarrow> bool" where
  "may_see lib db scope i \<longleftrightarrow>
     (\<exists>p \<in> set (cdPoints db). cpID p = i
        \<and> (asRole scope = ''admin''
           \<or> owns_producer db (asUserID scope) p \<and> cpSemantics p \<noteq> PointImportedBaseline \<and> lineage_evidence lib db p))"

definition ownership_tables_ok :: "catalog_db \<Rightarrow> bool" where
  "ownership_tables_ok db \<longleftrightarrow> distinct (map cpID (cdPoints db)) \<and> distinct (map trID (cdRuns db)) \<and> distinct (map loID (cdLinks db))"

lemma unique_candidates_nub:
  assumes "distinct unique"
  shows "unique_candidates unique ids = Inr r \<longleftrightarrow> list_all ValidateOpaqueID ids \<and> r = nub (unique @ ids)"
  using assms
proof (induction ids arbitrary: unique)
  case Nil
  then show ?case by (auto simp: nub_def distinct_remdups_id)
next
  case (Cons i ids)
  have "nub (unique @ i # ids) = nub (unique @ ids)" if "i \<in> set unique"
  proof -
    have "remdups (rev ids @ i # rev unique) = remdups (rev ids @ rev unique)"
      using that by (metis remdups_append2 remdups.simps(2) set_rev)
    then show ?thesis by (simp add: nub_def)
  qed
  with Cons show ?case by auto
qed

lemma set_operator_controls:
  "set (operator_controls db userID unique) =
     {p \<in> set (cdPoints db). cpID p \<in> set unique \<and> owns_producer db userID p \<and> cpSemantics p \<noteq> PointImportedBaseline}"
  by (auto simp: operator_controls_def owns_producer_def list_ex_iff)

lemma immutable_authorised_iff:
  assumes "ownership_tables_ok db"
  shows "immutable_authorised db p lineage \<longleftrightarrow> (\<exists>run link. run \<in> set (cdRuns db) \<and> link \<in> set (cdLinks db)
    \<and> trID run = plTaskRunID lineage \<and> trTaskID run = plTaskID lineage
    \<and> loID link = plTaskRepositoryLinkID lineage \<and> loTaskID link = Some (plTaskID lineage)
    \<and> loRepositoryID link = cpRepositoryID p \<and> loNodeIDSnapshot link = cpProducingNodeID p)" (is "_ \<longleftrightarrow> ?R")
proof
  assume "immutable_authorised db p lineage"
  then show ?R by (auto simp: immutable_authorised_def dest!: take_row_Some split: option.splits)
next
  assume ?R
  then obtain run link where r: "run \<in> set (cdRuns db)" "link \<in> set (cdLinks db)" "trID run = plTaskRunID lineage"
    "trTaskID run = plTaskID lineage" "loID link = plTaskRepositoryLinkID lineage" "loTaskID link = Some (plTaskID lineage)"
    "loRepositoryID link = cpRepositoryID p" "loNodeIDSnapshot link = cpProducingNodeID p" by blast
  have "take_row (\<lambda>r. trID r = plTaskRunID lineage) (cdRuns db) = Some run"
    "take_row (\<lambda>l. loID l = plTaskRepositoryLinkID lineage) (cdLinks db) = Some link"
    using assms r by (simp_all add: ownership_tables_ok_def take_row_key)
  then show "immutable_authorised db p lineage" using r by (simp add: immutable_authorised_def)
qed

lemma operator_lineages:
  assumes "validateOperatorLineages lib flt db controls = Inr authorized" and "ownership_tables_ok db"
  shows "set authorized = cpID ` {p \<in> set controls. lineage_evidence lib db p}"
proof -
  let ?tasks = "set (List.map_filter cpProducingTaskID (filter (mutable_candidate lib) controls))"
  let ?active = "filter (\<lambda>l. (case loTaskID l of None \<Rightarrow> False | Some t \<Rightarrow> t \<in> ?tasks) \<and> loUnlinkedAt l = None) (cdLinks db)"
  have "mutable_authorised ?active p \<longleftrightarrow> (\<exists>link \<in> set (cdLinks db). loTaskID link = cpProducingTaskID p \<and> loUnlinkedAt link = None
          \<and> loRepositoryID link = cpRepositoryID p \<and> loNodeIDSnapshot link = cpProducingNodeID p)"
    if p: "p \<in> set controls" "mutable_candidate lib p" for p
  proof -
    obtain t where t: "cpProducingTaskID p = Some t" using p(2) by (auto simp: mutable_candidate_def split: option.splits)
    then have "t \<in> ?tasks" using p by (force simp: map_filter_def)
    then show ?thesis using t by (auto simp: mutable_authorised_def list_ex_iff)
  qed
  then have "lineage_evidence lib db p \<longleftrightarrow> (\<exists>lineage. immutable_lineage lib p = Some lineage \<and> immutable_authorised db p lineage)
      \<or> mutable_candidate lib p \<and> mutable_authorised ?active p" if "p \<in> set controls" for p
    using that unfolding lineage_evidence_def immutable_authorised_iff [OF assms(2)] by blast
  then have "{p \<in> set controls. lineage_evidence lib db p} =
      {p \<in> set controls. (\<exists>lineage. immutable_lineage lib p = Some lineage \<and> immutable_authorised db p lineage)
        \<or> mutable_candidate lib p \<and> mutable_authorised ?active p}" by blast
  moreover have "set authorized = cpID ` {p \<in> set controls. (\<exists>lineage. immutable_lineage lib p = Some lineage \<and> immutable_authorised db p lineage)
      \<or> mutable_candidate lib p \<and> mutable_authorised ?active p}"
    using assms(1) by (auto simp: validateOperatorLineages_def Let_def bind_result_eq_Inr)
  ultimately show ?thesis by simp
qed

lemma authorized_ids:
  assumes "ownership_tables_ok db" and A: "AuthorizedPointIDs lib flt db scope candidates = Inr ids"
  shows "ids = filter (may_see lib db scope) (nub candidates)"
proof (cases "candidates = []")
  case True
  then show ?thesis using A by (simp add: AuthorizedPointIDs_def bind_result_eq_Inr nub_def)
next
  case False
  show ?thesis
  proof (cases "asRole scope = ''admin''")
    case True
    have "ids = filter (\<lambda>i. i \<in> cpID ` set (cdPoints db)) (nub candidates)"
      using A False True
      by (auto simp: AuthorizedPointIDs_def bind_result_eq_Inr guard_eq_Inr unique_candidates_nub orderedAuthorizedIDs_def admin_controls_def
          intro!: filter_cong)
    then show ?thesis using True by (auto simp: may_see_def intro!: filter_cong)
  next
    case role: False
    let ?controls = "operator_controls db (asUserID scope) (nub candidates)"
    obtain authorized where auth: "validateOperatorLineages lib flt db ?controls = Inr authorized"
      and ids: "ids = orderedAuthorizedIDs (nub candidates) (map cpID ?controls) (Some authorized)"
      using A False role by (auto simp: AuthorizedPointIDs_def bind_result_eq_Inr guard_eq_Inr unique_candidates_nub Let_def)
    have ctl: "set ?controls = {p \<in> set (cdPoints db). cpID p \<in> set candidates \<and> owns_producer db (asUserID scope) p \<and> cpSemantics p \<noteq> PointImportedBaseline}"
      using set_operator_controls by (simp del: set_nub add: set_nub)
    show ?thesis unfolding ids orderedAuthorizedIDs_def
      using operator_lineages [OF auth assms(1)] role ctl by (intro filter_cong) (auto simp: may_see_def)
  qed
qed

text \<open>
  C11. The catalog shows a point to exactly those who may see it. Whatever statements fail, the identifiers
  \<open>AuthorizedPointIDs\<close> returns are the candidates, in order and once each, that exist and, for an operator,
  that a task produced which is not archived, on a node that is not archived and that the operator owns, and
  whose recorded lineage agrees with the runs and links of the task; an imported baseline is never among
  them. When no statement fails, well-formed requests are answered.
\<close>

theorem authorized_points_exact:
  assumes "ownership_tables_ok db"
  shows "(\<forall>ids. AuthorizedPointIDs lib flt db scope candidates = Inr ids \<longrightarrow> ids = filter (may_see lib db scope) (nub candidates))
    \<and> (is_ok (ValidateAuthorizationScope scope) \<and> length candidates \<le> maxOwnershipCandidateIDs
        \<and> list_all ValidateOpaqueID candidates \<and> (\<forall>stmt. flt stmt = None)
       \<longrightarrow> is_ok (AuthorizedPointIDs lib flt db scope candidates))"
proof (intro conjI allI impI)
  fix ids
  assume "AuthorizedPointIDs lib flt db scope candidates = Inr ids"
  then show "ids = filter (may_see lib db scope) (nub candidates)" by (rule authorized_ids [OF assms])
next
  assume ok: "is_ok (ValidateAuthorizationScope scope) \<and> length candidates \<le> maxOwnershipCandidateIDs
        \<and> list_all ValidateOpaqueID candidates \<and> (\<forall>stmt. flt stmt = None)"
  then have "unique_candidates [] candidates = Inr (nub candidates)" by (simp add: unique_candidates_nub)
  moreover have "catalog_stmt_ok flt stmt = Inr ()" for stmt using ok by (simp add: catalog_stmt_ok_def)
  ultimately show "is_ok (AuthorizedPointIDs lib flt db scope candidates)"
    using ok by (auto simp: AuthorizedPointIDs_def is_ok_iff validateOperatorLineages_def Let_def)
qed

section \<open>An example\<close>

text \<open>
  A repository with a snapshot, a mutable head and an imported baseline. Operator 7 owns the node of the task
  that produced the first two, whose catalogs have a directory \<open>docs\<close>, the first also one named \<open>Docs\<close>.
\<close>

definition sample_id :: "char \<Rightarrow> string" where "sample_id c = replicate 32 c"

definition sample_entry_id :: "char \<Rightarrow> string" where "sample_entry_id c = replicate 64 c"

definition sample_catalog_point :: "char \<Rightarrow> PointVersionSemantics \<Rightarrow> RecoveryPointState \<Rightarrow> nat option \<Rightarrow> string \<Rightarrow> CatalogPoint" where
  "sample_catalog_point c semantics state run lineage =
     \<lparr>cpID = sample_id c, cpRepositoryID = sample_id (CHR ''e''), cpProducingTaskID = Some 3, cpProducingTaskRunID = run, cpProducingNodeID = 5,
      cpLineageJSON = lineage, cpSemantics = semantics, cpState = state, cpCapturedAt = Some 50, cpCommittedAt = Some 60, cpCreatedAt = 40\<rparr>"

definition sample_entry :: "char \<Rightarrow> char \<Rightarrow> string option \<Rightarrow> string \<Rightarrow> string \<Rightarrow> CatalogEntryType \<Rightarrow> int \<Rightarrow> CatalogEntry" where
  "sample_entry p i parent path name type bytes =
     \<lparr>enGenerationID = sample_id p, enEntryID = sample_entry_id i, enRecoveryPointID = sample_id p, enParentEntryID = parent,
      enNormalizedPath = path, enName = name, enEntryType = type, enSize = bytes, enModifiedAt = None, enMode = [], enOwner = [],
      enMimeType = [], enFingerprint = [], enFingerprintStrength = ''none''\<rparr>"

definition sample_catalog :: catalog_db where
  "sample_catalog =
     (let docs = Some (sample_entry_id (CHR ''1'')); other = Some (sample_entry_id (CHR ''2'')); a = CHR ''a''; b = CHR ''b''
      in \<lparr>cdPoints = [sample_catalog_point a PointNativeSnapshot RecoveryPointCommitted (Some 9) ''run'',
            sample_catalog_point b PointMutableHead RecoveryPointObserved None ''head'',
            sample_catalog_point (CHR ''c'') PointImportedBaseline RecoveryPointCommitted None ''import''],
          cdTasks = [\<lparr>tkID = 3, tkNodeID = 5, tkArchivedAt = None\<rparr>], cdNodes = [\<lparr>ndID = 5, ndArchived = False\<rparr>],
          cdOwners = [\<lparr>noNodeID = 5, noUserID = 7\<rparr>], cdRuns = [\<lparr>trID = 9, trTaskID = 3\<rparr>],
          cdLinks = [\<lparr>loID = sample_id (CHR ''f''), loTaskID = Some 3, loRepositoryID = sample_id (CHR ''e''), loNodeIDSnapshot = 5, loUnlinkedAt = None\<rparr>],
          cdRepositories = [\<lparr>rrID = sample_id (CHR ''e''), rrStatus = RepositoryOnline\<rparr>],
          cdGenerations = map (\<lambda>c. \<lparr>gnID = sample_id c, gnRecoveryPointID = sample_id c, gnGeneration = 1, gnState = CatalogGenerationComplete,
            gnIsActive = True\<rparr>) [a, b],
          cdEntries =
            [sample_entry a (CHR ''1'') None ''docs'' ''docs'' CatalogEntryDirectory 0, sample_entry a (CHR ''2'') None ''Docs'' ''Docs'' CatalogEntryDirectory 0,
             sample_entry a (CHR ''3'') docs ''docs/a'' ''a'' CatalogEntryFile 1, sample_entry a (CHR ''4'') docs ''docs/b'' ''b'' CatalogEntryFile 1,
             sample_entry a (CHR ''5'') other ''Docs/aa'' ''aa'' CatalogEntryFile 1,
             sample_entry b (CHR ''1'') None ''docs'' ''docs'' CatalogEntryDirectory 0, sample_entry b (CHR ''6'') docs ''docs/b'' ''b'' CatalogEntryFile 2]\<rparr>)"

definition sample_lineage :: lineage_lib where
  "sample_lineage =
     (let at = (\<lambda>t. \<lparr>jtTime = t, jtUTC = True\<rparr>);
          run = \<lparr>plVersion = 1, plTaskRepositoryLinkID = sample_id (CHR ''f''), plTaskID = 3, plTaskRunID = 9, plTrigger = ''cron'',
            plChainRunIDPresent = False, plChainRunIDDigest = [], plPublicationMode = PublicationNativeSnapshot, plPointCodecVersion = 1,
            plTagCodecVersion = 1, plStartedAt = at 10, plPreparedAt = at 20, plPointDeadlineAt = at 30\<rparr>
      in \<lparr>liPublication = (\<lambda>raw. if raw = ''run'' then Some (run, True) else None),
          liSummary = (\<lambda>raw. if raw = ''head'' then Some (\<lparr>lsProducingTaskID = Some 3, lsProducingTaskRunID = None, lsSourcePointID = []\<rparr>, True) else None),
          liUnicodeLabel = (\<lambda>s n. s)\<rparr>)"

definition sample_caller :: AuthorizationScope where
  "sample_caller = \<lparr>asRole = ''operator'', asUserID = 7\<rparr>"

lemma sample_catalog_ok: "ownership_tables_ok sample_catalog"
  by code_simp

theorem authorized_points_exact_witness:
  "AuthorizedPointIDs sample_lineage (\<lambda>_. None) sample_catalog sample_caller (map sample_id ''cbab'') = Inr (map sample_id ''ba'')
   \<and> filter (may_see sample_lineage sample_catalog sample_caller) (nub (map sample_id ''cbab'')) = map sample_id ''ba''"
proof -
  have "AuthorizedPointIDs sample_lineage (\<lambda>_. None) sample_catalog sample_caller (map sample_id ''cbab'') = Inr (map sample_id ''ba'')"
    by code_simp
  then show ?thesis using authorized_points_exact [OF sample_catalog_ok, of sample_lineage "\<lambda>_. None" sample_caller "map sample_id ''cbab''"] by simp
qed

end
