(* ===== verification/Keyset_Paging.thy ===== *)
theory Keyset_Paging
  imports Prelude
begin

text \<open>
  Keyset pagination as the listings of the catalog do it: a page is the first rows after an anchor in a
  fixed order, one row more than asked for tells whether another page follows, and the last row of a page is
  the anchor of the next. The locale \<open>keyset\<close> is the contract of the comparison with the anchor: it is a
  strict order, so that pages taken one after the other neither repeat nor skip a row. The locale
  \<open>paged_listing\<close> is the contract of a listing with cursors, and shows what a client gets that follows them.
\<close>

fun collect_results :: "('a \<Rightarrow> ('e, 'b) result) \<Rightarrow> 'a list \<Rightarrow> ('e, 'b list) result" where
  "collect_results f [] = Inr []"
| "collect_results f (x # xs) = bind_result (f x) (\<lambda>y. bind_result (collect_results f xs) (\<lambda>ys. Inr (y # ys)))"

lemma collect_results_append:
  "collect_results f (xs @ ys) = Inr zs \<longleftrightarrow> (\<exists>us vs. collect_results f xs = Inr us \<and> collect_results f ys = Inr vs \<and> zs = us @ vs)"
  by (induction xs arbitrary: zs) (auto simp: bind_result_eq_Inr)

lemma collect_results_set:
  "collect_results dto rows = Inr items \<Longrightarrow> item \<in> set items \<Longrightarrow> \<exists>row \<in> set rows. dto row = Inr item"
  by (induction rows arbitrary: items) (auto simp: bind_result_eq_Inr)

definition page_rows :: "nat \<Rightarrow> 'r list \<Rightarrow> 'r list \<times> bool" where
  "page_rows limit rows = (take limit rows, length rows > limit)"

locale keyset =
  fixes before :: "'r \<Rightarrow> 'r \<Rightarrow> bool"
  assumes before_irrefl: "\<not> before x x" and before_trans: "before x y \<Longrightarrow> before y z \<Longrightarrow> before x z"
begin

lemma after_nth:
  assumes "sorted_wrt before rows" and "k < length rows"
  shows "filter (before (rows ! k)) rows = drop (Suc k) rows"
proof -
  have split: "rows = take (Suc k) rows @ drop (Suc k) rows" by simp
  have "filter (before (rows ! k)) (take (Suc k) rows) = []"
  proof -
    have "\<not> before (rows ! k) (rows ! i)" if "i \<le> k" for i
    proof (cases "i = k")
      case False
      then have "before (rows ! i) (rows ! k)" using assms that by (simp add: sorted_wrt_iff_nth_less)
      then show ?thesis using before_irrefl before_trans by blast
    qed (simp add: before_irrefl)
    then show ?thesis using assms(2) by (auto simp: filter_empty_conv in_set_conv_nth)
  qed
  moreover have "filter (before (rows ! k)) (drop (Suc k) rows) = drop (Suc k) rows"
    using assms by (intro filter_True) (auto simp: in_set_conv_nth sorted_wrt_iff_nth_less)
  ultimately show ?thesis by (metis append_Nil filter_append split)
qed

text \<open>The page after the \<open>k\<close>-th row, and the position of its last row.\<close>

lemma page_after:
  assumes "sorted_wrt before rows" and "k < length rows"
  shows "take (Suc limit) (filter (before (rows ! k)) rows) = take (Suc limit) (drop (Suc k) rows)"
  by (simp add: after_nth [OF assms])

end

text \<open>Where the last row of a page stands.\<close>

lemma last_of_page:
  assumes "0 < limit" and "limit < length (drop k rows)"
  shows "last (take limit (drop k rows)) = rows ! (k + limit - 1)" "k + limit - 1 < length rows"
proof -
  have "take limit (drop k rows) \<noteq> []" "length (take limit (drop k rows)) = limit" using assms by auto
  then show "last (take limit (drop k rows)) = rows ! (k + limit - 1)"
    using assms by (simp add: last_conv_nth)
  show "k + limit - 1 < length rows" using assms by simp
qed

text \<open>A page read with one row more than the limit, and the anchor it issues.\<close>

lemma page_step:
  assumes "0 < limit" and found: "found = take (limit + 1) (drop k rows)" and "collect_results dto (take limit found) = Inr items"
    and more: "if limit < length found \<and> take limit found \<noteq> [] then issued (last (take limit found)) following else following = []"
  shows "collect_results dto (take limit (drop k rows)) = Inr items
    \<and> (if limit < length rows - k then k + limit \<le> length rows \<and> issued (rows ! (k + limit - 1)) following else following = [])"
proof -
  have f: "take limit found = take limit (drop k rows)" "limit < length found \<longleftrightarrow> limit < length rows - k"
    by (auto simp: found)
  show ?thesis
  proof (cases "limit < length rows - k")
    case True
    then have "last (take limit (drop k rows)) = rows ! (k + limit - 1)" "take limit (drop k rows) \<noteq> []"
      using last_of_page(1) [OF assms(1), of k rows] assms(1) by auto
    then show ?thesis using assms(3) more f True by auto
  qed (use assms(3) more f in auto)
qed

lemma take_drop_pages:
  "take limit (drop k rows) @ take (limit * n) (drop (k + limit) rows) = take (limit * Suc n) (drop k rows)"
  by (simp add: take_add add.commute)

lemma strictly_sorted_key:
  fixes f :: "'a \<Rightarrow> 'k :: linorder"
  assumes "distinct (map f xs)"
  shows "sorted_wrt (\<lambda>a b. f a < f b) (sort_key f xs)"
proof -
  have "sorted (map f (sort_key f xs))" "distinct (map f (sort_key f xs))" using assms by (simp_all add: distinct_map)
  then have "sorted_wrt (<) (map f (sort_key f xs))" by (simp add: strict_sorted_iff)
  then show ?thesis by (simp add: sorted_wrt_map)
qed

section \<open>Following cursors\<close>

text \<open>A client that asks for pages until the cursor is empty, or until it has no call left.\<close>

fun follow_pages :: "('v \<Rightarrow> string \<Rightarrow> ('e, 'a list \<times> string) result) \<Rightarrow> 'v list \<Rightarrow> string \<Rightarrow> ('e, 'a list \<times> bool) result" where
  "follow_pages fetch [] cursor = Inr ([], False)"
| "follow_pages fetch (v # vs) cursor =
     bind_result (fetch v cursor) (\<lambda>(items, following).
       if following = [] then Inr (items, True)
       else bind_result (follow_pages fetch vs following) (\<lambda>(rest, finished). Inr (items @ rest, finished)))"

locale paged_listing =
  fixes fetch :: "'v \<Rightarrow> string \<Rightarrow> ('e, 'a list \<times> string) result"
    and dto :: "'r \<Rightarrow> ('e, 'a) result"
    and rows :: "'r list"
    and limit :: nat
    and callers :: "'v set"
    and stands_at :: "nat \<Rightarrow> string \<Rightarrow> bool"
  assumes page: "v \<in> callers \<Longrightarrow> stands_at k cursor \<Longrightarrow> fetch v cursor = Inr (items, following) \<Longrightarrow>
      collect_results dto (take limit (drop k rows)) = Inr items
      \<and> (if limit < length rows - k then following \<noteq> [] \<and> stands_at (k + limit) following else following = [])"
begin

lemma follow_exact:
  assumes "set vs \<subseteq> callers" and "vs \<noteq> []" and "stands_at k cursor" and "follow_pages fetch vs cursor = Inr (items, finished)"
  shows "collect_results dto (take (limit * length vs) (drop k rows)) = Inr items
    \<and> (finished \<longleftrightarrow> length rows - k \<le> limit * length vs)"
  using assms
proof (induction vs arbitrary: k cursor items finished)
  case (Cons v vs)
  obtain first following where fetched: "fetch v cursor = Inr (first, following)"
    using Cons.prems(4) by (auto simp: bind_result_eq_Inr)
  note P = page [OF _ Cons.prems(3) fetched]
  have v: "v \<in> callers" using Cons.prems(1) by simp
  show ?case
  proof (cases "limit < length rows - k")
    case False
    then have "items = first" "finished" using P [OF v] Cons.prems(4) fetched by auto
    moreover have "take (limit * length (v # vs)) (drop k rows) = take limit (drop k rows)" using False by simp
    moreover have "limit \<le> limit * length (v # vs)" by simp
    ultimately show ?thesis using P [OF v] False by (metis le_trans not_le)
  next
    case True
    then have more: "following \<noteq> []" "stands_at (k + limit) following" "collect_results dto (take limit (drop k rows)) = Inr first"
      using P [OF v] by auto
    obtain rest where rest: "follow_pages fetch vs following = Inr (rest, finished)" and items: "items = first @ rest"
      using Cons.prems(4) fetched more(1) by (auto simp: bind_result_eq_Inr)
    show ?thesis
    proof (cases "vs = []")
      case True
      then show ?thesis using rest items more \<open>limit < length rows - k\<close> by simp
    next
      case False
      then have "collect_results dto (take (limit * length vs) (drop (k + limit) rows)) = Inr rest"
        and fin: "finished \<longleftrightarrow> length rows - (k + limit) \<le> limit * length vs"
        using Cons.IH [OF _ False more(2) rest] Cons.prems(1) by simp_all
      then have "collect_results dto (take limit (drop k rows) @ take (limit * length vs) (drop (k + limit) rows)) = Inr items"
        using more(3) items unfolding collect_results_append by blast
      then have "collect_results dto (take (limit * length (v # vs)) (drop k rows)) = Inr items"
        by (simp only: take_drop_pages length_Cons)
      moreover have "finished \<longleftrightarrow> length rows - k \<le> limit * length (v # vs)" unfolding fin by simp linarith
      ultimately show ?thesis by blast
    qed
  qed
qed simp

end

end
