(* ===== verification/Catalog_Service.thy ===== *)
theory Catalog_Service
  imports Catalog_Ownership Keyset_Paging
begin

text \<open>
  Browsing the catalog of a recovery point, \<open>backend/internal/backupasset/catalog/service.go\<close>: the listing
  of a directory page by page, one entry with its path, and the versions of an entry in other points, each
  after the check of who may see the point.

  \<open>json.Marshal\<close> of the directory context is written out; for text that is not ASCII it is the argument
  \<open>bvUnicodeJSON\<close>, and SHA-256 is \<open>bvSum256\<close>. The orders of the listings are \<open>ORDER BY\<close> clauses on columns that
  are compared byte by byte. The status of points and repositories, and the listing of points, are not
  modelled here.
\<close>

section \<open>Requests and answers\<close>

record catalog_env =
  bvFault :: "catalog_stmt \<Rightarrow> string option"
  bvFeature :: "(string, bool) result option"
  bvCodec :: CursorCodec
  bvLineage :: lineage_lib
  bvSum256 :: "string \<Rightarrow> nat list"
  bvUnicodeJSON :: "string \<Rightarrow> string"
  bvLikeIgnoresCase :: bool

record EntryListRequest =
  elParentEntryID :: string
  elLimit :: int
  elCursor :: string
  elSort :: string

record BreadcrumbDTO =
  bcRecoveryPointID :: string
  bcEntryID :: string
  bcName :: string

record DirectoryEntryDTO =
  deRecoveryPointID :: string
  deEntryID :: string
  deName :: string

record DirectoryRefDTO =
  drRecoveryPointID :: string
  drEntryID :: string

record DirectoryContextDTO =
  dcCurrent :: "DirectoryEntryDTO option"
  dcParent :: "DirectoryRefDTO option"
  dcBreadcrumb :: "BreadcrumbDTO list"

record EntryDTO =
  etRecoveryPointID :: string
  etEntryID :: string
  etParentEntryID :: "string option"
  etName :: string
  etEntryType :: CatalogEntryType
  etSize :: int
  etModifiedAt :: "time option"
  etMode :: string
  etOwner :: string
  etMIMEType :: string
  etFingerprintStrength :: string
  etBreadcrumb :: "BreadcrumbDTO list"

record EntryPage =
  epItems :: "EntryDTO list"
  epNextCursor :: string
  epDirectory :: DirectoryContextDTO

record EntryVersionDTO =
  evRecoveryPointID :: string
  evEntryID :: string
  evCapturedAt :: "time option"
  evSize :: int
  evEntryType :: CatalogEntryType

definition defaultCatalogPageLimit :: int where "defaultCatalogPageLimit = 100"

definition maxCatalogPageLimit :: int where "maxCatalogPageLimit = 200"

definition maxBreadcrumbDepth :: nat where "maxBreadcrumbDepth = 256"

definition normalizeCatalogPageLimit :: "int \<Rightarrow> (catalog_error, int) result" where
  "normalizeCatalogPageLimit limit =
     (if limit < 0 then Inl ErrInvalidCatalogContract
      else let limit = (if limit = 0 then defaultCatalogPageLimit else limit)
        in Inr (if limit > maxCatalogPageLimit then maxCatalogPageLimit else limit))"

definition validFingerprintStrengths :: "string list" where
  "validFingerprintStrengths = [''strong'', ''weak'', ''none'']"

definition ParseFingerprintStrength :: "string \<Rightarrow> (catalog_error, string) result" where
  "ParseFingerprintStrength value = (if value \<notin> set validFingerprintStrengths then Inl ErrUnknownInternalState else Inr value)"

definition validCatalogEntryType :: "CatalogEntryType \<Rightarrow> bool" where
  "validCatalogEntryType value \<longleftrightarrow>
     value \<in> {CatalogEntryFile, CatalogEntryDirectory, CatalogEntrySymlink, CatalogEntryHardlink, CatalogEntrySpecial, CatalogEntryUnknown}"

definition valid_crumb :: "string \<Rightarrow> BreadcrumbDTO \<Rightarrow> bool" where
  "valid_crumb pointID crumb \<longleftrightarrow>
     ValidateAssetRef \<lparr>arRecoveryPointID = bcRecoveryPointID crumb, arEntryID = bcEntryID crumb\<rparr> = Inr ()
     \<and> bcRecoveryPointID crumb = pointID \<and> TrimSpace (bcName crumb) \<noteq> [] \<and> CHR 0x00 \<notin> set (bcName crumb)"

definition EntryDTO_Validate :: "EntryDTO \<Rightarrow> (catalog_error, unit) result" where
  "EntryDTO_Validate entry =
     (if ValidateAssetRef \<lparr>arRecoveryPointID = etRecoveryPointID entry, arEntryID = etEntryID entry\<rparr> \<noteq> Inr ()
         \<or> (case etParentEntryID entry of None \<Rightarrow> False | Some parent \<Rightarrow> \<not> lowerHexLength parent 64)
         \<or> TrimSpace (etName entry) = [] \<or> CHR 0x00 \<in> set (etName entry) \<or> length (etName entry) > 4096
         \<or> etSize entry < 0 \<or> \<not> validCatalogEntryType (etEntryType entry) \<or> etFingerprintStrength entry \<notin> set validFingerprintStrengths
      then Inl ErrInvalidCatalogContract
      else if \<not> list_all (valid_crumb (etRecoveryPointID entry)) (etBreadcrumb entry) then Inl ErrInvalidCatalogContract
      else Inr ())"

definition catalogEntryDTO :: "CatalogEntry \<Rightarrow> (catalog_error, EntryDTO) result" where
  "catalogEntryDTO entry =
     (if \<not> validCatalogEntryType (enEntryType entry) then Inl ErrUnknownInternalState
      else bind_result (ParseFingerprintStrength (enFingerprintStrength entry)) (\<lambda>strength.
        let dto = \<lparr>etRecoveryPointID = enRecoveryPointID entry, etEntryID = enEntryID entry, etParentEntryID = enParentEntryID entry,
              etName = enName entry, etEntryType = enEntryType entry, etSize = enSize entry, etModifiedAt = enModifiedAt entry,
              etMode = enMode entry, etOwner = enOwner entry, etMIMEType = enMimeType entry, etFingerprintStrength = strength,
              etBreadcrumb = []\<rparr>
        in bind_result (EntryDTO_Validate dto) (\<lambda>_. Inr dto)))"

section \<open>Access\<close>

definition ensureFeatureEnabled :: "catalog_env \<Rightarrow> (catalog_error, unit) result" where
  "ensureFeatureEnabled env =
     (case bvFeature env of
        None \<Rightarrow> Inr ()
      | Some (Inl message) \<Rightarrow> Inl (ErrCatalogQuery message)
      | Some (Inr enabled) \<Rightarrow> if \<not> enabled then Inl ErrFeatureDisabled else Inr ())"

definition validatePointScope :: "catalog_env \<Rightarrow> string \<Rightarrow> AuthorizationScope \<Rightarrow> (catalog_error, unit) result" where
  "validatePointScope env pointID scope =
     bind_result (ensureFeatureEnabled env) (\<lambda>_.
       if \<not> ValidateOpaqueID pointID then Inl (ErrCatalogAsset ErrNotFound) else ValidateAuthorizationScope scope)"

definition publicCatalogPoint :: "CatalogPoint \<Rightarrow> bool" where
  "publicCatalogPoint p =
     (case cpSemantics p of
        PointMutableHead \<Rightarrow> cpState p = RecoveryPointObserved
      | PointNativeSnapshot \<Rightarrow> cpState p = RecoveryPointCommitted \<or> cpState p = RecoveryPointDegraded
      | PointXirangManifest \<Rightarrow> cpState p = RecoveryPointCommitted \<or> cpState p = RecoveryPointDegraded
      | PointImportedBaseline \<Rightarrow> cpState p = RecoveryPointCommitted \<or> cpState p = RecoveryPointDegraded
      | _ \<Rightarrow> False)"

definition loadPointAndRepository :: "catalog_env \<Rightarrow> catalog_db \<Rightarrow> string \<Rightarrow> (catalog_error, CatalogPoint \<times> RepositoryRow) result" where
  "loadPointAndRepository env db pointID =
     bind_result (catalog_stmt_ok (bvFault env) StmtLoadPoint) (\<lambda>_.
       case take_row (\<lambda>p. cpID p = pointID) (cdPoints db) of
         None \<Rightarrow> Inl (ErrCatalogAsset ErrNotFound)
       | Some p \<Rightarrow> bind_result (catalog_stmt_ok (bvFault env) StmtLoadCatalogRepository) (\<lambda>_.
           case take_row (\<lambda>r. rrID r = cpRepositoryID p) (cdRepositories db) of
             None \<Rightarrow> Inl (ErrCatalogQuery ''record not found'')
           | Some repository \<Rightarrow> Inr (p, repository)))"

definition authorizedPublicPoint ::
  "catalog_env \<Rightarrow> catalog_db \<Rightarrow> string \<Rightarrow> AuthorizationScope \<Rightarrow> (catalog_error, CatalogPoint \<times> RepositoryRow) result" where
  "authorizedPublicPoint env db pointID scope =
     bind_result (validatePointScope env pointID scope) (\<lambda>_.
     bind_result (AuthorizedPointIDs (bvLineage env) (bvFault env) db scope [pointID]) (\<lambda>visible.
       if length visible \<noteq> 1 then Inl (ErrCatalogAsset ErrNotFound)
       else bind_result (loadPointAndRepository env db pointID) (\<lambda>(p, repository).
         if \<not> publicCatalogPoint p then Inl (ErrCatalogAsset ErrNotFound) else Inr (p, repository))))"

definition authorizedActivePoint ::
  "catalog_env \<Rightarrow> catalog_db \<Rightarrow> string \<Rightarrow> AuthorizationScope
   \<Rightarrow> (catalog_error, CatalogPoint \<times> RepositoryRow \<times> CatalogGeneration) result" where
  "authorizedActivePoint env db pointID scope =
     bind_result (authorizedPublicPoint env db pointID scope) (\<lambda>(p, repository).
     bind_result (catalog_stmt_ok (bvFault env) StmtActiveGeneration) (\<lambda>_.
       case take_row (\<lambda>g. gnRecoveryPointID g = cpID p \<and> gnState g = CatalogGenerationComplete \<and> gnIsActive g) (cdGenerations db) of
         None \<Rightarrow> Inl ErrCatalogUnavailable
       | Some generation \<Rightarrow> Inr (p, repository, generation)))"

definition loadCatalogEntry :: "catalog_env \<Rightarrow> catalog_db \<Rightarrow> string \<Rightarrow> string \<Rightarrow> string \<Rightarrow> (catalog_error, CatalogEntry) result" where
  "loadCatalogEntry env db generationID pointID entryID =
     bind_result (catalog_stmt_ok (bvFault env) (StmtLoadEntry entryID)) (\<lambda>_.
       case take_row (\<lambda>e. enGenerationID e = generationID \<and> enRecoveryPointID e = pointID \<and> enEntryID e = entryID) (cdEntries db) of
         None \<Rightarrow> Inl (ErrCatalogAsset ErrNotFound)
       | Some entry \<Rightarrow> Inr entry)"

section \<open>The path of a directory\<close>

text \<open>The loop appends to \<open>reversed\<close>; it stops at the depth limit, so the recursion ends.\<close>

function breadcrumb_loop ::
  "catalog_env \<Rightarrow> catalog_db \<Rightarrow> string \<Rightarrow> string \<Rightarrow> BreadcrumbDTO list \<Rightarrow> string list \<Rightarrow> string option
   \<Rightarrow> (catalog_error, BreadcrumbDTO list) result" where
  "breadcrumb_loop env db generationID pointID reversed seen parentID =
     (case parentID of
        None \<Rightarrow> Inr (rev reversed)
      | Some parent \<Rightarrow>
          if length reversed \<ge> maxBreadcrumbDepth then Inl ErrInvalidCatalogContract
          else if parent \<in> set seen then Inl ErrInvalidCatalogContract
          else case loadCatalogEntry env db generationID pointID parent of
            Inl _ \<Rightarrow> Inl ErrInvalidCatalogContract
          | Inr entry \<Rightarrow>
              if enEntryType entry \<noteq> CatalogEntryDirectory then Inl ErrInvalidCatalogContract
              else breadcrumb_loop env db generationID pointID
                (reversed @ [\<lparr>bcRecoveryPointID = pointID, bcEntryID = enEntryID entry, bcName = enName entry\<rparr>])
                (parent # seen) (enParentEntryID entry))"
  by pat_completeness auto
termination
  by (relation "measure (\<lambda>(env, db, generationID, pointID, reversed, seen, parentID). maxBreadcrumbDepth - length reversed)") auto

declare breadcrumb_loop.simps [simp del]

definition loadBreadcrumb :: "catalog_env \<Rightarrow> catalog_db \<Rightarrow> string \<Rightarrow> string \<Rightarrow> string option \<Rightarrow> (catalog_error, BreadcrumbDTO list) result" where
  "loadBreadcrumb env db generationID pointID parentID = breadcrumb_loop env db generationID pointID [] [] parentID"

fun crumbs_distinct :: "string list \<Rightarrow> BreadcrumbDTO list \<Rightarrow> bool" where
  "crumbs_distinct seen [] = True"
| "crumbs_distinct seen (crumb # crumbs) = (bcEntryID crumb \<notin> set seen \<and> crumbs_distinct (bcEntryID crumb # seen) crumbs)"

definition DirectoryContext_Validate :: "DirectoryContextDTO \<Rightarrow> string \<Rightarrow> string \<Rightarrow> (catalog_error, unit) result" where
  "DirectoryContext_Validate directory pointID currentEntryID =
     (if currentEntryID = [] then
        (if dcCurrent directory \<noteq> None \<or> dcParent directory \<noteq> None \<or> dcBreadcrumb directory \<noteq> [] then Inl ErrInvalidCatalogContract else Inr ())
      else case dcCurrent directory of
        None \<Rightarrow> Inl ErrInvalidCatalogContract
      | Some current \<Rightarrow>
          if deEntryID current \<noteq> currentEntryID
             \<or> ValidateAssetRef \<lparr>arRecoveryPointID = deRecoveryPointID current, arEntryID = deEntryID current\<rparr> \<noteq> Inr ()
             \<or> deRecoveryPointID current \<noteq> pointID \<or> TrimSpace (deName current) = [] \<or> CHR 0x00 \<in> set (deName current)
             \<or> length (deName current) > 4096 \<or> dcBreadcrumb directory = [] \<or> length (dcBreadcrumb directory) > maxBreadcrumbDepth
          then Inl ErrInvalidCatalogContract
          else if \<not> list_all (\<lambda>crumb. valid_crumb pointID crumb \<and> length (bcName crumb) \<le> 4096) (dcBreadcrumb directory)
             \<or> \<not> crumbs_distinct [] (dcBreadcrumb directory)
          then Inl ErrInvalidCatalogContract
          else
            let lastCrumb = last (dcBreadcrumb directory) in
            if bcRecoveryPointID lastCrumb \<noteq> deRecoveryPointID current \<or> bcEntryID lastCrumb \<noteq> deEntryID current
               \<or> bcName lastCrumb \<noteq> deName current then Inl ErrInvalidCatalogContract
            else if length (dcBreadcrumb directory) = 1 then
              (if dcParent directory \<noteq> None then Inl ErrInvalidCatalogContract else Inr ())
            else
              let wantParent = dcBreadcrumb directory ! (length (dcBreadcrumb directory) - 2) in
              case dcParent directory of
                None \<Rightarrow> Inl ErrInvalidCatalogContract
              | Some parent \<Rightarrow>
                  if drRecoveryPointID parent \<noteq> pointID \<or> drEntryID parent \<noteq> bcEntryID wantParent
                     \<or> ValidateAssetRef \<lparr>arRecoveryPointID = drRecoveryPointID parent, arEntryID = drEntryID parent\<rparr> \<noteq> Inr ()
                  then Inl ErrInvalidCatalogContract else Inr ())"

definition loadDirectoryContext :: "catalog_env \<Rightarrow> catalog_db \<Rightarrow> string \<Rightarrow> string \<Rightarrow> string \<Rightarrow> (catalog_error, DirectoryContextDTO) result" where
  "loadDirectoryContext env db generationID pointID currentEntryID =
     (if currentEntryID = [] then Inr \<lparr>dcCurrent = None, dcParent = None, dcBreadcrumb = []\<rparr>
      else if ValidateAssetRef \<lparr>arRecoveryPointID = pointID, arEntryID = currentEntryID\<rparr> \<noteq> Inr () then Inl (ErrCatalogAsset ErrNotFound)
      else bind_result (loadCatalogEntry env db generationID pointID currentEntryID) (\<lambda>current.
        if enEntryType current \<noteq> CatalogEntryDirectory then Inl (ErrCatalogAsset ErrNotFound)
        else bind_result (loadBreadcrumb env db generationID pointID (Some (enEntryID current))) (\<lambda>crumbs.
        bind_result
          (case enParentEntryID current of
             None \<Rightarrow> Inr None
           | Some parent \<Rightarrow>
               if length crumbs < 2 \<or> bcEntryID (crumbs ! (length crumbs - 2)) \<noteq> parent then Inl ErrInvalidCatalogContract
               else Inr (Some \<lparr>drRecoveryPointID = pointID, drEntryID = parent\<rparr>)) (\<lambda>parent.
        let directory = \<lparr>dcCurrent = Some \<lparr>deRecoveryPointID = pointID, deEntryID = enEntryID current, deName = enName current\<rparr>,
              dcParent = parent, dcBreadcrumb = crumbs\<rparr>
        in bind_result (DirectoryContext_Validate directory pointID currentEntryID) (\<lambda>_. Inr directory)))))"

text \<open>\<open>json.Marshal\<close> of an ASCII string escapes quotes, backslashes, control characters and the characters HTML gives a meaning.\<close>

definition json_char :: "char \<Rightarrow> string" where
  "json_char c =
     (let b = (of_char c :: nat) in
      if c = CHR 0x22 \<or> c = CHR 0x5C then [CHR 0x5C, c]
      else if b = 8 then [CHR 0x5C, CHR ''b''] else if b = 12 then [CHR 0x5C, CHR ''f''] else if b = 10 then [CHR 0x5C, CHR ''n'']
      else if b = 13 then [CHR 0x5C, CHR ''r''] else if b = 9 then [CHR 0x5C, CHR ''t'']
      else if b < 32 \<or> c \<in> set ''<>&'' then CHR 0x5C # ''u00'' @ [hex_digit (b div 16), hex_digit (b mod 16)]
      else [c])"

definition json_string :: "(string \<Rightarrow> string) \<Rightarrow> string \<Rightarrow> string" where
  "json_string unicode s = CHR 0x22 # (if is_ascii s then concat (map json_char s) else unicode s) @ [CHR 0x22]"

definition json_directory :: "(string \<Rightarrow> string) \<Rightarrow> DirectoryContextDTO \<Rightarrow> string" where
  "json_directory unicode directory =
     (let entry = (\<lambda>point i name. json_object [json_member ''recovery_point_id'' (json_string unicode point),
            json_member ''entry_id'' (json_string unicode i), json_member ''name'' (json_string unicode name)])
      in json_object
        [json_member ''current'' (case dcCurrent directory of None \<Rightarrow> ''null''
           | Some current \<Rightarrow> entry (deRecoveryPointID current) (deEntryID current) (deName current)),
         json_member ''parent'' (case dcParent directory of None \<Rightarrow> ''null''
           | Some parent \<Rightarrow> json_object [json_member ''recovery_point_id'' (json_string unicode (drRecoveryPointID parent)),
               json_member ''entry_id'' (json_string unicode (drEntryID parent))]),
         json_member ''breadcrumb'' (''['' @ json_join (map (\<lambda>crumb. entry (bcRecoveryPointID crumb) (bcEntryID crumb) (bcName crumb))
           (dcBreadcrumb directory)) @ '']'')])"

definition catalogDirectoryDigest :: "catalog_env \<Rightarrow> DirectoryContextDTO \<Rightarrow> string" where
  "catalogDirectoryDigest env directory =
     EncodeToString (bvSum256 env (''xirang.catalog.directory-context.v1'' @ [CHR 0x00] @ json_directory (bvUnicodeJSON env) directory))"

section \<open>The listing of a directory\<close>

definition sameOptionalString :: "string option \<Rightarrow> string \<Rightarrow> bool" where
  "sameOptionalString value expected = (if expected = [] then value = None else value = Some expected)"

definition name_after :: "CatalogEntry \<Rightarrow> CatalogEntry \<Rightarrow> bool" where
  "name_after anchor e \<longleftrightarrow> enName anchor < enName e \<or> enName e = enName anchor \<and> enEntryID anchor < enEntryID e"

text \<open>\<open>applyEntrySort\<close>: the condition on the anchor, and the order.\<close>

definition entry_after :: "string \<Rightarrow> CatalogEntry \<Rightarrow> CatalogEntry \<Rightarrow> bool" where
  "entry_after sorting anchor e =
     (if sorting = ''name_asc'' then name_after anchor e
      else if sorting = ''name_desc'' then enName e < enName anchor \<or> enName e = enName anchor \<and> enEntryID e < enEntryID anchor
      else if sorting = ''size_desc'' then enSize e < enSize anchor \<or> enSize e = enSize anchor \<and> name_after anchor e
      else if sorting = ''modified_desc'' then
        (case (enModifiedAt anchor, enModifiedAt e) of
           (None, None) \<Rightarrow> name_after anchor e
         | (None, Some _) \<Rightarrow> False
         | (Some _, None) \<Rightarrow> True
         | (Some t, Some u) \<Rightarrow> u < t \<or> u = t \<and> name_after anchor e)
      else True)"

definition entry_order :: "string \<Rightarrow> CatalogEntry list \<Rightarrow> CatalogEntry list" where
  "entry_order sorting rows =
     (if sorting = ''name_asc'' then sort_key (\<lambda>e. (enName e, enEntryID e)) rows
      else if sorting = ''name_desc'' then rev (sort_key (\<lambda>e. (enName e, enEntryID e)) rows)
      else if sorting = ''size_desc'' then sort_key (\<lambda>e. (- enSize e, enName e, enEntryID e)) rows
      else if sorting = ''modified_desc'' then
        sort_key (\<lambda>e. (enModifiedAt e = None, (case enModifiedAt e of None \<Rightarrow> 0 | Some t \<Rightarrow> - t), enName e, enEntryID e)) rows
      else rows)"

definition applyEntrySort :: "string \<Rightarrow> CatalogEntry option \<Rightarrow> CatalogEntry list \<Rightarrow> CatalogEntry list" where
  "applyEntrySort sorting anchor rows =
     entry_order sorting (case anchor of None \<Rightarrow> rows | Some a \<Rightarrow> filter (entry_after sorting a) rows)"

definition directory_rows :: "catalog_db \<Rightarrow> string \<Rightarrow> string \<Rightarrow> string \<Rightarrow> CatalogEntry list" where
  "directory_rows db generationID pointID parent =
     filter (\<lambda>e. enGenerationID e = generationID \<and> enRecoveryPointID e = pointID \<and> sameOptionalString (enParentEntryID e) parent) (cdEntries db)"

definition entries_scope :: "AuthorizationScope \<Rightarrow> string \<Rightarrow> string \<Rightarrow> string \<Rightarrow> string \<Rightarrow> string \<Rightarrow> string \<Rightarrow> string \<Rightarrow> CursorScope" where
  "entries_scope scope sorting repositoryID pointID generationID parent digest anchor =
     \<lparr>csEndpoint = CursorEndpointEntries, csDirection = CursorForward, csUserID = asUserID scope, csRole = asRole scope, csSort = sorting,
      csNodeID = 0, csBackupSetID = [], csProjectionDigest = digest, csRepositoryID = repositoryID, csRecoveryPointID = pointID,
      csGenerationID = generationID, csParentEntryID = parent, csBaseRecoveryPointID = [], csCompareRecoveryPointID = [],
      csBaseGenerationID = [], csCompareGenerationID = [], csBaseParentEntryID = [], csCompareParentEntryID = [],
      csAnchor = empty_anchor\<lparr>caEntryID := anchor\<rparr>\<rparr>"

definition listing_sort :: "EntryListRequest \<Rightarrow> string" where
  "listing_sort request = (if elSort request = [] then ''name_asc'' else elSort request)"

definition ListEntries ::
  "catalog_env \<Rightarrow> catalog_db \<Rightarrow> string \<Rightarrow> AuthorizationScope \<Rightarrow> EntryListRequest \<Rightarrow> (catalog_error, EntryPage) result" where
  "ListEntries env db pointID scope request =
     bind_result (authorizedActivePoint env db pointID scope) (\<lambda>(p, repository, generation).
     bind_result (normalizeCatalogPageLimit (elLimit request)) (\<lambda>limit.
     let sorting = listing_sort request;
         parent = elParentEntryID request;
         cursorScope = entries_scope scope sorting (rrID repository) (cpID p) (gnID generation) parent
     in if \<not> validEntrySort sorting then Inl ErrInvalidCatalogContract
     else bind_result
       (if TrimSpace (elCursor request) = [] then Inr None
        else bind_result (decodeAuthenticated (bvCodec env) (elCursor request)) (\<lambda>decoded.
          if \<not> cursorClaimsMatch decoded (cursorScope (csProjectionDigest decoded) []) then Inl ErrStaleCursor
          else Inr (Some decoded))) (\<lambda>decodedCursor.
     bind_result
       (case loadDirectoryContext env db (gnID generation) (cpID p) parent of
          Inl err \<Rightarrow> Inl (if decodedCursor \<noteq> None \<and> err = ErrCatalogAsset ErrNotFound then ErrStaleCursor else err)
        | Inr directory \<Rightarrow> Inr directory) (\<lambda>directory.
     if parent \<noteq> [] \<and> ValidateAssetRef \<lparr>arRecoveryPointID = cpID p, arEntryID = parent\<rparr> \<noteq> Inr () then Inl (ErrCatalogAsset ErrNotFound)
     else
       let digest = catalogDirectoryDigest env directory in
       bind_result
         (case decodedCursor of
            None \<Rightarrow> Inr None
          | Some decoded \<Rightarrow>
              if \<not> cursorClaimsMatch decoded (cursorScope digest []) then Inl ErrStaleCursor
              else case loadCatalogEntry env db (gnID generation) (cpID p) (caEntryID (csAnchor decoded)) of
                Inl _ \<Rightarrow> Inl ErrStaleCursor
              | Inr loaded \<Rightarrow> if \<not> sameOptionalString (enParentEntryID loaded) parent then Inl ErrStaleCursor else Inr (Some loaded)) (\<lambda>anchor.
       bind_result (catalog_stmt_ok (bvFault env) StmtListEntries) (\<lambda>_.
       let found = take (nat limit + 1) (applyEntrySort sorting anchor (directory_rows db (gnID generation) (cpID p) parent));
           (rows, hasMore) = page_rows (nat limit) found
       in bind_result (collect_results catalogEntryDTO rows) (\<lambda>items.
          bind_result
            (if hasMore \<and> rows \<noteq> [] then Encode (bvCodec env) (cursorScope digest (enEntryID (last rows))) else Inr []) (\<lambda>nextCursor.
            Inr \<lparr>epItems = items, epNextCursor = nextCursor, epDirectory = directory\<rparr>))))))))"

definition GetEntry :: "catalog_env \<Rightarrow> catalog_db \<Rightarrow> string \<Rightarrow> string \<Rightarrow> AuthorizationScope \<Rightarrow> (catalog_error, EntryDTO) result" where
  "GetEntry env db pointID entryID scope =
     (if ValidateAssetRef \<lparr>arRecoveryPointID = pointID, arEntryID = entryID\<rparr> \<noteq> Inr () then Inl (ErrCatalogAsset ErrNotFound)
      else bind_result (authorizedActivePoint env db pointID scope) (\<lambda>(p, repository, generation).
        case loadCatalogEntry env db (gnID generation) (cpID p) entryID of
          Inl _ \<Rightarrow> Inl (ErrCatalogAsset ErrNotFound)
        | Inr entry \<Rightarrow>
            bind_result (catalogEntryDTO entry) (\<lambda>dto.
            bind_result (loadBreadcrumb env db (gnID generation) (cpID p) (enParentEntryID entry)) (\<lambda>breadcrumb.
              Inr (dto\<lparr>etBreadcrumb := breadcrumb\<rparr>)))))"

text \<open>
  The versions of a path: the entries at the same path in the active catalogs of the points of the same
  producing task and repository, newest first, cut at the page limit, then those the caller may see.
\<close>

definition version_rows :: "catalog_db \<Rightarrow> CatalogPoint \<Rightarrow> string \<Rightarrow> (CatalogEntry \<times> CatalogPoint) list" where
  "version_rows db p path =
     [(e, q). e \<leftarrow> cdEntries db, g \<leftarrow> cdGenerations db,
        gnID g = enGenerationID e \<and> gnIsActive g \<and> gnState g = CatalogGenerationComplete,
        q \<leftarrow> cdPoints db,
        cpID q = enRecoveryPointID e \<and> enNormalizedPath e = path \<and> cpRepositoryID q = cpRepositoryID p
        \<and> cpProducingTaskID q = cpProducingTaskID p \<and> publicCatalogPoint q]"

definition newest_versions :: "(CatalogEntry \<times> CatalogPoint) list \<Rightarrow> (CatalogEntry \<times> CatalogPoint) list" where
  "newest_versions rows =
     sort_key (\<lambda>(e, q). (cpCapturedAt q = None, (case cpCapturedAt q of None \<Rightarrow> 0 | Some t \<Rightarrow> - t)))
       (rev (sort_key (\<lambda>(e, q). cpID q) (rev (sort_key (\<lambda>(e, q). enEntryID e) rows))))"

definition version_dto :: "CatalogEntry \<times> CatalogPoint \<Rightarrow> EntryVersionDTO" where
  "version_dto v =
     \<lparr>evRecoveryPointID = enRecoveryPointID (fst v), evEntryID = enEntryID (fst v), evCapturedAt = cpCapturedAt (snd v),
      evSize = enSize (fst v), evEntryType = enEntryType (fst v)\<rparr>"

definition EntryVersionDTO_Validate :: "EntryVersionDTO \<Rightarrow> (catalog_error, unit) result" where
  "EntryVersionDTO_Validate version =
     (if ValidateAssetRef \<lparr>arRecoveryPointID = evRecoveryPointID version, arEntryID = evEntryID version\<rparr> \<noteq> Inr ()
         \<or> evSize version < 0 \<or> \<not> validCatalogEntryType (evEntryType version)
      then Inl ErrInvalidCatalogContract else Inr ())"

definition ListEntryVersions ::
  "catalog_env \<Rightarrow> catalog_db \<Rightarrow> string \<Rightarrow> string \<Rightarrow> AuthorizationScope \<Rightarrow> (catalog_error, EntryVersionDTO list) result" where
  "ListEntryVersions env db pointID entryID scope =
     (if ValidateAssetRef \<lparr>arRecoveryPointID = pointID, arEntryID = entryID\<rparr> \<noteq> Inr () then Inl (ErrCatalogAsset ErrNotFound)
      else bind_result (authorizedActivePoint env db pointID scope) (\<lambda>(p, repository, generation).
        case loadCatalogEntry env db (gnID generation) (cpID p) entryID of
          Inl _ \<Rightarrow> Inl (ErrCatalogAsset ErrNotFound)
        | Inr entry \<Rightarrow>
            bind_result (catalog_stmt_ok (bvFault env) StmtListVersions) (\<lambda>_.
            let rows = map version_dto (take (nat maxCatalogPageLimit) (newest_versions (version_rows db p (enNormalizedPath entry))))
            in bind_result (AuthorizedPointIDs (bvLineage env) (bvFault env) db scope (map evRecoveryPointID rows)) (\<lambda>visible.
               let items = filter (\<lambda>row. evRecoveryPointID row \<in> set visible) rows
               in bind_result (collect_results EntryVersionDTO_Validate items) (\<lambda>_. Inr items)))))"

section \<open>Pages\<close>

lemma validEntrySort_cases:
  "validEntrySort s \<Longrightarrow> s = ''name_asc'' \<or> s = ''name_desc'' \<or> s = ''size_desc'' \<or> s = ''modified_desc''"
  by (auto simp: validEntrySort_def)

text \<open>The conditions on the anchor compare the keys of the orders.\<close>

lemma entry_after_keys:
  "entry_after ''name_asc'' a e \<longleftrightarrow> (enName a, enEntryID a) < (enName e, enEntryID e)"
  "entry_after ''name_desc'' a e \<longleftrightarrow> (enName e, enEntryID e) < (enName a, enEntryID a)"
  "entry_after ''size_desc'' a e \<longleftrightarrow> (- enSize a, enName a, enEntryID a) < (- enSize e, enName e, enEntryID e)"
  "entry_after ''modified_desc'' a e \<longleftrightarrow>
     (enModifiedAt a = None, (case enModifiedAt a of None \<Rightarrow> 0 | Some t \<Rightarrow> - t), enName a, enEntryID a)
     < (enModifiedAt e = None, (case enModifiedAt e of None \<Rightarrow> 0 | Some t \<Rightarrow> - t), enName e, enEntryID e)"
  by (auto simp: entry_after_def name_after_def split: option.splits)

lemma entry_after_irrefl: "validEntrySort s \<Longrightarrow> \<not> entry_after s e e"
  by (drule validEntrySort_cases) (elim disjE; simp only: entry_after_keys less_irrefl simp_thms)

lemma entry_after_trans: "validEntrySort s \<Longrightarrow> entry_after s a b \<Longrightarrow> entry_after s b c \<Longrightarrow> entry_after s a c"
  by (drule validEntrySort_cases) (elim disjE; simp only: entry_after_keys; erule (1) less_trans)

interpretation entry_pages: keyset "\<lambda>a e. validEntrySort s \<and> entry_after s a e" for s
  by unfold_locales (auto simp: entry_after_irrefl intro: entry_after_trans)

lemma entry_order_sorted:
  assumes "validEntrySort s" and "distinct (map enEntryID rows)"
  shows "sorted_wrt (entry_after s) (entry_order s rows)"
proof -
  have d: "distinct (map (\<lambda>e. (f e, enEntryID e)) rows)" for f :: "CatalogEntry \<Rightarrow> 'b"
    using assms(2) by (auto simp: distinct_map inj_on_def)
  have d2: "distinct (map (\<lambda>e. (f e, enName e, enEntryID e)) rows)" for f :: "CatalogEntry \<Rightarrow> 'b"
    using assms(2) by (auto simp: distinct_map inj_on_def)
  have d3: "distinct (map (\<lambda>e. (f e, g e, enName e, enEntryID e)) rows)" for f :: "CatalogEntry \<Rightarrow> 'b" and g :: "CatalogEntry \<Rightarrow> 'c"
    using assms(2) by (auto simp: distinct_map inj_on_def)
  note keys = entry_order_def entry_after_keys [abs_def]
  from validEntrySort_cases [OF assms(1)] show ?thesis
  proof (elim disjE)
    assume "s = ''name_asc''"
    then show ?thesis using strictly_sorted_key [OF d [of enName]] by (simp add: keys del: less_prod_simp)
  next
    assume "s = ''name_desc''"
    then show ?thesis using strictly_sorted_key [OF d [of enName]] by (simp add: keys sorted_wrt_rev del: less_prod_simp)
  next
    assume "s = ''size_desc''"
    then show ?thesis using strictly_sorted_key [OF d2 [of "\<lambda>e. - enSize e"]] by (simp add: keys del: less_prod_simp)
  next
    assume "s = ''modified_desc''"
    then show ?thesis using strictly_sorted_key [OF d3 [of "\<lambda>e. enModifiedAt e = None" "\<lambda>e. case enModifiedAt e of None \<Rightarrow> 0 | Some t \<Rightarrow> - t"]]
      by (simp add: keys del: less_prod_simp)
  qed
qed

lemma entry_order_filter: "entry_order s (filter P rows) = filter P (entry_order s rows)"
  by (simp add: entry_order_def filter_sort rev_filter [symmetric])

lemma set_entry_order [simp]: "set (entry_order s rows) = set rows"
  by (simp add: entry_order_def)

lemma active_point:
  assumes "authorizedActivePoint env db pointID scope = Inr (p, repository, generation)"
  shows "take_row (\<lambda>p. cpID p = pointID) (cdPoints db) = Some p \<and> cpID p = pointID
    \<and> take_row (\<lambda>r. rrID r = cpRepositoryID p) (cdRepositories db) = Some repository \<and> publicCatalogPoint p
    \<and> take_row (\<lambda>g. gnRecoveryPointID g = pointID \<and> gnState g = CatalogGenerationComplete \<and> gnIsActive g) (cdGenerations db) = Some generation"
  using assms
  by (auto simp: authorizedActivePoint_def authorizedPublicPoint_def loadPointAndRepository_def bind_result_eq_Inr guard_eq_Inr
      option_case_eq_Inr dest: take_row_Some split: prod.splits)

lemma page_limit_pos: "normalizeCatalogPageLimit l = Inr limit \<Longrightarrow> 0 < limit \<and> limit \<le> maxCatalogPageLimit"
  by (auto simp: normalizeCatalogPageLimit_def Let_def defaultCatalogPageLimit_def maxCatalogPageLimit_def split: if_splits)

text \<open>The cursor a listing issues after an entry.\<close>

definition listing_cursor :: "catalog_env \<Rightarrow> catalog_db \<Rightarrow> AuthorizationScope \<Rightarrow> EntryListRequest \<Rightarrow> CatalogPoint \<Rightarrow> RepositoryRow \<Rightarrow> CatalogGeneration \<Rightarrow> CatalogEntry \<Rightarrow> CursorScope" where
  "listing_cursor env db scope request p repository generation e =
     entries_scope scope (listing_sort request) (rrID repository) (cpID p) (gnID generation) (elParentEntryID request)
       (catalogDirectoryDigest env (projr (loadDirectoryContext env db (gnID generation) (cpID p) (elParentEntryID request)))) (enEntryID e)"

lemma ListEntries_ok:
  assumes "ListEntries env db pointID scope request = Inr page"
  obtains p repository generation limit anchor found where
    "authorizedActivePoint env db pointID scope = Inr (p, repository, generation)"
    "normalizeCatalogPageLimit (elLimit request) = Inr limit" "validEntrySort (listing_sort request)"
    "TrimSpace (elCursor request) = [] \<and> anchor = None
     \<or> (\<exists>decoded loaded. TrimSpace (elCursor request) \<noteq> [] \<and> decodeAuthenticated (bvCodec env) (elCursor request) = Inr decoded
          \<and> loadCatalogEntry env db (gnID generation) (cpID p) (caEntryID (csAnchor decoded)) = Inr loaded \<and> anchor = Some loaded)"
    "found = take (nat limit + 1) (applyEntrySort (listing_sort request) anchor (directory_rows db (gnID generation) (cpID p) (elParentEntryID request)))"
    "collect_results catalogEntryDTO (take (nat limit) found) = Inr (epItems page)"
    "if nat limit < length found \<and> take (nat limit) found \<noteq> []
     then Encode (bvCodec env) (listing_cursor env db scope request p repository generation (last (take (nat limit) found))) = Inr (epNextCursor page)
     else epNextCursor page = []"
proof -
  obtain p repository generation limit where
    active: "authorizedActivePoint env db pointID scope = Inr (p, repository, generation)"
    and limit: "normalizeCatalogPageLimit (elLimit request) = Inr limit"
    using assms unfolding ListEntries_def by (auto simp: bind_result_eq_Inr)
  let ?scope = "entries_scope scope (listing_sort request) (rrID repository) (cpID p) (gnID generation) (elParentEntryID request)"
  obtain decodedCursor directory where sorting: "validEntrySort (listing_sort request)"
    and cursor: "(if TrimSpace (elCursor request) = [] then Inr None
        else bind_result (decodeAuthenticated (bvCodec env) (elCursor request)) (\<lambda>decoded.
          if \<not> cursorClaimsMatch decoded (?scope (csProjectionDigest decoded) []) then Inl ErrStaleCursor
          else Inr (Some decoded))) = Inr decodedCursor"
    and directory: "loadDirectoryContext env db (gnID generation) (cpID p) (elParentEntryID request) = Inr directory"
    using assms unfolding ListEntries_def active limit bind_result_Inr prod.case Let_def guard_eq_Inr bind_result_eq_Inr sum_case_eq_Inr
    by blast
  let ?digest = "catalogDirectoryDigest env directory"
  have step: "(if elParentEntryID request \<noteq> [] \<and> ValidateAssetRef \<lparr>arRecoveryPointID = cpID p, arEntryID = elParentEntryID request\<rparr> \<noteq> Inr ()
     then Inl (ErrCatalogAsset ErrNotFound)
     else bind_result
         (case decodedCursor of
            None \<Rightarrow> Inr None
          | Some decoded \<Rightarrow>
              if \<not> cursorClaimsMatch decoded (?scope ?digest []) then Inl ErrStaleCursor
              else case loadCatalogEntry env db (gnID generation) (cpID p) (caEntryID (csAnchor decoded)) of
                Inl _ \<Rightarrow> Inl ErrStaleCursor
              | Inr loaded \<Rightarrow> if \<not> sameOptionalString (enParentEntryID loaded) (elParentEntryID request) then Inl ErrStaleCursor else Inr (Some loaded)) (\<lambda>anchor.
       bind_result (catalog_stmt_ok (bvFault env) StmtListEntries) (\<lambda>_.
       let found = take (nat limit + 1) (applyEntrySort (listing_sort request) anchor (directory_rows db (gnID generation) (cpID p) (elParentEntryID request)));
           (rows, hasMore) = page_rows (nat limit) found
       in bind_result (collect_results catalogEntryDTO rows) (\<lambda>items.
          bind_result
            (if hasMore \<and> rows \<noteq> [] then Encode (bvCodec env) (?scope ?digest (enEntryID (last rows))) else Inr []) (\<lambda>nextCursor.
            Inr \<lparr>epItems = items, epNextCursor = nextCursor, epDirectory = directory\<rparr>))))) = Inr page"
    using assms sorting unfolding ListEntries_def active limit bind_result_Inr prod.case Let_def cursor directory sum.case by simp
  obtain anchor where anchor: "(case decodedCursor of
            None \<Rightarrow> Inr None
          | Some decoded \<Rightarrow>
              if \<not> cursorClaimsMatch decoded (?scope ?digest []) then Inl ErrStaleCursor
              else case loadCatalogEntry env db (gnID generation) (cpID p) (caEntryID (csAnchor decoded)) of
                Inl _ \<Rightarrow> Inl ErrStaleCursor
              | Inr loaded \<Rightarrow> if \<not> sameOptionalString (enParentEntryID loaded) (elParentEntryID request) then Inl ErrStaleCursor else Inr (Some loaded)) = Inr anchor"
    using step unfolding guard_eq_Inr bind_result_eq_Inr by blast
  define found where "found = take (nat limit + 1) (applyEntrySort (listing_sort request) anchor
      (directory_rows db (gnID generation) (cpID p) (elParentEntryID request)))"
  have rest: "collect_results catalogEntryDTO (take (nat limit) found) = Inr (epItems page)
    \<and> (if nat limit < length found \<and> take (nat limit) found \<noteq> []
       then Encode (bvCodec env) (?scope ?digest (enEntryID (last (take (nat limit) found)))) = Inr (epNextCursor page)
       else epNextCursor page = [])"
    using step unfolding guard_eq_Inr anchor bind_result_Inr found_def [symmetric] page_rows_def Let_def prod.case bind_result_eq_Inr
    by (auto split: if_splits)
  have "TrimSpace (elCursor request) = [] \<and> anchor = None
     \<or> (\<exists>decoded loaded. TrimSpace (elCursor request) \<noteq> [] \<and> decodeAuthenticated (bvCodec env) (elCursor request) = Inr decoded
          \<and> loadCatalogEntry env db (gnID generation) (cpID p) (caEntryID (csAnchor decoded)) = Inr loaded \<and> anchor = Some loaded)"
    using cursor anchor by (auto simp: bind_result_eq_Inr guard_eq_Inr sum_case_eq_Inr split: if_splits)
  then show thesis using that [OF active limit sorting _ found_def] rest directory by (simp add: listing_cursor_def)
qed

section \<open>Following the cursors\<close>

text \<open>A client asks for the pages of a directory, one call after the other.\<close>

definition fetch_entries :: "catalog_db \<Rightarrow> string \<Rightarrow> AuthorizationScope \<Rightarrow> EntryListRequest \<Rightarrow> catalog_env \<Rightarrow> string \<Rightarrow> (catalog_error, EntryDTO list \<times> string) result" where
  "fetch_entries db pointID scope request env cursor =
     bind_result (ListEntries env db pointID scope (request\<lparr>elCursor := cursor\<rparr>)) (\<lambda>page. Inr (epItems page, epNextCursor page))"

definition entries_keyed :: "catalog_db \<Rightarrow> bool" where
  "entries_keyed db \<longleftrightarrow> distinct (map (\<lambda>e. (enGenerationID e, enEntryID e)) (cdEntries db))"

lemma directory_rows_distinct: "entries_keyed db \<Longrightarrow> distinct (map enEntryID (directory_rows db g p parent))"
  by (auto simp: entries_keyed_def directory_rows_def distinct_map inj_on_def)

lemma loaded_child:
  assumes "entries_keyed db" and "loadCatalogEntry env db g p (enEntryID e) = Inr loaded" and "e \<in> set (directory_rows db g p parent)"
  shows "loaded = e"
proof -
  have "loaded \<in> set (cdEntries db)" "enGenerationID loaded = g" "enEntryID loaded = enEntryID e"
    using assms(2) by (auto simp: loadCatalogEntry_def bind_result_eq_Inr option_case_eq_Inr dest: take_row_Some)
  moreover have "e \<in> set (cdEntries db)" "enGenerationID e = g" using assms(3) by (auto simp: directory_rows_def)
  ultimately show ?thesis using key_unique [OF assms(1) [unfolded entries_keyed_def]] by auto
qed

lemma entries_scope_anchor: "caEntryID (csAnchor (listing_cursor env db scope request p r g e)) = enEntryID e"
  by (simp add: listing_cursor_def entries_scope_def)

lemma TrimSpace_kept:
  assumes "c \<in> set s" and "\<forall>u \<in> set space_seqs. c \<notin> set u"
  shows "TrimSpace s \<noteq> []"
proof
  assume blank: "TrimSpace s = []"
  let ?t = "trim_left space_seqs s"
  obtain us where us: "s = concat us @ ?t" "\<forall>u \<in> set us. u \<in> set space_seqs" using trim_left_parts [of s space_seqs] by blast
  obtain vs where vs: "rev ?t = concat vs @ trim_left (map rev space_seqs) (rev ?t)" "\<forall>v \<in> set vs. v \<in> set (map rev space_seqs)"
    using trim_left_parts [of "rev ?t" "map rev space_seqs"] by blast
  have "rev ?t = concat vs" using vs(1) blank by (simp add: TrimSpace_def)
  then have "set ?t = (\<Union>v \<in> set vs. set v)" by (metis set_concat set_rev)
  then have "c \<notin> set ?t" using vs(2) assms(2) by auto
  moreover have "c \<notin> set (concat us)" using us(2) assms(2) by auto
  ultimately show False using us(1) assms(1) by (metis Un_iff set_append)
qed

lemma token_nonblank:
  assumes "Encode codec scope = Inr token"
  shows "TrimSpace token \<noteq> []"
proof (rule TrimSpace_kept)
  show "CHR ''.'' \<in> set token" by (rule Encode_ok [OF assms]) simp
  show "\<forall>u \<in> set space_seqs. CHR ''.'' \<notin> set u" by (simp add: space_seqs_def)
qed

lemma token_nonempty [simp]: "Encode codec scope \<noteq> Inr []"
proof
  assume "Encode codec scope = Inr []"
  then show False by (rule Encode_ok) simp
qed

text \<open>
  The listing stands before row \<open>k\<close>: at the beginning, or with the cursor that was issued after the row before.
\<close>

definition listing_at where
  "listing_at db scope request p r g rows envs k cursor \<longleftrightarrow>
     k \<le> length rows
     \<and> (if k = 0 then TrimSpace cursor = []
        else \<exists>env \<in> set envs. Encode (bvCodec env) (listing_cursor env db scope request p r g (rows ! (k - 1))) = Inr cursor)"

text \<open>A cursor that is decoded is what was issued.\<close>

definition cursors_return where
  "cursors_return db scope request p r g rows envs \<longleftrightarrow>
     (\<forall>env \<in> set envs. \<forall>env' \<in> set envs. \<forall>e \<in> set rows. \<forall>token decoded.
        Encode (bvCodec env) (listing_cursor env db scope request p r g e) = Inr token
        \<longrightarrow> decodeAuthenticated (bvCodec env') token = Inr decoded \<longrightarrow> decoded = listing_cursor env db scope request p r g e)"

lemma one_page:
  assumes "entries_keyed db" and "rows = entry_order (listing_sort request) (directory_rows db (gnID g) pointID (elParentEntryID request))"
    and "cursors_return db scope request p r g rows envs" and "env \<in> set envs"
    and "listing_at db scope request p r g rows envs k (elCursor request)" and "authorizedActivePoint env db pointID scope = Inr (p, r, g)"
    and "normalizeCatalogPageLimit (elLimit request) = Inr limit" and "ListEntries env db pointID scope request = Inr page"
  shows "collect_results catalogEntryDTO (take (nat limit) (drop k rows)) = Inr (epItems page)
    \<and> (if nat limit < length rows - k
       then TrimSpace (epNextCursor page) \<noteq> [] \<and> k + nat limit \<le> length rows
         \<and> Encode (bvCodec env) (listing_cursor env db scope request p r g (rows ! (k + nat limit - 1))) = Inr (epNextCursor page)
       else epNextCursor page = [])"
proof -
  let ?s = "listing_sort request" and ?dir = "directory_rows db (gnID g) pointID (elParentEntryID request)"
  obtain p' r' g' limit' anchor found where ok: "authorizedActivePoint env db pointID scope = Inr (p', r', g')"
    "normalizeCatalogPageLimit (elLimit request) = Inr limit'" "validEntrySort ?s"
    and anchor: "TrimSpace (elCursor request) = [] \<and> anchor = None
     \<or> (\<exists>decoded loaded. TrimSpace (elCursor request) \<noteq> [] \<and> decodeAuthenticated (bvCodec env) (elCursor request) = Inr decoded
          \<and> loadCatalogEntry env db (gnID g') (cpID p') (caEntryID (csAnchor decoded)) = Inr loaded \<and> anchor = Some loaded)"
    and found: "found = take (nat limit' + 1) (applyEntrySort ?s anchor (directory_rows db (gnID g') (cpID p') (elParentEntryID request)))"
    and items: "collect_results catalogEntryDTO (take (nat limit') found) = Inr (epItems page)"
    and more: "if nat limit' < length found \<and> take (nat limit') found \<noteq> []
     then Encode (bvCodec env) (listing_cursor env db scope request p' r' g' (last (take (nat limit') found))) = Inr (epNextCursor page)
     else epNextCursor page = []"
    by (rule ListEntries_ok [OF assms(8)]) blast
  have same: "p' = p" "r' = r" "g' = g" "limit' = limit" "cpID p = pointID" using ok assms(6,7) active_point [OF assms(6)] by auto
  have pos: "0 < nat limit" using page_limit_pos [OF assms(7)] by simp
  have sorted: "sorted_wrt (\<lambda>a e. validEntrySort ?s \<and> entry_after ?s a e) rows"
    using entry_order_sorted [OF ok(3) directory_rows_distinct [OF assms(1)]] ok(3) by (simp add: assms(2))
  have "found = take (nat limit + 1) (drop k rows)"
  proof (cases "k = 0")
    case True
    then have "anchor = None" using assms(5) anchor by (auto simp: listing_at_def)
    then show ?thesis using True same by (simp add: found applyEntrySort_def assms(2))
  next
    case False
    then obtain env0 where issued: "env0 \<in> set envs" "Encode (bvCodec env0) (listing_cursor env0 db scope request p r g (rows ! (k - 1))) = Inr (elCursor request)"
      and k: "k - 1 < length rows" using assms(5) by (auto simp: listing_at_def)
    have row: "rows ! (k - 1) \<in> set rows" using k by simp
    obtain loaded where "loadCatalogEntry env db (gnID g) pointID (enEntryID (rows ! (k - 1))) = Inr loaded" "anchor = Some loaded"
      using anchor token_nonblank [OF issued(2)] assms(3,4) issued row same unfolding cursors_return_def by (metis entries_scope_anchor)
    moreover have "rows ! (k - 1) \<in> set ?dir" using row by (simp add: assms(2))
    ultimately have "anchor = Some (rows ! (k - 1))" using loaded_child [OF assms(1)] by blast
    then have "found = take (nat limit + 1) (filter (entry_after ?s (rows ! (k - 1))) rows)"
      using same by (simp add: found applyEntrySort_def assms(2) entry_order_filter)
    also have "\<dots> = take (nat limit + 1) (drop k rows)"
      using entry_pages.page_after [OF sorted k, of "nat limit"] ok(3) False by simp
    finally show ?thesis .
  qed
  note step = page_step [where issued = "\<lambda>e token. Encode (bvCodec env) (listing_cursor env db scope request p r g e) = Inr token",
      OF pos this items [unfolded same] more [unfolded same]]
  show ?thesis
  proof (cases "nat limit < length rows - k")
    case True
    then show ?thesis using step by (auto dest: token_nonblank)
  qed (use step in simp)
qed

lemma active_unique:
  assumes "authorizedActivePoint env db pointID scope = Inr x" and "authorizedActivePoint env' db pointID scope = Inr y"
  shows "x = y"
  using active_point [of env db pointID scope "fst x" "fst (snd x)" "snd (snd x)"]
    active_point [of env' db pointID scope "fst y" "fst (snd y)" "snd (snd y)"] assms
  by (auto simp: prod_eq_iff)

text \<open>What the listing of one directory rests on.\<close>

definition directory_ready where
  "directory_ready db pointID scope request p r g rows envs \<longleftrightarrow>
     entries_keyed db \<and> entry_order (listing_sort request) (directory_rows db (gnID g) pointID (elParentEntryID request)) = rows
     \<and> cursors_return db scope request p r g rows envs
     \<and> (\<exists>env. authorizedActivePoint env db pointID scope = Inr (p, r, g))"

lemma listing_sort_cursor [simp]: "listing_sort (request\<lparr>elCursor := c\<rparr>) = listing_sort request"
  by (simp add: listing_sort_def)

lemma listing_cursor_cursor [simp]: "listing_cursor env db scope (request\<lparr>elCursor := c\<rparr>) p r g e = listing_cursor env db scope request p r g e"
  by (simp add: listing_cursor_def)

lemma listing_request_cursor [simp]:
  "cursors_return db scope (request\<lparr>elCursor := c\<rparr>) p r g rows envs = cursors_return db scope request p r g rows envs"
  "listing_at db scope (request\<lparr>elCursor := c\<rparr>) p r g rows envs k t = listing_at db scope request p r g rows envs k t"
  by (simp_all add: cursors_return_def listing_at_def)

interpretation directory: paged_listing "fetch_entries db pointID scope request" catalogEntryDTO rows
    "nat (projr (normalizeCatalogPageLimit (elLimit request)))" "set envs"
    "\<lambda>k cursor. directory_ready db pointID scope request p r g rows envs \<and> listing_at db scope request p r g rows envs k cursor"
  for db pointID scope request p r g rows envs
proof (unfold_locales, elim conjE)
  fix env k cursor items following
  assume env: "env \<in> set envs" and ready: "directory_ready db pointID scope request p r g rows envs"
    and k: "listing_at db scope request p r g rows envs k cursor"
    and fetched: "fetch_entries db pointID scope request env cursor = Inr (items, following)"
  let ?request = "request\<lparr>elCursor := cursor\<rparr>"
  obtain page where page: "ListEntries env db pointID scope ?request = Inr page" "items = epItems page" "following = epNextCursor page"
    using fetched by (auto simp: fetch_entries_def bind_result_eq_Inr)
  obtain x limit where x: "authorizedActivePoint env db pointID scope = Inr x"
    and limit: "normalizeCatalogPageLimit (elLimit request) = Inr limit"
    by (rule ListEntries_ok [OF page(1)]) auto
  have active: "authorizedActivePoint env db pointID scope = Inr (p, r, g)"
    using ready active_unique [OF x] x unfolding directory_ready_def by blast
  have R: "entries_keyed db" "rows = entry_order (listing_sort ?request) (directory_rows db (gnID g) pointID (elParentEntryID ?request))"
    "cursors_return db scope ?request p r g rows envs" "listing_at db scope ?request p r g rows envs k (elCursor ?request)"
    "normalizeCatalogPageLimit (elLimit ?request) = Inr limit"
    using ready k limit unfolding directory_ready_def by simp_all
  have pos: "0 < nat limit" using page_limit_pos [OF limit] by simp
  note P = one_page [OF R(1-3) env R(4) active R(5) page(1)]
  show "collect_results catalogEntryDTO (take (nat (projr (normalizeCatalogPageLimit (elLimit request)))) (drop k rows)) = Inr items
      \<and> (if nat (projr (normalizeCatalogPageLimit (elLimit request))) < length rows - k
         then following \<noteq> [] \<and> directory_ready db pointID scope request p r g rows envs
           \<and> listing_at db scope request p r g rows envs (k + nat (projr (normalizeCatalogPageLimit (elLimit request)))) following
         else following = [])"
    unfolding limit sum.sel using P env ready pos page(2,3) by (auto simp: listing_at_def)
qed

text \<open>A cursor that codecs over one keyring issue and decode.\<close>

lemma keyring_returns:
  assumes "cursor_laws lib" and "keys_ok keys"
    and "\<forall>env \<in> set envs. \<exists>kenv. bvCodec env = keyring_codec lib ttl kenv keys \<and> kvCrypto kenv = crypto \<and> kvFault kenv KeyLoadVersion = None"
    and "env \<in> set envs" and "env' \<in> set envs"
    and "\<forall>m. ccActive (bvCodec env) = Inr m \<longrightarrow>
      cuParse lib (json_cursor (cursor_envelope (bvCodec env) m scope)) = Some (cursor_envelope (bvCodec env) m scope, True)"
    and enc: "Encode (bvCodec env) scope = Inr token" and dec: "decodeAuthenticated (bvCodec env') token = Inr decoded"
  shows "decoded = scope"
proof -
  obtain kenv kenv' where k: "bvCodec env = keyring_codec lib ttl kenv keys" "bvCodec env' = keyring_codec lib ttl kenv' keys"
    "kvCrypto kenv = crypto" "kvCrypto kenv' = crypto" "kvFault kenv' KeyLoadVersion = None" using assms(3-5) by metis
  have "keyring_serves (kenv, keys) (kenv', keys)"
    unfolding keyring_serves_def using assms(2) k by (auto intro!: exI [of _ "[]"] exI [of _ "kvNow kenv' + 1"])
  moreover have "ccActive (bvCodec env) = Active kenv KeyDomainCursorSigning keys"
    "ccByVersion (bvCodec env') = (\<lambda>version. ByVersion kenv' KeyDomainCursorSigning version keys)" "ccNow (bvCodec env') = kvNow kenv'"
    "ccLib (bvCodec env) = lib" "ccLib (bvCodec env') = lib"
    using k by (simp_all add: keyring_codec_def)
  ultimately have "decodeAuthenticated (bvCodec env') token
      = (if cursor_window (bvCodec env) (kvNow kenv') then Inr scope else Inl ErrStaleCursor)"
    using keyring_cursors.issued_decode [OF assms(1), of "(kenv, keys)" "(kenv', keys)" "bvCodec env" "bvCodec env'" scope token] enc assms(6) by simp
  then show ?thesis using dec by (simp split: if_splits)
qed

text \<open>
  C14. Following the cursors lists the directory. A client asks for the first page of a directory and then for
  the page of each cursor it gets, over a keyring that may answer from other processes at other times. If
  the calls succeed, what it has received after \<open>n\<close> calls is exactly the first \<open>n\<close> pages of the children of
  the directory in the order asked for, none twice and none left out, and the cursor is empty exactly when
  all of them were delivered.
\<close>

theorem directory_listing_exact:
  assumes "entries_keyed db" and "cursor_laws lib" and "keys_ok keys" and "envs \<noteq> []"
    and "\<forall>env \<in> set envs. \<exists>kenv. bvCodec env = keyring_codec lib ttl kenv keys \<and> kvCrypto kenv = crypto \<and> kvFault kenv KeyLoadVersion = None"
    and "authorizedActivePoint (hd envs) db pointID scope = Inr (p, r, g)"
    and "rows = entry_order (listing_sort request) (directory_rows db (gnID g) pointID (elParentEntryID request))"
    and "\<forall>env \<in> set envs. \<forall>e \<in> set rows. \<forall>m. ccActive (bvCodec env) = Inr m \<longrightarrow>
      cuParse lib (json_cursor (cursor_envelope (bvCodec env) m (listing_cursor env db scope request p r g e)))
        = Some (cursor_envelope (bvCodec env) m (listing_cursor env db scope request p r g e), True)"
    and "follow_pages (fetch_entries db pointID scope request) envs [] = Inr (items, finished)"
  shows "set rows = {e \<in> set (cdEntries db). enGenerationID e = gnID g \<and> enRecoveryPointID e = pointID
        \<and> sameOptionalString (enParentEntryID e) (elParentEntryID request)}
    \<and> sorted_wrt (entry_after (listing_sort request)) rows
    \<and> (\<exists>limit. normalizeCatalogPageLimit (elLimit request) = Inr limit
        \<and> collect_results catalogEntryDTO (take (nat limit * length envs) rows) = Inr items
        \<and> (finished \<longleftrightarrow> length rows \<le> nat limit * length envs))"
proof -
  have "\<exists>first following. fetch_entries db pointID scope request (hd envs) [] = Inr (first, following)"
    using assms(4,9) by (cases envs) (auto simp: bind_result_eq_Inr)
  then obtain page where page: "ListEntries (hd envs) db pointID scope (request\<lparr>elCursor := []\<rparr>) = Inr page"
    by (auto simp: fetch_entries_def bind_result_eq_Inr)
  obtain limit where limit: "normalizeCatalogPageLimit (elLimit request) = Inr limit" and sorting: "validEntrySort (listing_sort request)"
    by (rule ListEntries_ok [OF page]) auto
  have "cursors_return db scope request p r g rows envs"
    unfolding cursors_return_def using keyring_returns [OF assms(2,3,5)] assms(8) by blast
  then have "directory_ready db pointID scope request p r g rows envs"
    using assms(1,6,7) by (auto simp: directory_ready_def)
  moreover have "listing_at db scope request p r g rows envs 0 []" by (simp add: listing_at_def)
  ultimately have "collect_results catalogEntryDTO (take (nat limit * length envs) rows) = Inr items
    \<and> (finished \<longleftrightarrow> length rows \<le> nat limit * length envs)"
    using directory.follow_exact [OF order_refl assms(4), of db pointID scope request p r g rows 0 "[]" items finished] limit assms(9) by simp
  moreover have "sorted_wrt (entry_after (listing_sort request)) rows"
    using entry_order_sorted [OF sorting directory_rows_distinct [OF assms(1)]] by (simp add: assms(7))
  moreover have "set rows = {e \<in> set (cdEntries db). enGenerationID e = gnID g \<and> enRecoveryPointID e = pointID
        \<and> sameOptionalString (enParentEntryID e) (elParentEntryID request)}"
    by (simp add: assms(7) directory_rows_def)
  ultimately show ?thesis using limit by blast
qed

section \<open>Breadcrumbs\<close>

text \<open>The directories from an entry up to the root, nearest first.\<close>

fun path_up :: "catalog_db \<Rightarrow> string \<Rightarrow> string \<Rightarrow> string option \<Rightarrow> BreadcrumbDTO list \<Rightarrow> bool" where
  "path_up db g p None [] = True"
| "path_up db g p None (c # cs) = False"
| "path_up db g p (Some i) [] = False"
| "path_up db g p (Some i) (c # cs) =
     (case take_row (\<lambda>e. enGenerationID e = g \<and> enRecoveryPointID e = p \<and> enEntryID e = i) (cdEntries db) of
        None \<Rightarrow> False
      | Some e \<Rightarrow> enEntryType e = CatalogEntryDirectory \<and> c = \<lparr>bcRecoveryPointID = p, bcEntryID = i, bcName = enName e\<rparr>
          \<and> path_up db g p (enParentEntryID e) cs)"

lemma path_up_unique: "path_up db g p parent cs \<Longrightarrow> path_up db g p parent ds \<Longrightarrow> cs = ds"
proof (induction db g p parent cs arbitrary: ds rule: path_up.induct)
  case (1 db g p)
  then show ?case by (cases ds) auto
next
  case (4 db g p i c cs)
  then show ?case by (cases ds) (auto split: option.splits)
qed auto

lemma path_up_suffix:
  assumes "path_up db g p parent (cs @ c # ds)"
  shows "path_up db g p (Some (bcEntryID c)) (c # ds)"
  using assms
proof (induction cs arbitrary: parent)
  case Nil
  then show ?case by (cases parent) (auto split: option.splits)
next
  case (Cons b cs)
  then have "\<exists>above. path_up db g p above (cs @ c # ds)" by (cases parent) (auto split: option.splits)
  then show ?case using Cons.IH by blast
qed

lemma path_up_distinct: "path_up db g p parent cs \<Longrightarrow> distinct (map bcEntryID cs)"
proof (induction cs arbitrary: parent)
  case (Cons c cs)
  have "bcEntryID c \<noteq> bcEntryID d" if d: "d \<in> set cs" for d
  proof
    assume same: "bcEntryID c = bcEntryID d"
    obtain xs ys where cs: "cs = xs @ d # ys" using d by (meson split_list)
    have "path_up db g p (Some (bcEntryID c)) (c # cs)" using path_up_suffix [of db g p parent "[]" c cs] Cons.prems by simp
    moreover have "path_up db g p (Some (bcEntryID d)) (d # ys)"
      using path_up_suffix [of db g p parent "c # xs" d ys] Cons.prems cs by simp
    ultimately have "c # cs = d # ys" using same path_up_unique by metis
    then show False using cs by (metis append_Cons length_append less_add_Suc2 length_Cons list.inject less_irrefl add.commute add_Suc)
  qed
  moreover have "distinct (map bcEntryID cs)"
  proof (cases parent)
    case (Some i)
    then show ?thesis using Cons by (auto split: option.splits)
  qed (use Cons.prems in simp)
  ultimately show ?case by auto
qed simp

lemma breadcrumb_loop_path:
  assumes "\<forall>i. bvFault env (StmtLoadEntry i) = None" and "length reversed + length cs \<le> maxBreadcrumbDepth"
    and "path_up db g p parent cs" and "distinct (map bcEntryID cs)" and "set seen \<inter> bcEntryID ` set cs = {}"
  shows "breadcrumb_loop env db g p reversed seen parent = Inr (rev (reversed @ cs))"
  using assms(2-)
proof (induction cs arbitrary: reversed seen parent)
  case Nil
  then have "parent = None" by (cases parent) auto
  then show ?case by (subst breadcrumb_loop.simps) simp
next
  case (Cons c cs)
  then obtain i e where i: "parent = Some i" and e: "take_row (\<lambda>e. enGenerationID e = g \<and> enRecoveryPointID e = p \<and> enEntryID e = i) (cdEntries db) = Some e"
    and c: "enEntryType e = CatalogEntryDirectory" "c = \<lparr>bcRecoveryPointID = p, bcEntryID = i, bcName = enName e\<rparr>" "path_up db g p (enParentEntryID e) cs"
    by (cases parent) (auto split: option.splits)
  have "loadCatalogEntry env db g p i = Inr e" using e assms(1) by (simp add: loadCatalogEntry_def catalog_stmt_ok_def)
  moreover have "enEntryID e = i" using take_row_Some [OF e] by simp
  moreover have "breadcrumb_loop env db g p (reversed @ [c]) (i # seen) (enParentEntryID e) = Inr (rev ((reversed @ [c]) @ cs))"
    using Cons.prems c by (intro Cons.IH) auto
  ultimately show ?case using Cons.prems(1,4) i c by (subst breadcrumb_loop.simps) simp
qed

lemma breadcrumb_loop_sound:
  assumes "breadcrumb_loop env db g p reversed seen parent = Inr crumbs"
  shows "\<exists>cs. crumbs = rev (reversed @ cs) \<and> path_up db g p parent cs \<and> (cs \<noteq> [] \<longrightarrow> length reversed + length cs \<le> maxBreadcrumbDepth)"
  using assms
proof (induction env db g p reversed seen parent arbitrary: crumbs rule: breadcrumb_loop.induct)
  case (1 env db g p reversed seen parent)
  show ?case
  proof (cases parent)
    case None
    then show ?thesis using "1.prems" by (intro exI [of _ "[]"]) (simp add: breadcrumb_loop.simps)
  next
    case (Some i)
    let ?c = "\<lambda>e. \<lparr>bcRecoveryPointID = p, bcEntryID = enEntryID e, bcName = enName e\<rparr>"
    have "\<exists>e. \<not> length reversed \<ge> maxBreadcrumbDepth \<and> i \<notin> set seen \<and> loadCatalogEntry env db g p i = Inr e \<and> enEntryType e = CatalogEntryDirectory
      \<and> breadcrumb_loop env db g p (reversed @ [?c e]) (i # seen) (enParentEntryID e) = Inr crumbs"
    proof -
      have "(if length reversed \<ge> maxBreadcrumbDepth then Inl ErrInvalidCatalogContract
          else if i \<in> set seen then Inl ErrInvalidCatalogContract
          else case loadCatalogEntry env db g p i of
            Inl _ \<Rightarrow> Inl ErrInvalidCatalogContract
          | Inr entry \<Rightarrow>
              if enEntryType entry \<noteq> CatalogEntryDirectory then Inl ErrInvalidCatalogContract
              else breadcrumb_loop env db g p (reversed @ [?c entry]) (i # seen) (enParentEntryID entry)) = Inr crumbs"
        using "1.prems" unfolding Some breadcrumb_loop.simps [of env db g p reversed seen "Some i"] option.case .
      then show ?thesis unfolding guard_eq_Inr sum_case_eq_Inr by blast
    qed
    then obtain e where e: "\<not> length reversed \<ge> maxBreadcrumbDepth" "i \<notin> set seen" "loadCatalogEntry env db g p i = Inr e"
      "enEntryType e = CatalogEntryDirectory" "breadcrumb_loop env db g p (reversed @ [?c e]) (i # seen) (enParentEntryID e) = Inr crumbs" by blast
    have row: "take_row (\<lambda>e. enGenerationID e = g \<and> enRecoveryPointID e = p \<and> enEntryID e = i) (cdEntries db) = Some e"
      using e(3) by (auto simp: loadCatalogEntry_def bind_result_eq_Inr option_case_eq_Inr)
    then have "enEntryID e = i" using take_row_Some [OF row] by simp
    obtain cs where cs: "crumbs = rev ((reversed @ [?c e]) @ cs)" "path_up db g p (enParentEntryID e) cs"
      "cs \<noteq> [] \<longrightarrow> length (reversed @ [?c e]) + length cs \<le> maxBreadcrumbDepth"
      using "1.IH" [OF Some e(1,2,3) _ e(5)] e(4) by auto
    then show ?thesis using row e(1,4) Some \<open>enEntryID e = i\<close>
      by (intro exI [of _ "?c e # cs"]) (cases cs; auto)
  qed
qed

text \<open>
  C29. The breadcrumb is the path from the root. \<open>loadBreadcrumb\<close> always ends; it returns a list exactly when
  the parents of the entry are directories up to one without a parent, at most \<open>maxBreadcrumbDepth\<close> of them,
  and the list is then these directories from the root down. A cycle of parents, a parent that is missing
  or no directory, and a deeper path are errors.
\<close>

theorem breadcrumb_exact:
  assumes "\<forall>i. bvFault env (StmtLoadEntry i) = None"
  shows "loadBreadcrumb env db g p parent = Inr crumbs \<longleftrightarrow> path_up db g p parent (rev crumbs) \<and> length crumbs \<le> maxBreadcrumbDepth"
proof
  assume "loadBreadcrumb env db g p parent = Inr crumbs"
  then show "path_up db g p parent (rev crumbs) \<and> length crumbs \<le> maxBreadcrumbDepth"
    unfolding loadBreadcrumb_def using breadcrumb_loop_sound [of env db g p "[]" "[]" parent crumbs] by auto
next
  assume path: "path_up db g p parent (rev crumbs) \<and> length crumbs \<le> maxBreadcrumbDepth"
  then show "loadBreadcrumb env db g p parent = Inr crumbs"
    unfolding loadBreadcrumb_def using breadcrumb_loop_path [OF assms, of "[]" "rev crumbs" db g p parent "[]"] path_up_distinct by auto
qed

section \<open>An example\<close>

text \<open>A service over the codec that knows the cursors of a list of scopes.\<close>

definition no_fault :: "catalog_stmt \<Rightarrow> string option" where
  "no_fault stmt = None"

definition table_sum :: "string \<Rightarrow> nat list" where
  "table_sum s = replicate 32 0"

definition sample_service :: "bool \<Rightarrow> CursorScope list \<Rightarrow> catalog_env" where
  "sample_service ignoresCase scopes =
     \<lparr>bvFault = no_fault, bvFeature = Some (Inr True),
      bvCodec = table_codec scopes,
      bvLineage = sample_lineage, bvSum256 = table_sum, bvUnicodeJSON = id, bvLikeIgnoresCase = ignoresCase\<rparr>"

lemma sample_service_codec:
  "\<exists>kenv. bvCodec (sample_service ic scopes) = keyring_codec (table_lib scopes) (10 * Minute) kenv sample_keys
     \<and> kvCrypto kenv = sample_crypto ''first'' [] \<and> kvFault kenv KeyLoadVersion = None"
  by (intro exI [of _ "sample_cursor_env 1000 (CHR ''3'')"]) (simp add: sample_service_def table_codec_keyring)

lemma sample_decodes:
  assumes "table_parse scopes (json_cursor (sample_envelope s)) = Some (sample_envelope s, True)" and "Encode (table_codec scopes) s = Inr token"
  shows "decodeAuthenticated (table_codec scopes) token = Inr s"
proof -
  let ?kenv = "sample_cursor_env 1000 (CHR ''3'')"
  have "keyring_serves (?kenv, sample_keys) (?kenv, sample_keys)"
    unfolding keyring_serves_def using sample_keys_ok by (auto intro!: exI [of _ "[]"] exI [of _ "kvNow ?kenv + 1"])
  moreover have "cuParse (table_lib scopes) (json_cursor (cursor_envelope (table_codec scopes) m s)) = Some (cursor_envelope (table_codec scopes) m s, True)"
    if "Active ?kenv KeyDomainCursorSigning sample_keys = Inr m" for m
  proof -
    have "m = sample_material" using that sample_keyring_answers by simp
    then have "cursor_envelope (table_codec scopes) m s = sample_envelope s"
      by (simp add: cursor_envelope_def table_codec_def sample_material_def sample_envelope_def Unix_unix_time Unix_sample)
    then show ?thesis using assms(1) by (simp add: table_lib_def)
  qed
  ultimately have "decodeAuthenticated (table_codec scopes) token
      = (if cursor_window (table_codec scopes) (kvNow ?kenv) then Inr s else Inl ErrStaleCursor)"
    using keyring_cursors.issued_decode [OF table_lib_laws, of "(?kenv, sample_keys)" "(?kenv, sample_keys)" "table_codec scopes" scopes "table_codec scopes" s token] assms(2)
    by (simp add: table_codec_keyring keyring_codec_def)
  moreover have "cursor_window (table_codec scopes) (kvNow ?kenv)"
    by (simp add: cursor_window_def table_codec_def Unix_unix_time Unix_sample unix_time_mono)
  ultimately show ?thesis by simp
qed

lemma sample_service_simps [simp]:
  "bvCodec (sample_service ic scopes) = table_codec scopes" "bvFault (sample_service ic scopes) = no_fault"
  "bvLikeIgnoresCase (sample_service ic scopes) = ic" "bvLineage (sample_service ic scopes) = sample_lineage"
  by (simp_all add: sample_service_def)

text \<open>Cursors of one listing differ in their anchors, and the decoder tells them apart.\<close>

lemma json_join_snoc: "json_join (xs @ [y]) = (if xs = [] then y else json_join xs @ '','' @ y)"
proof (induction xs)
  case (Cons x xs)
  then show ?case by (cases xs) simp_all
qed simp

lemma json_cursor_anchor:
  "json_cursor (sample_envelope (c\<lparr>csAnchor := a\<rparr>)) = json_cursor (sample_envelope (c\<lparr>csAnchor := b\<rparr>)) \<longleftrightarrow> json_anchor a = json_anchor b"
proof -
  define xs where "xs =
      [json_text ''endpoint'' (endpoint_name (csEndpoint c)), json_text ''direction'' (csDirection c),
       json_int ''user_id'' (int (csUserID c)), json_text ''role'' (csRole c), json_text ''sort'' (csSort c)]
      @ json_uint ''node_id'' (csNodeID c) @ json_some ''backup_set_id'' (csBackupSetID c)
      @ json_some ''projection_digest'' (csProjectionDigest c) @ json_some ''repository_id'' (csRepositoryID c)
      @ json_some ''recovery_point_id'' (csRecoveryPointID c) @ json_some ''generation_id'' (csGenerationID c)
      @ json_some ''parent_entry_id'' (csParentEntryID c) @ json_some ''base_recovery_point_id'' (csBaseRecoveryPointID c)
      @ json_some ''compare_recovery_point_id'' (csCompareRecoveryPointID c) @ json_some ''base_generation_id'' (csBaseGenerationID c)
      @ json_some ''compare_generation_id'' (csCompareGenerationID c) @ json_some ''base_parent_entry_id'' (csBaseParentEntryID c)
      @ json_some ''compare_parent_entry_id'' (csCompareParentEntryID c)"
  have "json_scope (c\<lparr>csAnchor := x\<rparr>) = json_object (xs @ [json_member ''anchor'' (json_anchor x)])" for x
    by (simp add: json_scope_def xs_def)
  moreover have "xs \<noteq> []" by (simp add: xs_def)
  ultimately have scope: "json_scope (c\<lparr>csAnchor := x\<rparr>) = ''{'' @ json_join xs @ '','' @ json_member ''anchor'' (json_anchor x) @ ''}''" for x
    by (simp add: json_object_def json_join_snoc)
  show ?thesis by (simp add: json_cursor_def json_object_def sample_envelope_def scope json_member_def)
qed

lemma table_parses:
  assumes "distinct (map json_anchor anchors)" and "a \<in> set anchors"
  shows "table_parse (map (\<lambda>a. c\<lparr>csAnchor := a\<rparr>) anchors) (json_cursor (sample_envelope (c\<lparr>csAnchor := a\<rparr>))) = Some (sample_envelope (c\<lparr>csAnchor := a\<rparr>), True)"
  using assms
proof (induction anchors)
  case (Cons b anchors)
  then have "json_anchor b = json_anchor a \<longleftrightarrow> b = a" by (metis image_eqI list.simps(9) distinct.simps(2) set_ConsD set_map)
  then show ?case using Cons by (auto simp: table_parse_def json_cursor_anchor)
qed simp

lemma sample_service_parses:
  assumes "distinct (map json_anchor anchors)" and "a \<in> set anchors"
    and "ccActive (bvCodec (sample_service ic (map (\<lambda>a. c\<lparr>csAnchor := a\<rparr>) anchors))) = Inr m"
  shows "cuParse (table_lib (map (\<lambda>a. c\<lparr>csAnchor := a\<rparr>) anchors))
      (json_cursor (cursor_envelope (bvCodec (sample_service ic (map (\<lambda>a. c\<lparr>csAnchor := a\<rparr>) anchors))) m (c\<lparr>csAnchor := a\<rparr>)))
    = Some (cursor_envelope (bvCodec (sample_service ic (map (\<lambda>a. c\<lparr>csAnchor := a\<rparr>) anchors))) m (c\<lparr>csAnchor := a\<rparr>), True)"
proof -
  have "cursor_envelope (bvCodec (sample_service ic scopes)) m s = sample_envelope s" for scopes s
    using assms(3) by (auto simp: cursor_envelope_def sample_service_def table_codec_def sample_material_def sample_envelope_def Unix_unix_time Unix_sample)
  then show ?thesis using table_parses [OF assms(1,2)] by (simp add: table_lib_def)
qed

text \<open>The listing of the root of the snapshot, one entry a page.\<close>

definition sample_admin :: AuthorizationScope where
  "sample_admin = \<lparr>asRole = ''admin'', asUserID = 7\<rparr>"

definition sample_listing :: EntryListRequest where
  "sample_listing = \<lparr>elParentEntryID = [], elLimit = 1, elCursor = [], elSort = ''name_desc''\<rparr>"

definition sample_directory :: "CatalogEntry list" where
  "sample_directory = entry_order ''name_desc'' (directory_rows sample_catalog (sample_id (CHR ''a'')) (sample_id (CHR ''a'')) [])"

definition sample_root_scope :: CursorScope where
  "sample_root_scope = entries_scope sample_admin ''name_desc'' (sample_id (CHR ''e'')) (sample_id (CHR ''a'')) (sample_id (CHR ''a'')) []
     (concat (replicate 32 ''00'')) []"

definition sample_anchors :: "CursorAnchor list" where
  "sample_anchors = map (\<lambda>e. empty_anchor\<lparr>caEntryID := enEntryID e\<rparr>) sample_directory"

definition listing_service :: catalog_env where
  "listing_service = sample_service True (map (\<lambda>a. sample_root_scope\<lparr>csAnchor := a\<rparr>) sample_anchors)"

lemma sample_active:
  "authorizedActivePoint (sample_service ic scopes) sample_catalog (sample_id (CHR ''a'')) sample_admin
     = Inr (cdPoints sample_catalog ! 0, cdRepositories sample_catalog ! 0, cdGenerations sample_catalog ! 0)
   \<and> authorizedActivePoint (sample_service ic scopes) sample_catalog (sample_id (CHR ''b'')) sample_admin
     = Inr (cdPoints sample_catalog ! 1, cdRepositories sample_catalog ! 0, cdGenerations sample_catalog ! 1)"
  by code_simp

lemma sample_directory_runs:
  "(case collect_results catalogEntryDTO sample_directory of Inl _ \<Rightarrow> False | Inr dtos \<Rightarrow> map etName dtos = [''docs'', ''Docs''])
   \<and> length sample_directory = 2 \<and> entry_after ''name_desc'' (sample_directory ! 0) (sample_directory ! 1)
   \<and> \<not> entry_after ''name_desc'' (sample_directory ! 0) (sample_directory ! 0)
   \<and> entries_keyed sample_catalog \<and> distinct (map json_anchor sample_anchors) \<and> validEntrySort ''name_desc''
   \<and> take_row (\<lambda>e. enGenerationID e = sample_id (CHR ''a'') \<and> enRecoveryPointID e = sample_id (CHR ''a'') \<and> enEntryID e = enEntryID (sample_directory ! 0))
        (cdEntries sample_catalog) = Some (sample_directory ! 0)
   \<and> cpID (cdPoints sample_catalog ! 0) = sample_id (CHR ''a'') \<and> rrID (cdRepositories sample_catalog ! 0) = sample_id (CHR ''e'')
   \<and> gnID (cdGenerations sample_catalog ! 0) = sample_id (CHR ''a'')
   \<and> EncodeToString (replicate 32 0) = concat (replicate 32 ''00'')"
  by code_simp

lemma sample_directory_cursor: "is_ok (Encode (table_codec scopes) (sample_root_scope\<lparr>csAnchor := sample_anchors ! 0\<rparr>))"
  by code_simp

lemma sample_listing_cursor:
  "listing_cursor (sample_service ic scopes) sample_catalog sample_admin sample_listing (cdPoints sample_catalog ! 0) (cdRepositories sample_catalog ! 0)
     (cdGenerations sample_catalog ! 0) e = sample_root_scope\<lparr>csAnchor := empty_anchor\<lparr>caEntryID := enEntryID e\<rparr>\<rparr>"
  using sample_directory_runs
  by (simp add: listing_cursor_def entries_scope_def sample_root_scope_def listing_sort_def sample_listing_def catalogDirectoryDigest_def
      sample_service_def table_sum_def)

lemma sample_directory_pair: "sample_directory = [cdEntries sample_catalog ! 0, cdEntries sample_catalog ! 1]"
  by code_simp

lemma sample_entries_scope:
  "entries_scope sample_admin ''name_desc'' (sample_id (CHR ''e'')) (sample_id (CHR ''a'')) (sample_id (CHR ''a'')) []
     (catalogDirectoryDigest (sample_service ic scopes) d) i = sample_root_scope\<lparr>csAnchor := empty_anchor\<lparr>caEntryID := i\<rparr>\<rparr>"
  using sample_directory_runs by (simp add: sample_root_scope_def entries_scope_def catalogDirectoryDigest_def sample_service_def table_sum_def)

lemma sample_pages:
  "\<exists>items. follow_pages (fetch_entries sample_catalog (sample_id (CHR ''a'')) sample_admin sample_listing) [listing_service, listing_service] [] = Inr (items, True)
     \<and> map etName items = [''docs'', ''Docs'']"
proof -
  let ?s = "sample_root_scope\<lparr>csAnchor := sample_anchors ! 0\<rparr>" and ?scopes = "map (\<lambda>a. sample_root_scope\<lparr>csAnchor := a\<rparr>) sample_anchors"
  let ?e = "cdEntries sample_catalog ! 0" and ?e' = "cdEntries sample_catalog ! 1"
  note runs = sample_directory_runs
  obtain token where token: "Encode (table_codec ?scopes) ?s = Inr token" using sample_directory_cursor by (auto simp: is_ok_iff)
  have anchor: "sample_anchors ! 0 = empty_anchor\<lparr>caEntryID := enEntryID ?e\<rparr>" "sample_anchors ! 0 \<in> set sample_anchors"
    by (simp_all add: sample_anchors_def sample_directory_pair)
  have decoded: "decodeAuthenticated (table_codec ?scopes) token = Inr ?s"
    using table_parses [of sample_anchors "sample_anchors ! 0" sample_root_scope] runs anchor(2) token by (intro sample_decodes) simp_all
  obtain dto dto' where dtos: "catalogEntryDTO ?e = Inr dto" "catalogEntryDTO ?e' = Inr dto'"
    using runs unfolding sample_directory_pair by (auto simp: bind_result_eq_Inr split: sum.splits)
  have dir: "entry_order ''name_desc'' (directory_rows sample_catalog (sample_id (CHR ''a'')) (sample_id (CHR ''a'')) []) = [?e, ?e']"
    using sample_directory_pair by (simp add: sample_directory_def)
  have stmt: "catalog_stmt_ok no_fault stmt = Inr ()" for stmt by (simp add: catalog_stmt_ok_def no_fault_def)
  let ?root = "\<lparr>dcCurrent = None, dcParent = None, dcBreadcrumb = []\<rparr>"
  note eval = sample_active normalizeCatalogPageLimit_def maxCatalogPageLimit_def listing_sort_def sample_listing_def loadDirectoryContext_def
    applyEntrySort_def dir page_rows_def stmt Let_def sample_entries_scope
  have first: "ListEntries listing_service sample_catalog (sample_id (CHR ''a'')) sample_admin sample_listing
      = Inr \<lparr>epItems = [dto], epNextCursor = token, epDirectory = ?root\<rparr>"
    unfolding ListEntries_def listing_service_def using runs token dtos anchor by (simp add: eval)
  have blank: "TrimSpace token \<noteq> []" using token_nonblank [OF token] .
  have scope0: "entries_scope sample_admin ''name_desc'' (sample_id (CHR ''e'')) (sample_id (CHR ''a'')) (sample_id (CHR ''a'')) [] (csProjectionDigest ?s) []
      = sample_root_scope"
    by (simp add: sample_root_scope_def entries_scope_def)
  have claims: "cursorClaimsMatch ?s sample_root_scope"
    by (simp add: cursorClaimsMatch_def sample_root_scope_def entries_scope_def empty_anchor_def)
  have loaded: "loadCatalogEntry (sample_service True ?scopes) sample_catalog (sample_id (CHR ''a'')) (sample_id (CHR ''a'')) (caEntryID (csAnchor ?s)) = Inr ?e"
    using runs anchor(1) by (simp add: loadCatalogEntry_def stmt sample_directory_pair)
  have after: "applyEntrySort ''name_desc'' (Some ?e) (directory_rows sample_catalog (sample_id (CHR ''a'')) (sample_id (CHR ''a'')) []) = [?e']"
    using runs by (simp add: applyEntrySort_def entry_order_filter dir sample_directory_pair)
  have root: "sample_root_scope\<lparr>csAnchor := empty_anchor\<lparr>caEntryID := []\<rparr>\<rparr> = sample_root_scope"
    by (simp add: sample_root_scope_def entries_scope_def)
  have parent: "enParentEntryID ?e = None" by (simp add: sample_catalog_def sample_entry_def Let_def)
  have second: "ListEntries listing_service sample_catalog (sample_id (CHR ''a'')) sample_admin (sample_listing\<lparr>elCursor := token\<rparr>)
      = Inr \<lparr>epItems = [dto'], epNextCursor = [], epDirectory = ?root\<rparr>"
    unfolding ListEntries_def listing_service_def
    using runs dtos blank decoded claims loaded after parent scope0 root
    by (simp add: sample_active normalizeCatalogPageLimit_def maxCatalogPageLimit_def listing_sort_def sample_listing_def loadDirectoryContext_def
        page_rows_def stmt Let_def sample_entries_scope sameOptionalString_def)
  have "map etName [dto, dto'] = [''docs'', ''Docs'']" using runs dtos unfolding sample_directory_pair by simp
  moreover have "sample_listing\<lparr>elCursor := []\<rparr> = sample_listing" "token \<noteq> []" using token by (auto simp: sample_listing_def)
  ultimately show ?thesis by (simp add: fetch_entries_def first second)
qed

theorem directory_listing_exact_witness:
  "\<exists>items. follow_pages (fetch_entries sample_catalog (sample_id (CHR ''a'')) sample_admin sample_listing) [listing_service, listing_service] [] = Inr (items, True)
    \<and> map etName items = [''docs'', ''Docs''] \<and> collect_results catalogEntryDTO (take 2 sample_directory) = Inr items \<and> length sample_directory \<le> 2"
proof -
  let ?envs = "[listing_service, listing_service]" and ?scopes = "map (\<lambda>a. sample_root_scope\<lparr>csAnchor := a\<rparr>) sample_anchors"
  let ?p = "cdPoints sample_catalog ! 0" and ?r = "cdRepositories sample_catalog ! 0" and ?g = "cdGenerations sample_catalog ! 0"
  obtain items where follow: "follow_pages (fetch_entries sample_catalog (sample_id (CHR ''a'')) sample_admin sample_listing) ?envs [] = Inr (items, True)"
    and names: "map etName items = [''docs'', ''Docs'']" using sample_pages by (elim exE conjE)
  have dir: "sample_directory = entry_order (listing_sort sample_listing)
      (directory_rows sample_catalog (gnID ?g) (sample_id (CHR ''a'')) (elParentEntryID sample_listing))"
    using sample_directory_runs [THEN conjunct2, THEN conjunct2, THEN conjunct2, THEN conjunct2, THEN conjunct2, THEN conjunct2, THEN conjunct2, THEN conjunct2]
    by (simp add: sample_directory_def listing_sort_def sample_listing_def)
  have parses: "\<forall>env \<in> set ?envs. \<forall>e \<in> set sample_directory. \<forall>m. ccActive (bvCodec env) = Inr m \<longrightarrow>
      cuParse (table_lib ?scopes) (json_cursor (cursor_envelope (bvCodec env) m (listing_cursor env sample_catalog sample_admin sample_listing ?p ?r ?g e)))
        = Some (cursor_envelope (bvCodec env) m (listing_cursor env sample_catalog sample_admin sample_listing ?p ?r ?g e), True)"
    using sample_service_parses [of sample_anchors _ True sample_root_scope] sample_directory_runs
    by (auto simp: listing_service_def sample_listing_cursor sample_anchors_def)
  have "\<exists>limit. normalizeCatalogPageLimit (elLimit sample_listing) = Inr limit
      \<and> collect_results catalogEntryDTO (take (nat limit * length ?envs) sample_directory) = Inr items
      \<and> (True \<longleftrightarrow> length sample_directory \<le> nat limit * length ?envs)"
    by (rule directory_listing_exact [where crypto = "sample_crypto ''first'' []" and ttl = "10 * Minute", THEN conjunct2, THEN conjunct2,
          OF _ table_lib_laws sample_keys_ok _ _ _ dir parses follow])
      (use sample_directory_runs sample_service_codec [of True ?scopes] in \<open>simp_all add: listing_service_def sample_active\<close>)
  then show ?thesis using follow names by (auto simp: normalizeCatalogPageLimit_def sample_listing_def maxCatalogPageLimit_def)
qed

theorem breadcrumb_exact_witness:
  "loadBreadcrumb (sample_service True []) sample_catalog (sample_id (CHR ''a'')) (sample_id (CHR ''a'')) (Some (sample_entry_id (CHR ''2'')))
     = Inr [\<lparr>bcRecoveryPointID = sample_id (CHR ''a''), bcEntryID = sample_entry_id (CHR ''2''), bcName = ''Docs''\<rparr>]"
proof -
  have "path_up sample_catalog (sample_id (CHR ''a'')) (sample_id (CHR ''a'')) (Some (sample_entry_id (CHR ''2'')))
     (rev [\<lparr>bcRecoveryPointID = sample_id (CHR ''a''), bcEntryID = sample_entry_id (CHR ''2''), bcName = ''Docs''\<rparr>])" by code_simp
  then show ?thesis by (subst breadcrumb_exact) (simp_all add: sample_service_def no_fault_def maxBreadcrumbDepth_def)
qed

end
