(* ===== verification/Catalog_Diff.thy ===== *)
theory Catalog_Diff
  imports Catalog_Service
begin

text \<open>
  The difference of two recovery points, \<open>backend/internal/backupasset/catalog/diff.go\<close>: the entries of the
  active catalogs, or of one directory in each, joined on the relative path, page by page.

  The query is a function on the entry table. The columns of a side of a joined row are those of an entry, or
  all null, so a side is an optional entry; \<open>SUBSTR\<close> after a matched prefix cuts the bytes of the prefix and
  the slash. \<open>LIKE\<close> ignores the case of ASCII letters on SQLite and not on PostgreSQL: \<open>bvLikeIgnoresCase\<close>.
  The statement about provider evidence of a page is not modelled.
\<close>

section \<open>Requests and answers\<close>

record DiffRequest =
  dqBaseRecoveryPointID :: string
  dqCompareRecoveryPointID :: string
  dqBaseParentEntryID :: string
  dqCompareParentEntryID :: string
  dqSort :: string
  dqLimit :: int
  dqCursor :: string

datatype ContentEquality = ContentEqual | ContentDifferent | ContentUnknown

record DiffSideDTO =
  dsRecoveryPointID :: string
  dsEntryID :: string
  dsName :: string
  dsEntryType :: CatalogEntryType
  dsSize :: int
  dsModifiedAt :: "time option"
  dsMode :: string
  dsOwner :: string
  dsMIMEType :: string
  dsFingerprintStrength :: string

record DiffItemDTO =
  diKind :: string
  diBase :: "DiffSideDTO option"
  diCompare :: "DiffSideDTO option"
  diChangedFields :: "string list"
  diContentEquality :: ContentEquality

record DiffPage =
  dpItems :: "DiffItemDTO list"
  dpNextCursor :: string

record diffRow =
  dfRelativePath :: string
  dfBase :: "CatalogEntry option"
  dfCompare :: "CatalogEntry option"

record diffAnchor =
  daRelativePath :: string
  daRank :: int
  daBaseID :: string
  daCompareID :: string

definition diffKindForEntries :: "CatalogEntry option \<Rightarrow> CatalogEntry option \<Rightarrow> string" where
  "diffKindForEntries base compare =
     (case (base, compare) of
        (None, Some _) \<Rightarrow> ''added''
      | (Some _, None) \<Rightarrow> ''removed''
      | (None, None) \<Rightarrow> []
      | (Some b, Some c) \<Rightarrow> if enEntryType b \<noteq> enEntryType c then ''type_changed'' else ''modified'')"

definition diffKindRank :: "string \<Rightarrow> int" where
  "diffKindRank kind =
     (if kind = ''removed'' then 1 else if kind = ''added'' then 2 else if kind = ''modified'' then 3
      else if kind = ''type_changed'' then 4 else 0)"

definition ParseDiffChangeKind :: "string \<Rightarrow> (catalog_error, string) result" where
  "ParseDiffChangeKind value = (if value \<notin> set validDiffChangeKinds then Inl ErrUnknownInternalState else Inr value)"

section \<open>The query\<close>

definition escapeSQLLike :: "string \<Rightarrow> string" where
  "escapeSQLLike value = concat (map (\<lambda>c. if c \<in> {CHR 0x5C, CHR ''%'', CHR ''_''} then [CHR 0x5C, c] else [c]) value)"

definition like_char :: "bool \<Rightarrow> char \<Rightarrow> char \<Rightarrow> bool" where
  "like_char ignoresCase a b \<longleftrightarrow> a = b \<or> ignoresCase \<and> ascii_lower a = ascii_lower b"

text \<open>\<open>LIKE\<close> with a backslash as escape character.\<close>

fun sql_like :: "bool \<Rightarrow> string \<Rightarrow> string \<Rightarrow> bool" where
  "sql_like ic [] s \<longleftrightarrow> s = []"
| "sql_like ic (c # ps) s \<longleftrightarrow>
     (if c = CHR 0x5C then (case (ps, s) of (d # ps', x # xs) \<Rightarrow> like_char ic d x \<and> sql_like ic ps' xs | _ \<Rightarrow> False)
      else if c = CHR ''%'' then sql_like ic ps s \<or> (case s of [] \<Rightarrow> False | x # xs \<Rightarrow> sql_like ic (c # ps) xs)
      else if c = CHR ''_'' then (case s of [] \<Rightarrow> False | x # xs \<Rightarrow> sql_like ic ps xs)
      else (case s of [] \<Rightarrow> False | x # xs \<Rightarrow> like_char ic c x \<and> sql_like ic ps xs))"

definition diffSideCTE :: "bool \<Rightarrow> catalog_db \<Rightarrow> string \<Rightarrow> string \<Rightarrow> string \<Rightarrow> (string \<times> CatalogEntry) list" where
  "diffSideCTE ic db generationID pointID prefix =
     (let entries = filter (\<lambda>e. enGenerationID e = generationID \<and> enRecoveryPointID e = pointID) (cdEntries db)
      in if prefix = [] then map (\<lambda>e. (enNormalizedPath e, e)) entries
         else map (\<lambda>e. (drop (length prefix + 1) (enNormalizedPath e), e))
           (filter (\<lambda>e. sql_like ic (escapeSQLLike prefix @ ''/%'') (enNormalizedPath e)) entries))"

definition metadata_changed :: "CatalogEntry \<Rightarrow> CatalogEntry \<Rightarrow> bool" where
  "metadata_changed b c \<longleftrightarrow>
     enEntryType b \<noteq> enEntryType c \<or> enName b \<noteq> enName c \<or> enSize b \<noteq> enSize c
     \<or> (enModifiedAt b = None) \<noteq> (enModifiedAt c = None)
     \<or> (case (enModifiedAt b, enModifiedAt c) of (Some t, Some u) \<Rightarrow> t \<noteq> u | _ \<Rightarrow> False)
     \<or> enMode b \<noteq> enMode c \<or> enOwner b \<noteq> enOwner c \<or> enMimeType b \<noteq> enMimeType c
     \<or> enFingerprint b \<noteq> enFingerprint c \<or> enFingerprintStrength b \<noteq> enFingerprintStrength c"

text \<open>A left join of the base entries, and the compare entries without a base entry.\<close>

definition base_changes :: "(string \<times> CatalogEntry) list \<Rightarrow> string \<times> CatalogEntry \<Rightarrow> diffRow list" where
  "base_changes compare pb =
     (let matches = filter (\<lambda>pc. fst pc = fst pb) compare
      in if matches = [] then [\<lparr>dfRelativePath = fst pb, dfBase = Some (snd pb), dfCompare = None\<rparr>]
         else map (\<lambda>pc. \<lparr>dfRelativePath = fst pb, dfBase = Some (snd pb), dfCompare = Some (snd pc)\<rparr>)
           (filter (\<lambda>pc. metadata_changed (snd pb) (snd pc)) matches))"

definition diff_changes :: "(string \<times> CatalogEntry) list \<Rightarrow> (string \<times> CatalogEntry) list \<Rightarrow> diffRow list" where
  "diff_changes base compare =
     concat (map (base_changes compare) base)
     @ map (\<lambda>pc. \<lparr>dfRelativePath = fst pc, dfBase = None, dfCompare = Some (snd pc)\<rparr>)
         (filter (\<lambda>pc. \<not> list_ex (\<lambda>pb. fst pb = fst pc) base) compare)"

definition row_kind :: "diffRow \<Rightarrow> string" where
  "row_kind row =
     (if dfBase row = None then ''added'' else if dfCompare row = None then ''removed''
      else if enEntryType (the (dfBase row)) \<noteq> enEntryType (the (dfCompare row)) then ''type_changed'' else ''modified'')"

definition row_rank :: "diffRow \<Rightarrow> int" where
  "row_rank row =
     (if dfBase row = None then 2 else if dfCompare row = None then 1
      else if enEntryType (the (dfBase row)) \<noteq> enEntryType (the (dfCompare row)) then 4 else 3)"

definition entry_id_or_empty :: "CatalogEntry option \<Rightarrow> string" where
  "entry_id_or_empty e = (case e of None \<Rightarrow> [] | Some x \<Rightarrow> enEntryID x)"

definition after_anchor :: "diffAnchor \<Rightarrow> diffRow \<Rightarrow> bool" where
  "after_anchor a row \<longleftrightarrow>
     daRelativePath a < dfRelativePath row
     \<or> dfRelativePath row = daRelativePath a
       \<and> (daRank a < row_rank row
          \<or> row_rank row = daRank a
            \<and> (daBaseID a < entry_id_or_empty (dfBase row)
               \<or> entry_id_or_empty (dfBase row) = daBaseID a \<and> daCompareID a < entry_id_or_empty (dfCompare row)))"

definition row_key :: "diffRow \<Rightarrow> string \<times> int \<times> string \<times> string" where
  "row_key row = (dfRelativePath row, row_rank row, entry_id_or_empty (dfBase row), entry_id_or_empty (dfCompare row))"

definition queryDiffRows ::
  "catalog_env \<Rightarrow> (string \<times> CatalogEntry) list \<Rightarrow> (string \<times> CatalogEntry) list \<Rightarrow> diffAnchor option \<Rightarrow> nat \<Rightarrow> (catalog_error, diffRow list) result" where
  "queryDiffRows env base compare anchor limit =
     bind_result (catalog_stmt_ok (bvFault env) StmtDiff) (\<lambda>_.
       Inr (take limit (sort_key row_key
         (case anchor of None \<Rightarrow> diff_changes base compare | Some a \<Rightarrow> filter (after_anchor a) (diff_changes base compare)))))"

section \<open>Items\<close>

definition diffSideFromRow :: "string \<Rightarrow> CatalogEntry option \<Rightarrow> (catalog_error, DiffSideDTO option) result" where
  "diffSideFromRow pointID side =
     (case side of
        None \<Rightarrow> Inr None
      | Some e \<Rightarrow>
          if ValidateAssetRef \<lparr>arRecoveryPointID = pointID, arEntryID = enEntryID e\<rparr> \<noteq> Inr () then Inl ErrUnknownInternalState
          else if \<not> validCatalogEntryType (enEntryType e) then Inl ErrUnknownInternalState
          else bind_result (ParseFingerprintStrength (enFingerprintStrength e)) (\<lambda>strength.
            Inr (Some \<lparr>dsRecoveryPointID = pointID, dsEntryID = enEntryID e, dsName = enName e, dsEntryType = enEntryType e,
              dsSize = enSize e, dsModifiedAt = enModifiedAt e, dsMode = enMode e, dsOwner = enOwner e, dsMIMEType = enMimeType e,
              dsFingerprintStrength = strength\<rparr>)))"

definition optionalTimesEqual :: "time option \<Rightarrow> time option \<Rightarrow> bool" where
  "optionalTimesEqual left right =
     (case (left, right) of (Some t, Some u) \<Rightarrow> t = u | _ \<Rightarrow> (left = None) = (right = None))"

definition changedDiffFields :: "CatalogEntry \<Rightarrow> CatalogEntry \<Rightarrow> string list" where
  "changedDiffFields b c =
     (if enEntryType b \<noteq> enEntryType c then [''entry_type''] else [])
     @ (if enName b \<noteq> enName c then [''name''] else [])
     @ (if enSize b \<noteq> enSize c then [''size''] else [])
     @ (if \<not> optionalTimesEqual (enModifiedAt b) (enModifiedAt c) then [''modified_at''] else [])
     @ (if enMode b \<noteq> enMode c then [''mode''] else [])
     @ (if enOwner b \<noteq> enOwner c then [''owner''] else [])
     @ (if enMimeType b \<noteq> enMimeType c then [''mime_type''] else [])
     @ (if enFingerprintStrength b \<noteq> enFingerprintStrength c then [''fingerprint_strength''] else [])
     @ (if enFingerprint b \<noteq> enFingerprint c then [''content''] else [])"

definition content_equality :: "CatalogEntry \<Rightarrow> CatalogEntry \<Rightarrow> ContentEquality" where
  "content_equality b c =
     (if enFingerprintStrength b = ''strong'' \<and> enFingerprintStrength c = ''strong'' \<and> enFingerprint b \<noteq> [] \<and> enFingerprint c \<noteq> []
      then (if enFingerprint b = enFingerprint c then ContentEqual else ContentDifferent)
      else ContentUnknown)"

definition diffItemFromRow :: "string \<Rightarrow> string \<Rightarrow> diffRow \<Rightarrow> (catalog_error, DiffItemDTO) result" where
  "diffItemFromRow basePointID comparePointID row =
     bind_result (ParseDiffChangeKind (row_kind row)) (\<lambda>kind.
     bind_result (diffSideFromRow basePointID (dfBase row)) (\<lambda>base.
     bind_result (diffSideFromRow comparePointID (dfCompare row)) (\<lambda>compare.
       Inr (case (dfBase row, dfCompare row) of
          (Some b, Some c) \<Rightarrow> \<lparr>diKind = kind, diBase = base, diCompare = compare, diChangedFields = changedDiffFields b c,
            diContentEquality = content_equality b c\<rparr>
        | _ \<Rightarrow> \<lparr>diKind = kind, diBase = base, diCompare = compare, diChangedFields = [], diContentEquality = ContentUnknown\<rparr>))))"

section \<open>The cursor\<close>

definition diffSubtreePrefix :: "catalog_env \<Rightarrow> catalog_db \<Rightarrow> CatalogGeneration \<Rightarrow> CatalogPoint \<Rightarrow> string \<Rightarrow> (catalog_error, string) result" where
  "diffSubtreePrefix env db generation p parentEntryID =
     (if parentEntryID = [] then Inr []
      else if ValidateAssetRef \<lparr>arRecoveryPointID = cpID p, arEntryID = parentEntryID\<rparr> \<noteq> Inr () then Inl (ErrCatalogAsset ErrNotFound)
      else case loadCatalogEntry env db (gnID generation) (cpID p) parentEntryID of
        Inl _ \<Rightarrow> Inl (ErrCatalogAsset ErrNotFound)
      | Inr entry \<Rightarrow> if enEntryType entry \<noteq> CatalogEntryDirectory then Inl (ErrCatalogAsset ErrNotFound) else Inr (enNormalizedPath entry))"

definition relativeDiffPath :: "string \<Rightarrow> string \<Rightarrow> (catalog_error, string) result" where
  "relativeDiffPath normalizedPath prefix =
     (if prefix = [] then (if normalizedPath = [] then Inl ErrStaleCursor else Inr normalizedPath)
      else let required = prefix @ ''/'' in
        if \<not> HasPrefix normalizedPath required \<or> length normalizedPath = length required then Inl ErrStaleCursor
        else Inr (TrimPrefix normalizedPath required))"

definition loadDiffAnchor ::
  "catalog_env \<Rightarrow> catalog_db \<Rightarrow> CursorAnchor \<Rightarrow> CatalogPoint \<Rightarrow> CatalogPoint \<Rightarrow> CatalogGeneration \<Rightarrow> CatalogGeneration
   \<Rightarrow> string \<Rightarrow> string \<Rightarrow> (catalog_error, diffAnchor) result" where
  "loadDiffAnchor env db claims basePoint comparePoint baseGeneration compareGeneration basePrefix comparePrefix =
     (let rank = diffKindRank (caChangeKind claims);
          load = (\<lambda>generation p prefix i.
            if i = [] then Inr None
            else case loadCatalogEntry env db (gnID generation) (cpID p) i of
              Inl _ \<Rightarrow> Inl ErrStaleCursor
            | Inr entry \<Rightarrow> bind_result (relativeDiffPath (enNormalizedPath entry) prefix) (\<lambda>relative. Inr (Some (entry, relative))))
      in if rank = 0 \<or> (caBaseEntryID claims = [] \<and> caCompareEntryID claims = []) then Inl ErrStaleCursor
      else bind_result (load baseGeneration basePoint basePrefix (caBaseEntryID claims)) (\<lambda>base.
        bind_result (load compareGeneration comparePoint comparePrefix (caCompareEntryID claims)) (\<lambda>compare.
        if (case (base, compare) of (Some (_, r), Some (_, r')) \<Rightarrow> r \<noteq> [] \<and> r \<noteq> r' | _ \<Rightarrow> False) then Inl ErrStaleCursor
        else if diffKindForEntries (map_option fst base) (map_option fst compare) \<noteq> caChangeKind claims then Inl ErrStaleCursor
        else Inr \<lparr>daRelativePath = (case (compare, base) of (Some (_, r), _) \<Rightarrow> r | (None, Some (_, r)) \<Rightarrow> r | (None, None) \<Rightarrow> []),
          daRank = rank, daBaseID = caBaseEntryID claims, daCompareID = caCompareEntryID claims\<rparr>)))"

definition diff_scope :: "AuthorizationScope \<Rightarrow> DiffRequest \<Rightarrow> string \<Rightarrow> CatalogPoint \<Rightarrow> CatalogPoint \<Rightarrow> CatalogGeneration \<Rightarrow> CatalogGeneration \<Rightarrow> CursorAnchor \<Rightarrow> CursorScope" where
  "diff_scope scope request repositoryID basePoint comparePoint baseGeneration compareGeneration anchor =
     \<lparr>csEndpoint = CursorEndpointDiff, csDirection = CursorForward, csUserID = asUserID scope, csRole = asRole scope, csSort = ''path_asc'',
      csNodeID = 0, csBackupSetID = [], csProjectionDigest = [], csRepositoryID = repositoryID, csRecoveryPointID = [],
      csGenerationID = [], csParentEntryID = [], csBaseRecoveryPointID = cpID basePoint, csCompareRecoveryPointID = cpID comparePoint,
      csBaseGenerationID = gnID baseGeneration, csCompareGenerationID = gnID compareGeneration,
      csBaseParentEntryID = dqBaseParentEntryID request, csCompareParentEntryID = dqCompareParentEntryID request, csAnchor = anchor\<rparr>"

definition row_anchor :: "diffRow \<Rightarrow> CursorAnchor" where
  "row_anchor row = empty_anchor\<lparr>caBaseEntryID := entry_id_or_empty (dfBase row), caCompareEntryID := entry_id_or_empty (dfCompare row),
     caChangeKind := row_kind row\<rparr>"

definition Diff :: "catalog_env \<Rightarrow> catalog_db \<Rightarrow> AuthorizationScope \<Rightarrow> DiffRequest \<Rightarrow> (catalog_error, DiffPage) result" where
  "Diff env db scope request =
     (if dqBaseRecoveryPointID request = dqCompareRecoveryPointID request \<or> \<not> ValidateOpaqueID (dqBaseRecoveryPointID request)
         \<or> \<not> ValidateOpaqueID (dqCompareRecoveryPointID request) then Inl ErrInvalidCatalogContract
      else if dqSort request \<noteq> [] \<and> dqSort request \<noteq> ''path_asc'' then Inl ErrInvalidCatalogContract
      else bind_result (normalizeCatalogPageLimit (dqLimit request)) (\<lambda>limit.
      bind_result (authorizedActivePoint env db (dqBaseRecoveryPointID request) scope) (\<lambda>(basePoint, baseRepository, baseGeneration).
      bind_result (authorizedActivePoint env db (dqCompareRecoveryPointID request) scope) (\<lambda>(comparePoint, compareRepository, compareGeneration).
      if rrID baseRepository \<noteq> rrID compareRepository then Inl ErrInvalidCatalogContract
      else bind_result (diffSubtreePrefix env db baseGeneration basePoint (dqBaseParentEntryID request)) (\<lambda>basePrefix.
      bind_result (diffSubtreePrefix env db compareGeneration comparePoint (dqCompareParentEntryID request)) (\<lambda>comparePrefix.
      let cursorScope = diff_scope scope request (rrID baseRepository) basePoint comparePoint baseGeneration compareGeneration;
          base = diffSideCTE (bvLikeIgnoresCase env) db (gnID baseGeneration) (cpID basePoint) basePrefix;
          compare = diffSideCTE (bvLikeIgnoresCase env) db (gnID compareGeneration) (cpID comparePoint) comparePrefix
      in bind_result
        (if TrimSpace (dqCursor request) = [] then Inr None
         else bind_result (Decode (bvCodec env) (dqCursor request) (cursorScope empty_anchor)) (\<lambda>decoded.
           bind_result (loadDiffAnchor env db (csAnchor decoded) basePoint comparePoint baseGeneration compareGeneration basePrefix comparePrefix)
             (\<lambda>loaded. Inr (Some loaded)))) (\<lambda>anchor.
      bind_result (queryDiffRows env base compare anchor (nat limit + 1)) (\<lambda>found.
      let (rows, hasMore) = page_rows (nat limit) found in
      bind_result (collect_results (diffItemFromRow (cpID basePoint) (cpID comparePoint)) rows) (\<lambda>items.
      bind_result
        (if hasMore \<and> rows \<noteq> [] then
           bind_result (ParseDiffChangeKind (row_kind (last rows))) (\<lambda>kind. Encode (bvCodec env) (cursorScope (row_anchor (last rows))))
         else Inr []) (\<lambda>nextCursor.
        Inr \<lparr>dpItems = items, dpNextCursor = nextCursor\<rparr>))))))))))"

section \<open>The sides of the join\<close>

declare sql_like.simps [simp del]

lemma like_slash: "like_char ic (CHR ''/'') x \<longleftrightarrow> x = CHR ''/''"
proof -
  have "x = CHR ''/''" if "ascii_lower x = CHR ''/''"
  proof (cases "65 \<le> (of_char x :: nat) \<and> (of_char x :: nat) \<le> 90")
    case True
    then have "of_char x + 32 = (of_char (CHR ''/'') :: nat)" using arg_cong [OF that, of "of_char :: char \<Rightarrow> nat"] by (simp add: ascii_lower_def)
    then show ?thesis using True by simp
  next
    case False
    then have "ascii_lower x = x" unfolding ascii_lower_def by (rule if_not_P)
    then show ?thesis using that by simp
  qed
  moreover have "ascii_lower (CHR ''/'') = CHR ''/''" by (simp add: ascii_lower_def)
  ultimately show ?thesis unfolding like_char_def by metis
qed

lemma sql_like_any: "sql_like ic ''%'' s"
proof (induction s)
  case Nil
  show ?case by (subst sql_like.simps(2)) (simp add: sql_like.simps(1))
next
  case (Cons x s)
  then show ?case by (subst sql_like.simps(2)) simp
qed

lemma sql_like_escaped:
  "sql_like ic (CHR 0x5C # d # ps) s \<longleftrightarrow> (case s of [] \<Rightarrow> False | x # xs \<Rightarrow> like_char ic d x \<and> sql_like ic ps xs)"
  by (subst sql_like.simps(2)) (simp split: list.split)

lemma sql_like_plain:
  "c \<notin> {CHR 0x5C, CHR ''%'', CHR ''_''} \<Longrightarrow>
   sql_like ic (c # ps) s \<longleftrightarrow> (case s of [] \<Rightarrow> False | x # xs \<Rightarrow> like_char ic c x \<and> sql_like ic ps xs)"
  by (subst sql_like.simps(2)) simp

lemma sql_like_prefix:
  "sql_like ic (escapeSQLLike prefix @ ''/%'') s \<longleftrightarrow> (\<exists>u rest. s = u @ ''/'' @ rest \<and> list_all2 (like_char ic) prefix u)"
proof (induction prefix arbitrary: s)
  case Nil
  have "sql_like ic (escapeSQLLike [] @ ''/%'') s \<longleftrightarrow> (case s of [] \<Rightarrow> False | x # xs \<Rightarrow> x = CHR ''/'')"
    unfolding escapeSQLLike_def list.map concat.simps append_Nil
    by (subst sql_like_plain) (simp_all add: like_slash sql_like_any split: list.split)
  then show ?case by (cases s) simp_all
next
  case (Cons c prefix)
  note IH = Cons.IH
  have esc: "escapeSQLLike (c # prefix) @ ''/%'' =
      (if c \<in> {CHR 0x5C, CHR ''%'', CHR ''_''} then CHR 0x5C # c # escapeSQLLike prefix @ ''/%'' else c # escapeSQLLike prefix @ ''/%'')"
    by (simp add: escapeSQLLike_def)
  have "sql_like ic (escapeSQLLike (c # prefix) @ ''/%'') s \<longleftrightarrow>
      (case s of [] \<Rightarrow> False | x # xs \<Rightarrow> like_char ic c x \<and> sql_like ic (escapeSQLLike prefix @ ''/%'') xs)"
  proof (cases "c \<in> {CHR 0x5C, CHR ''%'', CHR ''_''}")
    case True
    show ?thesis unfolding esc if_P [OF True] by (rule sql_like_escaped)
  next
    case False
    show ?thesis unfolding esc if_not_P [OF False] by (rule sql_like_plain [OF False])
  qed
  also have "\<dots> \<longleftrightarrow> (\<exists>u rest. s = u @ ''/'' @ rest \<and> list_all2 (like_char ic) (c # prefix) u)"
  proof (cases s)
    case Nil
    then show ?thesis by simp
  next
    case (Cons x xs)
    have "(\<exists>u rest. x # xs = u @ ''/'' @ rest \<and> list_all2 (like_char ic) (c # prefix) u) \<longleftrightarrow>
        like_char ic c x \<and> (\<exists>u rest. xs = u @ ''/'' @ rest \<and> list_all2 (like_char ic) prefix u)"
    proof (intro iffI; elim exE conjE)
      fix u rest
      assume "x # xs = u @ ''/'' @ rest" and u: "list_all2 (like_char ic) (c # prefix) u"
      moreover obtain y us where "u = y # us" "like_char ic c y" "list_all2 (like_char ic) prefix us" using u by (auto simp: list_all2_Cons1)
      ultimately show "like_char ic c x \<and> (\<exists>u rest. xs = u @ ''/'' @ rest \<and> list_all2 (like_char ic) prefix u)" by auto
    next
      fix u rest
      assume "like_char ic c x" and "xs = u @ ''/'' @ rest" and "list_all2 (like_char ic) prefix u"
      then show "\<exists>u rest. x # xs = u @ ''/'' @ rest \<and> list_all2 (like_char ic) (c # prefix) u"
        by (intro exI [of _ "x # u"] exI [of _ rest]) simp
    qed
    then show ?thesis using Cons IH by simp
  qed
  finally show ?case .
qed

lemma side_member:
  assumes "(q, e) \<in> set (diffSideCTE ic db g p prefix)"
  shows "e \<in> set (cdEntries db) \<and> enGenerationID e = g \<and> enRecoveryPointID e = p
    \<and> q = (if prefix = [] then enNormalizedPath e else drop (length prefix + 1) (enNormalizedPath e))"
  using assms by (auto simp: diffSideCTE_def Let_def split: if_splits)

lemma side_ids: "entries_keyed db \<Longrightarrow> distinct (map (\<lambda>x. enEntryID (snd x)) (diffSideCTE ic db g p prefix))"
proof -
  assume "entries_keyed db"
  then have "distinct (map enEntryID (filter P (filter (\<lambda>e. enGenerationID e = g \<and> enRecoveryPointID e = p) (cdEntries db))))" for P
    by (auto simp: entries_keyed_def distinct_map inj_on_def)
  from this [of "\<lambda>_. True"] this show ?thesis by (simp add: diffSideCTE_def Let_def comp_def)
qed

text \<open>Without the folding of case, a side is what lies below the directory.\<close>

lemma side_subtree:
  assumes "prefix \<noteq> []"
  shows "(q, e) \<in> set (diffSideCTE False db g p prefix) \<longleftrightarrow>
    e \<in> set (cdEntries db) \<and> enGenerationID e = g \<and> enRecoveryPointID e = p \<and> enNormalizedPath e = prefix @ ''/'' @ q"
proof -
  have "like_char False = (=)" by (intro ext) (simp add: like_char_def)
  then have "sql_like False (escapeSQLLike prefix @ ''/%'') s \<longleftrightarrow> (\<exists>rest. s = prefix @ ''/'' @ rest)" for s
    by (auto simp: sql_like_prefix list.rel_eq)
  then show ?thesis using assms by (force simp: diffSideCTE_def Let_def image_iff)
qed

section \<open>Rows\<close>

lemma changes_member:
  assumes "row \<in> set (diff_changes base compare)"
  shows "(\<forall>b. dfBase row = Some b \<longrightarrow> (dfRelativePath row, b) \<in> set base) \<and> (\<forall>c. dfCompare row = Some c \<longrightarrow> (dfRelativePath row, c) \<in> set compare)
    \<and> (dfBase row \<noteq> None \<or> dfCompare row \<noteq> None)"
  using assms by (auto simp: diff_changes_def base_changes_def Let_def split: if_splits)

lemma row_rank_kind: "dfBase row \<noteq> None \<or> dfCompare row \<noteq> None \<Longrightarrow> diffKindRank (row_kind row) = row_rank row"
  by (simp add: diffKindRank_def row_kind_def row_rank_def)

lemma distinct_concat_map:
  assumes "distinct xs" and "\<And>x. x \<in> set xs \<Longrightarrow> distinct (f x)"
    and "\<And>x y. x \<in> set xs \<Longrightarrow> y \<in> set xs \<Longrightarrow> x \<noteq> y \<Longrightarrow> set (f x) \<inter> set (f y) = {}"
  shows "distinct (concat (map f xs))"
  using assms
proof (induction xs)
  case (Cons x xs)
  moreover have "set (f x) \<inter> set (concat (map f xs)) = {}" using Cons.prems by fastforce
  ultimately show ?case by simp
qed simp

lemma changes_distinct:
  assumes "distinct (map (\<lambda>x. enEntryID (snd x)) base)" and "distinct (map (\<lambda>x. enEntryID (snd x)) compare)"
  shows "distinct (map row_key (diff_changes base compare))"
proof -
  have ids: "distinct base" "distinct compare" "distinct (map snd compare)" using assms by (auto simp: distinct_map inj_on_def)
  have one: "distinct (base_changes compare pb)" for pb
    using ids(2,3) by (auto simp: base_changes_def Let_def distinct_map inj_on_def)
  have base_of: "dfBase row = Some (snd pb) \<and> dfRelativePath row = fst pb" if "row \<in> set (base_changes compare pb)" for row pb
    using that by (auto simp: base_changes_def Let_def split: if_splits)
  have "distinct (concat (map (base_changes compare) base))"
    using ids(1) one
  proof (rule distinct_concat_map)
    fix x y :: "string \<times> CatalogEntry"
    assume "x \<noteq> y"
    then show "set (base_changes compare x) \<inter> set (base_changes compare y) = {}"
      using base_of by (metis disjoint_iff option.inject prod_eqI)
  qed
  moreover have "distinct (map (\<lambda>pc. \<lparr>dfRelativePath = fst pc, dfBase = None, dfCompare = Some (snd pc)\<rparr>)
         (filter (\<lambda>pc. \<not> list_ex (\<lambda>pb. fst pb = fst pc) base) compare))"
    using ids(2,3) by (auto simp: distinct_map inj_on_def)
  ultimately have "distinct (diff_changes base compare)" using base_of by (fastforce simp: diff_changes_def)
  moreover have "inj_on row_key (set (diff_changes base compare))"
  proof (rule inj_onI)
    fix x y
    assume x: "x \<in> set (diff_changes base compare)" and y: "y \<in> set (diff_changes base compare)" and key: "row_key x = row_key y"
    have nones: "dfBase x = None \<longleftrightarrow> dfBase y = None" "dfCompare x = None \<longleftrightarrow> dfCompare y = None"
      using key changes_member [OF x] changes_member [OF y] by (auto simp: row_key_def row_rank_def split: if_splits)
    have "b = b'" if "dfBase x = Some b" "dfBase y = Some b'" for b b'
      using that key changes_member [OF x] changes_member [OF y] key_unique [OF assms(1), of "(dfRelativePath x, b)" "(dfRelativePath y, b')"]
      by (auto simp: row_key_def entry_id_or_empty_def)
    moreover have "c = c'" if "dfCompare x = Some c" "dfCompare y = Some c'" for c c'
      using that key changes_member [OF x] changes_member [OF y] key_unique [OF assms(2), of "(dfRelativePath x, c)" "(dfRelativePath y, c')"]
      by (auto simp: row_key_def entry_id_or_empty_def)
    ultimately have "dfBase x = dfBase y" "dfCompare x = dfCompare y" using nones by (metis option.exhaust)+
    then show "x = y" using key by (cases x; cases y) (simp add: row_key_def)
  qed
  ultimately show ?thesis by (simp add: distinct_map)
qed

interpretation diff_pages: keyset "\<lambda>a b. row_key a < row_key b"
  by unfold_locales auto

text \<open>The anchor that is loaded for a row has the key of the row.\<close>

lemma relative_path_side:
  assumes "(q, e) \<in> set (diffSideCTE ic db g p prefix)" and "relativeDiffPath (enNormalizedPath e) prefix = Inr rel"
  shows "rel = q"
  using side_member [OF assms(1)] assms(2)
  by (auto simp: relativeDiffPath_def Let_def TrimPrefix_def split: if_splits)

lemma loaded_entry:
  assumes "entries_keyed db" and "loadCatalogEntry env db g p (enEntryID e) = Inr loaded"
    and "e \<in> set (cdEntries db)" and "enGenerationID e = g"
  shows "loaded = e"
proof -
  have "loaded \<in> set (cdEntries db)" "enGenerationID loaded = g" "enEntryID loaded = enEntryID e"
    using assms(2) by (auto simp: loadCatalogEntry_def bind_result_eq_Inr option_case_eq_Inr dest: take_row_Some)
  then show ?thesis using key_unique [OF assms(1) [unfolded entries_keyed_def]] assms(3,4) by auto
qed

lemma anchor_of_row:
  assumes "entries_keyed db" and "row \<in> set (diff_changes (diffSideCTE ic db (gnID bg) (cpID bp) bprefix) (diffSideCTE ic db (gnID cg) (cpID cp) cprefix))"
    and "loadDiffAnchor env db (row_anchor row) bp cp bg cg bprefix cprefix = Inr a"
  shows "(daRelativePath a, daRank a, daBaseID a, daCompareID a) = row_key row"
proof -
  note M = changes_member [OF assms(2)]
  define load where "load generation p prefix i =
      (if i = [] then Inr None
       else case loadCatalogEntry env db (gnID generation) (cpID p) i of
         Inl _ \<Rightarrow> Inl ErrStaleCursor
       | Inr entry \<Rightarrow> bind_result (relativeDiffPath (enNormalizedPath entry) prefix) (\<lambda>relative. Inr (Some (entry, relative))))"
    for generation :: CatalogGeneration and p :: CatalogPoint and prefix i
  obtain base compare where L: "load bg bp bprefix (entry_id_or_empty (dfBase row)) = Inr base"
      "load cg cp cprefix (entry_id_or_empty (dfCompare row)) = Inr compare"
    and kind: "diffKindForEntries (map_option fst base) (map_option fst compare) = row_kind row"
    and a: "a = \<lparr>daRelativePath = (case (compare, base) of (Some (_, r), _) \<Rightarrow> r | (None, Some (_, r)) \<Rightarrow> r | (None, None) \<Rightarrow> []),
          daRank = diffKindRank (row_kind row), daBaseID = entry_id_or_empty (dfBase row), daCompareID = entry_id_or_empty (dfCompare row)\<rparr>"
    using assms(3) unfolding loadDiffAnchor_def Let_def row_anchor_def load_def [symmetric]
    by (auto simp: bind_result_eq_Inr guard_eq_Inr)
  have loaded: "r = dfRelativePath row" if "load generation p prefix (entry_id_or_empty side) = Inr (Some (e, r))"
      "\<And>x. side = Some x \<Longrightarrow> (dfRelativePath row, x) \<in> set (diffSideCTE ic db (gnID generation) (cpID p) prefix)"
    for generation p prefix side e r
  proof -
    have "entry_id_or_empty side \<noteq> []" using that(1) by (auto simp: load_def)
    then obtain x where x: "side = Some x" by (cases side) (auto simp: entry_id_or_empty_def)
    have "loadCatalogEntry env db (gnID generation) (cpID p) (enEntryID x) = Inr e" "relativeDiffPath (enNormalizedPath e) prefix = Inr r"
      using that(1) by (auto simp: load_def x entry_id_or_empty_def bind_result_eq_Inr sum_case_eq_Inr split: if_splits)
    moreover have "e = x" using loaded_entry [OF assms(1) calculation(1)] side_member [OF that(2) [OF x]] by blast
    ultimately show ?thesis using relative_path_side [OF that(2) [OF x]] by blast
  qed
  have "daRelativePath a = dfRelativePath row"
  proof (cases compare)
    case (Some c)
    then show ?thesis using loaded [of cg cp cprefix "dfCompare row" "fst c" "snd c"] L(2) M by (cases c) (simp add: a)
  next
    case None
    then obtain b where "base = Some b" using kind by (cases base) (auto simp: diffKindForEntries_def row_kind_def split: if_splits)
    then show ?thesis using None loaded [of bg bp bprefix "dfBase row" "fst b" "snd b"] L(1) M by (cases b) (simp add: a)
  qed
  then show ?thesis using row_rank_kind M by (simp add: row_key_def a)
qed

lemma after_anchor_key:
  "after_anchor a row \<longleftrightarrow> (daRelativePath a, daRank a, daBaseID a, daCompareID a) < row_key row"
  by (auto simp: after_anchor_def row_key_def)

section \<open>What a page holds\<close>

definition diff_cursor :: "AuthorizationScope \<Rightarrow> DiffRequest \<Rightarrow> RepositoryRow \<Rightarrow> CatalogPoint \<Rightarrow> CatalogPoint \<Rightarrow> CatalogGeneration \<Rightarrow> CatalogGeneration \<Rightarrow> diffRow \<Rightarrow> CursorScope" where
  "diff_cursor scope request r bp cp bg cg row = diff_scope scope request (rrID r) bp cp bg cg (row_anchor row)"

lemma row_kind_parses [simp]: "ParseDiffChangeKind (row_kind row) = Inr (row_kind row)"
  by (simp add: ParseDiffChangeKind_def row_kind_def validDiffChangeKinds_def)

lemma Diff_ok:
  assumes "Diff env db scope request = Inr page"
  obtains bp br bg cp cr cg limit bprefix cprefix anchor found where
    "authorizedActivePoint env db (dqBaseRecoveryPointID request) scope = Inr (bp, br, bg)"
    "authorizedActivePoint env db (dqCompareRecoveryPointID request) scope = Inr (cp, cr, cg)"
    "rrID br = rrID cr" "normalizeCatalogPageLimit (dqLimit request) = Inr limit"
    "diffSubtreePrefix env db bg bp (dqBaseParentEntryID request) = Inr bprefix"
    "diffSubtreePrefix env db cg cp (dqCompareParentEntryID request) = Inr cprefix"
    "TrimSpace (dqCursor request) = [] \<and> anchor = None
     \<or> (\<exists>decoded loaded. TrimSpace (dqCursor request) \<noteq> [] \<and> decodeAuthenticated (bvCodec env) (dqCursor request) = Inr decoded
          \<and> loadDiffAnchor env db (csAnchor decoded) bp cp bg cg bprefix cprefix = Inr loaded \<and> anchor = Some loaded)"
    "queryDiffRows env (diffSideCTE (bvLikeIgnoresCase env) db (gnID bg) (cpID bp) bprefix)
       (diffSideCTE (bvLikeIgnoresCase env) db (gnID cg) (cpID cp) cprefix) anchor (nat limit + 1) = Inr found"
    "collect_results (diffItemFromRow (cpID bp) (cpID cp)) (take (nat limit) found) = Inr (dpItems page)"
    "if nat limit < length found \<and> take (nat limit) found \<noteq> []
     then Encode (bvCodec env) (diff_cursor scope request br bp cp bg cg (last (take (nat limit) found))) = Inr (dpNextCursor page)
     else dpNextCursor page = []"
proof -
  obtain bp br bg cp cr cg limit bprefix cprefix where
    base: "authorizedActivePoint env db (dqBaseRecoveryPointID request) scope = Inr (bp, br, bg)"
    and compare: "authorizedActivePoint env db (dqCompareRecoveryPointID request) scope = Inr (cp, cr, cg)"
    and same: "rrID br = rrID cr" and limit: "normalizeCatalogPageLimit (dqLimit request) = Inr limit"
    and bprefix: "diffSubtreePrefix env db bg bp (dqBaseParentEntryID request) = Inr bprefix"
    and cprefix: "diffSubtreePrefix env db cg cp (dqCompareParentEntryID request) = Inr cprefix"
    using assms unfolding Diff_def guard_eq_Inr bind_result_eq_Inr by (fastforce simp: guard_eq_Inr bind_result_eq_Inr)
  let ?scope = "diff_scope scope request (rrID br) bp cp bg cg"
  let ?anchor = "if TrimSpace (dqCursor request) = [] then Inr None
         else bind_result (Decode (bvCodec env) (dqCursor request) (?scope empty_anchor)) (\<lambda>decoded.
           bind_result (loadDiffAnchor env db (csAnchor decoded) bp cp bg cg bprefix cprefix) (\<lambda>loaded. Inr (Some loaded)))"
  let ?query = "\<lambda>anchor. queryDiffRows env (diffSideCTE (bvLikeIgnoresCase env) db (gnID bg) (cpID bp) bprefix)
       (diffSideCTE (bvLikeIgnoresCase env) db (gnID cg) (cpID cp) cprefix) anchor (nat limit + 1)"
  have step: "bind_result ?anchor (\<lambda>anchor. bind_result (?query anchor) (\<lambda>found.
      bind_result (collect_results (diffItemFromRow (cpID bp) (cpID cp)) (take (nat limit) found)) (\<lambda>items.
      bind_result (if nat limit < length found \<and> take (nat limit) found \<noteq> []
          then Encode (bvCodec env) (?scope (row_anchor (last (take (nat limit) found)))) else Inr []) (\<lambda>nextCursor.
        Inr \<lparr>dpItems = items, dpNextCursor = nextCursor\<rparr>)))) = Inr page"
    using assms unfolding Diff_def guard_eq_Inr limit base compare bprefix cprefix bind_result_Inr prod.case Let_def page_rows_def row_kind_parses
    by (simp add: same)
  then obtain anchor found where anchor: "?anchor = Inr anchor" and found: "?query anchor = Inr found"
    and items: "collect_results (diffItemFromRow (cpID bp) (cpID cp)) (take (nat limit) found) = Inr (dpItems page)"
    and more: "if nat limit < length found \<and> take (nat limit) found \<noteq> []
       then Encode (bvCodec env) (?scope (row_anchor (last (take (nat limit) found)))) = Inr (dpNextCursor page) else dpNextCursor page = []"
    unfolding bind_result_eq_Inr by (auto split: if_splits)
  have "TrimSpace (dqCursor request) = [] \<and> anchor = None
     \<or> (\<exists>decoded loaded. TrimSpace (dqCursor request) \<noteq> [] \<and> decodeAuthenticated (bvCodec env) (dqCursor request) = Inr decoded
          \<and> loadDiffAnchor env db (csAnchor decoded) bp cp bg cg bprefix cprefix = Inr loaded \<and> anchor = Some loaded)"
    using anchor by (auto simp: Decode_def bind_result_eq_Inr guard_eq_Inr split: if_splits)
  then show thesis using that [OF base compare same limit bprefix cprefix _ found items] more by (simp add: diff_cursor_def)
qed

section \<open>Following the cursors\<close>

definition fetch_diff :: "catalog_db \<Rightarrow> AuthorizationScope \<Rightarrow> DiffRequest \<Rightarrow> catalog_env \<Rightarrow> string \<Rightarrow> (catalog_error, DiffItemDTO list \<times> string) result" where
  "fetch_diff db scope request env cursor =
     bind_result (Diff env db scope (request\<lparr>dqCursor := cursor\<rparr>)) (\<lambda>page. Inr (dpItems page, dpNextCursor page))"

text \<open>The difference in full: the two sides and their changes in the order of the pages.\<close>

record diff_sides =
  dxBase :: "CatalogPoint \<times> RepositoryRow \<times> CatalogGeneration"
  dxCompare :: "CatalogPoint \<times> RepositoryRow \<times> CatalogGeneration"
  dxBasePrefix :: string
  dxComparePrefix :: string

definition base_side :: "bool \<Rightarrow> catalog_db \<Rightarrow> diff_sides \<Rightarrow> (string \<times> CatalogEntry) list" where
  "base_side ic db d = (case dxBase d of (p, _, g) \<Rightarrow> diffSideCTE ic db (gnID g) (cpID p) (dxBasePrefix d))"

definition compare_side :: "bool \<Rightarrow> catalog_db \<Rightarrow> diff_sides \<Rightarrow> (string \<times> CatalogEntry) list" where
  "compare_side ic db d = (case dxCompare d of (p, _, g) \<Rightarrow> diffSideCTE ic db (gnID g) (cpID p) (dxComparePrefix d))"

definition diff_listing :: "bool \<Rightarrow> catalog_db \<Rightarrow> diff_sides \<Rightarrow> diffRow list" where
  "diff_listing ic db d = sort_key row_key (diff_changes (base_side ic db d) (compare_side ic db d))"

definition diff_token :: "AuthorizationScope \<Rightarrow> DiffRequest \<Rightarrow> diff_sides \<Rightarrow> diffRow \<Rightarrow> CursorScope" where
  "diff_token scope request d =
     (case (dxBase d, dxCompare d) of ((bp, r, bg), (cp, _, cg)) \<Rightarrow> diff_cursor scope request r bp cp bg cg)"

definition diff_item :: "diff_sides \<Rightarrow> diffRow \<Rightarrow> (catalog_error, DiffItemDTO) result" where
  "diff_item d = diffItemFromRow (cpID (fst (dxBase d))) (cpID (fst (dxCompare d)))"

text \<open>What a request reads: the authorised points with their active generations, and the directories asked for.\<close>

definition diff_reads :: "catalog_env \<Rightarrow> catalog_db \<Rightarrow> AuthorizationScope \<Rightarrow> DiffRequest \<Rightarrow> diff_sides \<Rightarrow> bool" where
  "diff_reads env db scope request d \<longleftrightarrow>
     authorizedActivePoint env db (dqBaseRecoveryPointID request) scope = Inr (dxBase d)
     \<and> authorizedActivePoint env db (dqCompareRecoveryPointID request) scope = Inr (dxCompare d)
     \<and> (case dxBase d of (p, _, g) \<Rightarrow> diffSubtreePrefix env db g p (dqBaseParentEntryID request) = Inr (dxBasePrefix d))
     \<and> (case dxCompare d of (p, _, g) \<Rightarrow> diffSubtreePrefix env db g p (dqCompareParentEntryID request) = Inr (dxComparePrefix d))"

lemma prefix_unique:
  assumes "diffSubtreePrefix env db g p i = Inr x" and "diffSubtreePrefix env' db g p i = Inr y"
  shows "x = y"
  using assms by (auto simp: diffSubtreePrefix_def loadCatalogEntry_def bind_result_eq_Inr sum_case_eq_Inr option_case_eq_Inr split: if_splits)

lemma reads_unique:
  assumes "diff_reads env db scope request d" and "diff_reads env' db scope request d'"
  shows "d = d'"
proof -
  have points: "dxBase d = dxBase d'" "dxCompare d = dxCompare d'"
    using assms active_unique unfolding diff_reads_def by blast+
  moreover have "dxBasePrefix d = dxBasePrefix d'" "dxComparePrefix d = dxComparePrefix d'"
    using assms points prefix_unique unfolding diff_reads_def by (auto split: prod.splits)
  ultimately show ?thesis by (cases d; cases d') simp
qed

lemma reads_cursor [simp]: "diff_reads env db scope (request\<lparr>dqCursor := c\<rparr>) d = diff_reads env db scope request d"
  by (simp add: diff_reads_def)

lemma diff_token_cursor [simp]: "diff_token scope (request\<lparr>dqCursor := c\<rparr>) d row = diff_token scope request d row"
  by (simp add: diff_token_def diff_cursor_def diff_scope_def split: prod.split)

lemma diff_token_anchor: "csAnchor (diff_token scope request d row) = row_anchor row"
  by (simp add: diff_token_def diff_cursor_def diff_scope_def split: prod.split)

text \<open>The page that one call answers.\<close>

lemma Diff_page:
  assumes "Diff env db scope request = Inr page"
  obtains d limit anchor found where "diff_reads env db scope request d" "normalizeCatalogPageLimit (dqLimit request) = Inr limit"
    "TrimSpace (dqCursor request) = [] \<and> anchor = None
     \<or> (\<exists>decoded loaded. TrimSpace (dqCursor request) \<noteq> [] \<and> decodeAuthenticated (bvCodec env) (dqCursor request) = Inr decoded
          \<and> loadDiffAnchor env db (csAnchor decoded) (fst (dxBase d)) (fst (dxCompare d)) (snd (snd (dxBase d))) (snd (snd (dxCompare d)))
              (dxBasePrefix d) (dxComparePrefix d) = Inr loaded \<and> anchor = Some loaded)"
    "found = take (nat limit + 1) (case anchor of None \<Rightarrow> diff_listing (bvLikeIgnoresCase env) db d
        | Some a \<Rightarrow> filter (after_anchor a) (diff_listing (bvLikeIgnoresCase env) db d))"
    "collect_results (diff_item d) (take (nat limit) found) = Inr (dpItems page)"
    "if nat limit < length found \<and> take (nat limit) found \<noteq> []
     then Encode (bvCodec env) (diff_token scope request d (last (take (nat limit) found))) = Inr (dpNextCursor page)
     else dpNextCursor page = []"
proof (rule Diff_ok [OF assms], goal_cases)
  case (1 bp br bg cp cr cg limit bprefix cprefix anchor found)
  let ?d = "\<lparr>dxBase = (bp, br, bg), dxCompare = (cp, cr, cg), dxBasePrefix = bprefix, dxComparePrefix = cprefix\<rparr>"
  have reads: "diff_reads env db scope request ?d" using 1(2-7) by (simp add: diff_reads_def)
  have found: "found = take (nat limit + 1) (case anchor of None \<Rightarrow> diff_listing (bvLikeIgnoresCase env) db ?d
      | Some a \<Rightarrow> filter (after_anchor a) (diff_listing (bvLikeIgnoresCase env) db ?d))"
    using 1(9) by (auto simp: queryDiffRows_def bind_result_eq_Inr diff_listing_def base_side_def compare_side_def filter_sort split: option.split)
  show ?case
    by (rule 1(1) [OF reads 1(5) _ found]) (use 1(8,10,11) in \<open>simp_all only: diff_item_def diff_token_def diff_sides.simps prod.case fst_conv snd_conv\<close>)
qed

definition diff_at where
  "diff_at db scope request d rows envs k cursor \<longleftrightarrow>
     k \<le> length rows
     \<and> (if k = 0 then TrimSpace cursor = []
        else \<exists>env \<in> set envs. Encode (bvCodec env) (diff_token scope request d (rows ! (k - 1))) = Inr cursor)"

text \<open>What the listing of a difference rests on; a cursor that is decoded is what was issued.\<close>

definition diff_ready where
  "diff_ready db scope request d ic rows envs \<longleftrightarrow>
     entries_keyed db \<and> rows = diff_listing ic db d \<and> (\<exists>env. diff_reads env db scope request d)
     \<and> (\<forall>env \<in> set envs. bvLikeIgnoresCase env = ic)
     \<and> (\<forall>env \<in> set envs. \<forall>env' \<in> set envs. \<forall>row \<in> set rows. \<forall>token decoded.
        Encode (bvCodec env) (diff_token scope request d row) = Inr token
        \<longrightarrow> decodeAuthenticated (bvCodec env') token = Inr decoded \<longrightarrow> decoded = diff_token scope request d row)"

lemma diff_request_cursor [simp]:
  "diff_ready db scope (request\<lparr>dqCursor := c\<rparr>) d ic rows envs = diff_ready db scope request d ic rows envs"
  "diff_at db scope (request\<lparr>dqCursor := c\<rparr>) d rows envs k t = diff_at db scope request d rows envs k t"
  by (simp_all add: diff_ready_def diff_at_def)

lemma listing_sorted:
  assumes "entries_keyed db"
  shows "sorted_wrt (\<lambda>a b. row_key a < row_key b) (diff_listing ic db d)"
  unfolding diff_listing_def base_side_def compare_side_def
  using side_ids [OF assms] by (intro strictly_sorted_key changes_distinct) (auto split: prod.split)

lemma one_diff_page:
  assumes ready: "diff_ready db scope request d ic rows envs" and env: "env \<in> set envs" and at: "diff_at db scope request d rows envs k (dqCursor request)"
    and limit: "normalizeCatalogPageLimit (dqLimit request) = Inr limit" and page: "Diff env db scope request = Inr page"
  shows "collect_results (diff_item d) (take (nat limit) (drop k rows)) = Inr (dpItems page)
    \<and> (if nat limit < length rows - k
       then k + nat limit \<le> length rows \<and> Encode (bvCodec env) (diff_token scope request d (rows ! (k + nat limit - 1))) = Inr (dpNextCursor page)
       else dpNextCursor page = [])"
proof -
  have R: "entries_keyed db" "rows = diff_listing ic db d" "bvLikeIgnoresCase env = ic" using ready env by (auto simp: diff_ready_def)
  obtain d' limit' anchor found where reads: "diff_reads env db scope request d'" and limit': "normalizeCatalogPageLimit (dqLimit request) = Inr limit'"
    and anchor: "TrimSpace (dqCursor request) = [] \<and> anchor = None
     \<or> (\<exists>decoded loaded. TrimSpace (dqCursor request) \<noteq> [] \<and> decodeAuthenticated (bvCodec env) (dqCursor request) = Inr decoded
          \<and> loadDiffAnchor env db (csAnchor decoded) (fst (dxBase d')) (fst (dxCompare d')) (snd (snd (dxBase d'))) (snd (snd (dxCompare d')))
              (dxBasePrefix d') (dxComparePrefix d') = Inr loaded \<and> anchor = Some loaded)"
    and found: "found = take (nat limit' + 1) (case anchor of None \<Rightarrow> diff_listing (bvLikeIgnoresCase env) db d'
        | Some a \<Rightarrow> filter (after_anchor a) (diff_listing (bvLikeIgnoresCase env) db d'))"
    and items: "collect_results (diff_item d') (take (nat limit') found) = Inr (dpItems page)"
    and more: "if nat limit' < length found \<and> take (nat limit') found \<noteq> []
     then Encode (bvCodec env) (diff_token scope request d' (last (take (nat limit') found))) = Inr (dpNextCursor page)
     else dpNextCursor page = []"
    by (rule Diff_page [OF page])
  have same: "d' = d" "limit' = limit" using ready reads_unique [OF reads] limit limit' by (auto simp: diff_ready_def)
  have pos: "0 < nat limit" using page_limit_pos [OF limit] by simp
  have "found = take (nat limit + 1) (drop k rows)"
  proof (cases "k = 0")
    case True
    then have "anchor = None" using at anchor by (auto simp: diff_at_def)
    then show ?thesis using True by (simp add: found same R)
  next
    case False
    then obtain env0 where issued: "env0 \<in> set envs" "Encode (bvCodec env0) (diff_token scope request d (rows ! (k - 1))) = Inr (dqCursor request)"
      and k: "k - 1 < length rows" using at by (auto simp: diff_at_def)
    have row: "rows ! (k - 1) \<in> set rows" using k by simp
    obtain a where loaded: "loadDiffAnchor env db (row_anchor (rows ! (k - 1))) (fst (dxBase d)) (fst (dxCompare d)) (snd (snd (dxBase d)))
        (snd (snd (dxCompare d))) (dxBasePrefix d) (dxComparePrefix d) = Inr a" "anchor = Some a"
      using anchor token_nonblank [OF issued(2)] ready env issued row same unfolding diff_ready_def by (metis diff_token_anchor)
    have "rows ! (k - 1) \<in> set (diff_changes (base_side ic db d) (compare_side ic db d))" using row R(2) by (simp add: diff_listing_def)
    then have key: "(daRelativePath a, daRank a, daBaseID a, daCompareID a) = row_key (rows ! (k - 1))"
      by (intro anchor_of_row [OF R(1) _ loaded(1), where ic = ic]) (simp add: base_side_def compare_side_def split_beta)
    have "after_anchor a = (\<lambda>row. row_key (rows ! (k - 1)) < row_key row)" by (intro ext) (simp only: after_anchor_key key)
    then have "found = take (nat limit + 1) (filter (\<lambda>row. row_key (rows ! (k - 1)) < row_key row) rows)"
      by (simp add: found same loaded(2) R(2,3))
    also have "\<dots> = take (nat limit + 1) (drop k rows)"
      using diff_pages.page_after [OF listing_sorted [OF R(1), of ic d, folded R(2)] k, of "nat limit"] False by simp
    finally show ?thesis .
  qed
  from page_step [where issued = "\<lambda>row token. Encode (bvCodec env) (diff_token scope request d row) = Inr token",
      OF pos this items [unfolded same] more [unfolded same]]
  show ?thesis .
qed

interpretation difference: paged_listing "fetch_diff db scope request" "diff_item d" rows
    "nat (projr (normalizeCatalogPageLimit (dqLimit request)))" "set envs"
    "\<lambda>k cursor. diff_ready db scope request d ic rows envs \<and> diff_at db scope request d rows envs k cursor"
  for db scope request d ic rows envs
proof (unfold_locales, elim conjE)
  fix env k cursor items following
  assume env: "env \<in> set envs" and ready: "diff_ready db scope request d ic rows envs"
    and k: "diff_at db scope request d rows envs k cursor" and fetched: "fetch_diff db scope request env cursor = Inr (items, following)"
  let ?request = "request\<lparr>dqCursor := cursor\<rparr>" and ?limit = "nat (projr (normalizeCatalogPageLimit (dqLimit request)))"
  obtain page where page: "Diff env db scope ?request = Inr page" "items = dpItems page" "following = dpNextCursor page"
    using fetched by (auto simp: fetch_diff_def bind_result_eq_Inr)
  obtain limit where limit: "normalizeCatalogPageLimit (dqLimit request) = Inr limit" by (rule Diff_page [OF page(1)]) simp
  have pos: "0 < nat limit" using page_limit_pos [OF limit] by simp
  have "collect_results (diff_item d) (take (nat limit) (drop k rows)) = Inr items
    \<and> (if nat limit < length rows - k
       then k + nat limit \<le> length rows \<and> Encode (bvCodec env) (diff_token scope request d (rows ! (k + nat limit - 1))) = Inr following
       else following = [])"
    unfolding page(2,3)
    by (rule one_diff_page [where request = ?request, unfolded diff_token_cursor, OF _ env _ _ page(1)]) (use ready k limit in simp_all)
  then show "collect_results (diff_item d) (take ?limit (drop k rows)) = Inr items
      \<and> (if ?limit < length rows - k
         then following \<noteq> [] \<and> diff_ready db scope request d ic rows envs \<and> diff_at db scope request d rows envs (k + ?limit) following
         else following = [])"
    unfolding limit sum.sel using env ready pos by (auto simp: diff_at_def)
qed

section \<open>What the difference is\<close>

text \<open>An entry of a side at a path relative to the directory that is compared.\<close>

definition entry_below :: "catalog_db \<Rightarrow> CatalogPoint \<times> RepositoryRow \<times> CatalogGeneration \<Rightarrow> string \<Rightarrow> string \<Rightarrow> CatalogEntry \<Rightarrow> bool" where
  "entry_below db side prefix q e \<longleftrightarrow>
     e \<in> set (cdEntries db) \<and> enGenerationID e = gnID (snd (snd side)) \<and> enRecoveryPointID e = cpID (fst side)
     \<and> enNormalizedPath e = (if prefix = [] then q else prefix @ ''/'' @ q)"

text \<open>A row of the difference: two entries of one path that differ in a field, or an entry without counterpart.\<close>

definition row_of_difference :: "catalog_db \<Rightarrow> diff_sides \<Rightarrow> diffRow \<Rightarrow> bool" where
  "row_of_difference db d row \<longleftrightarrow>
     (let base = entry_below db (dxBase d) (dxBasePrefix d) (dfRelativePath row);
          compare = entry_below db (dxCompare d) (dxComparePrefix d) (dfRelativePath row)
      in case (dfBase row, dfCompare row) of
           (Some b, Some c) \<Rightarrow> base b \<and> compare c \<and> changedDiffFields b c \<noteq> []
         | (Some b, None) \<Rightarrow> base b \<and> (\<nexists>c. compare c)
         | (None, Some c) \<Rightarrow> compare c \<and> (\<nexists>b. base b)
         | (None, None) \<Rightarrow> False)"

lemma side_exact:
  assumes "ic \<longrightarrow> prefix = []"
  shows "(q, e) \<in> set (diffSideCTE ic db (gnID (snd (snd side))) (cpID (fst side)) prefix) \<longleftrightarrow> entry_below db side prefix q e"
proof (cases "prefix = []")
  case True
  then show ?thesis by (auto simp: diffSideCTE_def entry_below_def Let_def)
next
  case False
  then show ?thesis using assms side_subtree [OF False] by (simp add: entry_below_def)
qed

text \<open>The columns the query compares are the fields that are reported.\<close>

lemma metadata_changed_fields: "metadata_changed b c \<longleftrightarrow> changedDiffFields b c \<noteq> []"
  by (auto simp: metadata_changed_def changedDiffFields_def optionalTimesEqual_def split: option.splits)

lemma changes_exact:
  "row \<in> set (diff_changes base compare) \<longleftrightarrow>
     (case (dfBase row, dfCompare row) of
        (Some b, Some c) \<Rightarrow> (dfRelativePath row, b) \<in> set base \<and> (dfRelativePath row, c) \<in> set compare \<and> changedDiffFields b c \<noteq> []
      | (Some b, None) \<Rightarrow> (dfRelativePath row, b) \<in> set base \<and> (\<nexists>c. (dfRelativePath row, c) \<in> set compare)
      | (None, Some c) \<Rightarrow> (dfRelativePath row, c) \<in> set compare \<and> (\<nexists>b. (dfRelativePath row, b) \<in> set base)
      | (None, None) \<Rightarrow> False)"
proof -
  have base: "row \<in> set (base_changes compare (q, b)) \<longleftrightarrow> dfRelativePath row = q \<and> dfBase row = Some b
      \<and> (case dfCompare row of None \<Rightarrow> \<nexists>c. (q, c) \<in> set compare | Some c \<Rightarrow> (q, c) \<in> set compare \<and> metadata_changed b c)" for q b
    by (cases row) (auto simp: base_changes_def Let_def filter_empty_conv image_iff split: option.split)
  have added: "row \<in> (\<lambda>pc. \<lparr>dfRelativePath = fst pc, dfBase = None, dfCompare = Some (snd pc)\<rparr>) ` {pc \<in> set compare. \<not> list_ex (\<lambda>pb. fst pb = fst pc) base}
      \<longleftrightarrow> dfBase row = None \<and> (\<exists>c. dfCompare row = Some c \<and> (dfRelativePath row, c) \<in> set compare) \<and> (\<nexists>b. (dfRelativePath row, b) \<in> set base)"
    by (cases row) (auto simp: image_iff list_ex_iff)
  have "row \<in> set (diff_changes base compare) \<longleftrightarrow> (\<exists>q b. (q, b) \<in> set base \<and> row \<in> set (base_changes compare (q, b)))
      \<or> dfBase row = None \<and> (\<exists>c. dfCompare row = Some c \<and> (dfRelativePath row, c) \<in> set compare) \<and> (\<nexists>b. (dfRelativePath row, b) \<in> set base)"
    unfolding added [symmetric] by (auto simp: diff_changes_def)
  then show ?thesis unfolding base metadata_changed_fields by (cases "dfBase row"; cases "dfCompare row") auto
qed

lemma listing_exact:
  assumes "ic \<longrightarrow> dxBasePrefix d = [] \<and> dxComparePrefix d = []"
  shows "set (diff_listing ic db d) = {row. row_of_difference db d row}"
proof -
  have "(q, e) \<in> set (base_side ic db d) \<longleftrightarrow> entry_below db (dxBase d) (dxBasePrefix d) q e"
    "(q, e) \<in> set (compare_side ic db d) \<longleftrightarrow> entry_below db (dxCompare d) (dxComparePrefix d) q e" for q e
    unfolding base_side_def compare_side_def split_beta by (rule side_exact; use assms in blast)+
  then show ?thesis unfolding diff_listing_def set_sort
    by (intro set_eqI) (simp only: mem_Collect_eq changes_exact row_of_difference_def Let_def)
qed


section \<open>Who is answered\<close>

lemma active_may_see:
  assumes "ownership_tables_ok db" and "authorizedActivePoint env db pointID scope = Inr x"
  shows "may_see (bvLineage env) db scope pointID"
proof -
  obtain visible where "AuthorizedPointIDs (bvLineage env) (bvFault env) db scope [pointID] = Inr visible" "length visible = 1"
    using assms(2) by (auto simp: authorizedActivePoint_def authorizedPublicPoint_def bind_result_eq_Inr guard_eq_Inr)
  then have "filter (may_see (bvLineage env) db scope) [pointID] \<noteq> []" using authorized_ids [OF assms(1)] by (fastforce simp: nub_def)
  then show ?thesis by (simp split: if_splits)
qed

lemma dto_point: "catalogEntryDTO e = Inr dto \<Longrightarrow> etRecoveryPointID dto = enRecoveryPointID e"
  by (auto simp: catalogEntryDTO_def bind_result_eq_Inr guard_eq_Inr Let_def split: if_splits)

lemma item_points:
  assumes "diffItemFromRow b c row = Inr item"
  shows "(\<forall>s. diBase item = Some s \<longrightarrow> dsRecoveryPointID s = b) \<and> (\<forall>s. diCompare item = Some s \<longrightarrow> dsRecoveryPointID s = c)"
proof -
  have side: "dsRecoveryPointID s = p" if "diffSideFromRow p e = Inr (Some s)" for p e s
    using that by (auto simp: diffSideFromRow_def bind_result_eq_Inr guard_eq_Inr split: option.splits if_splits)
  obtain base compare where "diffSideFromRow b (dfBase row) = Inr base" "diffSideFromRow c (dfCompare row) = Inr compare"
    "diBase item = base" "diCompare item = compare"
    using assms by (cases "dfBase row"; cases "dfCompare row") (auto simp: diffItemFromRow_def bind_result_eq_Inr)
  then show ?thesis using side by auto
qed

lemma listed_points:
  assumes "ListEntries env db pointID scope request = Inr page" and "item \<in> set (epItems page)"
  shows "etRecoveryPointID item = pointID"
proof (rule ListEntries_ok [OF assms(1)], goal_cases)
  case (1 p repository generation limit anchor found)
  obtain e where e: "e \<in> set (take (nat limit) found)" "catalogEntryDTO e = Inr item" using collect_results_set [OF 1(6) assms(2)] by blast
  then have "e \<in> set (applyEntrySort (listing_sort request) anchor (directory_rows db (gnID generation) (cpID p) (elParentEntryID request)))"
    using 1(5) by (auto dest: in_set_takeD)
  then have "enRecoveryPointID e = pointID"
    using active_point [OF 1(1)] by (auto simp: applyEntrySort_def directory_rows_def split: option.splits)
  then show ?case using dto_point [OF e(2)] by simp
qed

text \<open>
  C12. The catalog answers only about points the caller may see. A listing, an entry, the versions of an entry
  and a difference are returned only when the points asked about are visible to the caller, an administrator
  or the operator who owns the node of the producing task; and what is returned is about these points, or
  for versions about points that are visible as well.
\<close>

theorem catalog_reads_authorised:
  assumes "ownership_tables_ok db"
  shows "(\<forall>page. ListEntries env db pointID scope listing = Inr page \<longrightarrow>
      may_see (bvLineage env) db scope pointID \<and> (\<forall>item \<in> set (epItems page). etRecoveryPointID item = pointID))
    \<and> (\<forall>entry. GetEntry env db pointID entryID scope = Inr entry \<longrightarrow>
      may_see (bvLineage env) db scope pointID \<and> etRecoveryPointID entry = pointID)
    \<and> (\<forall>versions. ListEntryVersions env db pointID entryID scope = Inr versions \<longrightarrow>
      may_see (bvLineage env) db scope pointID \<and> (\<forall>v \<in> set versions. may_see (bvLineage env) db scope (evRecoveryPointID v)))
    \<and> (\<forall>page. Diff env db scope request = Inr page \<longrightarrow>
      may_see (bvLineage env) db scope (dqBaseRecoveryPointID request) \<and> may_see (bvLineage env) db scope (dqCompareRecoveryPointID request)
      \<and> (\<forall>item \<in> set (dpItems page). (\<forall>s. diBase item = Some s \<longrightarrow> dsRecoveryPointID s = dqBaseRecoveryPointID request)
           \<and> (\<forall>s. diCompare item = Some s \<longrightarrow> dsRecoveryPointID s = dqCompareRecoveryPointID request)))"
proof (intro conjI allI impI ballI)
  fix page
  assume page: "ListEntries env db pointID scope listing = Inr page"
  show "may_see (bvLineage env) db scope pointID" by (rule ListEntries_ok [OF page]) (rule active_may_see [OF assms])
  show "etRecoveryPointID item = pointID" if "item \<in> set (epItems page)" for item using listed_points [OF page that] .
next
  fix entry
  assume entry: "GetEntry env db pointID entryID scope = Inr entry"
  obtain p r g e dto where active: "authorizedActivePoint env db pointID scope = Inr (p, r, g)"
    and e: "loadCatalogEntry env db (gnID g) (cpID p) entryID = Inr e" and dto: "catalogEntryDTO e = Inr dto" "etRecoveryPointID entry = etRecoveryPointID dto"
    using entry by (auto simp: GetEntry_def bind_result_eq_Inr guard_eq_Inr sum_case_eq_Inr)
  show "may_see (bvLineage env) db scope pointID" by (rule active_may_see [OF assms active])
  have "enRecoveryPointID e = cpID p" using e by (auto simp: loadCatalogEntry_def bind_result_eq_Inr option_case_eq_Inr dest: take_row_Some)
  then show "etRecoveryPointID entry = pointID" using dto dto_point active_point [OF active] by simp
next
  fix versions
  assume versions: "ListEntryVersions env db pointID entryID scope = Inr versions"
  obtain x visible rows where active: "authorizedActivePoint env db pointID scope = Inr x"
    and visible: "AuthorizedPointIDs (bvLineage env) (bvFault env) db scope (map evRecoveryPointID rows) = Inr visible"
    and items: "versions = filter (\<lambda>row. evRecoveryPointID row \<in> set visible) rows"
    using versions by (auto simp: ListEntryVersions_def bind_result_eq_Inr guard_eq_Inr sum_case_eq_Inr Let_def simp del: map_map)
  show "may_see (bvLineage env) db scope pointID" by (rule active_may_see [OF assms active])
  show "may_see (bvLineage env) db scope (evRecoveryPointID v)" if "v \<in> set versions" for v
    using that items authorized_ids [OF assms visible] by simp
next
  fix page
  assume page: "Diff env db scope request = Inr page"
  show "may_see (bvLineage env) db scope (dqBaseRecoveryPointID request)" by (rule Diff_ok [OF page]) (rule active_may_see [OF assms])
  show "may_see (bvLineage env) db scope (dqCompareRecoveryPointID request)" by (rule Diff_ok [OF page]) (rule active_may_see [OF assms])
  fix item s
  assume item: "item \<in> set (dpItems page)"
  have "\<exists>row. diffItemFromRow (dqBaseRecoveryPointID request) (dqCompareRecoveryPointID request) row = Inr item"
  proof (rule Diff_ok [OF page], goal_cases)
    case (1 bp br bg cp cr cg limit bprefix cprefix anchor found)
    then show ?case using collect_results_set [OF 1(9) item] active_point [OF 1(1)] active_point [OF 1(2)] by auto
  qed
  then show "dsRecoveryPointID s = dqBaseRecoveryPointID request" if "diBase item = Some s" using item_points that by blast
  show "dsRecoveryPointID s = dqCompareRecoveryPointID request" if "diCompare item = Some s"
    using \<open>\<exists>row. _\<close> item_points that by blast
qed

section \<open>Directories that differ in case\<close>

text \<open>
  C38. A difference of directories can stop at a directory of another name. Where \<open>LIKE\<close> ignores case, as on
  SQLite, an entry below a directory whose name differs from the compared one only in the case of letters is
  taken as an entry below it; and when a page ends with such an entry, the cursor of that page is rejected
  as stale, although nothing has changed.
\<close>

theorem subtree_diff_takes_other_case:
  assumes "entries_keyed db" and "diff_reads env db scope request d" and "bvLikeIgnoresCase env"
    and "e \<in> set (cdEntries db)" and "enGenerationID e = gnID (snd (snd (dxBase d)))" and "enRecoveryPointID e = cpID (fst (dxBase d))"
    and "enNormalizedPath e = u @ ''/'' @ q" and "list_all2 (like_char True) (dxBasePrefix d) u" and "u \<noteq> dxBasePrefix d"
    and "enEntryID e \<noteq> []" and "Diff env db scope (request\<lparr>dqCursor := []\<rparr>) = Inr page"
    and "TrimSpace token \<noteq> []" and "Decode (bvCodec env) token (diff_scope scope request (rrID (fst (snd (dxBase d)))) (fst (dxBase d)) (fst (dxCompare d))
        (snd (snd (dxBase d))) (snd (snd (dxCompare d))) empty_anchor) = Inr decoded"
    and "csAnchor decoded = row_anchor row" and "dfBase row = Some e"
  shows "(q, e) \<in> set (base_side True db d) \<and> Diff env db scope (request\<lparr>dqCursor := token\<rparr>) = Inl ErrStaleCursor"
proof
  obtain bp br bg cp cr cg where d: "dxBase d = (bp, br, bg)" "dxCompare d = (cp, cr, cg)" by (metis prod.exhaust)
  have len: "length u = length (dxBasePrefix d)" using assms(8) by (simp add: list_all2_lengthD)
  have prefix: "dxBasePrefix d \<noteq> []" using assms(9) len by auto
  show "(q, e) \<in> set (base_side True db d)"
    using assms(4-8) d prefix len sql_like_prefix [of True "dxBasePrefix d" "enNormalizedPath e"]
    by (force simp: base_side_def diffSideCTE_def Let_def image_iff)
  have "\<not> HasPrefix (enNormalizedPath e) (dxBasePrefix d @ ''/'')" using len assms(7,9) by (auto simp: HasPrefix_def)
  then have left: "relativeDiffPath (enNormalizedPath e) (dxBasePrefix d) = Inl ErrStaleCursor" using prefix by (simp add: relativeDiffPath_def Let_def)
  have "loadDiffAnchor env db (row_anchor row) bp cp bg cg (dxBasePrefix d) (dxComparePrefix d) = Inl ErrStaleCursor"
  proof (cases "loadCatalogEntry env db (gnID bg) (cpID bp) (enEntryID e)")
    case (Inl a)
    then show ?thesis using assms(10,15) by (simp add: loadDiffAnchor_def row_anchor_def entry_id_or_empty_def Let_def)
  next
    case (Inr loaded)
    then have "loaded = e" using loaded_entry [OF assms(1) Inr assms(4)] assms(5) d by simp
    then show ?thesis using assms(10,15) left Inr by (simp add: loadDiffAnchor_def row_anchor_def entry_id_or_empty_def Let_def)
  qed
  moreover obtain limit where "normalizeCatalogPageLimit (dqLimit request) = Inr limit" "rrID br = rrID cr"
    "\<not> (dqBaseRecoveryPointID request = dqCompareRecoveryPointID request \<or> \<not> ValidateOpaqueID (dqBaseRecoveryPointID request)
         \<or> \<not> ValidateOpaqueID (dqCompareRecoveryPointID request))" "\<not> (dqSort request \<noteq> [] \<and> dqSort request \<noteq> ''path_asc'')"
    using assms(2,11) d unfolding Diff_def diff_reads_def guard_eq_Inr by (auto simp: bind_result_eq_Inr guard_eq_Inr)
  ultimately show "Diff env db scope (request\<lparr>dqCursor := token\<rparr>) = Inl ErrStaleCursor"
    using assms(2,12-14) d unfolding diff_reads_def Diff_def by (simp add: Let_def diff_scope_def)
qed

section \<open>An example\<close>

text \<open>The directory \<open>docs\<close> of the snapshot and of the mutable head.\<close>

definition sample_diff :: "int \<Rightarrow> DiffRequest" where
  "sample_diff limit = \<lparr>dqBaseRecoveryPointID = sample_id (CHR ''a''), dqCompareRecoveryPointID = sample_id (CHR ''b''),
     dqBaseParentEntryID = sample_entry_id (CHR ''1''), dqCompareParentEntryID = sample_entry_id (CHR ''1''), dqSort = [], dqLimit = limit, dqCursor = []\<rparr>"

definition sample_sides :: diff_sides where
  "sample_sides = \<lparr>dxBase = (cdPoints sample_catalog ! 0, cdRepositories sample_catalog ! 0, cdGenerations sample_catalog ! 0),
     dxCompare = (cdPoints sample_catalog ! 1, cdRepositories sample_catalog ! 0, cdGenerations sample_catalog ! 1),
     dxBasePrefix = ''docs'', dxComparePrefix = ''docs''\<rparr>"

definition sample_diff_scope :: CursorScope where
  "sample_diff_scope = diff_scope sample_admin (sample_diff 1) (rrID (cdRepositories sample_catalog ! 0)) (cdPoints sample_catalog ! 0)
     (cdPoints sample_catalog ! 1) (cdGenerations sample_catalog ! 0) (cdGenerations sample_catalog ! 1) empty_anchor"

text \<open>The removed file, the one of the other directory and the one that was changed.\<close>

definition sample_removed :: diffRow where
  "sample_removed = \<lparr>dfRelativePath = ''a'', dfBase = Some (cdEntries sample_catalog ! 2), dfCompare = None\<rparr>"

definition sample_foreign :: diffRow where
  "sample_foreign = \<lparr>dfRelativePath = ''aa'', dfBase = Some (cdEntries sample_catalog ! 4), dfCompare = None\<rparr>"

definition sample_modified :: diffRow where
  "sample_modified = \<lparr>dfRelativePath = ''b'', dfBase = Some (cdEntries sample_catalog ! 3), dfCompare = Some (cdEntries sample_catalog ! 6)\<rparr>"

lemma sample_diff_reads: "diff_reads (sample_service ic scopes) sample_catalog sample_admin (sample_diff limit) sample_sides"
proof -
  have "diffSubtreePrefix (sample_service ic scopes) sample_catalog (cdGenerations sample_catalog ! 0) (cdPoints sample_catalog ! 0) (sample_entry_id (CHR ''1'')) = Inr ''docs''
      \<and> diffSubtreePrefix (sample_service ic scopes) sample_catalog (cdGenerations sample_catalog ! 1) (cdPoints sample_catalog ! 1) (sample_entry_id (CHR ''1'')) = Inr ''docs''"
    by code_simp
  then show ?thesis by (simp add: diff_reads_def sample_sides_def sample_diff_def sample_active)
qed

lemma sample_rows:
  "diff_listing False sample_catalog sample_sides = [sample_removed, sample_modified]
   \<and> diff_listing True sample_catalog sample_sides = [sample_removed, sample_foreign, sample_modified]"
  by code_simp

lemma sample_items:
  "(case collect_results (diff_item sample_sides) [sample_removed, sample_foreign, sample_modified] of
     Inl _ \<Rightarrow> False | Inr items \<Rightarrow> map diKind items = [''removed'', ''removed'', ''modified'']
       \<and> map diChangedFields items = [[], [], [''size'']])
   \<and> distinct (map (\<lambda>row. json_anchor (row_anchor row)) [sample_removed, sample_modified])"
  by code_simp

lemma sample_diff_cursor:
  "is_ok (Encode (table_codec scopes) (sample_diff_scope\<lparr>csAnchor := row_anchor sample_removed\<rparr>))
   \<and> is_ok (Encode (table_codec scopes) (sample_diff_scope\<lparr>csAnchor := row_anchor sample_foreign\<rparr>))
   \<and> is_ok (validate False sample_diff_scope)"
  by code_simp

lemma sample_anchor_loads:
  "loadDiffAnchor (sample_service ic scopes) sample_catalog (row_anchor sample_removed) (cdPoints sample_catalog ! 0) (cdPoints sample_catalog ! 1)
     (cdGenerations sample_catalog ! 0) (cdGenerations sample_catalog ! 1) ''docs'' ''docs''
   = Inr \<lparr>daRelativePath = ''a'', daRank = 1, daBaseID = sample_entry_id (CHR ''3''), daCompareID = []\<rparr>"
  by code_simp

lemma sample_diff_token:
  "diff_token sample_admin (sample_diff limit) sample_sides row = sample_diff_scope\<lparr>csAnchor := row_anchor row\<rparr>"
  by (simp add: diff_token_def sample_sides_def diff_cursor_def sample_diff_scope_def diff_scope_def sample_diff_def)

lemma sample_diff_decodes:
  assumes "Encode (table_codec scopes) (sample_diff_scope\<lparr>csAnchor := a\<rparr>) = Inr token"
    and "scopes = map (\<lambda>a. sample_diff_scope\<lparr>csAnchor := a\<rparr>) anchors" and "distinct (map json_anchor anchors)" and "a \<in> set anchors"
  shows "Decode (table_codec scopes) token sample_diff_scope = Inr (sample_diff_scope\<lparr>csAnchor := a\<rparr>)"
proof -
  have "decodeAuthenticated (table_codec scopes) token = Inr (sample_diff_scope\<lparr>csAnchor := a\<rparr>)"
    using table_parses [OF assms(3,4)] assms(1,2) by (intro sample_decodes) simp_all
  moreover have "cursorClaimsMatch (sample_diff_scope\<lparr>csAnchor := a\<rparr>) sample_diff_scope"
    by (simp add: cursorClaimsMatch_def sample_diff_scope_def diff_scope_def)
  moreover have "validate False sample_diff_scope = Inr ()" using sample_diff_cursor [of scopes] by (simp add: is_ok_iff)
  ultimately show ?thesis by (simp add: Decode_def cursorClaimsFromScope_def)
qed

text \<open>The answer to the request, up to the page.\<close>

lemma sample_diff_page:
  assumes "0 < limit" and "limit \<le> 200"
  shows "Diff (sample_service ic scopes) sample_catalog sample_admin ((sample_diff limit)\<lparr>dqCursor := token\<rparr>) =
    bind_result
      (if TrimSpace token = [] then Inr None
       else bind_result (Decode (table_codec scopes) token sample_diff_scope) (\<lambda>decoded.
         bind_result (loadDiffAnchor (sample_service ic scopes) sample_catalog (csAnchor decoded) (cdPoints sample_catalog ! 0) (cdPoints sample_catalog ! 1)
            (cdGenerations sample_catalog ! 0) (cdGenerations sample_catalog ! 1) ''docs'' ''docs'') (\<lambda>loaded. Inr (Some loaded)))) (\<lambda>anchor.
    let found = take (nat limit + 1) (case anchor of None \<Rightarrow> diff_listing ic sample_catalog sample_sides
          | Some a \<Rightarrow> filter (after_anchor a) (diff_listing ic sample_catalog sample_sides))
    in bind_result (collect_results (diff_item sample_sides) (take (nat limit) found)) (\<lambda>items.
       bind_result (if nat limit < length found \<and> take (nat limit) found \<noteq> []
         then Encode (table_codec scopes) (sample_diff_scope\<lparr>csAnchor := row_anchor (last (take (nat limit) found))\<rparr>) else Inr []) (\<lambda>nextCursor.
       Inr \<lparr>dpItems = items, dpNextCursor = nextCursor\<rparr>)))"
proof -
  have valid: "ValidateOpaqueID (sample_id (CHR ''a'')) \<and> ValidateOpaqueID (sample_id (CHR ''b'')) \<and> sample_id (CHR ''a'') \<noteq> sample_id (CHR ''b'')" by code_simp
  have stmt: "catalog_stmt_ok no_fault stmt = Inr ()" for stmt by (simp add: catalog_stmt_ok_def no_fault_def)
  have scope: "diff_scope sample_admin ((sample_diff limit)\<lparr>dqCursor := token\<rparr>) (rrID (cdRepositories sample_catalog ! 0)) (cdPoints sample_catalog ! 0)
     (cdPoints sample_catalog ! 1) (cdGenerations sample_catalog ! 0) (cdGenerations sample_catalog ! 1) a = sample_diff_scope\<lparr>csAnchor := a\<rparr>" for a
    by (simp add: sample_diff_scope_def diff_scope_def sample_diff_def)
  have empty: "sample_diff_scope\<lparr>csAnchor := empty_anchor\<rparr> = sample_diff_scope" by (simp add: sample_diff_scope_def diff_scope_def)
  have limit: "normalizeCatalogPageLimit limit = Inr limit"
    using assms by (simp add: normalizeCatalogPageLimit_def maxCatalogPageLimit_def Let_def)
  have query: "queryDiffRows (sample_service ic scopes)
      (diffSideCTE ic sample_catalog (gnID (cdGenerations sample_catalog ! 0)) (cpID (cdPoints sample_catalog ! 0)) ''docs'')
      (diffSideCTE ic sample_catalog (gnID (cdGenerations sample_catalog ! 1)) (cpID (cdPoints sample_catalog ! 1)) ''docs'') anchor n
    = Inr (take n (case anchor of None \<Rightarrow> diff_listing ic sample_catalog sample_sides
          | Some a \<Rightarrow> filter (after_anchor a) (diff_listing ic sample_catalog sample_sides)))" for anchor n
    by (simp add: queryDiffRows_def stmt diff_listing_def base_side_def compare_side_def sample_sides_def filter_sort split: option.split)
  have item: "diff_item sample_sides = diffItemFromRow (cpID (cdPoints sample_catalog ! 0)) (cpID (cdPoints sample_catalog ! 1))"
    by (simp add: diff_item_def sample_sides_def)
  note reads = sample_diff_reads [of ic scopes limit, unfolded diff_reads_def sample_sides_def sample_diff_def, simplified]
  show ?thesis unfolding Diff_def
    using valid reads
    by (simp add: sample_diff_def limit scope [unfolded sample_diff_def, simplified] empty query [unfolded One_nat_def] item page_rows_def Let_def
        split del: if_split cong: if_cong)
qed

definition diff_service :: "bool \<Rightarrow> diffRow list \<Rightarrow> catalog_env" where
  "diff_service ic rows = sample_service ic (map (\<lambda>a. sample_diff_scope\<lparr>csAnchor := a\<rparr>) (map row_anchor rows))"

lemma sample_item_parts:
  obtains removed foreign modified where "diff_item sample_sides sample_removed = Inr removed" "diff_item sample_sides sample_foreign = Inr foreign"
    "diff_item sample_sides sample_modified = Inr modified" "map diKind [removed, modified] = [''removed'', ''modified'']"
    "map diChangedFields [removed, modified] = [[], [''size'']]"
  using sample_items by (auto simp: bind_result_eq_Inr split: sum.splits)

lemma sample_diff_pages:
  "\<exists>items. follow_pages (fetch_diff sample_catalog sample_admin (sample_diff 1))
       [diff_service False [sample_removed, sample_modified], diff_service False [sample_removed, sample_modified]] [] = Inr (items, True)
     \<and> map diKind items = [''removed'', ''modified''] \<and> map diChangedFields items = [[], [''size'']]"
proof -
  let ?scopes = "map (\<lambda>a. sample_diff_scope\<lparr>csAnchor := a\<rparr>) (map row_anchor [sample_removed, sample_modified])"
  obtain token where token: "Encode (table_codec ?scopes) (sample_diff_scope\<lparr>csAnchor := row_anchor sample_removed\<rparr>) = Inr token"
    using sample_diff_cursor [of ?scopes] by (auto simp: is_ok_iff)
  obtain removed foreign modified where items: "diff_item sample_sides sample_removed = Inr removed" "diff_item sample_sides sample_modified = Inr modified"
    and kinds: "map diKind [removed, modified] = [''removed'', ''modified'']" "map diChangedFields [removed, modified] = [[], [''size'']]"
    by (rule sample_item_parts)
  have first: "Diff (sample_service False ?scopes) sample_catalog sample_admin ((sample_diff 1)\<lparr>dqCursor := []\<rparr>) = Inr \<lparr>dpItems = [removed], dpNextCursor = token\<rparr>"
    by (subst sample_diff_page) (simp_all add: sample_rows items token [simplified] Let_def eval_nat_numeral)
  have decoded: "Decode (table_codec ?scopes) token sample_diff_scope = Inr (sample_diff_scope\<lparr>csAnchor := row_anchor sample_removed\<rparr>)"
    using sample_items by (intro sample_diff_decodes [OF token refl]) simp_all
  let ?a = "\<lparr>daRelativePath = ''a'', daRank = 1, daBaseID = sample_entry_id (CHR ''3''), daCompareID = []\<rparr>"
  have after: "\<not> after_anchor ?a sample_removed \<and> after_anchor ?a sample_modified" by code_simp
  have second: "Diff (sample_service False ?scopes) sample_catalog sample_admin ((sample_diff 1)\<lparr>dqCursor := token\<rparr>) = Inr \<lparr>dpItems = [modified], dpNextCursor = []\<rparr>"
    using token_nonblank [OF token] decoded
    by (subst sample_diff_page) (simp_all add: sample_rows after items sample_anchor_loads [unfolded One_nat_def] Let_def eval_nat_numeral)
  have "token \<noteq> []" using token by auto
  then show ?thesis using kinds unfolding diff_service_def by (simp add: fetch_diff_def first [simplified] second [simplified])
qed


theorem catalog_reads_authorised_witness:
  "(\<exists>page. Diff (diff_service False [sample_removed, sample_modified]) sample_catalog sample_admin ((sample_diff 1)\<lparr>dqCursor := []\<rparr>) = Inr page)
   \<and> may_see sample_lineage sample_catalog sample_admin (sample_id (CHR ''a'')) \<and> may_see sample_lineage sample_catalog sample_admin (sample_id (CHR ''b''))"
proof -
  let ?env = "diff_service False [sample_removed, sample_modified]" and ?request = "(sample_diff 1)\<lparr>dqCursor := []\<rparr>"
  obtain page where page: "Diff ?env sample_catalog sample_admin ?request = Inr page"
    using sample_diff_pages by (auto simp: fetch_diff_def bind_result_eq_Inr)
  have "may_see (bvLineage ?env) sample_catalog sample_admin (dqBaseRecoveryPointID ?request)
      \<and> may_see (bvLineage ?env) sample_catalog sample_admin (dqCompareRecoveryPointID ?request)"
    using catalog_reads_authorised [OF sample_catalog_ok, THEN conjunct2, THEN conjunct2, THEN conjunct2, of ?env sample_admin ?request] page by blast
  then show ?thesis using page by (simp add: diff_service_def sample_diff_def)
qed

theorem subtree_diff_takes_other_case_witness:
  "\<exists>page. Diff (diff_service True [sample_foreign]) sample_catalog sample_admin ((sample_diff 2)\<lparr>dqCursor := []\<rparr>) = Inr page
     \<and> Diff (diff_service True [sample_foreign]) sample_catalog sample_admin ((sample_diff 2)\<lparr>dqCursor := dpNextCursor page\<rparr>) = Inl ErrStaleCursor"
proof -
  let ?scopes = "map (\<lambda>a. sample_diff_scope\<lparr>csAnchor := a\<rparr>) (map row_anchor [sample_foreign])" and ?env = "diff_service True [sample_foreign]"
  obtain token where token: "Encode (table_codec ?scopes) (sample_diff_scope\<lparr>csAnchor := row_anchor sample_foreign\<rparr>) = Inr token"
    using sample_diff_cursor [of ?scopes] by (auto simp: is_ok_iff)
  obtain removed foreign modified where items: "diff_item sample_sides sample_removed = Inr removed" "diff_item sample_sides sample_foreign = Inr foreign"
    by (rule sample_item_parts)
  have page: "Diff ?env sample_catalog sample_admin ((sample_diff 2)\<lparr>dqCursor := []\<rparr>) = Inr \<lparr>dpItems = [removed, foreign], dpNextCursor = token\<rparr>"
    unfolding diff_service_def by (subst sample_diff_page) (simp_all add: sample_rows items token [simplified] Let_def eval_nat_numeral)
  have decoded: "Decode (table_codec ?scopes) token sample_diff_scope = Inr (sample_diff_scope\<lparr>csAnchor := row_anchor sample_foreign\<rparr>)"
    by (intro sample_diff_decodes [OF token refl]) simp_all
  have scope: "diff_scope sample_admin (sample_diff 2) (rrID (fst (snd (dxBase sample_sides)))) (fst (dxBase sample_sides)) (fst (dxCompare sample_sides))
      (snd (snd (dxBase sample_sides))) (snd (snd (dxCompare sample_sides))) empty_anchor = sample_diff_scope"
    by (simp add: sample_sides_def sample_diff_scope_def diff_scope_def sample_diff_def)
  have entry: "cdEntries sample_catalog ! 4 \<in> set (cdEntries sample_catalog) \<and> enGenerationID (cdEntries sample_catalog ! 4) = gnID (snd (snd (dxBase sample_sides)))
      \<and> enRecoveryPointID (cdEntries sample_catalog ! 4) = cpID (fst (dxBase sample_sides)) \<and> enNormalizedPath (cdEntries sample_catalog ! 4) = ''Docs'' @ ''/'' @ ''aa''
      \<and> list_all2 (like_char True) (dxBasePrefix sample_sides) ''Docs'' \<and> ''Docs'' \<noteq> dxBasePrefix sample_sides \<and> enEntryID (cdEntries sample_catalog ! 4) \<noteq> []"
    by code_simp
  have "(''aa'', cdEntries sample_catalog ! 4) \<in> set (base_side True sample_catalog sample_sides)
      \<and> Diff ?env sample_catalog sample_admin ((sample_diff 2)\<lparr>dqCursor := token\<rparr>) = Inl ErrStaleCursor"
    by (rule subtree_diff_takes_other_case [where page = "\<lparr>dpItems = [removed, foreign], dpNextCursor = token\<rparr>" and u = "''Docs''" and row = sample_foreign
          and decoded = "sample_diff_scope\<lparr>csAnchor := row_anchor sample_foreign\<rparr>"])
      (use sample_directory_runs sample_diff_reads [of True ?scopes 2] entry page decoded scope token_nonblank [OF token] in
        \<open>simp_all add: diff_service_def sample_foreign_def\<close>)
  then show ?thesis using page by simp
qed

end
