(* ===== verification/Content_Gateway.thy ===== *)
theory Content_Gateway
  imports Budget_Service
begin

text \<open>
  The content gateway, \<open>Serve\<close> of \<open>backend/internal/backupasset/content/broker.go\<close>: an authorised request
  is planned (\<open>Content_Range\<close>), its bytes are reserved (\<open>Content_Budget\<close>), the source is read and
  streamed, and the reservation is settled with what was read.

  The grant and the session were checked before (\<open>authorizeGatewayRequest\<close>); the grant has the columns the
  gateway reads, with the references of a backup asset present. What input and output does is the record
  \<open>stream_events\<close>: which steps of \<open>streamGatewayResponse\<close> fail and how many bytes they count. An error that
  \<open>errors.Join\<close> built is the list of its parts, the empty list is \<open>nil\<close>. The revocation of a grant after a
  cache failure is one of the transactions that run before the settlement.
\<close>

section \<open>Grants and sources\<close>

datatype Renderer =
    RendererEscapedText | RendererPlainText | RendererSafeRaster | RendererSameOriginPDF | RendererNativeAudio
  | RendererNativeVideo | RendererMetadataHex | RendererAttachment | RendererOther string

record GatewayGrant =
  ggID :: string
  ggRecoveryPointID :: string
  ggEntryID :: string
  ggCatalogGenerationID :: string
  ggProviderKind :: string
  ggRenderer :: Renderer
  ggSourceFingerprint :: string
  ggEntryFingerprint :: string
  ggSourceSize :: int
  ggSourceModifiedAt :: "time option"
  ggRepresentationSourceBytes :: int
  ggRepresentationSize :: int
  ggRepresentationTruncated :: bool
  ggRepresentationETag :: string
  ggRangePolicy :: RangePolicy
  ggMaxBytesPerRequest :: int

datatype SourceMode = SourceModeStat | SourceModeSequential | SourceModeRange

record ResolvedRange =
  rrOffset :: int
  rrLength :: int

record SourceRequest =
  soRef :: AssetRef
  soCatalogGenerationID :: string
  soExpectedSource :: string
  soExpectedEntry :: string
  soMode :: SourceMode
  soMaxBytes :: int
  soRange :: "ResolvedRange option"

datatype gateway_error =
    ErrContentNotFound | ErrContentUnavailable | ErrContentBudgetExceeded | ErrInvalidSourceRequest
  | ErrCacheIntegrity | ErrContentCacheUnavailable | ErrCanceled | ErrDeadlineExceeded | ErrGatewayOther string

definition transformedRenderer :: "Renderer \<Rightarrow> bool" where
  "transformedRenderer renderer \<longleftrightarrow>
     renderer = RendererEscapedText \<or> renderer = RendererPlainText \<or> renderer = RendererMetadataHex"

definition ValidateSourceRequest :: "SourceRequest \<Rightarrow> bool" where
  "ValidateSourceRequest request =
     (if ValidateAssetRef (soRef request) \<noteq> Inr () \<or> \<not> ValidateOpaqueID (soCatalogGenerationID request)
         \<or> length (soExpectedSource request) = 0 \<or> length (soExpectedSource request) > 128 \<or> length (soExpectedEntry request) > 128
      then False
      else case soMode request of
        SourceModeStat \<Rightarrow> soMaxBytes request = 0 \<and> soRange request = None
      | SourceModeSequential \<Rightarrow> 0 < soMaxBytes request \<and> soRange request = None
      | SourceModeRange \<Rightarrow>
          0 < soMaxBytes request
          \<and> (case soRange request of
               None \<Rightarrow> False
             | Some r \<Rightarrow> \<not> (rrOffset r < 0 \<or> rrLength r \<le> 0 \<or> rrLength r \<noteq> soMaxBytes request
                            \<or> rrOffset r > wrap64 (MaxInt64 - rrLength r))))"

section \<open>Planning and reserving\<close>

record GatewayRequest =
  grMethod :: http_method
  grRangeHeaders :: "string list"
  grIfRangeHeaders :: "string list"

definition plan_request :: "GatewayGrant \<Rightarrow> GatewayRequest \<Rightarrow> RepresentationRequest" where
  "plan_request grant request =
     \<lparr>Method = grMethod request, RangeHeaders = grRangeHeaders request, IfRangeHeaders = grIfRangeHeaders request,
      Size = ggRepresentationSize grant, ETag = ggRepresentationETag grant, LastModified = ggSourceModifiedAt grant,
      RangePolicyOf = ggRangePolicy grant, Seekable = (ggRangePolicy grant = RangeSingle),
      FullAllowed = (ggRepresentationSize grant \<le> ggMaxBytesPerRequest grant), MaxResponseBytes = ggMaxBytesPerRequest grant\<rparr>"

definition gatewayReservationBytes :: "GatewayGrant \<Rightarrow> RepresentationPlan \<Rightarrow> http_method \<Rightarrow> (budget_error, int) result" where
  "gatewayReservationBytes grant plan method =
     (if method = MethodHead then Inr 0
      else if transformedRenderer (ggRenderer grant) then
        ComputeReservationBytes (ContentLength plan) (ggRepresentationSourceBytes grant)
          (0 < ggRepresentationSourceBytes grant \<and> \<not> ggRepresentationTruncated grant)
      else if Kind (Range plan) \<noteq> HTTPRangeFull then
        ComputeReservationBytes (ContentLength plan) (ContentLength plan) (ggProviderKind grant = ''rclone'')
      else ComputeReservationBytes (ContentLength plan) (ContentLength plan) (0 < ContentLength plan))"

definition gatewaySourceRequest :: "GatewayGrant \<Rightarrow> RepresentationPlan \<Rightarrow> http_method \<Rightarrow> (gateway_error, SourceRequest \<times> bool) result" where
  "gatewaySourceRequest grant plan method =
     (let request = \<lparr>soRef = \<lparr>arRecoveryPointID = ggRecoveryPointID grant, arEntryID = ggEntryID grant\<rparr>,
            soCatalogGenerationID = ggCatalogGenerationID grant, soExpectedSource = ggSourceFingerprint grant,
            soExpectedEntry = ggEntryFingerprint grant, soMode = SourceModeStat, soMaxBytes = 0, soRange = None\<rparr>;
          transformed = transformedRenderer (ggRenderer grant);
          request =
            (if method = MethodHead \<or> ContentLength plan = 0 then request
             else if Kind (Range plan) \<noteq> HTTPRangeFull then
               request\<lparr>soMode := SourceModeRange, soMaxBytes := ContentLength plan,
                       soRange := Some \<lparr>rrOffset = Offset (Range plan), rrLength = Length (Range plan)\<rparr>\<rparr>
             else if transformed then
               request\<lparr>soMode := SourceModeSequential,
                       soMaxBytes := (if ggRepresentationTruncated grant \<and> ggRepresentationSourceBytes grant < ggSourceSize grant
                                      then wrap64 (ggRepresentationSourceBytes grant + 1) else ggRepresentationSourceBytes grant)\<rparr>
             else request\<lparr>soMode := SourceModeSequential, soMaxBytes := ggSourceSize grant\<rparr>)
      in if \<not> ValidateSourceRequest request then Inl ErrInvalidSourceRequest else Inr (request, transformed))"

definition gateway_intent :: "GatewayGrant \<Rightarrow> GatewayRequest \<Rightarrow> string \<Rightarrow> RepresentationPlan \<Rightarrow> int \<Rightarrow> ReservationIntent" where
  "gateway_intent grant request requestID plan reservedBytes =
     \<lparr>iRequestID = requestID, iGrantID = ggID grant, iMethod = grMethod request, iRange = Range plan, iReservedBytes = reservedBytes\<rparr>"

definition gateway_blocked :: "GatewayGrant \<Rightarrow> GatewayRequest \<Rightarrow> string \<Rightarrow> RepresentationPlan \<Rightarrow> BlockedRequest" where
  "gateway_blocked grant request requestID plan =
     \<lparr>bRequestID = requestID, bGrantID = ggID grant, bMethod = grMethod request, bStatus = Status plan,
      bFailureCode = FailureCode plan, bRangeRequested = (grRangeHeaders request \<noteq> [])\<rparr>"

section \<open>Streaming and settling\<close>

record stream_events =
  evHeartbeat :: "gateway_error list"
  evPolicyFails :: bool
  evPrepare :: "gateway_error list"
  evDeadlineFails :: bool
  evCopied :: int
  evCopyError :: "gateway_error list"
  evProviderBytes :: int
  evCloseFails :: bool
  evStopHeartbeat :: "gateway_error list"
  evRevoke :: "gateway_error list"

record stream_result =
  stResponseBytes :: int
  stProviderBytes :: int
  stStatus :: int
  stFailure :: "RequestFailureCode option"
  stEvidenceKnown :: bool
  stError :: "gateway_error list"

definition canceled :: "gateway_error list \<Rightarrow> bool" where
  "canceled errs \<longleftrightarrow> ErrCanceled \<in> set errs \<or> ErrDeadlineExceeded \<in> set errs"

text \<open>The part before the deferred end of the heartbeat.\<close>

definition stream_body :: "stream_events \<Rightarrow> http_method \<Rightarrow> RepresentationPlan \<Rightarrow> stream_result" where
  "stream_body ev method plan =
     (if evPolicyFails ev then
        \<lparr>stResponseBytes = 0, stProviderBytes = - 1, stStatus = 503, stFailure = Some RequestFailureInternal,
         stEvidenceKnown = False, stError = [ErrContentUnavailable]\<rparr>
      else if evPrepare ev \<noteq> [] then
        \<lparr>stResponseBytes = 0, stProviderBytes = evProviderBytes ev, stStatus = 502, stFailure = Some RequestFailureSourceFailed,
         stEvidenceKnown = (\<not> evCloseFails ev \<and> 0 \<le> evProviderBytes ev), stError = evPrepare ev\<rparr>
      else if method = MethodGet \<and> 0 < ContentLength plan \<and> evDeadlineFails ev then
        \<lparr>stResponseBytes = 0, stProviderBytes = evProviderBytes ev, stStatus = 503, stFailure = Some RequestFailureWriteFailed,
         stEvidenceKnown = False, stError = [ErrContentUnavailable]\<rparr>
      else if method = MethodGet \<and> 0 < ContentLength plan \<and> evCopyError ev \<noteq> [] then
        \<lparr>stResponseBytes = evCopied ev, stProviderBytes = evProviderBytes ev, stStatus = 500, stFailure = Some RequestFailureWriteFailed,
         stEvidenceKnown = (\<not> evCloseFails ev \<and> 0 \<le> evProviderBytes ev), stError = evCopyError ev\<rparr>
      else
        let responseBytes = (if method = MethodGet \<and> 0 < ContentLength plan then evCopied ev else 0) in
        if evCloseFails ev \<or> evProviderBytes ev < 0 then
          \<lparr>stResponseBytes = responseBytes, stProviderBytes = evProviderBytes ev, stStatus = 502,
           stFailure = Some RequestFailureSourceFailed, stEvidenceKnown = False, stError = [ErrContentUnavailable]\<rparr>
        else
          \<lparr>stResponseBytes = responseBytes, stProviderBytes = evProviderBytes ev, stStatus = Status plan, stFailure = None,
           stEvidenceKnown = True, stError = []\<rparr>)"

definition streamGatewayResponse :: "stream_events \<Rightarrow> http_method \<Rightarrow> RepresentationPlan \<Rightarrow> stream_result" where
  "streamGatewayResponse ev method plan =
     (if evHeartbeat ev \<noteq> [] then
        \<lparr>stResponseBytes = 0, stProviderBytes = - 1, stStatus = 404, stFailure = Some (RequestFailureOther ''session_revoked''),
         stEvidenceKnown = False, stError = evHeartbeat ev\<rparr>
      else
        let r = stream_body ev method plan in
        if evStopHeartbeat ev \<noteq> [] \<and> (stError r = [] \<or> canceled (stError r))
        then r\<lparr>stStatus := 404, stFailure := Some (RequestFailureOther ''session_revoked''), stEvidenceKnown := False,
               stError := evStopHeartbeat ev\<rparr>
        else r)"

definition finalizeGatewayRequest ::
  "Reservation \<Rightarrow> RequestState \<Rightarrow> int \<Rightarrow> RequestFailureCode option \<Rightarrow> int \<Rightarrow> int \<Rightarrow> bool \<Rightarrow> FinalizeIntent" where
  "finalizeGatewayRequest reservation state status failure providerBytes responseBytes evidenceKnown =
     \<lparr>fRequestID = resRequestID reservation, fExpectedRequestVersion = resRequestVersion reservation, fState = state,
      fHTTPStatus = status, fFailureCode = failure, fProviderBytes = providerBytes, fResponseBytes = responseBytes,
      fEvidenceKnown = evidenceKnown\<rparr>"

text \<open>The errors of \<open>Serve\<close> after the stream: those of the stream, and of the revocation after a cache failure.\<close>

definition serve_errors :: "stream_events \<Rightarrow> stream_result \<Rightarrow> gateway_error list" where
  "serve_errors ev r =
     (if ErrCacheIntegrity \<in> set (stError r) \<or> ErrContentCacheUnavailable \<in> set (stError r) then stError r @ evRevoke ev else stError r)"

definition settle_intent :: "Reservation \<Rightarrow> stream_events \<Rightarrow> stream_result \<Rightarrow> FinalizeIntent" where
  "settle_intent reservation ev r =
     (if stFailure r = None then
        finalizeGatewayRequest reservation RequestSucceeded (stStatus r) None (stProviderBytes r) (stResponseBytes r) (stEvidenceKnown r)
      else if canceled (serve_errors ev r) then
        finalizeGatewayRequest reservation RequestCanceled 499 (Some RequestFailureClientCanceled)
          (stProviderBytes r) (stResponseBytes r) (stEvidenceKnown r)
      else
        finalizeGatewayRequest reservation RequestFailed (stStatus r) (stFailure r) (stProviderBytes r) (stResponseBytes r) (stEvidenceKnown r))"

definition Serve ::
  "HttpDates \<Rightarrow> budget_env \<Rightarrow> budget_env \<Rightarrow> GatewayGrant \<Rightarrow> GatewayRequest \<Rightarrow> string option \<Rightarrow> bool \<Rightarrow> stream_events \<Rightarrow> budget_db
   \<Rightarrow> budget_db \<times> gateway_error list" where
  "Serve dates env env' grant request newID registered ev db =
     (case PlanRepresentation dates (plan_request grant request) of
        Inl _ \<Rightarrow> (db, [ErrContentNotFound])
      | Inr plan \<Rightarrow>
          (case newID of
             None \<Rightarrow> (db, [ErrContentUnavailable])
           | Some requestID \<Rightarrow>
               if \<not> ValidateOpaqueID requestID then (db, [ErrContentUnavailable])
               else if FailureCode plan \<noteq> None then
                 (case RecordBlocked env (gateway_blocked grant request requestID plan) db of
                    (db1, Inl err) \<Rightarrow> (db1, [if err = ErrBudgetExhausted then ErrContentBudgetExceeded else ErrContentUnavailable])
                  | (db1, Inr _) \<Rightarrow> (db1, []))
               else
                 (case gatewayReservationBytes grant plan (grMethod request) of
                    Inl _ \<Rightarrow> (db, [ErrContentUnavailable])
                  | Inr reservedBytes \<Rightarrow>
                      (case Reserve env (gateway_intent grant request requestID plan reservedBytes) db of
                         (db1, Inl err) \<Rightarrow> (db1, [if err = ErrBudgetExhausted then ErrContentBudgetExceeded else ErrContentNotFound])
                       | (db1, Inr reservation) \<Rightarrow>
                           if \<not> registered then
                             (fst (Finalize env' (finalizeGatewayRequest reservation RequestFailed 503 (Some RequestFailureInternal) (- 1) 0 False) db1),
                              [ErrContentNotFound])
                           else
                             let r = streamGatewayResponse ev (grMethod request) plan in
                             (case Finalize env' (settle_intent reservation ev r) db1 of
                                (db2, Inl _) \<Rightarrow> (db2, [ErrContentUnavailable])
                              | (db2, Inr _) \<Rightarrow> (db2, serve_errors ev r))))))"

section \<open>Plans\<close>

lemma parsed_range_valid:
  assumes "parseSingleRange headers sz = Some r" and "0 \<le> sz"
  shows "validPersistedHTTPRange r \<and> Kind r \<noteq> HTTPRangeFull"
  using assms
  by (auto simp: parseSingleRange_def validPersistedHTTPRange_def Let_def
      split: list.splits if_splits option.splits dest: parseRangeInteger_range)

text \<open>A plan that does not fail is the whole representation, or a parsed range under the policy for ranges.\<close>

lemma plan_success:
  assumes "PlanRepresentation dates request = Inr plan" and "FailureCode plan = None"
  obtains (full) "Status plan = 200" "Range plan = empty_range\<lparr>Kind := HTTPRangeFull, Length := Size request\<rparr>"
      "ContentLength plan = Size request" "Size request \<le> MaxResponseBytes request"
    | (partial) selected where "Status plan = 206" "Range plan = selected" "ContentLength plan = Length selected"
      "parseSingleRange (RangeHeaders request) (Size request) = Some selected" "RangePolicyOf request = RangeSingle"
      "Length selected \<le> MaxResponseBytes request"
  using assms
  by (auto simp: PlanRepresentation_def Let_def planFullRepresentation_def planRangeFailure_def base_plan_def
      split: if_splits option.splits)

lemma plan_request_valid:
  "PlanRepresentation dates request = Inr plan \<Longrightarrow> (Method request = MethodGet \<or> Method request = MethodHead) \<and> 0 \<le> Size request"
  by (auto simp: PlanRepresentation_def validRepresentationRequest_def split: if_splits)

lemma plan_failure:
  assumes "PlanRepresentation dates request = Inr plan" and "FailureCode plan \<noteq> None"
  shows "Status plan \<in> {412, 413, 416} \<and> FailureCode plan \<in> Some ` {RequestFailureIfRangeFullForbidden, RequestFailureRequestTooLarge,
      RequestFailureInvalidRange, RequestFailureRangeNotAllowed}"
  using assms
  by (auto simp: PlanRepresentation_def Let_def planFullRepresentation_def planRangeFailure_def base_plan_def
      split: if_splits option.splits)

section \<open>Reservations cover what is read\<close>

text \<open>What \<open>validGatewayGrant\<close> ensures of the grant of a backup asset.\<close>

definition gateway_grant_ok :: "GatewayGrant \<Rightarrow> bool" where
  "gateway_grant_ok grant \<longleftrightarrow>
     ValidateOpaqueID (ggID grant) \<and> ValidateOpaqueID (ggCatalogGenerationID grant)
     \<and> ValidateAssetRef \<lparr>arRecoveryPointID = ggRecoveryPointID grant, arEntryID = ggEntryID grant\<rparr> = Inr ()
     \<and> 0 < length (ggSourceFingerprint grant) \<and> length (ggSourceFingerprint grant) \<le> 128 \<and> length (ggEntryFingerprint grant) \<le> 128
     \<and> 0 \<le> ggSourceSize grant \<and> 0 \<le> ggRepresentationSourceBytes grant \<and> ggRepresentationSourceBytes grant \<le> ggSourceSize grant
     \<and> 0 \<le> ggRepresentationSize grant
     \<and> (if transformedRenderer (ggRenderer grant)
        then ggRangePolicy grant = RangeNone \<and> (ggRepresentationTruncated grant \<longleftrightarrow> ggRepresentationSourceBytes grant < ggSourceSize grant)
        else \<not> ggRepresentationTruncated grant \<and> ggRepresentationSourceBytes grant = ggSourceSize grant
          \<and> ggRepresentationSize grant = ggSourceSize grant)"

lemma plan_request_simps [simp]:
  "Method (plan_request grant request) = grMethod request" "Size (plan_request grant request) = ggRepresentationSize grant"
  "RangeHeaders (plan_request grant request) = grRangeHeaders request" "RangePolicyOf (plan_request grant request) = ggRangePolicy grant"
  "MaxResponseBytes (plan_request grant request) = ggMaxBytesPerRequest grant"
  by (simp_all add: plan_request_def)

lemma compute_reservation:
  assumes "0 \<le> r" and "0 \<le> p" and "p < MaxInt64"
  shows "ComputeReservationBytes r p b = Inr (max r (p + of_bool b))"
proof -
  have "wrap64 (p + 1) = p + 1" using assms by (intro wrap64_id in_i64_nonneg) auto
  then show ?thesis using assms by (simp add: ComputeReservationBytes_def)
qed

lemma reservation_wellformed:
  assumes "gateway_grant_ok grant" and "ggSourceSize grant < MaxInt64" and "ggRepresentationSize grant < MaxInt64"
    and "PlanRepresentation dates (plan_request grant request) = Inr plan" and "FailureCode plan = None"
    and "ValidateOpaqueID requestID"
  shows "\<exists>reserved. gatewayReservationBytes grant plan (grMethod request) = Inr reserved
    \<and> validReservationIntent (gateway_intent grant request requestID plan reserved)
    \<and> (grMethod request = MethodGet \<longrightarrow> ContentLength plan \<le> reserved \<and> ggRepresentationSourceBytes grant * of_bool (transformedRenderer (ggRenderer grant)) \<le> reserved)"
proof -
  have m: "grMethod request = MethodGet \<or> grMethod request = MethodHead" and size: "0 \<le> ggRepresentationSize grant"
    using plan_request_valid [OF assms(4)] by auto
  have len: "0 \<le> ContentLength plan \<and> ContentLength plan < MaxInt64 \<and> Length (Range plan) = ContentLength plan \<and> validPersistedHTTPRange (Range plan)"
    using assms(4,5)
  proof (cases rule: plan_success)
    case full
    then show ?thesis using size assms(3) by (simp add: validPersistedHTTPRange_def empty_range_def)
  next
    case (partial selected)
    then show ?thesis
      using selected_within [OF partial(4)] parsed_range_valid [OF partial(4)] size assms(3) by simp
  qed
  have source: "0 \<le> ggRepresentationSourceBytes grant" "ggRepresentationSourceBytes grant < MaxInt64"
    using assms(1,2) by (auto simp: gateway_grant_ok_def)
  define bound where "bound = (if transformedRenderer (ggRenderer grant)
      then ggRepresentationSourceBytes grant + of_bool (0 < ggRepresentationSourceBytes grant \<and> \<not> ggRepresentationTruncated grant)
      else if Kind (Range plan) \<noteq> HTTPRangeFull then ContentLength plan + of_bool (ggProviderKind grant = ''rclone'')
      else ContentLength plan + of_bool (0 < ContentLength plan))"
  define reserved where "reserved = (if grMethod request = MethodHead then 0 else max (ContentLength plan) bound)"
  have bound: "ggRepresentationSourceBytes grant * of_bool (transformedRenderer (ggRenderer grant)) \<le> bound"
    using len by (simp add: bound_def)
  have "gatewayReservationBytes grant plan (grMethod request) = Inr reserved"
    using len source by (simp add: gatewayReservationBytes_def compute_reservation reserved_def bound_def)
  moreover have "0 \<le> reserved" "grMethod request = MethodHead \<Longrightarrow> reserved = 0"
    "grMethod request \<noteq> MethodHead \<Longrightarrow> ContentLength plan \<le> reserved \<and> bound \<le> reserved"
    using len by (auto simp: reserved_def le_max_iff_disj)
  ultimately show ?thesis using m len bound assms(1,6)
    by (intro exI [of _ reserved]) (auto simp: validReservationIntent_def gateway_intent_def gateway_grant_ok_def)
qed


section \<open>Every admitted request is settled\<close>

text \<open>A stream that reports no failure has the planned status and known evidence; any other names a failure code and an error status.\<close>

definition settleable :: "RepresentationPlan \<Rightarrow> stream_result \<Rightarrow> bool" where
  "settleable plan r =
     (case stFailure r of
        None \<Rightarrow> stStatus r = Status plan \<and> stEvidenceKnown r \<and> 0 \<le> stProviderBytes r \<and> 0 \<le> stResponseBytes r
      | Some code \<Rightarrow> validRequestFailureCode (Some code) \<and> 100 \<le> stStatus r \<and> stStatus r \<le> 599)"

lemma settleable_body: "0 \<le> evCopied ev \<Longrightarrow> settleable plan (stream_body ev m plan)"
  unfolding stream_body_def Let_def by (simp add: settleable_def validRequestFailureCode_def split del: if_split split: if_split)

lemma settleable_revoked:
  "stStatus r = 404 \<Longrightarrow> stFailure r = Some (RequestFailureOther ''session_revoked'') \<Longrightarrow> settleable plan r"
  by (simp add: settleable_def validRequestFailureCode_def)

lemma settleable_stream: "0 \<le> evCopied ev \<Longrightarrow> settleable plan (streamGatewayResponse ev m plan)"
  using settleable_body [of ev plan m] by (simp add: streamGatewayResponse_def Let_def settleable_revoked)

lemma settle_intent_valid:
  assumes "ValidateOpaqueID (resRequestID reservation)" and "resRequestVersion reservation = 1"
    and "Status plan \<in> {200, 206}" and "0 \<le> evCopied ev"
  shows "validFinalizeIntent (settle_intent reservation ev (streamGatewayResponse ev m plan))"
proof -
  obtain r where r: "r = streamGatewayResponse ev m plan" "settleable plan r" using settleable_stream [OF assms(4)] by blast
  show ?thesis unfolding r(1) [symmetric] using r(2) assms(1-3)
    by (cases "stFailure r") (auto simp: settleable_def settle_intent_def finalizeGatewayRequest_def validFinalizeIntent_def
        requestFinalizable_def validRequestFailureCode_def)
qed

lemma settle_intent_request [simp]: "fRequestID (settle_intent reservation ev r) = resRequestID reservation"
  by (simp add: settle_intent_def finalizeGatewayRequest_def)

lemma Reserve_result:
  assumes "Reserve env intent db = (db', Inr res)" and "ledger db" and "others_keep ledger env" and "env_typed env"
  shows "resRequestID res = iRequestID intent \<and> resRequestVersion res = 1"
proof -
  have "reserve env (intent_spec intent) db = (db', Inr res)"
    using assms(1) by (auto simp: Reserve_def split: if_splits)
  then obtain limits g flt d where "ledger d" "reserve_tx limits g (envNow env) (intent_spec intent) flt d = Inr (db', res)"
    using reserve_sound [OF _ assms(2,3) reserve_keeps_ledger assms(4)] by blast
  from reserve_tx_rows [OF this(2,1)] show ?thesis by (simp add: intent_spec_def)
qed

text \<open>
  The protocol of one request with the budget: nothing, one refusal recorded, a reservation that is not
  admitted, or an admitted reservation that is followed by exactly one settlement of the same request.
  Every call is well formed.
\<close>

inductive serve_protocol :: "budget_env \<Rightarrow> budget_env \<Rightarrow> budget_db \<Rightarrow> (budget_env \<times> budget_call) list \<Rightarrow> bool"
  for env env' :: budget_env and db :: budget_db where
  not_counted: "serve_protocol env env' db []"
| refused: "validBlockedRequest blocked \<Longrightarrow> serve_protocol env env' db [(env, CallBlocked blocked)]"
| not_admitted: "validReservationIntent intent \<Longrightarrow> Reserve env intent db = (db1, Inl err)
    \<Longrightarrow> serve_protocol env env' db [(env, CallReserve intent)]"
| settled: "validReservationIntent intent \<Longrightarrow> Reserve env intent db = (db1, Inr res) \<Longrightarrow> validFinalizeIntent final
    \<Longrightarrow> fRequestID final = iRequestID intent
    \<Longrightarrow> serve_protocol env env' db [(env, CallReserve intent), (env', CallFinalize final)]"

lemma blocked_valid:
  assumes "gateway_grant_ok grant" and "PlanRepresentation dates (plan_request grant request) = Inr plan"
    and "FailureCode plan \<noteq> None" and "ValidateOpaqueID requestID"
  shows "validBlockedRequest (gateway_blocked grant request requestID plan)"
  using plan_failure [OF assms(2,3)] plan_request_valid [OF assms(2)] assms(1,4)
  by (auto simp: validBlockedRequest_def gateway_blocked_def gateway_grant_ok_def validRequestFailureCode_def)

lemma admitted_settled:
  assumes "PlanRepresentation dates (plan_request grant request) = Inr plan" and "FailureCode plan = None"
    and "ValidateOpaqueID requestID" and "0 \<le> evCopied ev"
    and "Reserve env (gateway_intent grant request requestID plan reserved) db = (db1, Inr res)"
    and "ledger db" and "others_keep ledger env" and "env_typed env"
    and "final = (if registered then settle_intent res ev (streamGatewayResponse ev (grMethod request) plan)
         else finalizeGatewayRequest res RequestFailed 503 (Some RequestFailureInternal) (- 1) 0 False)"
  shows "serve_protocol env env' db [(env, CallReserve (gateway_intent grant request requestID plan reserved)), (env', CallFinalize final)]"
proof -
  have res: "resRequestID res = requestID" "resRequestVersion res = 1"
    using Reserve_result [OF assms(5-8)] by (simp_all add: gateway_intent_def)
  have "Status plan \<in> {200, 206}" using assms(1,2) by (cases rule: plan_success) simp_all
  then have "validFinalizeIntent (settle_intent res ev (streamGatewayResponse ev (grMethod request) plan))"
    using settle_intent_valid res assms(3,4) by simp
  moreover have "validFinalizeIntent (finalizeGatewayRequest res RequestFailed 503 (Some RequestFailureInternal) (- 1) 0 False)"
    using res assms(3) by (simp add: finalizeGatewayRequest_def validFinalizeIntent_def requestFinalizable_def validRequestFailureCode_def)
  ultimately have "validFinalizeIntent final" by (simp add: assms(9))
  moreover have "validReservationIntent (gateway_intent grant request requestID plan reserved)"
    using assms(5) by (simp add: Reserve_def split: if_splits)
  moreover have "fRequestID final = requestID" using res by (simp add: assms(9) finalizeGatewayRequest_def)
  ultimately show ?thesis using assms(5) by (intro settled) (auto simp: gateway_intent_def)
qed

text \<open>
  C10. The gateway follows the protocol of the budget. Whatever the stream does (failures of the lease, the
  source, the cache, the client), \<open>Serve\<close> has the effect of a run of \<open>serve_protocol\<close>: a reservation the
  budget admits is settled exactly once, for the same request and with a well-formed settlement, and no
  other change is made to the ledger.
\<close>

theorem gateway_refines_budget:
  assumes "gateway_grant_ok grant" and "ggSourceSize grant < MaxInt64" and "ggRepresentationSize grant < MaxInt64"
    and "0 \<le> evCopied ev" and "ledger db" and "others_keep ledger env" and "env_typed env"
  shows "\<exists>calls. serve_protocol env env' db calls
    \<and> fst (Serve dates env env' grant request newID registered ev db) = run_calls calls db"
proof (cases "PlanRepresentation dates (plan_request grant request)")
  case (Inl e)
  then show ?thesis by (intro exI [of _ "[]"]) (simp add: Serve_def not_counted)
next
  case plan: (Inr plan)
  show ?thesis
  proof (cases "\<exists>requestID. newID = Some requestID \<and> ValidateOpaqueID requestID")
    case False
    then show ?thesis using plan by (intro exI [of _ "[]"]) (auto simp: Serve_def not_counted split: option.split)
  next
    case True
    then obtain requestID where requestID: "newID = Some requestID" "ValidateOpaqueID requestID" by blast
    show ?thesis
    proof (cases "FailureCode plan = None")
      case False
      then show ?thesis using plan requestID refused [OF blocked_valid [OF assms(1) plan False requestID(2)]]
        by (intro exI [of _ "[(env, CallBlocked (gateway_blocked grant request requestID plan))]"])
          (auto simp: Serve_def split: prod.split sum.split)
    next
      case ok: True
      obtain reserved where reserved: "gatewayReservationBytes grant plan (grMethod request) = Inr reserved"
        and valid: "validReservationIntent (gateway_intent grant request requestID plan reserved)"
        using reservation_wellformed [OF assms(1-3) plan ok requestID(2)] by blast
      let ?intent = "gateway_intent grant request requestID plan reserved"
      obtain db1 result where R: "Reserve env ?intent db = (db1, result)" by (cases "Reserve env ?intent db")
      show ?thesis
      proof (cases result)
        case (Inl e)
        then show ?thesis using plan requestID ok reserved R not_admitted [OF valid]
          by (intro exI [of _ "[(env, CallReserve ?intent)]"]) (simp add: Serve_def)
      next
        case (Inr res)
        define final where "final = (if registered then settle_intent res ev (streamGatewayResponse ev (grMethod request) plan)
          else finalizeGatewayRequest res RequestFailed 503 (Some RequestFailureInternal) (- 1) 0 False)"
        have "fst (Serve dates env env' grant request newID registered ev db) = fst (Finalize env' final db1)"
          using plan requestID ok reserved R Inr
          by (simp add: Serve_def final_def Let_def split: prod.split sum.split)
        with admitted_settled [OF plan ok requestID(2) assms(4) R [unfolded Inr] assms(5-7) final_def] R
        show ?thesis by (intro exI [of _ "[(env, CallReserve ?intent), (env', CallFinalize final)]"]) simp
      qed
    qed
  qed
qed

section \<open>Downloads of the largest size\<close>

text \<open>The limit of a grant is fixed when it is issued.\<close>

definition limit_fixed :: "string \<Rightarrow> int \<Rightarrow> budget_db \<Rightarrow> bool" where
  "limit_fixed i m d \<longleftrightarrow> ledger d \<and> (\<forall>g \<in> set (grants d). gID g = i \<longrightarrow> gMaxBytesPerRequest g = m)"

lemma reserve_keeps_limit: "reserve_keeps (limit_fixed i m)"
  unfolding reserve_keeps_def limit_fixed_def
proof (intro allI impI, elim conjE)
  fix limits g now spec flt d d' v
  assume typed: "limits_typed limits" and led: "ledger d" and lim: "\<forall>g \<in> set (grants d). gID g = i \<longrightarrow> gMaxBytesPerRequest g = m"
    and tx: "reserve_tx limits g now spec flt d = Inr (d', v)"
  have "\<forall>g \<in> set (grants d'). gID g = i \<longrightarrow> gMaxBytesPerRequest g = m"
    using tx led by (rule reserve_tx_cases) (use lim in \<open>auto simp: set_update_where\<close>)
  then show "ledger d' \<and> (\<forall>g \<in> set (grants d'). gID g = i \<longrightarrow> gMaxBytesPerRequest g = m)"
    using reserve_tx_ledger tx led typed by blast
qed

lemma Reserve_over_limit:
  assumes "limit_fixed (iGrantID intent) m db" and "others_keep (limit_fixed (iGrantID intent) m) env" and "env_typed env"
    and "m < iReservedBytes intent"
  shows "\<exists>db' e. Reserve env intent db = (db', Inl e)"
proof -
  obtain db' result where R: "Reserve env intent db = (db', result)" by (cases "Reserve env intent db")
  have "result \<noteq> Inr v" for v
  proof
    assume "result = Inr v"
    then have "reserve env (intent_spec intent) db = (db', Inr v)" using R by (auto simp: Reserve_def split: if_splits)
    with reserve_sound [OF this assms(1,2) reserve_keeps_limit assms(3)]
    obtain limits g flt d where d: "limit_fixed (iGrantID intent) m d" "limit_fixed (iGrantID intent) m db'"
      and tx: "reserve_tx limits g (envNow env) (intent_spec intent) flt d = Inr (db', v)" by blast
    then have "ledger d" by (simp add: limit_fixed_def)
    with reserve_tx_rows [OF tx this] d(2) assms(4) show False by (auto simp: intent_spec_def limit_fixed_def)
  qed
  with R show ?thesis by (cases result) auto
qed


section \<open>A concrete request\<close>

definition sample_gateway_grant :: GatewayGrant where
  "sample_gateway_grant =
     \<lparr>ggID = replicate 32 CHR ''a'', ggRecoveryPointID = replicate 32 CHR ''1'', ggEntryID = replicate 64 CHR ''e'',
      ggCatalogGenerationID = replicate 32 CHR ''2'', ggProviderKind = ''restic'', ggRenderer = RendererAttachment,
      ggSourceFingerprint = ''f'', ggEntryFingerprint = [], ggSourceSize = 60, ggSourceModifiedAt = None,
      ggRepresentationSourceBytes = 60, ggRepresentationSize = 60, ggRepresentationTruncated = False,
      ggRepresentationETag = [CHR 0x22, CHR ''v'', CHR 0x22], ggRangePolicy = RangeSingle, ggMaxBytesPerRequest = 60\<rparr>"

definition sample_gateway_request :: "string list \<Rightarrow> GatewayRequest" where
  "sample_gateway_request headers = \<lparr>grMethod = MethodGet, grRangeHeaders = headers, grIfRangeHeaders = []\<rparr>"

definition sample_events :: stream_events where
  "sample_events =
     \<lparr>evHeartbeat = [], evPolicyFails = False, evPrepare = [], evDeadlineFails = False, evCopied = 3,
      evCopyError = [ErrCanceled], evProviderBytes = 4, evCloseFails = False, evStopHeartbeat = [], evRevoke = []\<rparr>"

lemma sample_gateway_ok: "gateway_grant_ok sample_gateway_grant" by code_simp


theorem gateway_refines_budget_witness:
  "\<exists>calls. serve_protocol sample_env sample_env sample_db calls
     \<and> fst (Serve example_dates sample_env sample_env sample_gateway_grant (sample_gateway_request [''bytes=2-5''])
            (Some (replicate 32 CHR ''b'')) True sample_events sample_db) = run_calls calls sample_db
     \<and> map rState (requests (run_calls calls sample_db)) = [RequestCanceled]
     \<and> map (\<lambda>g. (gReservedBytes g, gDeliveredBytes g)) (grants (run_calls calls sample_db)) = [(0, 4)]"
proof -
  let ?db = "fst (Serve example_dates sample_env sample_env sample_gateway_grant (sample_gateway_request [''bytes=2-5''])
      (Some (replicate 32 CHR ''b'')) True sample_events sample_db)"
  have "(\<lambda>d. map rState (requests d) = [RequestCanceled]
      \<and> map (\<lambda>g. (gReservedBytes g, gDeliveredBytes g)) (grants d) = [(0, 4)]) ?db" by code_simp
  moreover have "ggSourceSize sample_gateway_grant < MaxInt64" "ggRepresentationSize sample_gateway_grant < MaxInt64"
    "0 \<le> evCopied sample_events"
    by (simp_all add: sample_gateway_grant_def MaxInt64_def sample_events_def)
  then obtain calls where "serve_protocol sample_env sample_env sample_db calls" "?db = run_calls calls sample_db"
    using gateway_refines_budget [OF sample_gateway_ok _ _ _ sample_db_ok(1) sample_env_ok(1,2)] by blast
  ultimately show ?thesis by (intro exI [of _ calls]) simp
qed


end
