(* ===== verification/Spec2Isabelle.thy ===== *)
theory Spec2Isabelle
  imports Task_State Export_State Processing_State Recovery_State Content_Range Budget_Service
    Asset_Domain Lease_Safety Login_Lock Retention_Hold_Safety Domain_Keyring_Safety
    Catalog_Diff Content_Gateway
begin

text \<open>
  Xirang is a server that runs backup tasks on remote nodes and keeps the results as backup assets:
  repositories of recovery points that users browse, download, export, recover from, put under hold and
  let expire. This library models the parts of its Go backend that decide something, and proves what
  makes the decisions correct. All paths below are relative to \<open>backend/internal\<close>.

  \<^bold>\<open>How the program is put together.\<close> HTTP handlers and background workers call services; a service
  validates its request, opens a database transaction, reads rows under a lock, decides, writes rows and
  commits. Recovery points are the shared state: leases (\<open>backupasset/lease.go\<close>) keep a point alive while
  a reader works on it; delivery budgets (\<open>backupasset/content\<close>) limit what a download grant may read;
  holds and retention policies (\<open>backupasset/retention\<close>) decide which points may expire; domain keys
  (\<open>backupasset/keyring.go\<close>), wrapped by package \<open>secure\<close>, sign and encrypt what the other services
  store. State machines (\<open>task\<close>, \<open>export\<close>, \<open>processing\<close>, \<open>recovery\<close>) constrain the workers.

  \<^bold>\<open>How it is modelled.\<close> A service is a function from an environment and its tables to the new tables and
  a result; a table is a list of rows, a row a record with the columns the code reads or writes; an error
  is the left injection of a sum. The environment holds what the code does not decide: the clock, random
  bytes, identifiers, which statements fail and with which message, and what concurrent writers commit
  between two attempts of a retry loop. A transaction that fails leaves the tables as they were. 64-bit
  integers that can overflow go through \<open>wrap64\<close> of \<open>Prelude\<close>; the instants and durations of package
  \<open>time\<close> are integers in nanoseconds.
  Sequences of service calls, with any environment per call, are \<open>run_all\<close> of \<open>Transition_Systems\<close>.

  \<^bold>\<open>Shared theories.\<close>
  \<^item> \<open>Prelude\<close>: results and their rules (the collection \<open>result_simps\<close>), 64-bit wrap-around, and the
    functions of \<open>strings\<close> and \<open>strconv\<close> the code uses.
  \<^item> \<open>Transition_Systems\<close>: histories of a transition table and sequences of service calls, as the locales
    the components interpret; \<open>call_sequence\<close> carries an invariant and a preorder on tables along calls.
  \<^item> \<open>Tables\<close>: lookup, conditional update and unique indexes of row lists.
  \<^item> \<open>Stable_Sort\<close>: \<open>sort.SliceStable\<close> and its specification.
  \<^item> \<open>Keyset_Paging\<close>: pages after an anchor, as the locales \<open>keyset\<close> of the comparison with the anchor and
    \<open>paged_listing\<close> of a listing with cursors; the listings of the catalog interpret both.

  \<^bold>\<open>State machines.\<close>
  \<^item> \<open>Task_State\<close>: \<open>task/state_machine.go\<close>; the status table, and both retry policies with the 64-bit
    arithmetic of the back-off.
  \<^item> \<open>Export_State\<close>: \<open>backupasset/export/state.go\<close>; execution, cleanup and item tables, and the deadlines
    computed from those of the sources.
  \<^item> \<open>Processing_State\<close>: \<open>backupasset/processing/state.go\<close> and \<open>scheduler.go\<close>; transition requests, slot
    choice and queue order.
  \<^item> \<open>Recovery_State\<close>: \<open>backupasset/recovery/state.go\<close>; plans, jobs, attempts, cleanup and the
    checkpoint log.
  \<^item> \<open>Asset_Domain\<close>: \<open>backupasset/domain.go\<close> and \<open>errors.go\<close>; identifiers, repositories, recovery point
    profiles and transitions, capabilities.

  Their theorems are about all histories of allowed changes: what a state was reached through, which
  states are final, how many changes are possible.

  \<^bold>\<open>Content delivery.\<close>
  \<^item> \<open>Content_Range\<close>: \<open>backupasset/content/range.go\<close>; the parser of range headers and the plan of a
    response. A header is accepted iff it is the text of a single range, and a planned body lies inside
    the representation.
  \<^item> \<open>Content_Budget\<close>: \<open>backupasset/content/budget.go\<close>; reservation, blocked requests and finalisation, each
    statement on the usage, grant and request tables.
  \<^item> \<open>Budget_Ledger\<close> and \<open>Budget_Service\<close>: the ledger invariant of the transaction bodies, and of the service
    with its retry loop (sixteen attempts, as in the code, each after the commits of concurrent writers).
    The counters of grants and scopes are the sums over the open requests, limits are never exceeded, a
    request is charged once.
  \<^item> \<open>Content_Gateway\<close>: \<open>Serve\<close> of \<open>backupasset/content/broker.go\<close> after authorisation; it joins the planner
    and the budget. It follows the abstract protocol \<open>serve_protocol\<close>, in which an admitted reservation is
    settled exactly once, and what it reserves covers what it reads.

  \<^bold>\<open>Leases.\<close> \<open>Point_Lease\<close> is \<open>backupasset/lease.go\<close>: acquisition, renewal, release, takeover (a loop of
  twelve attempts) and reconciliation. \<open>Lease_Safety\<close> shows the table invariant, the exact windows of each
  operation, and that a superseded fence is refused for ever.

  \<^bold>\<open>Authentication.\<close> \<open>Login_Lock\<close> is \<open>auth/login_lock.go\<close>: counters per address and account, exactly when
  an account is locked, and that concurrent failures can be lost.

  \<^bold>\<open>Keys.\<close>
  \<^item> \<open>Secure_Crypto\<close>: \<open>secure/crypto.go\<close>, \<open>secure/keyring.go\<close> and the field hooks of
    \<open>model/backup_asset.go\<close>. Argon2, SHA-256, AES-GCM, base64 and the JSON decoder are one argument, the
    record \<open>crypto_lib\<close>; \<open>crypto_laws\<close> and \<open>aead_authentic\<close> state what is documented of them, and
    \<open>sample_lib\<close> is an instance. Round trips of sensitive fields and of wrapped keys.
  \<^item> \<open>Domain_Keyring\<close>: \<open>backupasset/keyring.go\<close>; creation on first use (twenty attempts), rotation,
    replacement, loss and rewrapping. The invalidation of a rebuildable domain is an argument.
  \<^item> \<open>Domain_Keyring_Safety\<close>: the invariant of the key table, rewrapping keeps every key, and a domain has
    one key whatever race created it.

  \<^bold>\<open>Catalog.\<close>
  \<^item> \<open>Catalog_Cursor\<close>: \<open>backupasset/catalog/cursor.go\<close>; signed page cursors over the modelled keyring, by the
    locale \<open>cursor_keys\<close> of what a key source promises. Base64, HMAC and the JSON decoder are the argument
    \<open>cursor_lib\<close>. A cursor is accepted exactly in its scope and time, also after rotations.
  \<^item> \<open>Catalog_Ownership\<close>: \<open>backupasset/catalog/ownership.go\<close> and the publication lineage of \<open>publication.go\<close>; who
    may see a recovery point. \<open>AuthorizedPointIDs\<close> implements the rule \<open>may_see\<close>.
  \<^item> \<open>Catalog_Service\<close>: \<open>backupasset/catalog/service.go\<close>; the pages of a directory, one entry with its
    breadcrumb, the versions of an entry. Following the cursors lists a directory exactly, and the loop over
    parents, bounded by \<open>maxBreadcrumbDepth\<close> as in the code, finds the path from the root.
  \<^item> \<open>Catalog_Diff\<close>: \<open>backupasset/catalog/diff.go\<close>; the difference of two points or directories, its query as a
    function on the entry table. Following the cursors lists each change once; and all four operations
    answer only about points the caller may see.

  \<^bold>\<open>Retention.\<close>
  \<^item> \<open>Retention_Rules\<close>: \<open>backupasset/retention/contracts.go\<close>, calendar buckets and the keep state of
    \<open>policy.go\<close>. SHA-256 and the strict JSON decoder are arguments.
  \<^item> \<open>Retention_Store\<close>: the tables the retention services share, transactions and \<open>mutation_audit.go\<close>.
  \<^item> \<open>Retention_Policy\<close>: \<open>backupasset/retention/policy.go\<close>; policies under an expected revision, and the
    selection of expired points. The loop over pages has the inspection limit as fuel, and each page that
    does not end the loop inspects at least one point, so the fuel is never what stops it.
  \<^item> \<open>Retention_Selection\<close>: the declarative rule \<open>kept_at\<close> of what a policy keeps, and that following the
    cursor to the last page selects the complement; the client loop \<open>select_pages\<close> returns whenever its
    fuel exceeds the number of points.
  \<^item> \<open>Retention_Policy_Table\<close>: the invariant of the policy table and the effect of revisions.
  \<^item> \<open>Retention_Hold\<close>: \<open>backupasset/retention/hold.go\<close>, the hooks of \<open>model/backup_asset_lifecycle.go\<close> and
    \<open>ValidateHoldAdmissionTx\<close> of \<open>coordinator.go\<close>.
  \<^item> \<open>Retention_Hold_Safety\<close>: policies, holds and selection together: the hold columns of a point are exactly
    its active holds, and no selection returns a point under a legal hold.

  \<^bold>\<open>What the proofs showed of the code.\<close> Six theorems describe behaviour the code does not intend:
  concurrent login failures are lost, a repeated finalisation reports a charge of zero, the expiry of
  operational holds by the worker violates a table constraint, a hold reason that looks encrypted makes
  its hold permanent, a download of exactly the largest allowed size is refused, and on SQLite the difference
  of directories takes in a directory whose name differs in case and then cannot be read further. A lemma of
  \<open>Task_State\<close> exhibits an overflow of the back-off.

  \<^bold>\<open>Not modelled.\<close> HTTP handlers and routing, the generated documentation, the web frontend, SQL
  migrations, SSH and provider processes, and the goroutines, timers and wiring of the runtime: they are
  input and output around the services. The orchestration of recovery, export, retention and task workers
  is not modelled either; their state machines are. Of the catalog, the indexer that fills the entry table,
  the listing of recovery points and the status projections are not modelled. Lock waits and isolation levels of the database are
  not modelled: a transaction is atomic, and concurrency is what commits between transactions.
\<close>

end
